(* ===== verification/Prelude.thy ===== *)
theory Prelude
  imports Complex_Main
begin

text \<open>
  Shared vocabulary of the RestartSQP model. A C++ \<open>double\<close> array owned by a
  \<open>Vector\<close> is a \<open>real list\<close> (rounding is not modelled); an index loop
  \<open>for (int i = 0; i < n; i++) body(i)\<close> is \<open>for_upto n body\<close>, a left fold of the
  body over \<open>[0..<n]\<close>. The theory also holds the types that several components
  share: the exit codes of the solver, the dirty-flag struct \<open>QPinfoFlag_\<close> /
  \<open>data_change_flags_\<close>, and the generic lemmas on these loops that the component
  proofs use through the collection \<open>loop_simps\<close>.
\<close>

named_theorems loop_simps "characteristic equations of the index loops"

type_synonym vec = "real list"

subsection \<open>Index loops\<close>

definition for_upto :: "nat \<Rightarrow> (nat \<Rightarrow> 's \<Rightarrow> 's) \<Rightarrow> 's \<Rightarrow> 's" where
  "for_upto n body s = foldl (\<lambda>st i. body i st) s [0..<n]"

text \<open>The positive-part and absolute-value helpers the violation sums use
  (\<open>std::max(v, 0.0)\<close>, \<open>-std::min(v, 0.0)\<close>).\<close>

definition pos_part :: "real \<Rightarrow> real" where
  "pos_part v = max v 0"

definition neg_part :: "real \<Rightarrow> real" where
  "neg_part v = - min v 0"

subsection \<open>Exit codes and dirty flags\<close>

text \<open>The exit codes the driver reports (\<open>Exitflag\<close>, printed by
  \<open>Algorithm::print_final_stats\<close>); the QP failure codes are passed through from the
  QP solver interface.\<close>

datatype exitflag =
    OPTIMAL
  | PRED_REDUCTION_NEGATIVE
  | INVALID_NLP
  | EXCEED_MAX_ITER
  | EXCEED_TIME_LIMITS
  | QP_OPTIMAL
  | QPERROR_INTERNAL_ERROR
  | QPERROR_INFEASIBLE
  | QPERROR_UNBOUNDED
  | QPERROR_EXCEED_MAX_ITER
  | QPERROR_NOTINITIALISED
  | AUXINPUT_NOT_OPTIMAL
  | CONVERGE_TO_NONOPTIMAL
  | QPERROR_PREPARINGAUXILIARYQP
  | QPERROR_AUXILIARYQPSOLVED
  | QPERROR_PERFORMINGHOMOTOPY
  | QPERROR_HOMOTOPYQPSOLVED
  | TRUST_REGION_TOO_SMALL
  | STEP_LARGER_THAN_TRUST_REGION
  | QPERROR_UNKNOWN
  | UNKNOWN

text \<open>The dirty-flag struct: which parts of the QP data changed since the last solve.\<close>

record update_flags =
  Update_A :: bool
  Update_H :: bool
  Update_bounds :: bool
  Update_g :: bool
  Update_penalty :: bool
  Update_delta :: bool

definition no_flags :: update_flags where
  "no_flags = \<lparr>Update_A = False, Update_H = False, Update_bounds = False,
               Update_g = False, Update_penalty = False, Update_delta = False\<rparr>"

definition any_flag :: "update_flags \<Rightarrow> bool" where
  "any_flag f \<longleftrightarrow> Update_g f \<or> Update_H f \<or> Update_A f \<or> Update_bounds f
                   \<or> Update_delta f \<or> Update_penalty f"

subsection \<open>Lemmas on index loops\<close>

lemma for_upto_0 [simp, loop_simps]: "for_upto 0 body s = s"
  by (simp add: for_upto_def)

lemma for_upto_Suc [simp, loop_simps]:
  "for_upto (Suc n) body s = body n (for_upto n body s)"
  by (simp add: for_upto_def)

lemma for_upto_numeral [simp]:
  "for_upto (numeral k) body s = body (pred_numeral k) (for_upto (pred_numeral k) body s)"
  by (simp add: numeral_eq_Suc)

lemma for_upto_1 [simp]: "for_upto 1 body s = body 0 s"
  by (simp add: for_upto_def)

lemma for_upto_invariant:
  assumes "P s" and "\<And>i st. i < n \<Longrightarrow> P st \<Longrightarrow> P (body i st)"
  shows "P (for_upto n body s)"
  using assms by (induction n) auto

text \<open>A loop over a record state seen through one field: if each step acts on the field
  as \<open>F i\<close>, the loop acts on it as the loop of \<open>F\<close>.\<close>

lemma for_upto_proj:
  assumes "\<And>i st. P (body i st) = F i (P st)"
  shows "P (for_upto n body s) = for_upto n F (P s)"
  using assms by (induction n) simp_all

lemma for_upto_skip [simp]: "for_upto n (\<lambda>i st. st) s = s"
  by (induction n) simp_all

lemma for_upto_frame:
  assumes "\<And>i st. P (body i st) = P st"
  shows "P (for_upto n body s) = P s"
  using assms by (induction n) simp_all

text \<open>A loop that writes \<open>v[off + i]\<close> from its old value keeps the length and
  changes exactly the slots \<open>off .. off + n - 1\<close>.\<close>

lemma length_for_upto_write [simp, loop_simps]:
  "length (for_upto n (\<lambda>i v. v[off + i := g i v]) xs) = length xs"
  by (induction n) simp_all

lemma length_for_upto_write0 [simp, loop_simps]:
  "length (for_upto n (\<lambda>i v. v[i := g i v]) xs) = length xs"
  by (induction n) simp_all

lemma nth_for_upto_update [loop_simps]:
  assumes "j < length xs"
  shows "for_upto n (\<lambda>i v. v[off + i := h i (v ! (off + i))]) xs ! j =
           (if off \<le> j \<and> j < off + n then h (j - off) (xs ! j) else xs ! j)"
  using assms
proof (induction n)
  case 0
  then show ?case by auto
next
  case (Suc n)
  then show ?case by (cases "j = off + n") (simp_all add: nth_list_update)
qed

lemma nth_for_upto_set [loop_simps]:
  assumes "j < length xs"
  shows "for_upto n (\<lambda>i v. v[off + i := h i]) xs ! j =
           (if off \<le> j \<and> j < off + n then h (j - off) else xs ! j)"
  using assms
proof (induction n)
  case 0
  then show ?case by auto
next
  case (Suc n)
  then show ?case by (cases "j = off + n") (simp_all add: nth_list_update)
qed

lemma for_upto_set_outside [loop_simps]:
  "j < off \<or> off + n \<le> j \<Longrightarrow> for_upto n (\<lambda>i v. v[off + i := h i]) xs ! j = xs ! j"
  by (induction n) (auto simp: nth_list_update)

lemma for_upto_write_beyond [loop_simps]:
  "n \<le> j \<Longrightarrow> for_upto n (\<lambda>i v. v[i := g i v]) xs ! j = xs ! j"
  by (induction n) auto

text \<open>The same loops starting at index 0.\<close>

lemma nth_for_upto_update0 [loop_simps]:
  "j < length xs \<Longrightarrow>
     for_upto n (\<lambda>i v. v[i := h i (v ! i)]) xs ! j = (if j < n then h j (xs ! j) else xs ! j)"
proof (induction n)
  case (Suc n)
  then show ?case by (cases "j = n") (simp_all add: nth_list_update)
qed simp

lemma nth_for_upto_set0 [loop_simps]:
  "j < length xs \<Longrightarrow> for_upto n (\<lambda>i v. v[i := h i]) xs ! j = (if j < n then h j else xs ! j)"
proof (induction n)
  case (Suc n)
  then show ?case by (cases "j = n") (simp_all add: nth_list_update)
qed simp

text \<open>A loop accumulating a sum over \<open>[0..<n]\<close>.\<close>

lemma for_upto_sum [loop_simps]:
  "for_upto n (\<lambda>i acc. acc + f i) a = a + (\<Sum>i<n. f i)"
  by (induction n) (simp_all add: add.assoc)

lemma pos_part_nonneg [simp]: "0 \<le> pos_part v"
  by (simp add: pos_part_def)

lemma neg_part_nonneg [simp]: "0 \<le> neg_part v"
  by (simp add: neg_part_def)

lemma any_flag_no_flags [simp]: "\<not> any_flag no_flags"
  by (simp add: any_flag_def no_flags_def)

end
