(* ===== verification/Vector.thy ===== *)
theory Vector
  imports Prelude
begin

text \<open>
  The dense vector of \<open>src/src/Vector.cpp\<close>. A \<open>Vector\<close> object is its array
  \<open>values_\<close>, a \<open>real list\<close> whose length is \<open>size_\<close>; every member that writes
  the array returns the updated list, and every \<open>for\<close> loop is a
  \<open>for_upto\<close> fold over the loop index. Positions passed to \<open>assign\<close>,
  \<open>assign_n\<close>, \<open>add_number\<close>, \<open>subtract_subvector\<close> and \<open>get_subVector\<close> are
  1-based, as in the source. A write outside the array, undefined in C++, leaves the
  list unchanged in the model, so the lemmas below state in-range behaviour.
\<close>

subsection \<open>Operations\<close>

definition assign :: "nat \<Rightarrow> nat \<Rightarrow> vec \<Rightarrow> vec \<Rightarrow> vec" where
  "assign Location subvector_size subvector values =
     for_upto subvector_size (\<lambda>i v. v[Location + i - 1 := subvector ! i]) values"

definition assign_n :: "nat \<Rightarrow> nat \<Rightarrow> real \<Rightarrow> vec \<Rightarrow> vec" where
  "assign_n Location subvector_size scaling_factor values =
     for_upto subvector_size (\<lambda>i v. v[Location + i - 1 := scaling_factor]) values"

definition addNumber :: "real \<Rightarrow> vec \<Rightarrow> vec" where
  "addNumber increase_amount values =
     for_upto (length values) (\<lambda>i v. v[i := v ! i + increase_amount]) values"

definition addNumberAt :: "nat \<Rightarrow> real \<Rightarrow> vec \<Rightarrow> vec" where
  "addNumberAt Location increase_amount values =
     values[Location := values ! Location + increase_amount]"

text \<open>\<open>add_number(initloc, endloc, a)\<close> runs \<open>i\<close> from \<open>initloc - 1\<close> to
  \<open>endloc - 1\<close>: the 1-based positions \<open>initloc .. endloc\<close>.\<close>

definition add_number :: "nat \<Rightarrow> nat \<Rightarrow> real \<Rightarrow> vec \<Rightarrow> vec" where
  "add_number initloc endloc increase_amount values =
     for_upto (endloc - (initloc - 1))
       (\<lambda>i v. v[(initloc - 1) + i := v ! ((initloc - 1) + i) + increase_amount]) values"

definition add_vector :: "vec \<Rightarrow> vec \<Rightarrow> vec" where
  "add_vector rhs values = for_upto (length values) (\<lambda>i v. v[i := v ! i + rhs ! i]) values"

definition subtract_vector :: "vec \<Rightarrow> vec \<Rightarrow> vec" where
  "subtract_vector rhs values = for_upto (length values) (\<lambda>i v. v[i := v ! i - rhs ! i]) values"

definition subtract_subvector :: "nat \<Rightarrow> nat \<Rightarrow> vec \<Rightarrow> vec \<Rightarrow> vec" where
  "subtract_subvector iloc subvec_size subvector values =
     for_upto subvec_size (\<lambda>i v. v[i + iloc - 1 := v ! (i + iloc - 1) - subvector ! i]) values"

text \<open>\<open>copy_vector(const double*)\<close> copies \<open>size_\<close> entries; the overload taking a
  \<open>Vector\<close> first asserts \<open>size_ <= rhs->Dim()\<close>, whose failure aborts: the
  \<open>None\<close> branch.\<close>

definition copy_vector :: "vec \<Rightarrow> vec \<Rightarrow> vec" where
  "copy_vector rhs values = for_upto (length values) (\<lambda>i v. v[i := rhs ! i]) values"

definition copy_vector_checked :: "vec \<Rightarrow> vec \<Rightarrow> vec option" where
  "copy_vector_checked rhs values =
     (if length values \<le> length rhs
      then Some (for_upto (length values) (\<lambda>i v. v[i := rhs ! i]) values)
      else None)"

text \<open>\<open>get_subVector\<close> copies \<open>subvector_size\<close> entries starting at the 1-based
  position \<open>Location\<close> into the front of \<open>rhs\<close> (through \<open>rhs->assign(1, ...)\<close>).\<close>

definition get_subVector :: "nat \<Rightarrow> nat \<Rightarrow> vec \<Rightarrow> vec \<Rightarrow> vec" where
  "get_subVector Location subvector_size values rhs =
     assign 1 subvector_size (drop (Location - 1) values) rhs"

definition getInfNorm :: "vec \<Rightarrow> real" where
  "getInfNorm values =
     for_upto (length values)
       (\<lambda>i infnorm. let absxk = (if values ! i < 0 then - (values ! i) else values ! i)
                    in if absxk > infnorm then absxk else infnorm) 0"

definition set_zeros :: "vec \<Rightarrow> vec" where
  "set_zeros values = for_upto (length values) (\<lambda>i v. v[i := 0]) values"

definition times :: "vec \<Rightarrow> vec \<Rightarrow> real" where
  "times values rhs = for_upto (length values) (\<lambda>i product. product + values ! i * rhs ! i) 0"

text \<open>\<open>Vector::getOneNorm\<close> is declared in \<open>Vector.hpp\<close>, which is not part of the
  repository: it is modelled from its use as the one-norm of the stationarity gap.\<close>

definition getOneNorm :: "vec \<Rightarrow> real" where
  "getOneNorm values = for_upto (length values) (\<lambda>i onenorm. onenorm + \<bar>values ! i\<bar>) 0"

subsection \<open>Reference semantics\<close>

text \<open>What the loops compute, stated without loops: the infinity norm as a maximum, the
  dot product as a sum.\<close>

definition inf_norm_ref :: "vec \<Rightarrow> real" where
  "inf_norm_ref xs = Max (insert 0 (abs ` set xs))"

lemma length_add_vector [simp]: "length (add_vector rhs v) = length v"
  by (simp add: add_vector_def)

lemma nth_add_vector [simp]: "i < length v \<Longrightarrow> add_vector rhs v ! i = v ! i + rhs ! i"
  using nth_for_upto_update0 [where h = "\<lambda>i x. x + rhs ! i"] by (simp add: add_vector_def)

lemma length_subtract_vector [simp]: "length (subtract_vector rhs v) = length v"
  by (simp add: subtract_vector_def)

lemma nth_subtract_vector [simp]:
  "i < length v \<Longrightarrow> subtract_vector rhs v ! i = v ! i - rhs ! i"
  using nth_for_upto_update0 [where h = "\<lambda>i x. x - rhs ! i"] by (simp add: subtract_vector_def)

lemma length_copy_vector [simp]: "length (copy_vector rhs v) = length v"
  by (simp add: copy_vector_def)

lemma nth_copy_vector [simp]: "i < length v \<Longrightarrow> copy_vector rhs v ! i = rhs ! i"
  using nth_for_upto_set0 [where h = "\<lambda>i. rhs ! i"] by (simp add: copy_vector_def)

lemma copy_vector_take: "length v \<le> length rhs \<Longrightarrow> copy_vector rhs v = take (length v) rhs"
  by (simp add: list_eq_iff_nth_eq)

lemma getInfNorm_step:
  fixes xs :: vec
  shows "for_upto n (\<lambda>i infnorm. let absxk = (if xs ! i < 0 then - (xs ! i) else xs ! i)
                           in if absxk > infnorm then absxk else infnorm) 0
     = Max (insert 0 ((\<lambda>i. \<bar>xs ! i\<bar>) ` {..<n}))"
proof (induction n)
  case 0
  then show ?case by simp
next
  case (Suc n)
  let ?S = "insert 0 ((\<lambda>i. \<bar>xs ! i\<bar>) ` {..<n})"
  have fin: "finite ?S" by simp
  have "insert 0 ((\<lambda>i. \<bar>xs ! i\<bar>) ` {..<Suc n}) = insert \<bar>xs ! n\<bar> ?S"
    by (auto simp: lessThan_Suc)
  then have smax: "Max (insert 0 ((\<lambda>i. \<bar>xs ! i\<bar>) ` {..<Suc n})) = max \<bar>xs ! n\<bar> (Max ?S)"
    by (metis Max_insert fin insert_not_empty)
  have body: "(let absxk = (if x < 0 then - x else x) in if absxk > m then absxk else m)
              = max \<bar>x\<bar> m" for x m :: real
    by (simp add: Let_def max_def abs_if)
  show ?case by (simp only: for_upto_Suc Suc.IH smax) (rule body)
qed

lemma times_sum: "times xs ys = (\<Sum>i<length xs. xs ! i * ys ! i)"
  using for_upto_sum [of "length xs" "\<lambda>i. xs ! i * ys ! i" 0]
  by (simp add: times_def)

lemma set_conv_nth_abs: "abs ` set xs = (\<lambda>i. \<bar>xs ! i\<bar>) ` {..<length xs}"
  by (auto simp: in_set_conv_nth image_iff) (metis nth_mem)

lemma getOneNorm_sum: "getOneNorm xs = (\<Sum>i<length xs. \<bar>xs ! i\<bar>)"
  by (simp add: getOneNorm_def for_upto_sum)

lemma getOneNorm_nonneg [simp]: "0 \<le> getOneNorm xs"
  by (simp add: getOneNorm_sum sum_nonneg)

lemma getOneNorm_zero_iff: "getOneNorm xs = 0 \<longleftrightarrow> (\<forall>i<length xs. xs ! i = 0)"
  by (auto simp: getOneNorm_sum sum_nonneg_eq_0_iff)

text \<open>C33. \<open>getInfNorm\<close>'s loop computes the infinity norm: the largest absolute value
  of an entry, and 0 for the empty vector.\<close>

theorem getInfNorm_correct: "getInfNorm xs = inf_norm_ref xs"
  by (simp add: getInfNorm_def getInfNorm_step inf_norm_ref_def set_conv_nth_abs)

text \<open>Adding a vector with \<open>add_vector\<close> and subtracting it again with
  \<open>subtract_vector\<close> gives back the original values (in exact arithmetic).\<close>

theorem add_subtract_roundtrip:
  "subtract_vector rhs (add_vector rhs v) = v"
  by (simp add: list_eq_iff_nth_eq)

end
