(* ===== verification/Sparse_Matrix.thy ===== *)
theory Sparse_Matrix
  imports Vector
begin

text \<open>
  The sparse matrix in triplet form, \<open>SpTripletMat\<close> of
  \<open>src/include/sqphot/Matrix.hpp\<close>. Its members are the record's fields: the
  dimensions, the symmetry flag, the parallel arrays \<open>RowIndex_\<close>, \<open>ColIndex_\<close>,
  \<open>MatVal_\<close> and the permutation \<open>order_\<close>; the number of nonzeros \<open>EntryNum_\<close>
  is the length of \<open>MatVal_\<close>. Indices are 1-based, as in the identity-block
  descriptors the QP handler builds (\<open>irow = 1\<close>, \<open>jcol = nVar + 1\<close>).
  The products \<open>times\<close> and \<open>transposed_times\<close> are defined in \<open>Matrix.cpp\<close>,
  which is not among the repository's files: they are modelled from the spec (\<section>4.1),
  a symmetric matrix storing one triangle and mirroring each off-diagonal entry.
  The comparison \<open>tuple_sort_rule\<close> that orders entries for the compressed format is
  in the header and is modelled from it.
\<close>

record sp_triplet =
  RowNum :: nat
  ColNum :: nat
  isSymmetric :: bool
  RowIndex :: "nat list"
  ColIndex :: "nat list"
  MatVal :: "real list"
  order :: "nat list"

definition EntryNum :: "sp_triplet \<Rightarrow> nat" where
  "EntryNum M = length (MatVal M)"

text \<open>One nonzero \<open>k\<close> added into \<open>result\<close>: \<open>result[i] += v * p[j]\<close> for the
  stored entry, and the mirrored entry when the matrix is symmetric and off-diagonal.\<close>

definition add_entry :: "bool \<Rightarrow> nat \<Rightarrow> nat \<Rightarrow> real \<Rightarrow> vec \<Rightarrow> vec \<Rightarrow> vec" where
  "add_entry symm i j v p r =
     (let r' = r[i := r ! i + v * p ! j]
      in if symm \<and> i \<noteq> j then r'[j := r' ! j + v * p ! i] else r')"

definition sp_times :: "sp_triplet \<Rightarrow> vec \<Rightarrow> vec" where
  "sp_times M p =
     for_upto (EntryNum M)
       (\<lambda>k r. add_entry (isSymmetric M) (RowIndex M ! k - 1) (ColIndex M ! k - 1) (MatVal M ! k) p r)
       (replicate (RowNum M) 0)"

definition sp_transposed_times :: "sp_triplet \<Rightarrow> vec \<Rightarrow> vec" where
  "sp_transposed_times M p =
     for_upto (EntryNum M)
       (\<lambda>k r. add_entry (isSymmetric M) (ColIndex M ! k - 1) (RowIndex M ! k - 1) (MatVal M ! k) p r)
       (replicate (ColNum M) 0)"

text \<open>\<open>tuple_sort_rule\<close> compares \<open>(row, column, position)\<close> triples: by column
  first, then by row.\<close>

definition tuple_sort_rule :: "nat \<times> nat \<times> nat \<Rightarrow> nat \<times> nat \<times> nat \<Rightarrow> bool" where
  "tuple_sort_rule left right =
     (if fst (snd left) < fst (snd right) then True
      else if fst (snd left) > fst (snd right) then False
      else if fst left < fst right then True else False)"

lemma length_add_entry [simp]: "length (add_entry symm i j v p r) = length r"
  by (simp add: add_entry_def Let_def)

lemma length_sp_times [simp]: "length (sp_times M p) = RowNum M"
proof -
  have "\<And>n. length (for_upto n (\<lambda>k r. add_entry (isSymmetric M) (RowIndex M ! k - 1)
            (ColIndex M ! k - 1) (MatVal M ! k) p r) (replicate (RowNum M) 0)) = RowNum M"
    by (rule for_upto_invariant [where P = "\<lambda>r. length r = RowNum M"]) simp_all
  then show ?thesis by (simp add: sp_times_def)
qed

lemma length_sp_transposed_times [simp]: "length (sp_transposed_times M p) = ColNum M"
proof -
  have "\<And>n. length (for_upto n (\<lambda>k r. add_entry (isSymmetric M) (ColIndex M ! k - 1)
            (RowIndex M ! k - 1) (MatVal M ! k) p r) (replicate (ColNum M) 0)) = ColNum M"
    by (rule for_upto_invariant [where P = "\<lambda>r. length r = ColNum M"]) simp_all
  then show ?thesis by (simp add: sp_transposed_times_def)
qed

text \<open>The order is a strict order: irreflexive and transitive.\<close>

lemma tuple_sort_rule_irrefl: "\<not> tuple_sort_rule t t"
  by (simp add: tuple_sort_rule_def)

lemma tuple_sort_rule_trans:
  "tuple_sort_rule a b \<Longrightarrow> tuple_sort_rule b c \<Longrightarrow> tuple_sort_rule a c"
  by (auto simp: tuple_sort_rule_def split: if_splits)

lemma tuple_sort_rule_iff:
  "tuple_sort_rule (r1, c1, k1) (r2, c2, k2) \<longleftrightarrow> c1 < c2 \<or> (c1 = c2 \<and> r1 < r2)"
  by (auto simp: tuple_sort_rule_def)

end
