(* ===== verification/Constraint_Types.thy ===== *)
theory Constraint_Types
  imports Prelude
begin

text \<open>
  Classification of bounds and constraints, and identification of the active set.
  \<open>classify_single_constraint\<close> (declared in \<open>Utils.hpp\<close>, which is not among the
  repository's files) is modelled from the spec (\<section>4.2): a bound is finite when it
  lies strictly inside \<open>(-INF, INF)\<close>, \<open>INF = 1e20\<close> (here \<open>INF_val\<close>, as \<open>INF\<close> is HOL syntax) being the solver's infinity.
  \<open>classify_constraints_types\<close> is \<open>Algorithm::classify_constraints_types\<close>
  (\<open>src/src/Algorithm.cpp\<close>); the two active-set loops are
  \<open>NLP_OptTest::IdentifyActiveSet\<close> (\<open>src/src/OptTest.cpp\<close>), which stores the
  codes \<open>1, -1, 99\<close> in \<open>int\<close> arrays, and the bound loop of
  \<open>Algorithm::check_optimality\<close>, which stores \<open>ActiveType\<close> values.
  Entries a loop does not write keep their previous value, so each loop takes the
  array it updates.
\<close>

datatype constraint_type = BOUNDED_ABOVE | BOUNDED_BELOW | EQUAL | UNBOUNDED

datatype active_type = INACTIVE | ACTIVE_ABOVE | ACTIVE_BELOW | ACTIVE_BOTH_SIDE

definition INF_val :: real where
  "INF_val = 10 ^ 20"

definition classify_single_constraint :: "real \<Rightarrow> real \<Rightarrow> constraint_type" where
  "classify_single_constraint lower upper =
     (if - INF_val < lower \<and> upper < INF_val then EQUAL
      else if - INF_val < lower then BOUNDED_BELOW
      else if upper < INF_val then BOUNDED_ABOVE
      else UNBOUNDED)"

definition classify_constraints_types ::
    "vec \<Rightarrow> vec \<Rightarrow> vec \<Rightarrow> vec \<Rightarrow> constraint_type list \<times> constraint_type list" where
  "classify_constraints_types c_l c_u x_l x_u =
     (map (\<lambda>i. classify_single_constraint (c_l ! i) (c_u ! i)) [0..<length c_l],
      map (\<lambda>i. classify_single_constraint (x_l ! i) (x_u ! i)) [0..<length x_l])"

subsection \<open>NLP_OptTest::IdentifyActiveSet\<close>

text \<open>The constraint loop tests \<open>cons_type_[i]\<close>. The bound loop tests
  \<open>bound_cons_type_[i]\<close> for the upper-bounded case but, in its two \<open>else if\<close>
  branches, \<open>cons_type_[i]\<close>, the constraints' classification.\<close>

definition opt_active_constraint ::
    "real \<Rightarrow> constraint_type \<Rightarrow> real \<Rightarrow> real \<Rightarrow> real \<Rightarrow> int \<Rightarrow> int" where
  "opt_active_constraint tol ct l u v old =
     (if ct = BOUNDED_ABOVE then (if \<bar>u - v\<bar> < tol then 1 else old)
      else if ct = BOUNDED_BELOW then (if \<bar>v - l\<bar> < tol then -1 else old)
      else if ct = EQUAL then (if \<bar>u - v\<bar> < tol \<and> \<bar>v - l\<bar> < tol then 99 else old)
      else old)"

definition IdentifyActiveSet_constraints ::
    "real \<Rightarrow> constraint_type list \<Rightarrow> vec \<Rightarrow> vec \<Rightarrow> vec \<Rightarrow> int list \<Rightarrow> int list" where
  "IdentifyActiveSet_constraints tol cons_type c_l c_u c_k A =
     for_upto (length c_k)
       (\<lambda>i W. W[i := opt_active_constraint tol (cons_type ! i) (c_l ! i) (c_u ! i) (c_k ! i) (W ! i)]) A"

definition IdentifyActiveSet_bounds ::
    "real \<Rightarrow> constraint_type list \<Rightarrow> constraint_type list \<Rightarrow> vec \<Rightarrow> vec \<Rightarrow> vec \<Rightarrow> int list
     \<Rightarrow> int list" where
  "IdentifyActiveSet_bounds tol bound_cons_type cons_type x_l x_u x_k A =
     for_upto (length x_k)
       (\<lambda>i W. W[i :=
          (if bound_cons_type ! i = BOUNDED_ABOVE
           then (if \<bar>x_u ! i - x_k ! i\<bar> < tol then 1 else W ! i)
           else if cons_type ! i = BOUNDED_BELOW
           then (if \<bar>x_k ! i - x_l ! i\<bar> < tol then -1 else W ! i)
           else if cons_type ! i = EQUAL
           then (if \<bar>x_u ! i - x_k ! i\<bar> < tol \<and> \<bar>x_k ! i - x_l ! i\<bar> < tol then 99 else W ! i)
           else W ! i)]) A"

text \<open>The intended bound loop: the same tests on \<open>bound_cons_type_\<close> throughout.\<close>

definition IdentifyActiveSet_bounds_ref ::
    "real \<Rightarrow> constraint_type list \<Rightarrow> vec \<Rightarrow> vec \<Rightarrow> vec \<Rightarrow> int list \<Rightarrow> int list" where
  "IdentifyActiveSet_bounds_ref tol bound_cons_type x_l x_u x_k A =
     for_upto (length x_k)
       (\<lambda>i W. W[i := opt_active_constraint tol (bound_cons_type ! i) (x_l ! i) (x_u ! i) (x_k ! i) (W ! i)]) A"

subsection \<open>The bound loop of Algorithm::check_optimality\<close>

text \<open>Only an unbounded entry is reset to \<open>INACTIVE\<close>; a bounded entry that is not
  within \<open>active_set_tol\<close> keeps whatever the array held.\<close>

definition active_entry ::
    "real \<Rightarrow> constraint_type \<Rightarrow> real \<Rightarrow> real \<Rightarrow> real \<Rightarrow> active_type \<Rightarrow> active_type" where
  "active_entry tol ct l u v old =
     (if ct = BOUNDED_ABOVE then (if \<bar>u - v\<bar> < tol then ACTIVE_ABOVE else old)
      else if ct = BOUNDED_BELOW then (if \<bar>v - l\<bar> < tol then ACTIVE_BELOW else old)
      else if ct = EQUAL then (if \<bar>u - v\<bar> < tol \<and> \<bar>v - l\<bar> < tol then ACTIVE_BOTH_SIDE else old)
      else INACTIVE)"

definition identify_active_bounds ::
    "real \<Rightarrow> constraint_type list \<Rightarrow> vec \<Rightarrow> vec \<Rightarrow> vec \<Rightarrow> active_type list \<Rightarrow> active_type list" where
  "identify_active_bounds tol bound_cons_type x_l x_u x_k W =
     for_upto (length x_k)
       (\<lambda>i W. W[i := active_entry tol (bound_cons_type ! i) (x_l ! i) (x_u ! i) (x_k ! i) (W ! i)]) W"

definition identify_active_constraints ::
    "real \<Rightarrow> constraint_type list \<Rightarrow> vec \<Rightarrow> vec \<Rightarrow> vec \<Rightarrow> active_type list \<Rightarrow> active_type list" where
  "identify_active_constraints tol cons_type c_l c_u c_k W =
     for_upto (length c_k)
       (\<lambda>i W. W[i := active_entry tol (cons_type ! i) (c_l ! i) (c_u ! i) (c_k ! i) (W ! i)]) W"

subsection \<open>Lemmas\<close>

lemma classify_single_constraint_cases:
  "classify_single_constraint l u = EQUAL \<longleftrightarrow> - INF_val < l \<and> u < INF_val"
  "classify_single_constraint l u = BOUNDED_BELOW \<longleftrightarrow> - INF_val < l \<and> \<not> u < INF_val"
  "classify_single_constraint l u = BOUNDED_ABOVE \<longleftrightarrow> \<not> - INF_val < l \<and> u < INF_val"
  "classify_single_constraint l u = UNBOUNDED \<longleftrightarrow> \<not> - INF_val < l \<and> \<not> u < INF_val"
  by (auto simp: classify_single_constraint_def)

lemma length_identify_active_bounds [simp]:
  "length (identify_active_bounds tol t x_l x_u x_k W) = length W"
  by (simp add: identify_active_bounds_def)

lemma nth_identify_active_bounds:
  "i < length W \<Longrightarrow> i < length x_k \<Longrightarrow>
   identify_active_bounds tol t x_l x_u x_k W ! i = active_entry tol (t ! i) (x_l ! i) (x_u ! i) (x_k ! i) (W ! i)"
  using nth_for_upto_update0 [where h = "\<lambda>i w. active_entry tol (t ! i) (x_l ! i) (x_u ! i) (x_k ! i) w"]
  by (simp add: identify_active_bounds_def)

end
