(* ===== verification/QP_Handler.thy ===== *)
theory QP_Handler
  imports Sparse_Matrix Constraint_Types
begin

text \<open>
  The QP subproblem builder of the SQP driver: \<open>QPhandler\<close>
  (\<open>src/src/QPhandler.cpp\<close>, compact formulation, \<open>NEW_FORMULATION\<close> off) over the
  data of the qpOASES interface (\<open>src/src/qpOASESInterface.cpp\<close>). The interface's
  state is the record \<open>qp_iface\<close>: the bound vectors \<open>lb_, ub_, lbA_, ubA_\<close>, the
  linear objective \<open>g_\<close>, the installed Hessian and Jacobian, the flag
  \<open>firstQPsolved_\<close>, the dirty flags \<open>data_change_flags_\<close>, the last solution and
  the status. Each setter \<open>set_lb, set_ub, set_lbA, set_ubA, set_g, set_H_values,
  set_A_values\<close> writes one entry and, once a QP has been solved, raises its dirty flag.
  The compressed-column conversion behind \<open>set_H_structure\<close> / \<open>set_A_values\<close>
  (\<open>SpHbMat\<close>) is abstracted: the interface keeps the triplet it was given, which
  \<open>Sparse_HbMat\<close> shows has the same product. The numeric solve is the external QP solver (spec \<section>4.4): a
  function \<open>qp_oracle\<close> from the QP data to an optimal solution or a failure status,
  covering \<open>optimizeQP\<close>, its re-initialising retry \<open>handler_error\<close> and the
  optimality re-check \<open>test_optimality\<close>.
\<close>

datatype qp_solver_choice = QPOASES | QORE | GUROBI | CPLEX

datatype matrix_status = UNDEFINED | FIXED | VARIED

record qp_iface =
  lb :: vec
  ub :: vec
  lbA :: vec
  ubA :: vec
  g :: vec
  H_qp :: sp_triplet
  A_qp :: sp_triplet
  firstQPsolved :: bool
  data_change_flags :: update_flags
  x_qp :: vec
  y_qp :: vec
  obj_val :: real
  qp_status :: exitflag

subsection \<open>Setters of the qpOASES interface\<close>

definition set_lb :: "nat \<Rightarrow> real \<Rightarrow> qp_iface \<Rightarrow> qp_iface" where
  "set_lb location value s =
     (let f = data_change_flags s
      in s\<lparr>data_change_flags := (if firstQPsolved s \<and> \<not> Update_bounds f then f\<lparr>Update_bounds := True\<rparr> else f),
           lb := (lb s)[location := value]\<rparr>)"

definition set_ub :: "nat \<Rightarrow> real \<Rightarrow> qp_iface \<Rightarrow> qp_iface" where
  "set_ub location value s =
     (let f = data_change_flags s
      in s\<lparr>data_change_flags := (if firstQPsolved s \<and> \<not> Update_bounds f then f\<lparr>Update_bounds := True\<rparr> else f),
           ub := (ub s)[location := value]\<rparr>)"

definition set_lbA :: "nat \<Rightarrow> real \<Rightarrow> qp_iface \<Rightarrow> qp_iface" where
  "set_lbA location value s =
     (let f = data_change_flags s
      in s\<lparr>data_change_flags := (if firstQPsolved s \<and> \<not> Update_bounds f then f\<lparr>Update_bounds := True\<rparr> else f),
           lbA := (lbA s)[location := value]\<rparr>)"

definition set_ubA :: "nat \<Rightarrow> real \<Rightarrow> qp_iface \<Rightarrow> qp_iface" where
  "set_ubA location value s =
     (let f = data_change_flags s
      in s\<lparr>data_change_flags := (if firstQPsolved s \<and> \<not> Update_bounds f then f\<lparr>Update_bounds := True\<rparr> else f),
           ubA := (ubA s)[location := value]\<rparr>)"

definition set_g :: "nat \<Rightarrow> real \<Rightarrow> qp_iface \<Rightarrow> qp_iface" where
  "set_g location value s =
     (let f = data_change_flags s
      in s\<lparr>data_change_flags := (if firstQPsolved s \<and> \<not> Update_g f then f\<lparr>Update_g := True\<rparr> else f),
           g := (g s)[location := value]\<rparr>)"

definition set_H_structure :: "sp_triplet \<Rightarrow> qp_iface \<Rightarrow> qp_iface" where
  "set_H_structure rhs s = s\<lparr>H_qp := rhs\<rparr>"

definition set_H_values :: "sp_triplet \<Rightarrow> qp_iface \<Rightarrow> qp_iface" where
  "set_H_values rhs s =
     (let f = data_change_flags s
      in s\<lparr>data_change_flags := (if firstQPsolved s \<and> \<not> Update_H f then f\<lparr>Update_H := True\<rparr> else f),
           H_qp := rhs\<rparr>)"

definition set_A_structure :: "sp_triplet \<Rightarrow> qp_iface \<Rightarrow> qp_iface" where
  "set_A_structure rhs s = s\<lparr>A_qp := rhs\<rparr>"

definition set_A_values :: "sp_triplet \<Rightarrow> qp_iface \<Rightarrow> qp_iface" where
  "set_A_values rhs s =
     (let f = data_change_flags s
      in s\<lparr>data_change_flags := (if firstQPsolved s \<and> \<not> Update_A f then f\<lparr>Update_A := True\<rparr> else f),
           A_qp := rhs\<rparr>)"

text \<open>The whole-vector setters \<open>set_lb(Vector)\<close>, \<open>set_ub(Vector)\<close>,
  \<open>set_lbA(Vector)\<close>, \<open>set_ubA(Vector)\<close> and \<open>set_g(Vector)\<close>: \<open>copy_vector\<close> into
  the stored vector, with the same dirty flag as the entry setters.\<close>

definition bounds_flag :: "qp_iface \<Rightarrow> update_flags" where
  "bounds_flag s = (let f = data_change_flags s
                    in if firstQPsolved s \<and> \<not> Update_bounds f then f\<lparr>Update_bounds := True\<rparr> else f)"

definition set_lb_vec :: "vec \<Rightarrow> qp_iface \<Rightarrow> qp_iface" where
  "set_lb_vec rhs s = s\<lparr>data_change_flags := bounds_flag s, lb := copy_vector rhs (lb s)\<rparr>"

definition set_ub_vec :: "vec \<Rightarrow> qp_iface \<Rightarrow> qp_iface" where
  "set_ub_vec rhs s = s\<lparr>data_change_flags := bounds_flag s, ub := copy_vector rhs (ub s)\<rparr>"

definition set_lbA_vec :: "vec \<Rightarrow> qp_iface \<Rightarrow> qp_iface" where
  "set_lbA_vec rhs s = s\<lparr>data_change_flags := bounds_flag s, lbA := copy_vector rhs (lbA s)\<rparr>"

definition set_ubA_vec :: "vec \<Rightarrow> qp_iface \<Rightarrow> qp_iface" where
  "set_ubA_vec rhs s = s\<lparr>data_change_flags := bounds_flag s, ubA := copy_vector rhs (ubA s)\<rparr>"

definition set_g_vec :: "vec \<Rightarrow> qp_iface \<Rightarrow> qp_iface" where
  "set_g_vec rhs s =
     (let f = data_change_flags s
      in s\<lparr>data_change_flags := (if firstQPsolved s \<and> \<not> Update_g f then f\<lparr>Update_g := True\<rparr> else f),
           g := copy_vector rhs (g s)\<rparr>)"

subsection \<open>The handler\<close>

record qp_handler =
  nVar :: nat
  nCon :: nat
  nVar_QP :: nat
  nConstr_QP :: nat
  QPsolverChoice :: qp_solver_choice
  iface :: qp_iface

text \<open>Constructor: the compact formulation has \<open>nVar + 2 nCon\<close> QP variables (the
  step and the two slack blocks) and \<open>nCon\<close> QP constraints; the interface allocates
  its vectors at these sizes, zero-filled.\<close>

definition QPhandler_init :: "nat \<Rightarrow> nat \<Rightarrow> qp_solver_choice \<Rightarrow> sp_triplet \<Rightarrow> qp_handler" where
  "QPhandler_init nv nc choice empty_mat =
     (let nvq = nv + 2 * nc; ncq = nc in
      \<lparr>nVar = nv, nCon = nc, nVar_QP = nvq, nConstr_QP = ncq, QPsolverChoice = choice,
       iface = \<lparr>lb = replicate nvq 0, ub = replicate nvq 0, lbA = replicate ncq 0,
                ubA = replicate ncq 0, g = replicate nvq 0, H_qp = empty_mat, A_qp = empty_mat,
                firstQPsolved = False, data_change_flags = no_flags,
                x_qp = replicate nvq 0, y_qp = replicate (ncq + nvq) 0, obj_val = 0,
                qp_status = UNKNOWN\<rparr>\<rparr>)"

definition on_iface :: "(qp_iface \<Rightarrow> qp_iface) \<Rightarrow> qp_handler \<Rightarrow> qp_handler" where
  "on_iface f h = h\<lparr>iface := f (iface h)\<rparr>"

text \<open>The step bound \<open>max(x_l - x_k, -delta) <= p <= min(x_u - x_k, delta)\<close>.\<close>

definition step_lb :: "real \<Rightarrow> vec \<Rightarrow> vec \<Rightarrow> nat \<Rightarrow> real" where
  "step_lb delta x_l x_k i = max (x_l ! i - x_k ! i) (- delta)"

definition step_ub :: "real \<Rightarrow> vec \<Rightarrow> vec \<Rightarrow> nat \<Rightarrow> real" where
  "step_ub delta x_u x_k i = min (x_u ! i - x_k ! i) delta"

definition set_bounds :: "real \<Rightarrow> vec \<Rightarrow> vec \<Rightarrow> vec \<Rightarrow> vec \<Rightarrow> vec \<Rightarrow> vec \<Rightarrow> qp_handler \<Rightarrow> qp_handler" where
  "set_bounds delta x_l x_u x_k c_l c_u c_k h =
     (if QPsolverChoice h \<noteq> QORE then
        on_iface
          (\<lambda>s. let s1 = for_upto (nCon h) (\<lambda>i s. set_ubA i (c_u ! i - c_k ! i) (set_lbA i (c_l ! i - c_k ! i) s)) s;
                   s2 = for_upto (nVar h) (\<lambda>i s. set_ub i (step_ub delta x_u x_k i) (set_lb i (step_lb delta x_l x_k i) s)) s1
               in for_upto (nCon h * 2) (\<lambda>i s. set_ub (nVar h + i) INF_val s) s2) h
      else
        on_iface
          (\<lambda>s. let s1 = for_upto (nVar h) (\<lambda>i s. set_ub i (step_ub delta x_u x_k i) (set_lb i (step_lb delta x_l x_k i) s)) s;
                   s2 = for_upto (nCon h * 2) (\<lambda>i s. set_ub (nVar h + i) INF_val s) s1
               in for_upto (nCon h) (\<lambda>i s. set_ub (nVar_QP h + i) (c_u ! i - c_k ! i)
                                             (set_lb (nVar_QP h + i) (c_l ! i - c_k ! i) s)) s2) h)"

definition set_g_qp :: "vec \<Rightarrow> real \<Rightarrow> qp_handler \<Rightarrow> qp_handler" where
  "set_g_qp grad rho h =
     on_iface (for_upto (nVar_QP h) (\<lambda>i s. if i < nVar h then set_g i (grad ! i) s else set_g i rho s)) h"

definition set_H :: "sp_triplet \<Rightarrow> qp_handler \<Rightarrow> qp_handler" where
  "set_H hessian h =
     (if QPsolverChoice h = GUROBI \<or> QPsolverChoice h = CPLEX then on_iface (set_H_values hessian) h
      else on_iface (\<lambda>s. set_H_values hessian (set_H_structure hessian s)) h)"

definition set_A :: "sp_triplet \<Rightarrow> qp_handler \<Rightarrow> qp_handler" where
  "set_A jacobian h =
     (if QPsolverChoice h = GUROBI \<or> QPsolverChoice h = CPLEX then on_iface (set_A_values jacobian) h
      else on_iface (\<lambda>s. set_A_values jacobian (set_A_structure jacobian s)) h)"

text \<open>\<open>update_bounds\<close>: for qpOASES (and Gurobi, CPLEX, whose \<open>reset_constraints\<close> is
  not among the repository's files and is not modelled) it writes the lower constraint
  bounds and the step bounds; the upper constraint bounds \<open>ubA\<close> are not written.\<close>

definition update_bounds :: "real \<Rightarrow> vec \<Rightarrow> vec \<Rightarrow> vec \<Rightarrow> vec \<Rightarrow> vec \<Rightarrow> vec \<Rightarrow> qp_handler \<Rightarrow> qp_handler" where
  "update_bounds delta x_l x_u x_k c_l c_u c_k h =
     (if QPsolverChoice h = QPOASES \<or> QPsolverChoice h = GUROBI \<or> QPsolverChoice h = CPLEX then
        on_iface
          (\<lambda>s. let s1 = for_upto (nCon h) (\<lambda>i s. set_lbA i (c_l ! i - c_k ! i) s) s
               in for_upto (nVar h) (\<lambda>i s. set_ub i (step_ub delta x_u x_k i) (set_lb i (step_lb delta x_l x_k i) s)) s1) h
      else if QPsolverChoice h = QORE then
        on_iface
          (\<lambda>s. let s1 = for_upto (nVar h) (\<lambda>i s. set_ub i (step_ub delta x_u x_k i) (set_lb i (step_lb delta x_l x_k i) s)) s
               in for_upto (nCon h) (\<lambda>i s. set_ub (nVar h + 2 * nCon h + i) (c_u ! i - c_k ! i)
                                             (set_lb (nVar h + 2 * nCon h + i) (c_l ! i - c_k ! i) s)) s1) h
      else h)"

definition update_penalty :: "real \<Rightarrow> qp_handler \<Rightarrow> qp_handler" where
  "update_penalty rho h =
     on_iface (for_upto (nVar_QP h - nVar h) (\<lambda>i s. set_g (nVar h + i) rho s)) h"

definition update_grad :: "vec \<Rightarrow> qp_handler \<Rightarrow> qp_handler" where
  "update_grad grad h = on_iface (for_upto (nVar h) (\<lambda>i s. set_g i (grad ! i) s)) h"

definition update_H :: "sp_triplet \<Rightarrow> qp_handler \<Rightarrow> qp_handler" where
  "update_H Hessian h = on_iface (set_H_values Hessian) h"

definition update_A :: "sp_triplet \<Rightarrow> qp_handler \<Rightarrow> qp_handler" where
  "update_A Jacobian h = on_iface (set_A_values Jacobian) h"

definition update_delta :: "real \<Rightarrow> vec \<Rightarrow> vec \<Rightarrow> vec \<Rightarrow> qp_handler \<Rightarrow> qp_handler" where
  "update_delta delta x_l x_u x_k h =
     on_iface (for_upto (nVar h) (\<lambda>i s. set_ub i (step_ub delta x_u x_k i) (set_lb i (step_lb delta x_l x_k i) s))) h"

subsection \<open>Solving and reading the solution\<close>

datatype qp_result = QpOptimal vec vec real | QpFail exitflag

type_synonym qp_oracle = "qp_iface \<Rightarrow> qp_result"

text \<open>\<open>solveQP\<close>: a failure is \<open>Inl\<close> with the status \<open>get_status()\<close> reports
  (the C++ throws \<open>QP_NOT_OPTIMAL\<close>); a success stores the solution, marks the first
  QP solved and clears the dirty flags (\<open>reset_flags\<close>).\<close>

definition solveQP :: "qp_oracle \<Rightarrow> qp_handler \<Rightarrow> (exitflag \<times> qp_handler) + qp_handler" where
  "solveQP solver h =
     (case solver (iface h) of
        QpFail st \<Rightarrow> Inl (st, on_iface (\<lambda>s. s\<lparr>qp_status := st\<rparr>) h)
      | QpOptimal x y obj \<Rightarrow>
          Inr (on_iface (\<lambda>s. s\<lparr>x_qp := x, y_qp := y, obj_val := obj, firstQPsolved := True,
                                data_change_flags := no_flags\<rparr>) h))"

definition get_objective :: "qp_handler \<Rightarrow> real" where
  "get_objective h = obj_val (iface h)"

definition get_optimal_solution :: "qp_handler \<Rightarrow> vec" where
  "get_optimal_solution h = x_qp (iface h)"

definition get_status :: "qp_handler \<Rightarrow> exitflag" where
  "get_status h = qp_status (iface h)"

text \<open>qpOASES returns the dual solution as the bound multipliers (one per QP variable)
  followed by the constraint multipliers.\<close>

definition get_multipliers_bounds :: "qp_handler \<Rightarrow> vec" where
  "get_multipliers_bounds h = y_qp (iface h)"

definition get_multipliers_constr :: "qp_handler \<Rightarrow> vec" where
  "get_multipliers_constr h = drop (nVar_QP h) (y_qp (iface h))"

text \<open>\<open>get_infea_measure_model\<close>: the one-norm of the last \<open>2 nConstr_QP\<close> entries
  of the primal solution, the slack variables.\<close>

definition get_infea_measure_model :: "qp_handler \<Rightarrow> real" where
  "get_infea_measure_model h =
     (\<Sum>i<2 * nConstr_QP h. \<bar>x_qp (iface h) ! (nVar_QP h - 2 * nConstr_QP h + i)\<bar>)"

subsection \<open>The LP used for penalty calibration\<close>

text \<open>\<open>myLP_\<close> is a second handler; \<open>set_g(rho)\<close> is declared in \<open>QPhandler.hpp\<close>
  but not defined in the repository's files: modelled from the spec (\<section>4.3) as the
  slack weights alone, zero on the step. \<open>solveLP\<close> calls \<open>optimizeLP\<close>, which has no
  optimality re-check; a failure is \<open>LP_NOT_OPTIMAL\<close>. Unlike \<open>optimizeQP\<close>,
  \<open>optimizeLP\<close> fetches the primal and dual solution and resets the dirty flags only in
  its hot-start branch: the first LP solved (\<open>firstQPsolved_\<close> unset) only marks the
  interface as solved, and \<open>x_qp_\<close>, \<open>y_qp_\<close> keep their previous contents. The
  objective is read live from the solver (\<open>getObjVal\<close>) and is current in both cases.\<close>

definition set_g_lp :: "real \<Rightarrow> qp_handler \<Rightarrow> qp_handler" where
  "set_g_lp rho h =
     on_iface (for_upto (nVar_QP h) (\<lambda>i s. if i < nVar h then set_g i 0 s else set_g i rho s)) h"

definition solveLP :: "qp_oracle \<Rightarrow> qp_handler \<Rightarrow> (exitflag \<times> qp_handler) + qp_handler" where
  "solveLP solver h =
     (case solver (iface h) of
        QpFail st \<Rightarrow> Inl (st, on_iface (\<lambda>s. s\<lparr>qp_status := st\<rparr>) h)
      | QpOptimal x y obj \<Rightarrow>
          Inr (on_iface (\<lambda>s. if firstQPsolved s
                              then s\<lparr>x_qp := x, y_qp := y, obj_val := obj, data_change_flags := no_flags\<rparr>
                              else s\<lparr>obj_val := obj, firstQPsolved := True\<rparr>) h))"

subsection \<open>Field projections of the setters\<close>

lemmas setter_defs = set_lb_def set_ub_def set_lbA_def set_ubA_def set_g_def
  set_H_values_def set_A_values_def set_H_structure_def set_A_structure_def

lemma setter_fields [simp]:
  "lb (set_lb i v s) = (lb s)[i := v]" "ub (set_lb i v s) = ub s" "lbA (set_lb i v s) = lbA s"
  "ubA (set_lb i v s) = ubA s" "g (set_lb i v s) = g s"
  "lb (set_ub i v s) = lb s" "ub (set_ub i v s) = (ub s)[i := v]" "lbA (set_ub i v s) = lbA s"
  "ubA (set_ub i v s) = ubA s" "g (set_ub i v s) = g s"
  "lb (set_lbA i v s) = lb s" "ub (set_lbA i v s) = ub s" "lbA (set_lbA i v s) = (lbA s)[i := v]"
  "ubA (set_lbA i v s) = ubA s" "g (set_lbA i v s) = g s"
  "lb (set_ubA i v s) = lb s" "ub (set_ubA i v s) = ub s" "lbA (set_ubA i v s) = lbA s"
  "ubA (set_ubA i v s) = (ubA s)[i := v]" "g (set_ubA i v s) = g s"
  "lb (set_g i v s) = lb s" "ub (set_g i v s) = ub s" "lbA (set_g i v s) = lbA s"
  "ubA (set_g i v s) = ubA s" "g (set_g i v s) = (g s)[i := v]"
  by (simp_all add: setter_defs Let_def)

lemma setter_solution_fields [simp]:
  "x_qp (set_lb i v s) = x_qp s" "x_qp (set_ub i v s) = x_qp s" "x_qp (set_lbA i v s) = x_qp s"
  "x_qp (set_ubA i v s) = x_qp s" "x_qp (set_g i v s) = x_qp s"
  "firstQPsolved (set_lb i v s) = firstQPsolved s" "firstQPsolved (set_ub i v s) = firstQPsolved s"
  "firstQPsolved (set_lbA i v s) = firstQPsolved s" "firstQPsolved (set_ubA i v s) = firstQPsolved s"
  "firstQPsolved (set_g i v s) = firstQPsolved s"
  by (simp_all add: setter_defs Let_def)

lemma on_iface_fields [simp]:
  "iface (on_iface f h) = f (iface h)" "nVar (on_iface f h) = nVar h" "nCon (on_iface f h) = nCon h"
  "nVar_QP (on_iface f h) = nVar_QP h" "nConstr_QP (on_iface f h) = nConstr_QP h"
  "QPsolverChoice (on_iface f h) = QPsolverChoice h"
  by (simp_all add: on_iface_def)

text \<open>The step-bound loop, seen on \<open>lb\<close> and \<open>ub\<close>.\<close>

lemma step_bound_loop:
  "lb (for_upto n (\<lambda>i s. set_ub i (b i) (set_lb i (a i) s)) s) = for_upto n (\<lambda>i v. v[i := a i]) (lb s)"
  "ub (for_upto n (\<lambda>i s. set_ub i (b i) (set_lb i (a i) s)) s) = for_upto n (\<lambda>i v. v[i := b i]) (ub s)"
  "lbA (for_upto n (\<lambda>i s. set_ub i (b i) (set_lb i (a i) s)) s) = lbA s"
  "ubA (for_upto n (\<lambda>i s. set_ub i (b i) (set_lb i (a i) s)) s) = ubA s"
  "g (for_upto n (\<lambda>i s. set_ub i (b i) (set_lb i (a i) s)) s) = g s"
  by (rule for_upto_proj for_upto_frame; simp)+

lemma constraint_bound_loop:
  "lb (for_upto n (\<lambda>i s. set_ubA i (b i) (set_lbA i (a i) s)) s) = lb s"
  "ub (for_upto n (\<lambda>i s. set_ubA i (b i) (set_lbA i (a i) s)) s) = ub s"
  "lbA (for_upto n (\<lambda>i s. set_ubA i (b i) (set_lbA i (a i) s)) s) = for_upto n (\<lambda>i v. v[i := a i]) (lbA s)"
  "ubA (for_upto n (\<lambda>i s. set_ubA i (b i) (set_lbA i (a i) s)) s) = for_upto n (\<lambda>i v. v[i := b i]) (ubA s)"
  by (rule for_upto_proj for_upto_frame; simp)+

lemma lower_constraint_bound_loop:
  "lb (for_upto n (\<lambda>i s. set_lbA i (a i) s) s) = lb s"
  "ub (for_upto n (\<lambda>i s. set_lbA i (a i) s) s) = ub s"
  "lbA (for_upto n (\<lambda>i s. set_lbA i (a i) s) s) = for_upto n (\<lambda>i v. v[i := a i]) (lbA s)"
  "ubA (for_upto n (\<lambda>i s. set_lbA i (a i) s) s) = ubA s"
  by (rule for_upto_proj for_upto_frame; simp)+

lemma slack_ub_loop:
  "lb (for_upto n (\<lambda>i s. set_ub (off + i) v s) s) = lb s"
  "ub (for_upto n (\<lambda>i s. set_ub (off + i) v s) s) = for_upto n (\<lambda>i w. w[off + i := v]) (ub s)"
  "lbA (for_upto n (\<lambda>i s. set_ub (off + i) v s) s) = lbA s"
  "ubA (for_upto n (\<lambda>i s. set_ub (off + i) v s) s) = ubA s"
  by (rule for_upto_proj for_upto_frame; simp)+

lemma g_loop:
  "g (for_upto n (\<lambda>i s. set_g (off + i) (a i) s) s) = for_upto n (\<lambda>i w. w[off + i := a i]) (g s)"
  "x_qp (for_upto n (\<lambda>i s. set_g (off + i) (a i) s) s) = x_qp s"
  by (rule for_upto_proj for_upto_frame; simp)+

lemmas qp_loop_simps = step_bound_loop constraint_bound_loop lower_constraint_bound_loop slack_ub_loop g_loop

subsection \<open>Properties of the builder\<close>

lemma set_bounds_fields:
  assumes "QPsolverChoice h \<noteq> QORE"
  shows "lb (iface (set_bounds delta x_l x_u x_k c_l c_u c_k h))
           = for_upto (nVar h) (\<lambda>i v. v[i := step_lb delta x_l x_k i]) (lb (iface h))"
    and "ub (iface (set_bounds delta x_l x_u x_k c_l c_u c_k h))
           = for_upto (nCon h * 2) (\<lambda>i w. w[nVar h + i := INF_val])
               (for_upto (nVar h) (\<lambda>i v. v[i := step_ub delta x_u x_k i]) (ub (iface h)))"
    and "lbA (iface (set_bounds delta x_l x_u x_k c_l c_u c_k h))
           = for_upto (nCon h) (\<lambda>i v. v[i := c_l ! i - c_k ! i]) (lbA (iface h))"
    and "ubA (iface (set_bounds delta x_l x_u x_k c_l c_u c_k h))
           = for_upto (nCon h) (\<lambda>i v. v[i := c_u ! i - c_k ! i]) (ubA (iface h))"
  using assms by (simp_all add: set_bounds_def Let_def qp_loop_simps)

text \<open>C29. \<open>set_bounds\<close> (qpOASES layout) bounds step variable \<open>i\<close> by
  \<open>max(x_l[i] - x_k[i], -delta)\<close> and \<open>min(x_u[i] - x_k[i], delta)\<close>, linearised
  constraint \<open>i\<close> by \<open>c_l[i] - c_k[i]\<close> and \<open>c_u[i] - c_k[i]\<close>, and gives every slack
  column the upper bound \<open>INF\<close>.\<close>

theorem set_bounds_assembles:
  assumes "QPsolverChoice h \<noteq> QORE"
    and "nVar_QP h = nVar h + 2 * nCon h"
    and "length (lb (iface h)) = nVar_QP h" and "length (ub (iface h)) = nVar_QP h"
    and "length (lbA (iface h)) = nCon h" and "length (ubA (iface h)) = nCon h"
  shows "(\<forall>i<nVar h. lb (iface (set_bounds delta x_l x_u x_k c_l c_u c_k h)) ! i = max (x_l ! i - x_k ! i) (- delta)
                  \<and> ub (iface (set_bounds delta x_l x_u x_k c_l c_u c_k h)) ! i = min (x_u ! i - x_k ! i) delta)
       \<and> (\<forall>i<nCon h. lbA (iface (set_bounds delta x_l x_u x_k c_l c_u c_k h)) ! i = c_l ! i - c_k ! i
                  \<and> ubA (iface (set_bounds delta x_l x_u x_k c_l c_u c_k h)) ! i = c_u ! i - c_k ! i)
       \<and> (\<forall>i. nVar h \<le> i \<and> i < nVar_QP h \<longrightarrow> ub (iface (set_bounds delta x_l x_u x_k c_l c_u c_k h)) ! i = INF_val)"
  using assms
  by (auto simp: set_bounds_fields nth_for_upto_set0 nth_for_upto_set for_upto_set_outside
                 step_lb_def step_ub_def)

theorem set_bounds_assembles_witness:
  "let h = QPhandler_init 1 0 QPOASES \<lparr>RowNum = 0, ColNum = 0, isSymmetric = False, RowIndex = [],
                                        ColIndex = [], MatVal = [], order = []\<rparr>;
       h' = set_bounds 1 [-1] [1] [0.5] [] [] [] h
   in lb (iface h') ! 0 = -1 \<and> ub (iface h') ! 0 = 0.5"
proof -
  let ?h = "QPhandler_init 1 0 QPOASES \<lparr>RowNum = 0, ColNum = 0, isSymmetric = False, RowIndex = [],
                                        ColIndex = [], MatVal = [], order = []\<rparr>"
  have hyps: "QPsolverChoice ?h \<noteq> QORE" "nVar_QP ?h = nVar ?h + 2 * nCon ?h"
    "length (lb (iface ?h)) = nVar_QP ?h" "length (ub (iface ?h)) = nVar_QP ?h"
    "length (lbA (iface ?h)) = nCon ?h" "length (ubA (iface ?h)) = nCon ?h"
    by (simp_all add: QPhandler_init_def)
  have "nVar ?h = 1" by (simp add: QPhandler_init_def)
  with set_bounds_assembles [OF hyps, of 1 "[-1]" "[1]" "[0.5]" "[]" "[]" "[]"]
  show ?thesis by (simp add: Let_def)
qed

text \<open>C30. \<open>update_bounds\<close> with qpOASES rewrites the lower constraint bounds to
  \<open>c_l - c_k\<close> and the step bounds to \<open>max(x_l - x_k, -delta)\<close> and
  \<open>min(x_u - x_k, delta)\<close> for the new iterate but leaves the upper constraint bounds \<open>ubA\<close> as they
  were: after a step they still hold \<open>c_u - c_k\<close> of an earlier iterate.\<close>

theorem update_bounds_keeps_ubA:
  assumes "QPsolverChoice h = QPOASES"
  shows "ubA (iface (update_bounds delta x_l x_u x_k c_l c_u c_k h)) = ubA (iface h)
       \<and> lbA (iface (update_bounds delta x_l x_u x_k c_l c_u c_k h))
           = for_upto (nCon h) (\<lambda>i v. v[i := c_l ! i - c_k ! i]) (lbA (iface h))
       \<and> lb (iface (update_bounds delta x_l x_u x_k c_l c_u c_k h))
           = for_upto (nVar h) (\<lambda>i v. v[i := step_lb delta x_l x_k i]) (lb (iface h))
       \<and> ub (iface (update_bounds delta x_l x_u x_k c_l c_u c_k h))
           = for_upto (nVar h) (\<lambda>i v. v[i := step_ub delta x_u x_k i]) (ub (iface h))"
  using assms by (simp add: update_bounds_def Let_def qp_loop_simps)

theorem update_bounds_keeps_ubA_witness:
  "let h = (QPhandler_init 1 1 QPOASES \<lparr>RowNum = 0, ColNum = 0, isSymmetric = False, RowIndex = [],
                                          ColIndex = [], MatVal = [], order = []\<rparr>);
       h1 = set_bounds 1 [-1] [1] [0] [0] [0] [2] h;
       h2 = update_bounds 1 [-1] [1] [0.5] [0] [0] [1] h1
   in ubA (iface h2) ! 0 = -2 \<and> lbA (iface h2) ! 0 = -1 \<and> lb (iface h2) ! 0 = -1 \<and> ub (iface h2) ! 0 = 1 / 2"
proof -
  let ?h1 = "set_bounds 1 [-1] [1] [0] [0] [0] [2]
               (QPhandler_init 1 1 QPOASES \<lparr>RowNum = 0, ColNum = 0, isSymmetric = False, RowIndex = [],
                                          ColIndex = [], MatVal = [], order = []\<rparr>)"
  have c: "QPsolverChoice ?h1 = QPOASES"
    by (simp add: set_bounds_def QPhandler_init_def)
  have "ubA (iface ?h1) = [-2]" "lbA (iface ?h1) = [-2]" "nCon ?h1 = 1" "nVar ?h1 = 1"
    "lb (iface ?h1) = [-1, 0, 0]" "ub (iface ?h1) = [1, INF_val, INF_val]"
    by (simp_all add: set_bounds_fields QPhandler_init_def set_bounds_def step_lb_def step_ub_def)
  with update_bounds_keeps_ubA [OF c, of 1 "[-1]" "[1]" "[0.5]" "[0]" "[0]" "[1]"]
  show ?thesis by (simp add: Let_def step_lb_def step_ub_def)
qed

text \<open>C31. \<open>update_penalty(rho)\<close> writes \<open>rho\<close> into every slack coefficient of the
  linear objective and leaves the coefficients of the step variables unchanged.\<close>

theorem update_penalty_slack_only:
  assumes "nVar h \<le> nVar_QP h" and "length (g (iface h)) = nVar_QP h"
  shows "(\<forall>i. nVar h \<le> i \<and> i < nVar_QP h \<longrightarrow> g (iface (update_penalty rho h)) ! i = rho)
       \<and> (\<forall>i<nVar h. g (iface (update_penalty rho h)) ! i = g (iface h) ! i)
       \<and> length (g (iface (update_penalty rho h))) = nVar_QP h"
  using assms by (auto simp: update_penalty_def g_loop nth_for_upto_set for_upto_set_outside)

theorem update_penalty_slack_only_witness:
  "let h = QPhandler_init 1 1 QPOASES \<lparr>RowNum = 0, ColNum = 0, isSymmetric = False, RowIndex = [],
                                        ColIndex = [], MatVal = [], order = []\<rparr>;
       h' = update_penalty 10 h
   in g (iface h') = [0, 10, 10]"
proof -
  let ?h = "QPhandler_init 1 1 QPOASES \<lparr>RowNum = 0, ColNum = 0, isSymmetric = False, RowIndex = [],
                                        ColIndex = [], MatVal = [], order = []\<rparr>"
  have hyps: "nVar ?h \<le> nVar_QP ?h" "length (g (iface ?h)) = nVar_QP ?h"
    by (simp_all add: QPhandler_init_def)
  have d: "nVar ?h = 1" "nVar_QP ?h = 3" "g (iface ?h) = [0, 0, 0]"
    by (simp_all add: QPhandler_init_def numeral_3_eq_3)
  from update_penalty_slack_only [OF hyps, of 10] d
  have "g (iface (update_penalty 10 ?h)) ! 0 = 0" "g (iface (update_penalty 10 ?h)) ! 1 = 10"
       "g (iface (update_penalty 10 ?h)) ! 2 = 10" "length (g (iface (update_penalty 10 ?h))) = 3"
    by auto
  then show ?thesis
    by (simp add: Let_def list_eq_iff_nth_eq less_Suc_eq numeral_3_eq_3 numeral_2_eq_2)
qed


text \<open>The LP set-up of the driver does not mark an LP as solved, and the first LP
  solved through a handler only records its objective and the solved mark.\<close>

lemma firstQPsolved_for_upto [simp]:
  "(\<And>i st. firstQPsolved (body i st) = firstQPsolved st) \<Longrightarrow>
   firstQPsolved (for_upto n body s) = firstQPsolved s"
  by (rule for_upto_frame)

lemma firstQPsolved_setters [simp]:
  "firstQPsolved (iface (set_bounds d xl xu xk cl cu ck h)) = firstQPsolved (iface h)"
  "firstQPsolved (iface (set_g_lp r h)) = firstQPsolved (iface h)"
  "firstQPsolved (iface (set_A J h)) = firstQPsolved (iface h)"
  by (simp_all add: set_bounds_def set_g_lp_def set_A_def setter_defs Let_def)

lemma solveLP_first:
  "\<not> firstQPsolved (iface h) \<Longrightarrow> solver (iface h) = QpOptimal x y obj \<Longrightarrow>
   solveLP solver h = Inr (on_iface (\<lambda>s. s\<lparr>obj_val := obj, firstQPsolved := True\<rparr>) h)"
  by (simp add: solveLP_def)

end
