(* ===== verification/SQP_State.thy ===== *)
theory SQP_State
  imports QP_Handler
begin

text \<open>
  The state of the SQP driver \<open>Algorithm\<close> (\<open>src/src/Algorithm.cpp\<close>) and what it
  consumes. The class members become the record \<open>sqp_state\<close>; the two iteration
  counters of \<open>Stats\<close> it reads (\<open>iter\<close>, \<open>penalty_change_trial\<close>) are fields, as is
  \<open>options_->eps1\<close>, the one option the algorithm writes. The other options are the
  record \<open>sqp_options\<close>. The NLP oracle (\<open>SQPTNLP\<close>, spec \<section>6) is a record of
  evaluation functions, the QP and LP engines are oracles of \<open>QP_Handler\<close>, and the
  wall-clock test of \<open>Optimize\<close> is a predicate on the iteration count: together the
  environment \<open>sqp_env\<close>. Exceptions that leave a member function are the values of
  \<open>sqp_exception\<close>, carried with the state at the throw.
\<close>

record sqp_options =
  eta_c :: real
  eta_s :: real
  eta_e :: real
  gamma_c :: real
  gamma_e :: real
  delta_max :: real
  delta_min :: real
  rho_max :: real
  increase_parm :: real
  eps2 :: real
  eps1_change_parm :: real
  penalty_iter_max :: nat
  penalty_update :: bool
  penalty_update_tol :: real
  opt_prim_fea_tol :: real
  opt_dual_fea_tol :: real
  opt_compl_tol :: real
  opt_stat_tol :: real
  active_set_tol :: real
  tol :: real
  iter_max :: nat
  second_order_correction :: bool
  QPsolverChoice_opt :: qp_solver_choice

record nlp_oracle =
  Eval_f :: "vec \<Rightarrow> real"
  Eval_gradient :: "vec \<Rightarrow> vec"
  Eval_constraints :: "vec \<Rightarrow> vec"
  Eval_Jacobian :: "vec \<Rightarrow> sp_triplet \<Rightarrow> sp_triplet"
  Eval_Hessian :: "vec \<Rightarrow> vec \<Rightarrow> sp_triplet \<Rightarrow> sp_triplet"

record sqp_env =
  nlp :: nlp_oracle
  qp_solver :: qp_oracle
  lp_solver :: qp_oracle
  time_exceeded :: "nat \<Rightarrow> bool"

record opt_status_rec =
  primal_violation :: real
  dual_violation :: real
  compl_violation :: real
  stationarity_violation :: real
  KKT_error :: real
  primal_feasibility :: bool
  dual_feasibility :: bool
  complementarity :: bool
  stationarity :: bool
  first_order_opt :: bool

record sqp_state =
  x_k :: vec
  x_trial :: vec
  p_k :: vec
  c_k :: vec
  c_trial :: vec
  x_l :: vec
  x_u :: vec
  c_l :: vec
  c_u :: vec
  grad_f :: vec
  jacobian :: sp_triplet
  hessian :: sp_triplet
  multiplier_cons :: vec
  multiplier_vars :: vec
  multiplier_vars_null :: bool
  cons_type :: "constraint_type list"
  bound_cons_type :: "constraint_type list"
  W_constr :: "active_type list"
  W_bounds :: "active_type list"
  obj_value :: real
  obj_value_trial :: real
  infea_measure :: real
  infea_measure_trial :: real
  infea_measure_model :: real
  delta :: real
  rho :: real
  norm_p_k :: real
  qp_obj :: real
  actual_reduction :: real
  pred_reduction :: real
  QPinfoFlag :: update_flags
  isaccept :: bool
  exitflag :: exitflag
  iter :: nat
  penalty_change_trial :: nat
  eps1 :: real
  myQP :: qp_handler
  myLP :: qp_handler
  opt_status :: opt_status_rec

datatype sqp_exception = QP_UNCHANGED | QP_NOT_OPTIMAL | LP_NOT_OPTIMAL | SMALL_TRUST_REGION

type_synonym sqp_result = "(sqp_exception \<times> sqp_state) + sqp_state"

text \<open>The state a member function leaves behind, whether it returned or threw.\<close>

definition result_state :: "sqp_result \<Rightarrow> sqp_state" where
  "result_state r = (case r of Inl (e, st) \<Rightarrow> st | Inr st \<Rightarrow> st)"

end
