(* ===== verification/SQP_Steps.thy ===== *)
theory SQP_Steps
  imports SQP_State
begin

text \<open>
  The per-iteration member functions of \<open>Algorithm\<close> (\<open>src/src/Algorithm.cpp\<close>) in
  the order \<open>Optimize\<close> calls them: \<open>setupQP\<close> (with \<open>setupLP\<close>),
  \<open>get_search_direction\<close>, \<open>get_trial_point_info\<close> with the infeasibility measure
  \<open>cal_infea\<close>, \<open>ratio_test\<close> with \<open>get_multipliers\<close>, and \<open>update_radius\<close>. Each
  takes the options, the environment where it calls the oracle, and the state, and
  returns the new state; \<open>setupQP\<close> and \<open>update_radius\<close> can throw, so they return an
  \<open>sqp_result\<close>. The model follows the compact formulation (\<open>NEW_FORMULATION\<close> off).
\<close>

subsection \<open>Infeasibility measure\<close>

text \<open>\<open>cal_infea(c_k, c_l, c_u, x_k, x_l, x_u)\<close>: the one-norm of the constraint
  violation, plus that of the bound violation when \<open>x_k\<close> is given (\<open>Some\<close>).\<close>

definition violation :: "real \<Rightarrow> real \<Rightarrow> real \<Rightarrow> real" where
  "violation v l u = (if v < l then l - v else if v > u then v - u else 0)"

definition cal_infea :: "vec \<Rightarrow> vec \<Rightarrow> vec \<Rightarrow> (vec \<times> vec \<times> vec) option \<Rightarrow> real" where
  "cal_infea c c_lo c_up xs =
     (let m = for_upto (length c) (\<lambda>i acc. acc + violation (c ! i) (c_lo ! i) (c_up ! i)) 0
      in case xs of None \<Rightarrow> m
         | Some (x, x_lo, x_up) \<Rightarrow> for_upto (length x) (\<lambda>i acc. acc + violation (x ! i) (x_lo ! i) (x_up ! i)) m)"

subsection \<open>Step and trial point\<close>

definition get_obj_QP :: "sqp_state \<Rightarrow> real" where
  "get_obj_QP st = get_objective (myQP st)"

definition get_search_direction :: "sqp_state \<Rightarrow> sqp_state" where
  "get_search_direction st = st\<lparr>p_k := copy_vector (get_optimal_solution (myQP st)) (p_k st)\<rparr>"

definition get_trial_point_info :: "sqp_env \<Rightarrow> sqp_state \<Rightarrow> sqp_state" where
  "get_trial_point_info env st =
     (let xt = add_vector (p_k st) (copy_vector (x_k st) (x_trial st));
          ct = Eval_constraints (nlp env) xt
      in st\<lparr>x_trial := xt, obj_value_trial := Eval_f (nlp env) xt, c_trial := ct,
            infea_measure_trial := cal_infea ct (c_l st) (c_u st) None\<rparr>)"

text \<open>\<open>get_multipliers\<close>: with qpOASES or QORE the QP's multipliers are copied; with
  Gurobi or CPLEX the bound multipliers are recovered as \<open>H p + g - J^T y\<close>.\<close>

definition get_multipliers :: "sqp_options \<Rightarrow> sqp_state \<Rightarrow> sqp_state" where
  "get_multipliers opts st =
     (if QPsolverChoice_opt opts = QORE \<or> QPsolverChoice_opt opts = QPOASES then
        st\<lparr>multiplier_cons := copy_vector (get_multipliers_constr (myQP st)) (multiplier_cons st),
           multiplier_vars := copy_vector (get_multipliers_bounds (myQP st)) (multiplier_vars st)\<rparr>
      else if QPsolverChoice_opt opts = GUROBI \<or> QPsolverChoice_opt opts = CPLEX then
        (let mc = copy_vector (get_multipliers_constr (myQP st)) (multiplier_cons st);
             tmp = sp_transposed_times (jacobian st) mc;
             mv = sp_times (hessian st) (p_k st)
         in st\<lparr>multiplier_cons := mc,
               multiplier_vars := subtract_vector tmp (add_vector (grad_f st) mv)\<rparr>)
      else st)"

subsection \<open>Ratio test\<close>

text \<open>The l1 merit function \<open>P(x) = f(x) + rho * infeasibility(x)\<close>; the predicted
  reduction is \<open>rho * infea_measure - qp objective\<close>. Acceptance commits the trial point,
  refreshes multipliers, gradient, Jacobian and Hessian, and marks the QP data dirty.\<close>

definition ratio_test :: "sqp_options \<Rightarrow> sqp_env \<Rightarrow> sqp_state \<Rightarrow> sqp_state" where
  "ratio_test opts env st =
     (let P1_x = obj_value st + rho st * infea_measure st;
          P1_x_trial = obj_value_trial st + rho st * infea_measure_trial st;
          ared = P1_x - P1_x_trial;
          pred = rho st * infea_measure st - get_obj_QP st;
          st1 = st\<lparr>actual_reduction := ared, pred_reduction := pred\<rparr>
      in if ared \<ge> eta_s opts * pred \<and> ared \<ge> - tol opts then
           (let st2 = st1\<lparr>infea_measure := infea_measure_trial st, obj_value := obj_value_trial st,
                          x_k := copy_vector (x_trial st) (x_k st),
                          c_k := copy_vector (c_trial st) (c_k st)\<rparr>;
                st3 = get_multipliers opts st2;
                st4 = st3\<lparr>grad_f := Eval_gradient (nlp env) (x_k st3),
                          jacobian := Eval_Jacobian (nlp env) (x_k st3) (jacobian st3)\<rparr>;
                st5 = st4\<lparr>hessian := Eval_Hessian (nlp env) (x_k st4) (multiplier_cons st4) (hessian st4)\<rparr>
            in st5\<lparr>QPinfoFlag := (QPinfoFlag st5)\<lparr>Update_A := True, Update_H := True,
                                                     Update_bounds := True, Update_g := True\<rparr>,
                   isaccept := True\<rparr>)
         else st1\<lparr>isaccept := False\<rparr>)"

subsection \<open>Trust-region radius\<close>

text \<open>Shrink by \<open>gamma_c\<close> when the actual reduction is below \<open>eta_c\<close> times the
  predicted one; grow by \<open>gamma_e\<close> (capped at \<open>delta_max\<close>) when it is above
  \<open>eta_e\<close> times it and the step reached the boundary; throw \<open>SMALL_TRUST_REGION\<close>
  with \<open>exitflag = TRUST_REGION_TOO_SMALL\<close> when the radius falls below \<open>delta_min\<close>.\<close>

definition update_radius :: "sqp_options \<Rightarrow> sqp_state \<Rightarrow> sqp_result" where
  "update_radius opts st =
     (let st1 =
        (if actual_reduction st < eta_c opts * pred_reduction st then
           st\<lparr>delta := gamma_c opts * delta st, QPinfoFlag := (QPinfoFlag st)\<lparr>Update_delta := True\<rparr>\<rparr>
         else if actual_reduction st > eta_e opts * pred_reduction st
                 \<and> tol opts > \<bar>delta st - getInfNorm (p_k st)\<bar> then
           st\<lparr>delta := min (gamma_e opts * delta st) (delta_max opts),
              QPinfoFlag := (QPinfoFlag st)\<lparr>Update_delta := True\<rparr>\<rparr>
         else st)
      in if delta st1 < delta_min opts
         then Inl (SMALL_TRUST_REGION, st1\<lparr>exitflag := TRUST_REGION_TOO_SMALL\<rparr>)
         else Inr st1)"

subsection \<open>Setting up the QP\<close>

text \<open>On iteration 0 the whole QP is built; afterwards only the dirty parts are
  updated, each flag cleared after its update, and a call with no flag set throws
  \<open>QP_UNCHANGED\<close>.\<close>

definition setupQP :: "sqp_state \<Rightarrow> sqp_result" where
  "setupQP st =
     (if iter st = 0 then
        Inr (st\<lparr>myQP := set_g_qp (grad_f st) (rho st)
                  (set_bounds (delta st) (x_l st) (x_u st) (x_k st) (c_l st) (c_u st) (c_k st)
                    (set_H (hessian st) (set_A (jacobian st) (myQP st))))\<rparr>)
      else if \<not> any_flag (QPinfoFlag st) then Inl (QP_UNCHANGED, st)
      else
        (let f0 = QPinfoFlag st;
             q0 = myQP st;
             q1 = (if Update_A f0 then update_A (jacobian st) q0 else q0);
             f1 = (if Update_A f0 then f0\<lparr>Update_A := False\<rparr> else f0);
             q2 = (if Update_H f1 then update_H (hessian st) q1 else q1);
             f2 = (if Update_H f1 then f1\<lparr>Update_H := False\<rparr> else f1);
             (q3, f3) =
               (if Update_bounds f2 then
                  (update_bounds (delta st) (x_l st) (x_u st) (x_k st) (c_l st) (c_u st) (c_k st) q2,
                   f2\<lparr>Update_bounds := False, Update_delta := False\<rparr>)
                else if Update_delta f2 then
                  (update_delta (delta st) (x_l st) (x_u st) (x_k st) q2, f2\<lparr>Update_delta := False\<rparr>)
                else (q2, f2));
             q4 = (if Update_penalty f3 then update_penalty (rho st) q3 else q3);
             f4 = (if Update_penalty f3 then f3\<lparr>Update_penalty := False\<rparr> else f3);
             q5 = (if Update_g f4 then update_grad (grad_f st) q4 else q4);
             f5 = (if Update_g f4 then f4\<lparr>Update_g := False\<rparr> else f4)
         in Inr (st\<lparr>myQP := q5, QPinfoFlag := f5\<rparr>)))"

definition setupLP :: "sqp_state \<Rightarrow> sqp_state" where
  "setupLP st =
     st\<lparr>myLP := set_A (jacobian st)
                 (set_g_lp (rho st)
                   (set_bounds (delta st) (x_l st) (x_u st) (x_k st) (c_l st) (c_u st) (c_k st) (myLP st)))\<rparr>"

subsection \<open>Frame lemmas\<close>

lemma get_multipliers_frame [simp]:
  "x_k (get_multipliers opts st) = x_k st" "c_k (get_multipliers opts st) = c_k st"
  "obj_value (get_multipliers opts st) = obj_value st"
  "infea_measure (get_multipliers opts st) = infea_measure st"
  "rho (get_multipliers opts st) = rho st" "delta (get_multipliers opts st) = delta st"
  "QPinfoFlag (get_multipliers opts st) = QPinfoFlag st" "iter (get_multipliers opts st) = iter st"
  "actual_reduction (get_multipliers opts st) = actual_reduction st"
  "pred_reduction (get_multipliers opts st) = pred_reduction st"
  "myQP (get_multipliers opts st) = myQP st" "exitflag (get_multipliers opts st) = exitflag st"
  "W_constr (get_multipliers opts st) = W_constr st" "W_bounds (get_multipliers opts st) = W_bounds st"
  "opt_status (get_multipliers opts st) = opt_status st"
  "x_l (get_multipliers opts st) = x_l st" "x_u (get_multipliers opts st) = x_u st"
  "c_l (get_multipliers opts st) = c_l st" "c_u (get_multipliers opts st) = c_u st"
  "cons_type (get_multipliers opts st) = cons_type st"
  "bound_cons_type (get_multipliers opts st) = bound_cons_type st"
  by (simp_all add: get_multipliers_def Let_def)

lemma get_trial_point_info_frame [simp]:
  "rho (get_trial_point_info env st) = rho st" "iter (get_trial_point_info env st) = iter st"
  "delta (get_trial_point_info env st) = delta st" "x_k (get_trial_point_info env st) = x_k st"
  "myQP (get_trial_point_info env st) = myQP st" "exitflag (get_trial_point_info env st) = exitflag st"
  "p_k (get_trial_point_info env st) = p_k st" "eps1 (get_trial_point_info env st) = eps1 st"
  by (simp_all add: get_trial_point_info_def Let_def)

lemma ratio_test_frame [simp]:
  "rho (ratio_test opts env st) = rho st" "delta (ratio_test opts env st) = delta st"
  "iter (ratio_test opts env st) = iter st" "myQP (ratio_test opts env st) = myQP st"
  "myLP (ratio_test opts env st) = myLP st" "exitflag (ratio_test opts env st) = exitflag st"
  "p_k (ratio_test opts env st) = p_k st" "x_trial (ratio_test opts env st) = x_trial st"
  "eps1 (ratio_test opts env st) = eps1 st"
  "penalty_change_trial (ratio_test opts env st) = penalty_change_trial st"
  "Update_penalty (QPinfoFlag (ratio_test opts env st)) = Update_penalty (QPinfoFlag st)"
  "Update_delta (QPinfoFlag (ratio_test opts env st)) = Update_delta (QPinfoFlag st)"
  by (simp_all add: ratio_test_def Let_def get_multipliers_def)

lemma ratio_test_reductions [simp]:
  "actual_reduction (ratio_test opts env st)
     = (obj_value st + rho st * infea_measure st) - (obj_value_trial st + rho st * infea_measure_trial st)"
  "pred_reduction (ratio_test opts env st) = rho st * infea_measure st - get_obj_QP st"
  by (simp_all add: ratio_test_def Let_def)

lemma update_radius_frame:
  "update_radius opts st = Inr st' \<Longrightarrow> rho st' = rho st \<and> iter st' = iter st \<and> myQP st' = myQP st
     \<and> exitflag st' = exitflag st \<and> x_k st' = x_k st \<and> eps1 st' = eps1 st
     \<and> Update_A (QPinfoFlag st') = Update_A (QPinfoFlag st) \<and> Update_H (QPinfoFlag st') = Update_H (QPinfoFlag st)
     \<and> Update_bounds (QPinfoFlag st') = Update_bounds (QPinfoFlag st)
     \<and> Update_g (QPinfoFlag st') = Update_g (QPinfoFlag st)
     \<and> Update_penalty (QPinfoFlag st') = Update_penalty (QPinfoFlag st)"
  by (auto simp: update_radius_def Let_def split: if_splits)

lemma setupQP_frame:
  "setupQP st = Inr st' \<Longrightarrow> st' = st\<lparr>myQP := myQP st', QPinfoFlag := QPinfoFlag st'\<rparr>"
  by (auto simp: setupQP_def Let_def split: if_splits prod.splits)

lemma violation_nonneg [simp]: "0 \<le> violation v l u"
  by (simp add: violation_def)

lemma violation_zero_iff: "violation v l u = 0 \<longleftrightarrow> l \<le> v \<and> v \<le> u"
  by (auto simp: violation_def)

lemma cal_infea_None: "cal_infea c cl cu None = (\<Sum>i<length c. violation (c ! i) (cl ! i) (cu ! i))"
  by (simp add: cal_infea_def for_upto_sum)

subsection \<open>Properties\<close>

text \<open>C9. The ratio test accepts the trial point exactly when the actual reduction of the
  l1 merit function, \<open>(f_k + rho infea_k) - (f_trial + rho infea_trial)\<close>, is at least
  \<open>eta_s\<close> times the predicted reduction \<open>rho infea_k - q_k\<close> and at least
  \<open>-tol\<close>; it records both reductions.\<close>

theorem ratio_test_accept_iff:
  "isaccept (ratio_test opts env st) \<longleftrightarrow>
     (let ared = (obj_value st + rho st * infea_measure st) - (obj_value_trial st + rho st * infea_measure_trial st);
          pred = rho st * infea_measure st - get_objective (myQP st)
      in eta_s opts * pred \<le> ared \<and> - tol opts \<le> ared)"
  by (simp add: ratio_test_def Let_def get_obj_QP_def)

text \<open>C10. An accepted trial point is committed: the iterate, constraint values,
  objective and infeasibility become the trial ones, the gradient, Jacobian and Hessian
  are re-evaluated at the new iterate, and the Jacobian, Hessian, bounds and gradient of
  the QP are marked dirty.\<close>

theorem ratio_test_commits:
  assumes "isaccept (ratio_test opts env st)"
  shows "x_k (ratio_test opts env st) = copy_vector (x_trial st) (x_k st)
       \<and> c_k (ratio_test opts env st) = copy_vector (c_trial st) (c_k st)
       \<and> obj_value (ratio_test opts env st) = obj_value_trial st
       \<and> infea_measure (ratio_test opts env st) = infea_measure_trial st
       \<and> grad_f (ratio_test opts env st) = Eval_gradient (nlp env) (copy_vector (x_trial st) (x_k st))
       \<and> jacobian (ratio_test opts env st)
             = Eval_Jacobian (nlp env) (copy_vector (x_trial st) (x_k st)) (jacobian st)
       \<and> hessian (ratio_test opts env st)
             = Eval_Hessian (nlp env) (copy_vector (x_trial st) (x_k st))
                 (multiplier_cons (ratio_test opts env st)) (hessian st)
       \<and> Update_A (QPinfoFlag (ratio_test opts env st)) \<and> Update_H (QPinfoFlag (ratio_test opts env st))
       \<and> Update_bounds (QPinfoFlag (ratio_test opts env st)) \<and> Update_g (QPinfoFlag (ratio_test opts env st))"
  using assms by (auto simp: ratio_test_def get_multipliers_def Let_def split: if_splits)

text \<open>C11. A rejected trial point changes nothing of the iterate: point, constraint
  values, objective, infeasibility, derivatives and dirty flags stay as they were.\<close>

theorem ratio_test_reject_keeps:
  assumes "\<not> isaccept (ratio_test opts env st)"
  shows "x_k (ratio_test opts env st) = x_k st \<and> c_k (ratio_test opts env st) = c_k st
       \<and> obj_value (ratio_test opts env st) = obj_value st
       \<and> infea_measure (ratio_test opts env st) = infea_measure st
       \<and> grad_f (ratio_test opts env st) = grad_f st \<and> jacobian (ratio_test opts env st) = jacobian st
       \<and> hessian (ratio_test opts env st) = hessian st
       \<and> QPinfoFlag (ratio_test opts env st) = QPinfoFlag st"
  using assms by (auto simp: ratio_test_def Let_def split: if_splits)

text \<open>C21. \<open>update_radius\<close> shrinks the radius to \<open>gamma_c delta\<close> when the actual
  reduction is below \<open>eta_c\<close> times the predicted one, grows it to
  \<open>min(gamma_e delta, delta_max)\<close> when it is above \<open>eta_e\<close> times the predicted one
  and the step is on the boundary (\<open>|delta - ||p_k||_inf| < tol\<close>), and keeps it
  otherwise; a changed radius marks the bounds dirty (\<open>Update_delta\<close>).\<close>

theorem update_radius_rule:
  assumes "update_radius opts st = Inr st'"
  shows "delta st' = (if actual_reduction st < eta_c opts * pred_reduction st then gamma_c opts * delta st
                      else if actual_reduction st > eta_e opts * pred_reduction st
                              \<and> tol opts > \<bar>delta st - getInfNorm (p_k st)\<bar>
                      then min (gamma_e opts * delta st) (delta_max opts) else delta st)
       \<and> Update_delta (QPinfoFlag st') =
           (Update_delta (QPinfoFlag st) \<or> actual_reduction st < eta_c opts * pred_reduction st
            \<or> (actual_reduction st > eta_e opts * pred_reduction st
               \<and> tol opts > \<bar>delta st - getInfNorm (p_k st)\<bar>))
       \<and> delta_min opts \<le> delta st'"
  using assms by (auto simp: update_radius_def Let_def split: if_splits)

text \<open>When the updated radius falls below \<open>delta_min\<close>, \<open>update_radius\<close> throws
  \<open>SMALL_TRUST_REGION\<close> and sets the exit flag to \<open>TRUST_REGION_TOO_SMALL\<close>; it throws in
  no other case.\<close>

theorem update_radius_too_small:
  "(\<exists>st'. update_radius opts st = Inl (SMALL_TRUST_REGION, st') \<and> exitflag st' = TRUST_REGION_TOO_SMALL)
   \<longleftrightarrow> (if actual_reduction st < eta_c opts * pred_reduction st then gamma_c opts * delta st
        else if actual_reduction st > eta_e opts * pred_reduction st
                \<and> tol opts > \<bar>delta st - getInfNorm (p_k st)\<bar>
        then min (gamma_e opts * delta st) (delta_max opts) else delta st) < delta_min opts"
  by (auto simp: update_radius_def Let_def)

lemma setupQP_Inl: "setupQP st = Inl (e, st') \<Longrightarrow> e = QP_UNCHANGED \<and> st' = st"
  by (auto simp: setupQP_def Let_def split: if_splits prod.splits)

lemma setupQP_iter: "setupQP st = Inr st' \<Longrightarrow> iter st' = iter st"
  by (auto simp: setupQP_def Let_def split: if_splits prod.splits)

lemma setupQP_clears:
  "iter st \<noteq> 0 \<Longrightarrow> setupQP st = Inr st' \<Longrightarrow> \<not> any_flag (QPinfoFlag st')"
  by (auto simp: setupQP_def Let_def any_flag_def split: if_splits prod.splits)

text \<open>C12. After a successful incremental \<open>setupQP\<close> every dirty flag is cleared, so a
  second call with no mutation in between throws \<open>QP_UNCHANGED\<close>.\<close>

theorem setupQP_twice_unchanged:
  assumes "iter st \<noteq> 0" and "setupQP st = Inr st'"
  shows "setupQP st' = Inl (QP_UNCHANGED, st')"
proof -
  have "\<not> any_flag (QPinfoFlag st')" using setupQP_clears [OF assms] .
  moreover have "iter st' = iter st" using setupQP_iter [OF assms(2)] .
  ultimately show ?thesis using assms(1) by (simp add: setupQP_def)
qed

text \<open>The infeasibility measure is the sum of the constraint violations: it is
  never negative, and it is zero exactly when every constraint value lies within its
  bounds.\<close>

theorem cal_infea_zero_iff:
  assumes "length cl = length c" and "length cu = length c"
  shows "0 \<le> cal_infea c cl cu None
       \<and> (cal_infea c cl cu None = 0 \<longleftrightarrow> (\<forall>i<length c. cl ! i \<le> c ! i \<and> c ! i \<le> cu ! i))"
proof -
  have "0 \<le> cal_infea c cl cu None" by (simp add: cal_infea_None sum_nonneg)
  moreover have "cal_infea c cl cu None = 0 \<longleftrightarrow> (\<forall>i<length c. violation (c ! i) (cl ! i) (cu ! i) = 0)"
    by (auto simp: cal_infea_None sum_nonneg_eq_0_iff)
  ultimately show ?thesis by (simp add: violation_zero_iff)
qed

end
