(* ===== verification/SQP_Penalty.thy ===== *)
theory SQP_Penalty
  imports SQP_Steps
begin

text \<open>
  \<open>Algorithm::update_penalty_parameter\<close> (\<open>src/src/Algorithm.cpp\<close>). When the QP
  solution leaves model infeasibility above \<open>penalty_update_tol\<close>, an LP on the same
  linearisation gives the best achievable infeasibility \<open>infea_measure_infty\<close>; then one
  of two loops raises a trial penalty \<open>rho_trial\<close> geometrically (factor
  \<open>increase_parm\<close>, capped at \<open>rho_max\<close>), re-solving the QP each time:
  \<^item> if the LP reaches feasibility, \<open>penalty_loop_feasible\<close> runs while the model
    infeasibility is above the tolerance. Nothing but \<open>rho_trial >= rho_max\<close> or a QP
    failure stops it, so it is a \<^theory_text>\<open>partial_function (option)\<close>: \<open>None\<close> is a run
    that never returns;
  \<^item> otherwise \<open>penalty_loop_ratio\<close> runs while the model's improvement is below
    \<open>eps1\<close> times the LP's and the cumulative counter \<open>stats_->penalty_change_trial\<close>
    is below \<open>penalty_iter_max\<close>: each pass increments the counter, so it is a total
    \<^theory_text>\<open>function\<close> with that measure.
  The loops' state is the record \<open>pen_loop\<close>: the trial penalty, the model
  infeasibility, the QP handler, the exit flag written on a QP failure, and the counter.
  \<open>penalty_finish\<close> is the code after the loops: accept \<open>rho_trial\<close> when the
  predicted reduction clears \<open>eps2\<close> times the infeasibility improvement, else restore
  the model infeasibility and mark the penalty coefficients dirty.
\<close>

record pen_loop =
  pl_rho_trial :: real
  pl_infea_model :: real
  pl_QP :: qp_handler
  pl_exit :: exitflag
  pl_trials :: nat

text \<open>One pass of either loop body after its guards: raise \<open>rho_trial\<close>, count the
  trial, write the penalty into the QP and re-solve it. \<open>Inl\<close> is the \<open>break\<close> on a
  QP failure (with the exit flag set), \<open>Inr\<close> the state for the next test.\<close>

definition penalty_pass :: "sqp_options \<Rightarrow> qp_oracle \<Rightarrow> pen_loop \<Rightarrow> pen_loop + pen_loop" where
  "penalty_pass opts solver s =
     (let r = min (rho_max opts) (pl_rho_trial s * increase_parm opts);
          q = update_penalty r (pl_QP s);
          s1 = s\<lparr>pl_rho_trial := r, pl_trials := Suc (pl_trials s), pl_QP := q\<rparr>
      in case solveQP solver q of
           Inl (stat, q') \<Rightarrow> Inl (s1\<lparr>pl_QP := q', pl_exit := stat\<rparr>)
         | Inr q' \<Rightarrow> Inr (s1\<lparr>pl_QP := q', pl_infea_model := get_infea_measure_model q'\<rparr>))"

partial_function (option) penalty_loop_feasible ::
    "sqp_options \<Rightarrow> qp_oracle \<Rightarrow> pen_loop \<Rightarrow> pen_loop option" where
  "penalty_loop_feasible opts solver s =
     (if pl_infea_model s > penalty_update_tol opts then
        (if pl_rho_trial s \<ge> rho_max opts then Some s
         else case penalty_pass opts solver s of
                Inl s' \<Rightarrow> Some s'
              | Inr s' \<Rightarrow> penalty_loop_feasible opts solver s')
      else Some s)"

function penalty_loop_ratio ::
    "sqp_options \<Rightarrow> qp_oracle \<Rightarrow> real \<Rightarrow> real \<Rightarrow> real \<Rightarrow> pen_loop \<Rightarrow> pen_loop" where
  "penalty_loop_ratio opts solver infea infty e1 s =
     (if infea - pl_infea_model s < e1 * (infea - infty) \<and> pl_trials s < penalty_iter_max opts then
        (if pl_rho_trial s \<ge> rho_max opts then s
         else case penalty_pass opts solver s of
                Inl s' \<Rightarrow> s'
              | Inr s' \<Rightarrow> penalty_loop_ratio opts solver infea infty e1 s')
      else s)"
  by pat_completeness auto

termination penalty_loop_ratio
  by (relation "measure (\<lambda>(opts, solver, infea, infty, e1, s). penalty_iter_max opts - pl_trials s)")
     (auto simp: penalty_pass_def Let_def split: sum.splits prod.splits)

declare penalty_loop_ratio.simps [simp del]

text \<open>After the loops: accept the trial penalty or restore.\<close>

definition penalty_finish ::
    "sqp_options \<Rightarrow> sqp_env \<Rightarrow> real \<Rightarrow> sqp_state \<Rightarrow> pen_loop \<Rightarrow> sqp_state" where
  "penalty_finish opts env infea_model_tmp st s =
     (let st1 = st\<lparr>myQP := pl_QP s, infea_measure_model := pl_infea_model s, exitflag := pl_exit s,
                   penalty_change_trial := pl_trials s\<rparr>;
          rho_trial = pl_rho_trial s
      in if rho_trial > rho st1 then
           (if rho_trial * infea_measure st1 - get_obj_QP st1
                 \<ge> eps2 opts * rho_trial * (infea_measure st1 - infea_measure_model st1) then
              (let st2 = get_search_direction
                           (st1\<lparr>eps1 := eps1 st1 + (1 - eps1 st1) * eps1_change_parm opts\<rparr>);
                   st3 = get_trial_point_info env (st2\<lparr>rho := rho_trial\<rparr>);
                   st4 = st3\<lparr>qp_obj := get_obj_QP st3\<rparr>
               in st4\<lparr>actual_reduction := (obj_value st4 + rho st4 * infea_measure st4)
                                          - (obj_value_trial st4 + rho st4 * infea_measure_trial st4),
                      pred_reduction := rho st4 * infea_measure st4 - get_obj_QP st4\<rparr>)
            else st1\<lparr>infea_measure_model := infea_model_tmp,
                     QPinfoFlag := (QPinfoFlag st1)\<lparr>Update_penalty := True\<rparr>\<rparr>)
         else st1)"

definition update_penalty_parameter :: "sqp_options \<Rightarrow> sqp_env \<Rightarrow> sqp_state \<Rightarrow> sqp_result option" where
  "update_penalty_parameter opts env st =
     (if \<not> penalty_update opts then Some (Inr st)
      else
        (let st0 = st\<lparr>infea_measure_model := get_infea_measure_model (myQP st)\<rparr>
         in if \<not> infea_measure_model st0 > penalty_update_tol opts then Some (Inr st0)
            else
              (let tmp = infea_measure_model st0;
                   st1 = setupLP st0
               in case solveLP (lp_solver env) (myLP st1) of
                    Inl (stat, lp') \<Rightarrow> Some (Inl (LP_NOT_OPTIMAL, st1\<lparr>myLP := lp', exitflag := stat\<rparr>))
                  | Inr lp' \<Rightarrow>
                      (let st2 = st1\<lparr>myLP := lp'\<rparr>;
                           infty = get_infea_measure_model lp';
                           s0 = \<lparr>pl_rho_trial = rho st2, pl_infea_model = infea_measure_model st2,
                                 pl_QP = myQP st2, pl_exit = exitflag st2,
                                 pl_trials = penalty_change_trial st2\<rparr>;
                           loop = (if infty \<le> penalty_update_tol opts
                                   then penalty_loop_feasible opts (qp_solver env) s0
                                   else Some (penalty_loop_ratio opts (qp_solver env) (infea_measure st2)
                                                infty (eps1 st2) s0))
                       in map_option (\<lambda>s. Inr (penalty_finish opts env tmp st2 s)) loop))))"

text \<open>Runs of either loop: a sequence of passes that continue, ended by a test that
  fails or by a pass that breaks.\<close>

inductive pen_reach :: "sqp_options \<Rightarrow> qp_oracle \<Rightarrow> pen_loop \<Rightarrow> pen_loop \<Rightarrow> bool"
  for opts solver where
  stop: "pen_reach opts solver s s"
| pass: "\<lbrakk>penalty_pass opts solver s = Inr s'; pen_reach opts solver s' r\<rbrakk> \<Longrightarrow> pen_reach opts solver s r"
| break: "penalty_pass opts solver s = Inl r \<Longrightarrow> pen_reach opts solver s r"

subsection \<open>The loops\<close>

lemma penalty_pass_Inr_fields:
  "penalty_pass opts solver s = Inr s' \<Longrightarrow>
     pl_rho_trial s' = min (rho_max opts) (pl_rho_trial s * increase_parm opts) \<and>
     pl_trials s' = Suc (pl_trials s)"
  by (auto simp: penalty_pass_def Let_def split: sum.splits prod.splits)

lemma penalty_pass_Inl_fields:
  "penalty_pass opts solver s = Inl s' \<Longrightarrow>
     pl_rho_trial s' = min (rho_max opts) (pl_rho_trial s * increase_parm opts) \<and>
     pl_trials s' = Suc (pl_trials s)"
  by (auto simp: penalty_pass_def Let_def split: sum.splits prod.splits)

lemmas penalty_pass_fields = penalty_pass_Inr_fields penalty_pass_Inl_fields

lemma penalty_loop_feasible_reach:
  assumes "penalty_loop_feasible opts solver s = Some r"
  shows "pen_reach opts solver s r"
proof (rule penalty_loop_feasible.raw_induct[where P = "\<lambda>opts solver s r. pen_reach opts solver s r", OF _ assms])
  fix loop :: "sqp_options \<Rightarrow> qp_oracle \<Rightarrow> pen_loop \<Rightarrow> pen_loop option" and opts solver s r
  assume IH: "\<And>opts solver s' r. loop opts solver s' = Some r \<Longrightarrow> pen_reach opts solver s' r"
    and body: "(if penalty_update_tol opts < pl_infea_model s
      then if rho_max opts \<le> pl_rho_trial s then Some s
           else case penalty_pass opts solver s of Inl s' \<Rightarrow> Some s'
                | Inr s' \<Rightarrow> loop opts solver s'
      else Some s) = Some r"
  from body show "pen_reach opts solver s r"
    by (auto split: if_splits sum.splits intro: pen_reach.intros pen_reach.pass[OF _ IH])
qed

lemma penalty_loop_ratio_reach:
  "pen_reach opts solver s (penalty_loop_ratio opts solver infea infty e1 s)"
proof (induction opts solver infea infty e1 s rule: penalty_loop_ratio.induct)
  case (1 opts solver infea infty e1 s)
  then show ?case
    by (subst penalty_loop_ratio.simps) (auto split: sum.splits intro: pen_reach.intros)
qed

lemma pen_reach_rho_bound:
  "pen_reach opts solver s r \<Longrightarrow> pl_rho_trial r \<le> max (pl_rho_trial s) (rho_max opts)"
  by (induction rule: pen_reach.induct) (auto dest!: penalty_pass_fields)

lemma pen_reach_trials:
  "pen_reach opts solver s r \<Longrightarrow> pl_trials s \<le> pl_trials r"
  by (induction rule: pen_reach.induct) (auto dest!: penalty_pass_fields)

lemma penalty_rho_step:
  fixes rho rmax inc :: real
  assumes "1 < inc" "0 < rho" "rho < rmax" "rmax \<le> rho * inc ^ Suc k"
  shows "0 < min rmax (rho * inc) \<and> rmax \<le> min rmax (rho * inc) * inc ^ k"
proof -
  have "1 \<le> inc ^ k" using assms(1) by simp
  then have "rmax \<le> rmax * inc ^ k" using assms(2,3) by simp
  moreover have "rmax \<le> rho * inc * inc ^ k" using assms(4) by (simp add: mult.assoc)
  ultimately show ?thesis using assms(1-3) by (simp add: min_def)
qed

lemma penalty_loop_feasible_fuel:
  "\<lbrakk>1 < increase_parm opts; 0 < pl_rho_trial s; rho_max opts \<le> pl_rho_trial s * increase_parm opts ^ k\<rbrakk>
     \<Longrightarrow> \<exists>r. penalty_loop_feasible opts solver s = Some r"
proof (induction k arbitrary: s)
  case 0
  then show ?case by (subst penalty_loop_feasible.simps) simp
next
  case (Suc k)
  show ?case
  proof (cases "penalty_pass opts solver s")
    case (Inr s')
    have "pl_rho_trial s' = min (rho_max opts) (pl_rho_trial s * increase_parm opts)"
      using penalty_pass_Inr_fields[OF Inr] by simp
    then have "rho_max opts \<le> pl_rho_trial s \<or> (\<exists>r. penalty_loop_feasible opts solver s' = Some r)"
      using Suc.IH[of s'] penalty_rho_step[of "increase_parm opts" "pl_rho_trial s" "rho_max opts" k] Suc.prems
      by (cases "rho_max opts \<le> pl_rho_trial s") auto
    then show ?thesis using Inr by (subst penalty_loop_feasible.simps) auto
  qed (subst penalty_loop_feasible.simps, simp)
qed

lemma penalty_loop_feasible_terminates:
  assumes "1 < increase_parm opts" "0 < pl_rho_trial s"
  shows "\<exists>r. penalty_loop_feasible opts solver s = Some r"
proof -
  obtain k where "rho_max opts / pl_rho_trial s < increase_parm opts ^ k"
    using real_arch_pow[OF assms(1)] by blast
  then have "rho_max opts \<le> pl_rho_trial s * increase_parm opts ^ k"
    using assms(2) by (simp add: divide_less_eq mult.commute)
  then show ?thesis using penalty_loop_feasible_fuel assms by blast
qed

lemma penalty_finish_rho:
  "rho st \<le> rho (penalty_finish opts env tmp st s) \<and>
   rho (penalty_finish opts env tmp st s) \<le> max (rho st) (pl_rho_trial s)"
  by (simp add: penalty_finish_def get_trial_point_info_def get_search_direction_def Let_def)

lemma penalty_finish_eps1:
  assumes "0 \<le> eps1_change_parm opts" "eps1_change_parm opts \<le> 1" "eps1 st \<le> 1"
  shows "eps1 st \<le> eps1 (penalty_finish opts env tmp st s) \<and> eps1 (penalty_finish opts env tmp st s) \<le> 1"
proof -
  have "(1 - eps1 st) * eps1_change_parm opts \<le> 1 - eps1 st"
    using assms by (simp add: mult_left_le)
  then show ?thesis using assms
    by (simp add: penalty_finish_def get_trial_point_info_def get_search_direction_def Let_def)
qed

lemma penalty_finish_iter [simp]: "iter (penalty_finish opts env tmp st s) = iter st"
  by (simp add: penalty_finish_def get_trial_point_info_def get_search_direction_def Let_def)

lemma update_penalty_parameter_iter:
  "update_penalty_parameter opts env st = Some r \<Longrightarrow> iter (result_state r) = iter st"
  by (auto simp: update_penalty_parameter_def setupLP_def Let_def result_state_def
           split: if_splits sum.splits prod.splits)

lemma penalty_loops_reach:
  assumes "(if b then penalty_loop_feasible opts solver s0
            else Some (penalty_loop_ratio opts solver infea infty e1 s0)) = Some s"
  shows "pen_reach opts solver s0 s"
  using assms penalty_loop_feasible_reach penalty_loop_ratio_reach by (auto split: if_splits)

lemma update_penalty_parameter_cases:
  assumes "update_penalty_parameter opts env st = Some r"
  obtains (same) "rho (result_state r) = rho st" "eps1 (result_state r) = eps1 st"
        | (finish) tmp st2 s where "result_state r = penalty_finish opts env tmp st2 s"
            "rho st2 = rho st" "eps1 st2 = eps1 st" "pen_reach opts (qp_solver env)
               \<lparr>pl_rho_trial = rho st2, pl_infea_model = infea_measure_model st2,
                pl_QP = myQP st2, pl_exit = exitflag st2, pl_trials = penalty_change_trial st2\<rparr> s"
proof (cases "penalty_update opts \<and> penalty_update_tol opts < get_infea_measure_model (myQP st)")
  case False
  then show ?thesis using assms that(1)
    by (auto simp: update_penalty_parameter_def result_state_def Let_def split: if_splits)
next
  case True
  define st1 where "st1 = setupLP (st\<lparr>infea_measure_model := get_infea_measure_model (myQP st)\<rparr>)"
  have st1: "rho st1 = rho st" "eps1 st1 = eps1 st" by (simp_all add: st1_def setupLP_def)
  show ?thesis
  proof (cases "solveLP (lp_solver env) (myLP st1)")
    case (Inl a)
    then show ?thesis using assms True that(1) st1
      by (auto simp: update_penalty_parameter_def result_state_def st1_def[symmetric] Let_def
               split: prod.splits)
  next
    case (Inr lp')
    define st2 where "st2 = st1\<lparr>myLP := lp'\<rparr>"
    define s0 where "s0 = \<lparr>pl_rho_trial = rho st2, pl_infea_model = infea_measure_model st2,
                pl_QP = myQP st2, pl_exit = exitflag st2, pl_trials = penalty_change_trial st2\<rparr>"
    obtain s where loop: "(if get_infea_measure_model lp' \<le> penalty_update_tol opts
                then penalty_loop_feasible opts (qp_solver env) s0
                else Some (penalty_loop_ratio opts (qp_solver env) (infea_measure st2)
                             (get_infea_measure_model lp') (eps1 st2) s0)) = Some s"
      and r: "r = Inr (penalty_finish opts env (get_infea_measure_model (myQP st)) st2 s)"
      using assms True Inr unfolding s0_def
      by (auto simp: update_penalty_parameter_def st1_def[symmetric] st2_def[symmetric] Let_def)
    show ?thesis
      using that(2)[of "get_infea_measure_model (myQP st)" st2 s] r st1 penalty_loops_reach[OF loop]
      by (simp add: result_state_def st2_def s0_def)
  qed
qed

lemma update_penalty_parameter_rho_bounds:
  assumes "update_penalty_parameter opts env st = Some r"
  shows "rho st \<le> rho (result_state r) \<and> rho (result_state r) \<le> max (rho st) (rho_max opts)"
  using assms
proof (cases rule: update_penalty_parameter_cases)
  case (finish tmp st2 s)
  then show ?thesis
    using penalty_finish_rho[of st2 opts env tmp s] pen_reach_rho_bound[OF finish(4)] by auto
qed simp

lemma update_penalty_parameter_terminates:
  assumes "1 < increase_parm opts" "0 < rho st"
  shows "update_penalty_parameter opts env st \<noteq> None"
  using penalty_loop_feasible_terminates[OF assms(1)] assms(2)
  by (fastforce simp: update_penalty_parameter_def setupLP_def Let_def split: sum.splits prod.splits)

text \<open>C23. update_penalty_parameter moves eps1 towards 1 and never beyond it, when eps1 <= 1 and eps1_change_parm lies in [0, 1].\<close>

theorem update_penalty_parameter_eps1:
  assumes "update_penalty_parameter opts env st = Some r"
    and "0 \<le> eps1_change_parm opts" "eps1_change_parm opts \<le> 1" "eps1 st \<le> 1"
  shows "eps1 st \<le> eps1 (result_state r) \<and> eps1 (result_state r) \<le> 1"
  using assms(1)
proof (cases rule: update_penalty_parameter_cases)
  case (finish tmp st2 s)
  then show ?thesis using penalty_finish_eps1[of opts st2 env tmp s] assms(2-4) by simp
qed (use assms(4) in simp)

lemma penalty_loop_ratio_capped:
  "penalty_iter_max opts \<le> pl_trials s \<Longrightarrow> penalty_loop_ratio opts solver infea infty e1 s = s"
  by (subst penalty_loop_ratio.simps) simp

lemma penalty_finish_unchanged:
  "pl_rho_trial s = rho st \<Longrightarrow>
   penalty_finish opts env tmp st s =
     st\<lparr>myQP := pl_QP s, infea_measure_model := pl_infea_model s, exitflag := pl_exit s,
        penalty_change_trial := pl_trials s\<rparr>"
  by (simp add: penalty_finish_def)

lemma penalty_finish_myLP [simp]: "myLP (penalty_finish opts env tmp st s) = myLP st"
  by (simp add: penalty_finish_def get_trial_point_info_def get_search_direction_def Let_def)

text \<open>C8. The trial counter that caps the second penalty loop is never reset, so once penalty_iter_max trials have been spent in the run, an infeasible LP never leads to a penalty increase again.\<close>

theorem penalty_trial_cap_cumulative:
  assumes "update_penalty_parameter opts env st = Some (Inr st')"
    and "penalty_iter_max opts \<le> penalty_change_trial st"
    and "penalty_update_tol opts < get_infea_measure_model (myLP st')"
  shows "rho st' = rho st \<and> penalty_change_trial st' = penalty_change_trial st"
  using assms
  by (auto simp: update_penalty_parameter_def setupLP_def Let_def penalty_loop_ratio_capped
                 penalty_finish_unchanged split: if_splits sum.splits prod.splits)

lemma penalty_finish_lp_solver [simp]:
  "penalty_finish opts (env\<lparr>lp_solver := l\<rparr>) tmp st s = penalty_finish opts env tmp st s"
  by (simp add: penalty_finish_def get_trial_point_info_def Let_def)

text \<open>C18. The first LP of a run is read before its solution is copied: when the LP
  handler has not solved an LP before, Algorithm::update_penalty_parameter gives the same
  result whatever primal and dual solution the LP solver returns, so the model
  infeasibility it compares with the tolerance is computed from the handler's old
  solution vector, not from the LP's.\<close>

theorem update_penalty_first_LP_ignored:
  assumes "\<not> firstQPsolved (iface (myLP st))"
  shows "update_penalty_parameter opts (env\<lparr>lp_solver := \<lambda>ifc. QpOptimal x y obj\<rparr>) st
         = update_penalty_parameter opts (env\<lparr>lp_solver := \<lambda>ifc. QpOptimal x' y' obj\<rparr>) st"
proof -
  have "\<not> firstQPsolved (iface (myLP (setupLP (st\<lparr>infea_measure_model := v\<rparr>))))" for v
    using assms by (simp add: setupLP_def)
  then show ?thesis
    by (simp add: update_penalty_parameter_def Let_def solveLP_first)
qed

end
