(* ===== verification/SQP_Optimality.thy ===== *)
theory SQP_Optimality
  imports SQP_Steps
begin

text \<open>
  \<open>Algorithm::check_optimality\<close> (\<open>src/src/Algorithm.cpp\<close>): refresh the multipliers,
  recompute the bound activity, and evaluate the four KKT violations of spec \<section>4.6
  (primal, dual sign, complementarity, stationarity). The point is declared
  \<open>OPTIMAL\<close> when each is below its own tolerance.

  The loop that recomputes the constraint activity \<open>W_constr_\<close> is the body of an
  unbraced \<open>if (multiplier_vars_ == nullptr)\<close>; the model keeps that guard on the field
  \<open>multiplier_vars_null\<close> of the state. \<open>allocate_memory\<close> allocates
  \<open>multiplier_vars_\<close> and no member resets it, so over a run the loop never executes
  (theory \<open>SQP_Frame\<close>). The primal violation is \<open>infea_measure_\<close>, the constraint infeasibility of the
  current iterate.
\<close>

text \<open>The contribution of one entry to the dual violation (wrong-signed multiplier) and
  to the complementarity violation (multiplier times slack).\<close>

definition dual_term :: "constraint_type \<Rightarrow> real \<Rightarrow> real" where
  "dual_term ct y =
     (if ct = BOUNDED_ABOVE then max y 0
      else if ct = BOUNDED_BELOW then - min y 0
      else 0)"

definition compl_term :: "constraint_type \<Rightarrow> real \<Rightarrow> real \<Rightarrow> real \<Rightarrow> real \<Rightarrow> real" where
  "compl_term ct y l u v =
     (if ct = BOUNDED_ABOVE then \<bar>y * (u - v)\<bar>
      else if ct = BOUNDED_BELOW then \<bar>y * (v - l)\<bar>
      else if ct = UNBOUNDED then \<bar>y\<bar>
      else 0)"

text \<open>The two \<open>while\<close> loops accumulating the dual violation (bounds, then
  constraints) and the two accumulating the complementarity violation (constraints,
  then bounds), in the code's order.\<close>

definition dual_violation_of :: "sqp_state \<Rightarrow> real" where
  "dual_violation_of st =
     for_upto (length (c_k st)) (\<lambda>i acc. acc + dual_term (cons_type st ! i) (multiplier_cons st ! i))
       (for_upto (length (x_k st))
          (\<lambda>i acc. acc + dual_term (bound_cons_type st ! i) (multiplier_vars st ! i)) 0)"

definition compl_violation_of :: "sqp_state \<Rightarrow> real" where
  "compl_violation_of st =
     for_upto (length (x_k st))
       (\<lambda>i acc. acc + compl_term (bound_cons_type st ! i) (multiplier_vars st ! i)
                                 (x_l st ! i) (x_u st ! i) (x_k st ! i))
       (for_upto (length (c_k st))
          (\<lambda>i acc. acc + compl_term (cons_type st ! i) (multiplier_cons st ! i)
                                    (c_l st ! i) (c_u st ! i) (c_k st ! i)) 0)"

text \<open>The stationarity gap \<open>J^T y + lambda - grad f\<close>, built in a zero vector as the code
  does: \<open>transposed_times\<close>, then \<open>add_vector\<close>, then \<open>subtract_vector\<close>.\<close>

definition stationarity_gap :: "sqp_state \<Rightarrow> vec" where
  "stationarity_gap st =
     subtract_vector (grad_f st)
       (add_vector (multiplier_vars st) (sp_transposed_times (jacobian st) (multiplier_cons st)))"

definition check_optimality :: "sqp_options \<Rightarrow> sqp_state \<Rightarrow> sqp_state" where
  "check_optimality opts st =
     (let st1 = get_multipliers opts st;
          Wb = identify_active_bounds (active_set_tol opts) (bound_cons_type st1)
                 (x_l st1) (x_u st1) (x_k st1) (W_bounds st1);
          primal = 0 + infea_measure st1;
          dual = dual_violation_of st1;
          compl = compl_violation_of st1;
          stat = getOneNorm (stationarity_gap st1);
          os = (opt_status st1)\<lparr>dual_violation := dual, primal_violation := primal,
                  compl_violation := compl, stationarity_violation := stat,
                  KKT_error := dual + primal + compl + stat,
                  primal_feasibility := primal < opt_prim_fea_tol opts,
                  dual_feasibility := dual < opt_dual_fea_tol opts,
                  complementarity := compl < opt_compl_tol opts,
                  stationarity := stat < opt_stat_tol opts\<rparr>;
          Wc = (if multiplier_vars_null st1
                then identify_active_constraints (active_set_tol opts) (cons_type st1)
                       (c_l st1) (c_u st1) (c_k st1) (W_constr st1)
                else W_constr st1);
          st2 = st1\<lparr>W_constr := Wc, W_bounds := Wb\<rparr>
      in if primal_feasibility os \<and> dual_feasibility os \<and> complementarity os \<and> stationarity os
         then st2\<lparr>opt_status := os\<lparr>first_order_opt := True\<rparr>, exitflag := OPTIMAL\<rparr>
         else st2\<lparr>opt_status := os\<rparr>)"

text \<open>The first-order conditions one entry must meet for its terms to vanish: the
  multiplier of an upper bound is non-positive and vanishes off the bound, that of a lower
  bound is non-negative and vanishes off the bound, an unbounded entry has none.\<close>

definition kkt_entry :: "constraint_type \<Rightarrow> real \<Rightarrow> real \<Rightarrow> real \<Rightarrow> real \<Rightarrow> bool" where
  "kkt_entry ct y l u v =
     (case ct of
        BOUNDED_ABOVE \<Rightarrow> y \<le> 0 \<and> (y = 0 \<or> v = u)
      | BOUNDED_BELOW \<Rightarrow> 0 \<le> y \<and> (y = 0 \<or> v = l)
      | EQUAL \<Rightarrow> True
      | UNBOUNDED \<Rightarrow> y = 0)"

subsection \<open>The violation terms\<close>

lemma dual_term_nonneg [simp]: "0 \<le> dual_term ct y"
  by (simp add: dual_term_def)

lemma compl_term_nonneg [simp]: "0 \<le> compl_term ct y l u v"
  by (simp add: compl_term_def)

lemma kkt_entry_terms:
  "kkt_entry ct y l u v \<Longrightarrow> dual_term ct y = 0 \<and> compl_term ct y l u v = 0"
  by (cases ct) (auto simp: kkt_entry_def dual_term_def compl_term_def)

lemma dual_violation_of_sum:
  "dual_violation_of st =
     (\<Sum>i<length (x_k st). dual_term (bound_cons_type st ! i) (multiplier_vars st ! i))
     + (\<Sum>i<length (c_k st). dual_term (cons_type st ! i) (multiplier_cons st ! i))"
  by (simp add: dual_violation_of_def for_upto_sum)

lemma compl_violation_of_sum:
  "compl_violation_of st =
     (\<Sum>i<length (c_k st). compl_term (cons_type st ! i) (multiplier_cons st ! i)
                                (c_l st ! i) (c_u st ! i) (c_k st ! i))
     + (\<Sum>i<length (x_k st). compl_term (bound_cons_type st ! i) (multiplier_vars st ! i)
                                (x_l st ! i) (x_u st ! i) (x_k st ! i))"
  by (simp add: compl_violation_of_def for_upto_sum)

lemma dual_violation_of_nonneg [simp]: "0 \<le> dual_violation_of st"
  by (simp add: dual_violation_of_sum sum_nonneg)

lemma compl_violation_of_nonneg [simp]: "0 \<le> compl_violation_of st"
  by (simp add: compl_violation_of_sum sum_nonneg)

lemma sum_zero_kkt:
  assumes "\<forall>i<n. kkt_entry (ts ! i) (ys ! i) (ls ! i) (us ! i) (vs ! i)"
  shows "(\<Sum>i<n. dual_term (ts ! i) (ys ! i)) = 0"
    and "(\<Sum>i<n. compl_term (ts ! i) (ys ! i) (ls ! i) (us ! i) (vs ! i)) = 0"
  using assms by (auto intro!: sum.neutral dest: kkt_entry_terms)

lemma check_optimality_fields:
  "iter (check_optimality opts st) = iter st" "rho (check_optimality opts st) = rho st"
  "infea_measure (check_optimality opts st) = infea_measure st"
  "primal_violation (opt_status (check_optimality opts st)) = infea_measure st"
  "dual_violation (opt_status (check_optimality opts st)) = dual_violation_of (get_multipliers opts st)"
  "compl_violation (opt_status (check_optimality opts st)) = compl_violation_of (get_multipliers opts st)"
  "stationarity_violation (opt_status (check_optimality opts st))
     = getOneNorm (stationarity_gap (get_multipliers opts st))"
  by (simp_all add: check_optimality_def Let_def)

subsection \<open>Properties\<close>

text \<open>C7. check_optimality declares OPTIMAL exactly when the primal, dual, complementarity and stationarity violations are each below their own tolerance, and otherwise leaves the exit flag as it was.\<close>

theorem check_optimality_decision:
  "exitflag (check_optimality opts st) =
     (if infea_measure st < opt_prim_fea_tol opts
         \<and> dual_violation_of (get_multipliers opts st) < opt_dual_fea_tol opts
         \<and> compl_violation_of (get_multipliers opts st) < opt_compl_tol opts
         \<and> getOneNorm (stationarity_gap (get_multipliers opts st)) < opt_stat_tol opts
      then OPTIMAL else exitflag st)"
  by (simp add: check_optimality_def Let_def)

text \<open>C6. At a feasible point whose multipliers have the right signs, vanish off their bounds and make the stationarity gap zero, check_optimality computes a KKT error of zero and declares OPTIMAL (for positive tolerances).\<close>

theorem check_optimality_kkt_point:
  assumes "infea_measure st = 0"
    and "\<forall>i<length (x_k st). kkt_entry (bound_cons_type st ! i) (multiplier_vars (get_multipliers opts st) ! i)
                                (x_l st ! i) (x_u st ! i) (x_k st ! i)"
    and "\<forall>i<length (c_k st). kkt_entry (cons_type st ! i) (multiplier_cons (get_multipliers opts st) ! i)
                                (c_l st ! i) (c_u st ! i) (c_k st ! i)"
    and "\<forall>i<length (stationarity_gap (get_multipliers opts st)). stationarity_gap (get_multipliers opts st) ! i = 0"
    and "0 < opt_prim_fea_tol opts" "0 < opt_dual_fea_tol opts" "0 < opt_compl_tol opts" "0 < opt_stat_tol opts"
  shows "KKT_error (opt_status (check_optimality opts st)) = 0 \<and> exitflag (check_optimality opts st) = OPTIMAL"
proof -
  let ?st1 = "get_multipliers opts st"
  have d: "dual_violation_of ?st1 = 0" and c: "compl_violation_of ?st1 = 0"
    using sum_zero_kkt[OF assms(2)] sum_zero_kkt[OF assms(3)]
    by (simp_all add: dual_violation_of_sum compl_violation_of_sum)
  have s: "getOneNorm (stationarity_gap ?st1) = 0"
    using assms(4) getOneNorm_zero_iff by blast
  show ?thesis using d c s assms(1,5-8) by (simp add: check_optimality_def Let_def)
qed

text \<open>C24. The aggregate KKT error computed by check_optimality is never negative when the stored infeasibility is not.\<close>

theorem check_optimality_KKT_error_nonneg:
  "0 \<le> infea_measure st \<Longrightarrow> 0 \<le> KKT_error (opt_status (check_optimality opts st))"
  by (simp add: check_optimality_def Let_def)

lemma check_optimality_W_constr:
  "W_constr (check_optimality opts st)
     = (if multiplier_vars_null st
        then identify_active_constraints (active_set_tol opts) (cons_type st) (c_l st) (c_u st) (c_k st) (W_constr st)
        else W_constr st)"
  "multiplier_vars_null (check_optimality opts st) = multiplier_vars_null st"
  by (simp_all add: check_optimality_def get_multipliers_def Let_def)

end
