(* ===== verification/SQP_Driver.thy ===== *)
theory SQP_Driver
  imports SQP_Penalty SQP_Optimality
begin

text \<open>
  The outer loop \<open>Algorithm::Optimize\<close> and \<open>Algorithm::second_order_correction\<close>
  (\<open>src/src/Algorithm.cpp\<close>). One pass of the \<open>while\<close> body is \<open>optimize_body\<close>; its
  outcome is \<open>Next\<close> (loop again), \<open>Stop\<close> (a \<open>break\<close>) or \<open>Raise\<close> (an exception that
  no \<open>catch\<close> of \<open>Optimize\<close> handles and that leaves the function), inside \<open>option\<close>,
  where \<open>None\<close> is a penalty loop that never returns. The loop runs while
  \<open>iter < iter_max\<close> and the exit flag is \<open>UNKNOWN\<close>; each \<open>Next\<close> increments
  \<open>iter\<close>, so \<open>optimize_loop\<close> is a total \<^theory_text>\<open>function\<close> with measure
  \<open>iter_max - iter\<close>. After the loop, \<open>Optimize\<close> sets \<open>EXCEED_MAX_ITER\<close> whenever
  \<open>iter = iter_max\<close>, whatever the loop decided.
\<close>

datatype iter_result = Next sqp_state | Stop sqp_state | Raise sqp_exception sqp_state

text \<open>Second-order correction: after a rejected step, solve a QP with gradient
  \<open>H p + g\<close> and bounds at the trial point, add its step to \<open>p_k\<close>, and re-run the ratio
  test; on a second rejection restore the step, its norm, the QP objective and the QP's
  gradient and bounds. A QP failure sets the exit flag and throws \<open>QP_NOT_OPTIMAL\<close>.\<close>

definition second_order_correction :: "sqp_options \<Rightarrow> sqp_env \<Rightarrow> sqp_state \<Rightarrow> sqp_result" where
  "second_order_correction opts env st =
     (if \<not> isaccept st \<and> SQP_State.second_order_correction opts then
        (let nV = length (x_k st); nC = length (c_k st);
             st0 = st\<lparr>isaccept := False\<rparr>;
             p_k_tmp = copy_vector (p_k st0) (replicate nV 0);
             norm_p_k_tmp = norm_p_k st0;
             qp_obj_tmp = qp_obj st0;
             Hp = add_vector (grad_f st0) (sp_times (hessian st0) (p_k st0));
             q1 = update_bounds (delta st0) (x_l st0) (x_u st0) (x_trial st0) (c_l st0) (c_u st0)
                    (c_trial st0) (update_grad Hp (myQP st0));
             st1 = st0\<lparr>myQP := q1, norm_p_k := getInfNorm (p_k st0)\<rparr>
         in case solveQP (qp_solver env) q1 of
              Inl (stat, q') \<Rightarrow> Inl (QP_NOT_OPTIMAL, st1\<lparr>myQP := q', exitflag := stat\<rparr>)
            | Inr q' \<Rightarrow>
                (let st2 = st1\<lparr>myQP := q'\<rparr>;
                     tmp_sol = copy_vector (get_optimal_solution q') (replicate (nV + 2 * nC) 0);
                     s_k = copy_vector tmp_sol (replicate nV 0);
                     st3 = st2\<lparr>qp_obj := get_obj_QP st2 + (qp_obj_tmp - rho st2 * infea_measure_model st2)\<rparr>;
                     st4 = st3\<lparr>p_k := add_vector s_k (p_k st3)\<rparr>;
                     st5 = ratio_test opts env (get_trial_point_info env st4)
                 in if \<not> isaccept st5 then
                      Inr (st5\<lparr>p_k := copy_vector p_k_tmp (p_k st5), qp_obj := qp_obj_tmp,
                               norm_p_k := norm_p_k_tmp,
                               myQP := update_bounds (delta st5) (x_l st5) (x_u st5) (x_k st5) (c_l st5)
                                         (c_u st5) (c_k st5) (update_grad (grad_f st5) (myQP st5))\<rparr>)
                    else Inr st5))
      else Inr st)"

text \<open>The body of the \<open>while\<close> loop of \<open>Optimize\<close> in three segments. The last
  increments \<open>iter\<close>, checks optimality and updates the radius (a \<open>SMALL_TRUST_REGION\<close>
  is caught: one more optimality check, then \<open>break\<close>), then tests the wall-clock
  budget through the environment's predicate at the new iteration count.\<close>

definition optimize_tail :: "sqp_options \<Rightarrow> sqp_env \<Rightarrow> sqp_state \<Rightarrow> iter_result" where
  "optimize_tail opts env st =
     (let st7 = check_optimality opts (st\<lparr>iter := Suc (iter st)\<rparr>)
      in if exitflag st7 \<noteq> UNKNOWN then Stop st7
         else case update_radius opts st7 of
                Inl (e, st8) \<Rightarrow> Stop (check_optimality opts st8)
              | Inr st8 \<Rightarrow>
                  if time_exceeded env (iter st8)
                  then Stop (st8\<lparr>exitflag := EXCEED_TIME_LIMITS\<rparr>)
                  else Next st8)"

text \<open>The middle segment, after a successful QP solve: take the step, update the
  penalty, evaluate the trial point, run the ratio test and the second-order
  correction. Their exceptions are not caught by \<open>Optimize\<close>.\<close>

definition optimize_step :: "sqp_options \<Rightarrow> sqp_env \<Rightarrow> sqp_state \<Rightarrow> iter_result option" where
  "optimize_step opts env st1 =
     (let st2 = get_search_direction st1;
          st3 = st2\<lparr>qp_obj := get_obj_QP st2\<rparr>
      in case update_penalty_parameter opts env st3 of
           None \<Rightarrow> None
         | Some (Inl (e, st4)) \<Rightarrow> Some (Raise e st4)
         | Some (Inr st4) \<Rightarrow>
             (let st5 = ratio_test opts env
                          (get_trial_point_info env (st4\<lparr>norm_p_k := getInfNorm (p_k st4)\<rparr>))
              in case second_order_correction opts env st5 of
                   Inl (e, st6) \<Rightarrow> Some (Raise e st6)
                 | Inr st6 \<Rightarrow> Some (optimize_tail opts env st6)))"

text \<open>The first segment: set up the QP (its \<open>QP_UNCHANGED\<close> is not caught) and solve it
  (a failure sets the exit flag from the QP status and breaks).\<close>

definition optimize_body :: "sqp_options \<Rightarrow> sqp_env \<Rightarrow> sqp_state \<Rightarrow> iter_result option" where
  "optimize_body opts env st =
     (case setupQP st of
        Inl (e, st') \<Rightarrow> Some (Raise e st')
      | Inr st1 \<Rightarrow>
          (case solveQP (qp_solver env) (myQP st1) of
             Inl (stat, q) \<Rightarrow> Some (Stop (st1\<lparr>myQP := q, exitflag := stat\<rparr>))
           | Inr q \<Rightarrow> optimize_step opts env (st1\<lparr>myQP := q\<rparr>)))"

text \<open>The state an outcome carries.\<close>

definition ir_state :: "iter_result \<Rightarrow> sqp_state" where
  "ir_state r = (case r of Next st \<Rightarrow> st | Stop st \<Rightarrow> st | Raise e st \<Rightarrow> st)"

subsection \<open>Frame lemmas\<close>

lemma second_order_correction_frame:
  "iter (result_state (second_order_correction opts env st)) = iter st \<and>
   rho (result_state (second_order_correction opts env st)) = rho st"
  by (simp add: second_order_correction_def result_state_def get_trial_point_info_def Let_def
         split: sum.splits prod.splits)

lemma check_optimality_exitflag:
  "exitflag (check_optimality opts st) = OPTIMAL \<or> exitflag (check_optimality opts st) = exitflag st"
  by (simp add: check_optimality_def Let_def)

lemma update_radius_Inl:
  "update_radius opts st = Inl (e, st') \<Longrightarrow>
     exitflag st' = TRUST_REGION_TOO_SMALL \<and> rho st' = rho st \<and> iter st' = iter st"
  by (auto simp: update_radius_def Let_def split: if_splits)

lemma optimize_tail_outcome:
  "rho (ir_state (optimize_tail opts env st)) = rho st \<and>
   iter (ir_state (optimize_tail opts env st)) = Suc (iter st) \<and>
   (\<forall>st'. optimize_tail opts env st = Next st' \<longrightarrow> exitflag st' = UNKNOWN) \<and>
   (\<forall>st'. optimize_tail opts env st = Stop st' \<longrightarrow> exitflag st' \<noteq> UNKNOWN) \<and>
   (\<forall>e st'. optimize_tail opts env st \<noteq> Raise e st')"
proof -
  let ?st7 = "check_optimality opts (st\<lparr>iter := Suc (iter st)\<rparr>)"
  have st7: "rho ?st7 = rho st" "iter ?st7 = Suc (iter st)" by (simp_all add: check_optimality_fields)
  show ?thesis
  proof (cases "exitflag ?st7 = UNKNOWN")
    case False
    then show ?thesis using st7 by (simp add: optimize_tail_def ir_state_def)
  next
    case True
    show ?thesis
    proof (cases "update_radius opts ?st7")
      case (Inl a)
      obtain e st8 where a: "a = (e, st8)" by fastforce
      have "exitflag (check_optimality opts st8) \<noteq> UNKNOWN"
        using check_optimality_exitflag[of opts st8] update_radius_Inl[of opts ?st7 e st8] Inl a by auto
      then show ?thesis using True Inl a st7 update_radius_Inl[of opts ?st7 e st8]
        by (simp add: optimize_tail_def ir_state_def check_optimality_fields)
    next
      case (Inr st8)
      then show ?thesis using True st7 update_radius_frame[OF Inr]
        by (simp add: optimize_tail_def ir_state_def)
    qed
  qed
qed

lemma optimize_step_outcome:
  assumes "optimize_step opts env st = Some r"
  shows "rho st \<le> rho (ir_state r) \<and> rho (ir_state r) \<le> max (rho st) (rho_max opts) \<and>
         iter st \<le> iter (ir_state r) \<and> iter (ir_state r) \<le> Suc (iter st) \<and>
         (\<forall>st'. r = Next st' \<longrightarrow> iter st' = Suc (iter st) \<and> exitflag st' = UNKNOWN) \<and>
         (\<forall>st'. r = Stop st' \<longrightarrow> exitflag st' \<noteq> UNKNOWN)"
proof -
  let ?st3 = "(get_search_direction st)\<lparr>qp_obj := get_obj_QP (get_search_direction st)\<rparr>"
  obtain r4 where r4: "update_penalty_parameter opts env ?st3 = Some r4"
    using assms by (cases "update_penalty_parameter opts env ?st3") (simp_all add: optimize_step_def)
  have st3: "rho ?st3 = rho st" "iter ?st3 = iter st" by (simp_all add: get_search_direction_def)
  have b4: "rho st \<le> rho (result_state r4) \<and> rho (result_state r4) \<le> max (rho st) (rho_max opts)"
    "iter (result_state r4) = iter st"
    using update_penalty_parameter_rho_bounds[OF r4] update_penalty_parameter_iter[OF r4] st3 by simp_all
  show ?thesis
  proof (cases r4)
    case (Inl a)
    then show ?thesis using assms r4 b4 
      by (auto simp: optimize_step_def ir_state_def result_state_def split: prod.splits)
  next
    case (Inr st4)
    let ?st5 = "ratio_test opts env (get_trial_point_info env (st4\<lparr>norm_p_k := getInfNorm (p_k st4)\<rparr>))"
    have st5: "rho ?st5 = rho st4" "iter ?st5 = iter st4" by simp_all
    have soc: "rho (result_state (second_order_correction opts env ?st5)) = rho st4"
              "iter (result_state (second_order_correction opts env ?st5)) = iter st4"
      using second_order_correction_frame[of opts env ?st5] st5 by simp_all
    show ?thesis
    proof (cases "second_order_correction opts env ?st5")
      case (Inl a)
      then show ?thesis using assms r4 Inr b4 soc
        by (auto simp: optimize_step_def ir_state_def result_state_def split: prod.splits)
    next
      case (Inr st6)
      have "r = optimize_tail opts env st6"
        using assms r4 \<open>r4 = Inr st4\<close> Inr by (simp add: optimize_step_def)
      then show ?thesis using optimize_tail_outcome[of opts env st6] b4 soc Inr \<open>r4 = Inr st4\<close>
        by (auto simp: result_state_def ir_state_def)
    qed
  qed
qed

lemma optimize_body_outcome:
  assumes "optimize_body opts env st = Some r"
  shows "rho st \<le> rho (ir_state r) \<and> rho (ir_state r) \<le> max (rho st) (rho_max opts) \<and>
         iter st \<le> iter (ir_state r) \<and> iter (ir_state r) \<le> Suc (iter st) \<and>
         (\<forall>st'. r = Next st' \<longrightarrow> iter st' = Suc (iter st) \<and> exitflag st' = UNKNOWN) \<and>
         (\<forall>st'. r = Stop st' \<longrightarrow> exitflag st' \<noteq> UNKNOWN \<or> (\<exists>ifc. qp_solver env ifc = QpFail (exitflag st')))"
proof (cases "setupQP st")
  case (Inl a)
  then show ?thesis using assms(1) setupQP_Inl[of st]
    by (auto simp: optimize_body_def ir_state_def split: prod.splits)
next
  case (Inr st1)
  note s1 = Inr
  have st1: "rho st1 = rho st" "iter st1 = iter st"
    using arg_cong[where f = rho, OF setupQP_frame[OF s1]] setupQP_iter[OF s1] by simp_all
  show ?thesis
  proof (cases "solveQP (qp_solver env) (myQP st1)")
    case (Inl a)
    obtain stat q where a: "a = (stat, q)" by fastforce
    have "qp_solver env (iface (myQP st1)) = QpFail stat" using Inl a
      by (auto simp: solveQP_def split: qp_result.splits)
    then show ?thesis using assms(1) s1 Inl a st1 by (auto simp: optimize_body_def ir_state_def)
  next
    case (Inr q)
    then have "optimize_step opts env (st1\<lparr>myQP := q\<rparr>) = Some r"
      using assms(1) s1 by (simp add: optimize_body_def)
    from optimize_step_outcome[OF this] show ?thesis using st1 by simp
  qed
qed

lemma optimize_body_terminates:
  assumes "1 < increase_parm opts" "0 < rho st"
  shows "optimize_body opts env st \<noteq> None"
proof (cases "setupQP st")
  case (Inr st1)
  note s1 = Inr
  have "rho st1 = rho st" using arg_cong[where f = rho, OF setupQP_frame[OF s1]] by simp
  show ?thesis
  proof (cases "solveQP (qp_solver env) (myQP st1)")
    case (Inr q)
    let ?st2 = "get_search_direction (st1\<lparr>myQP := q\<rparr>)"
    have "update_penalty_parameter opts env (?st2\<lparr>qp_obj := get_obj_QP ?st2\<rparr>) \<noteq> None"
      using update_penalty_parameter_terminates assms \<open>rho st1 = rho st\<close>
      by (simp add: get_search_direction_def)
    then show ?thesis using s1 Inr
      by (auto simp: optimize_body_def optimize_step_def Let_def split: option.splits sum.splits prod.splits)
  qed (use s1 in \<open>auto simp: optimize_body_def\<close>)
qed (auto simp: optimize_body_def)

end
