(* ===== verification/SQP_Optimize.thy ===== *)
theory SQP_Optimize
  imports SQP_Driver
begin

text \<open>
  \<open>Algorithm::Optimize\<close> (\<open>src/src/Algorithm.cpp\<close>): the \<open>while\<close> loop over
  \<open>optimize_body\<close> and the code after it. The loop is a total \<^theory_text>\<open>function\<close>: it runs
  while \<open>iter < iter_max\<close> and the exit flag is \<open>UNKNOWN\<close>, and every pass that loops
  again has incremented \<open>iter\<close>. An exception leaves \<open>Optimize\<close> at once; otherwise the
  code after the loop sets \<open>EXCEED_MAX_ITER\<close> when \<open>iter = iter_max\<close>.
  \<open>sqp_reach\<close> is the step relation of the iteration state machine: the states the loop
  passes through between two tests of its guard.
\<close>

function optimize_loop :: "sqp_options \<Rightarrow> sqp_env \<Rightarrow> sqp_state \<Rightarrow> sqp_result option" where
  "optimize_loop opts env st =
     (if iter st < iter_max opts \<and> exitflag st = UNKNOWN then
        (case optimize_body opts env st of
           None \<Rightarrow> None
         | Some (Raise e st') \<Rightarrow> Some (Inl (e, st'))
         | Some (Stop st') \<Rightarrow> Some (Inr st')
         | Some (Next st') \<Rightarrow> optimize_loop opts env st')
      else Some (Inr st))"
  by pat_completeness auto

termination optimize_loop
  by (relation "measure (\<lambda>(opts, env, st). iter_max opts - iter st)")
     (auto dest!: optimize_body_outcome simp: ir_state_def)

declare optimize_loop.simps [simp del]

definition Optimize :: "sqp_options \<Rightarrow> sqp_env \<Rightarrow> sqp_state \<Rightarrow> sqp_result option" where
  "Optimize opts env st =
     map_option
       (\<lambda>r. case r of
              Inl x \<Rightarrow> Inl x
            | Inr st' \<Rightarrow> Inr (if iter st' = iter_max opts then st'\<lparr>exitflag := EXCEED_MAX_ITER\<rparr> else st'))
       (optimize_loop opts env st)"

inductive sqp_reach :: "sqp_options \<Rightarrow> sqp_env \<Rightarrow> sqp_state \<Rightarrow> sqp_state \<Rightarrow> bool"
  for opts env where
  start: "sqp_reach opts env st st"
| iterate: "\<lbrakk>sqp_reach opts env st0 st; iter st < iter_max opts; exitflag st = UNKNOWN;
             optimize_body opts env st = Some (Next st')\<rbrakk> \<Longrightarrow> sqp_reach opts env st0 st'"

subsection \<open>The loop\<close>

lemma optimize_loop_unfold:
  "iter st < iter_max opts \<Longrightarrow> exitflag st = UNKNOWN \<Longrightarrow>
   optimize_loop opts env st =
     (case optimize_body opts env st of
        None \<Rightarrow> None
      | Some (Raise e st') \<Rightarrow> Some (Inl (e, st'))
      | Some (Stop st') \<Rightarrow> Some (Inr st')
      | Some (Next st') \<Rightarrow> optimize_loop opts env st')"
  by (simp add: optimize_loop.simps)

lemma optimize_loop_exit:
  "\<not> (iter st < iter_max opts \<and> exitflag st = UNKNOWN) \<Longrightarrow> optimize_loop opts env st = Some (Inr st)"
  by (subst optimize_loop.simps) auto

lemma optimize_loop_terminates:
  "1 < increase_parm opts \<Longrightarrow> 0 < rho st \<Longrightarrow> optimize_loop opts env st \<noteq> None"
proof (induction opts env st rule: optimize_loop.induct)
  case (1 opts env st)
  show ?case
  proof (cases "iter st < iter_max opts \<and> exitflag st = UNKNOWN")
    case True
    obtain r where r: "optimize_body opts env st = Some r"
      using optimize_body_terminates[OF "1.prems"] by blast
    have "rho st \<le> rho (ir_state r)" using optimize_body_outcome[OF r] by simp
    then show ?thesis using True r "1.IH"[OF True, of r] "1.prems"
      by (cases r) (simp_all add: optimize_loop_unfold ir_state_def)
  qed (simp add: optimize_loop_exit)
qed

lemma optimize_loop_rho:
  "optimize_loop opts env st = Some r \<Longrightarrow>
     rho st \<le> rho (result_state r) \<and> rho (result_state r) \<le> max (rho st) (rho_max opts)"
proof (induction opts env st arbitrary: r rule: optimize_loop.induct)
  case (1 opts env st)
  show ?case
  proof (cases "iter st < iter_max opts \<and> exitflag st = UNKNOWN")
    case True
    then obtain b where b: "optimize_body opts env st = Some b"
      using "1.prems" by (cases "optimize_body opts env st") (simp_all add: optimize_loop_unfold)
    note o = optimize_body_outcome[OF b]
    show ?thesis
    proof (cases b)
      case (Next st')
      have "rho st' \<le> rho (result_state r) \<and> rho (result_state r) \<le> max (rho st') (rho_max opts)"
        using "1.IH"[OF True b[unfolded Next]] "1.prems" True b Next by (simp add: optimize_loop_unfold)
      then show ?thesis using o Next by (auto simp: ir_state_def)
    qed (use o b True "1.prems" in \<open>auto simp: optimize_loop_unfold ir_state_def result_state_def\<close>)
  qed (use "1.prems" in \<open>auto simp: optimize_loop_exit result_state_def\<close>)
qed

lemma optimize_loop_exitflag:
  "optimize_loop opts env st = Some (Inr st') \<Longrightarrow> iter st \<le> iter_max opts \<Longrightarrow>
     exitflag st' \<noteq> UNKNOWN \<or> iter st' = iter_max opts \<or> (\<exists>ifc. qp_solver env ifc = QpFail (exitflag st'))"
proof (induction opts env st rule: optimize_loop.induct)
  case (1 opts env st)
  show ?case
  proof (cases "iter st < iter_max opts \<and> exitflag st = UNKNOWN")
    case True
    then obtain b where b: "optimize_body opts env st = Some b"
      using "1.prems" by (cases "optimize_body opts env st") (simp_all add: optimize_loop_unfold)
    note o = optimize_body_outcome[OF b]
    show ?thesis
    proof (cases b)
      case (Next st'')
      then show ?thesis using "1.IH"[OF True b[unfolded Next]] "1.prems" True b o
        by (simp add: optimize_loop_unfold)
    qed (use o b True "1.prems" in \<open>auto simp: optimize_loop_unfold\<close>)
  qed (use "1.prems" in \<open>auto simp: optimize_loop_exit\<close>)
qed

lemma optimize_loop_iter:
  "optimize_loop opts env st = Some r \<Longrightarrow> iter st \<le> iter_max opts \<Longrightarrow>
     iter st \<le> iter (result_state r) \<and> iter (result_state r) \<le> iter_max opts"
proof (induction opts env st arbitrary: r rule: optimize_loop.induct)
  case (1 opts env st)
  show ?case
  proof (cases "iter st < iter_max opts \<and> exitflag st = UNKNOWN")
    case True
    then obtain b where b: "optimize_body opts env st = Some b"
      using "1.prems" by (cases "optimize_body opts env st") (simp_all add: optimize_loop_unfold)
    note o = optimize_body_outcome[OF b]
    show ?thesis
    proof (cases b)
      case (Next st')
      then show ?thesis using "1.IH"[OF True b[unfolded Next]] "1.prems" True b o
        by (fastforce simp: optimize_loop_unfold)
    next
      case (Stop st')
      then show ?thesis using "1.prems" True b o
        by (auto simp: optimize_loop_unfold ir_state_def result_state_def)
    next
      case (Raise e st')
      then show ?thesis using "1.prems" True b o
        by (auto simp: optimize_loop_unfold ir_state_def result_state_def)
    qed
  qed (use "1.prems" in \<open>auto simp: optimize_loop_exit result_state_def\<close>)
qed

lemma sqp_reach_invariant:
  "sqp_reach opts env st0 st \<Longrightarrow>
     rho st0 \<le> rho st \<and> rho st \<le> max (rho st0) (rho_max opts) \<and> iter st0 \<le> iter st"
proof (induction rule: sqp_reach.induct)
  case (iterate st0 st st')
  then show ?case using optimize_body_outcome[OF iterate(4)] by (auto simp: ir_state_def)
qed simp

lemma Optimize_Inr:
  assumes "Optimize opts env st = Some (Inr st')"
  obtains st'' where "optimize_loop opts env st = Some (Inr st'')"
    "st' = (if iter st'' = iter_max opts then st''\<lparr>exitflag := EXCEED_MAX_ITER\<rparr> else st'')"
proof (cases "optimize_loop opts env st")
  case (Some r)
  then show ?thesis using assms that by (cases r) (auto simp: Optimize_def)
qed (use assms in \<open>simp add: Optimize_def\<close>)

lemma Optimize_result_state:
  assumes "Optimize opts env st = Some r"
  obtains r0 where "optimize_loop opts env st = Some r0"
    "rho (result_state r) = rho (result_state r0)" "iter (result_state r) = iter (result_state r0)"
proof (cases "optimize_loop opts env st")
  case (Some r0)
  then show ?thesis using assms that by (cases r0) (auto simp: Optimize_def result_state_def)
qed (use assms in \<open>simp add: Optimize_def\<close>)

subsection \<open>Properties of a run\<close>

text \<open>C2. Optimize returns (it is not the non-terminating value None) whenever increase_parm > 1 and the initial penalty is positive: the unbounded penalty loop then reaches rho_max in finitely many passes, and every other loop is bounded by a counter.\<close>

theorem Optimize_terminates:
  "1 < increase_parm opts \<Longrightarrow> 0 < rho st \<Longrightarrow> Optimize opts env st \<noteq> None"
  using optimize_loop_terminates by (simp add: Optimize_def)

text \<open>C1. A run of Optimize never lowers the penalty parameter and never raises it above max(rho_0, rho_max): the final rho lies between the initial one and that cap, whether the run ends normally or by an exception.\<close>

theorem Optimize_rho_monotone:
  "Optimize opts env st = Some r \<Longrightarrow>
     rho st \<le> rho (result_state r) \<and> rho (result_state r) \<le> max (rho st) (rho_max opts)"
  by (metis Optimize_result_state optimize_loop_rho)

text \<open>C4. When Optimize ends without an exception, starting from iter <= iter_max, and the QP engine never reports the status UNKNOWN, the exit flag is set to a specific code.\<close>

theorem Optimize_exitflag_set:
  assumes "Optimize opts env st = Some (Inr st')" "iter st \<le> iter_max opts"
    and "\<forall>ifc stat. qp_solver env ifc = QpFail stat \<longrightarrow> stat \<noteq> UNKNOWN"
  shows "exitflag st' \<noteq> UNKNOWN"
proof -
  obtain st'' where l: "optimize_loop opts env st = Some (Inr st'')"
    and st': "st' = (if iter st'' = iter_max opts then st''\<lparr>exitflag := EXCEED_MAX_ITER\<rparr> else st'')"
    using Optimize_Inr[OF assms(1)] by blast
  show ?thesis using optimize_loop_exitflag[OF l assms(2)] assms(3) st' by auto
qed

text \<open>C5. With iter_max = 0 Optimize solves no QP, leaves the state unchanged, and terminates with EXCEED_MAX_ITER.\<close>

theorem Optimize_iter_max_zero:
  "Optimize (opts\<lparr>iter_max := 0\<rparr>) env (st\<lparr>iter := 0\<rparr>)
     = Some (Inr (st\<lparr>iter := 0, exitflag := EXCEED_MAX_ITER\<rparr>))"
  by (simp add: Optimize_def optimize_loop_exit)

text \<open>C3. Optimize reports OPTIMAL only for a point found strictly before the iteration budget: a point found optimal at iteration iter_max is reported as EXCEED_MAX_ITER, because the check after the loop overwrites the flag.\<close>

theorem Optimize_optimal_before_budget:
  assumes "Optimize opts env st = Some (Inr st')" "iter st \<le> iter_max opts" "exitflag st' = OPTIMAL"
  shows "iter st' < iter_max opts"
proof -
  obtain st'' where l: "optimize_loop opts env st = Some (Inr st'')"
    and st': "st' = (if iter st'' = iter_max opts then st''\<lparr>exitflag := EXCEED_MAX_ITER\<rparr> else st'')"
    using Optimize_Inr[OF assms(1)] by blast
  have "iter st'' \<le> iter_max opts" using optimize_loop_iter[OF l assms(2)] by (simp add: result_state_def)
  then show ?thesis using st' assms(3) by (auto split: if_splits)
qed

text \<open>Along every sequence of iterations of the main loop, the penalty parameter never decreases and stays below max(rho_0, rho_max).\<close>

theorem sqp_reach_rho_monotone:
  "sqp_reach opts env st0 st \<Longrightarrow> rho st0 \<le> rho st \<and> rho st \<le> max (rho st0) (rho_max opts)"
  using sqp_reach_invariant by blast

end
