(* ===== verification/SQP_Init.thy ===== *)
theory SQP_Init
  imports SQP_Optimize
begin

text \<open>
  The set-up of a run: the constructor \<open>Algorithm::Algorithm\<close>,
  \<open>Algorithm::allocate_memory\<close> and \<open>Algorithm::initialization\<close>
  (\<open>src/src/Algorithm.cpp\<close>), and the run they start, \<open>initialization\<close> followed by
  \<open>Optimize\<close>. The one-time queries of the NLP (\<open>SQPTNLP\<close>: sizes, bounds, starting
  point, sparsity structures; spec \<section>6, NLP oracle contract) are the record
  \<open>nlp_setup\<close>; the evaluations are the \<open>nlp_oracle\<close> of \<open>SQP_State\<close>. The values of
  the \<open>Options\<close> struct that \<open>initialization\<close> reads and the optimiser never writes
  back (\<open>delta\<close>, \<open>rho\<close>, \<open>eps1\<close>) are parameters. Arrays allocated with
  \<open>new T[n]\<close> and never initialised before use are \<open>undefined\<close>; \<open>Vector\<close>
  storage is zero-filled. The counters of \<open>Stats\<close> start at 0 and the exit flag at
  \<open>UNKNOWN\<close> (spec \<section>6).
\<close>

text \<open>\<open>Index_info\<close>: the problem sizes.\<close>

record nlp_sizes =
  nlp_nVar :: nat
  nlp_nCon :: nat
  nnz_jac_g :: nat
  nnz_h_lag :: nat

record nlp_setup =
  Get_bounds_info :: "vec \<times> vec \<times> vec \<times> vec"
  Get_starting_point :: "vec \<times> vec"
  Get_Structure_Hessian :: "vec \<Rightarrow> vec \<Rightarrow> sp_triplet \<Rightarrow> sp_triplet"
  Get_Strucutre_Jacobian :: "vec \<Rightarrow> sp_triplet \<Rightarrow> sp_triplet"

text \<open>\<open>SQPTNLP::shift_starting_point\<close> (not among the repository's files) moves the
  starting point inside the variable bounds, as its call site says.\<close>

definition shift_starting_point :: "vec \<Rightarrow> vec \<Rightarrow> vec \<Rightarrow> vec" where
  "shift_starting_point x xl xu = map (\<lambda>i. max (xl ! i) (min (xu ! i) (x ! i))) [0..<length x]"

text \<open>\<open>SpTripletMat(nnz, RowNum, ColNum, isSymmetric)\<close>: zero-filled entry arrays.\<close>

definition new_triplet :: "nat \<Rightarrow> nat \<Rightarrow> nat \<Rightarrow> bool \<Rightarrow> sp_triplet" where
  "new_triplet nnz r c symm = \<lparr>RowNum = r, ColNum = c, isSymmetric = symm, RowIndex = replicate nnz 0,
     ColIndex = replicate nnz 0, MatVal = replicate nnz 0, order = replicate nnz 0\<rparr>"

text \<open>The constructor's initialisers and the allocations of \<open>allocate_memory\<close>; both
  handlers are built from the sizes with the solver choice of the options.\<close>

definition allocate_memory :: "sqp_options \<Rightarrow> nlp_sizes \<Rightarrow> real \<Rightarrow> sqp_state" where
  "allocate_memory opts sz e1 =
     (let n = nlp_nVar sz; m = nlp_nCon sz;
          J = new_triplet (nnz_jac_g sz) m n False;
          H = new_triplet (nnz_h_lag sz) n n True
      in \<lparr>x_k = replicate n 0, x_trial = replicate n 0, p_k = replicate n 0,
          c_k = replicate m 0, c_trial = replicate m 0, x_l = replicate n 0, x_u = replicate n 0,
          c_l = replicate m 0, c_u = replicate m 0, grad_f = replicate n 0,
          jacobian = J, hessian = H, multiplier_cons = replicate m 0, multiplier_vars = replicate n 0,
          multiplier_vars_null = False,
          cons_type = replicate m undefined, bound_cons_type = replicate n undefined,
          W_constr = replicate m undefined, W_bounds = replicate n undefined,
          obj_value = undefined, obj_value_trial = 0, infea_measure = 0, infea_measure_trial = undefined,
          infea_measure_model = 0, delta = undefined, rho = undefined, norm_p_k = undefined, qp_obj = 0,
          actual_reduction = 0, pred_reduction = 0, QPinfoFlag = no_flags, isaccept = undefined,
          exitflag = UNKNOWN, iter = 0, penalty_change_trial = 0, eps1 = e1,
          myQP = QPhandler_init n m (QPsolverChoice_opt opts) J,
          myLP = QPhandler_init n m (QPsolverChoice_opt opts) J,
          opt_status = undefined\<rparr>)"

definition initialization ::
    "sqp_options \<Rightarrow> nlp_sizes \<Rightarrow> nlp_setup \<Rightarrow> nlp_oracle \<Rightarrow> real \<Rightarrow> real \<Rightarrow> real \<Rightarrow> sqp_state" where
  "initialization opts sz setup tnlp delta0 rho0 e1 =
     (let st0 = (allocate_memory opts sz e1)\<lparr>delta := delta0, rho := rho0, norm_p_k := 0\<rparr>;
          (xl, xu, cl, cu) = Get_bounds_info setup;
          (x0, lam0) = Get_starting_point setup;
          x = shift_starting_point x0 xl xu;
          H = Eval_Hessian tnlp x lam0 (Get_Structure_Hessian setup x lam0 (hessian st0));
          J = Eval_Jacobian tnlp x (Get_Strucutre_Jacobian setup x (jacobian st0));
          (ct, bt) = classify_constraints_types cl cu xl xu;
          c = Eval_constraints tnlp x
      in st0\<lparr>x_l := xl, x_u := xu, c_l := cl, c_u := cu, x_k := x, multiplier_cons := lam0,
             obj_value := Eval_f tnlp x, grad_f := Eval_gradient tnlp x, c_k := c, hessian := H,
             jacobian := J, cons_type := ct, bound_cons_type := bt,
             infea_measure := cal_infea c cl cu None\<rparr>)"

text \<open>A run: set-up followed by the main loop.\<close>

definition sqp_main ::
    "sqp_options \<Rightarrow> sqp_env \<Rightarrow> nlp_sizes \<Rightarrow> nlp_setup \<Rightarrow> real \<Rightarrow> real \<Rightarrow> real \<Rightarrow> sqp_result option" where
  "sqp_main opts env sz setup delta0 rho0 e1 =
     Optimize opts env (initialization opts sz setup (nlp env) delta0 rho0 e1)"

text \<open>Sizes: every vector and array of the state has the length of the variables or of
  the constraints, and both handlers are sized for the problem.\<close>

definition sqp_sized :: "nat \<Rightarrow> nat \<Rightarrow> sqp_state \<Rightarrow> bool" where
  "sqp_sized n m st =
     (length (x_k st) = n \<and> length (x_trial st) = n \<and> length (p_k st) = n \<and> length (x_l st) = n
      \<and> length (x_u st) = n \<and> length (grad_f st) = n \<and> length (multiplier_vars st) = n
      \<and> length (bound_cons_type st) = n \<and> length (W_bounds st) = n
      \<and> length (c_k st) = m \<and> length (c_trial st) = m \<and> length (c_l st) = m \<and> length (c_u st) = m
      \<and> length (multiplier_cons st) = m \<and> length (cons_type st) = m \<and> length (W_constr st) = m
      \<and> nVar (myQP st) = n \<and> nCon (myQP st) = m \<and> nVar (myLP st) = n \<and> nCon (myLP st) = m)"

text \<open>What the NLP must report for those sizes.\<close>

definition nlp_sized :: "nlp_sizes \<Rightarrow> nlp_setup \<Rightarrow> nlp_oracle \<Rightarrow> bool" where
  "nlp_sized sz setup tnlp =
     (let n = nlp_nVar sz; m = nlp_nCon sz; (xl, xu, cl, cu) = Get_bounds_info setup;
          (x0, lam0) = Get_starting_point setup
      in length xl = n \<and> length xu = n \<and> length cl = m \<and> length cu = m \<and> length x0 = n
         \<and> length lam0 = m
         \<and> (\<forall>x. length x = n \<longrightarrow> length (Eval_gradient tnlp x) = n \<and> length (Eval_constraints tnlp x) = m))"

subsection \<open>Lemmas\<close>

lemma initialization_fields:
  "iter (initialization opts sz setup tnlp delta0 rho0 e1) = 0"
  "exitflag (initialization opts sz setup tnlp delta0 rho0 e1) = UNKNOWN"
  "rho (initialization opts sz setup tnlp delta0 rho0 e1) = rho0"
  "delta (initialization opts sz setup tnlp delta0 rho0 e1) = delta0"
  "eps1 (initialization opts sz setup tnlp delta0 rho0 e1) = e1"
  "penalty_change_trial (initialization opts sz setup tnlp delta0 rho0 e1) = 0"
  "QPinfoFlag (initialization opts sz setup tnlp delta0 rho0 e1) = no_flags"
  by (simp_all add: initialization_def allocate_memory_def Let_def split: prod.splits)

lemma length_shift_starting_point [simp]: "length (shift_starting_point x l u) = length x"
  by (simp add: shift_starting_point_def)

text \<open>When the NLP reports bounds, starting point, gradient and constraint values of the announced sizes, \<open>initialization\<close> builds a state in which every vector and array has the length of the variables or of the constraints and both handlers are sized for the problem.\<close>

theorem initialization_sized:
  assumes "nlp_sized sz setup tnlp"
  shows "sqp_sized (nlp_nVar sz) (nlp_nCon sz) (initialization opts sz setup tnlp delta0 rho0 e1)"
  using assms
  by (auto simp: nlp_sized_def sqp_sized_def initialization_def allocate_memory_def Let_def
                 classify_constraints_types_def QPhandler_init_def split: prod.splits)

theorem initialization_in_bounds:
  assumes "Get_bounds_info setup = (xl, xu, cl, cu)" "fst (Get_starting_point setup) = x0"
    and "length x0 \<le> length xl" "length x0 \<le> length xu" "\<forall>i < length x0. xl ! i \<le> xu ! i"
  shows "\<forall>i < length x0. xl ! i \<le> x_k (initialization opts sz setup tnlp delta0 rho0 e1) ! i
                        \<and> x_k (initialization opts sz setup tnlp delta0 rho0 e1) ! i \<le> xu ! i"
  using assms
  by (auto simp: initialization_def Let_def shift_starting_point_def split: prod.splits)

end
