(* ===== verification/SQP_Frame.thy ===== *)
theory SQP_Frame
  imports SQP_Init
begin

text \<open>
  The constraint working set \<open>W_constr_\<close> over a run. Of the members of \<open>Algorithm\<close>,
  only \<open>check_optimality\<close> writes \<open>W_constr_\<close>, in the loop it runs when
  \<open>multiplier_vars_ == nullptr\<close>. \<open>allocate_memory\<close> allocates \<open>multiplier_vars_\<close> and
  no member resets it. \<open>wc_kept W st\<close> says that the state holds the working set \<open>W\<close>
  and an allocated \<open>multiplier_vars_\<close>. Every member keeps it, so the loop is dead code
  and a whole run returns the array as \<open>allocate_memory\<close> left it.
\<close>

definition wc_kept :: "active_type list \<Rightarrow> sqp_state \<Rightarrow> bool" where
  "wc_kept W st = (W_constr st = W \<and> \<not> multiplier_vars_null st)"

subsection \<open>The member functions keep the working set\<close>

lemma wc_kept_check_optimality:
  "wc_kept W st \<Longrightarrow> wc_kept W (check_optimality opts st)"
  by (simp add: wc_kept_def check_optimality_W_constr)

lemma wc_kept_steps [intro]:
  "wc_kept W st \<Longrightarrow> wc_kept W (get_search_direction st)"
  "wc_kept W st \<Longrightarrow> wc_kept W (get_trial_point_info env st)"
  "wc_kept W st \<Longrightarrow> wc_kept W (ratio_test opts env st)"
  "wc_kept W st \<Longrightarrow> wc_kept W (setupLP st)"
  "wc_kept W st \<Longrightarrow> wc_kept W (result_state (update_radius opts st))"
  "wc_kept W st \<Longrightarrow> wc_kept W (result_state (setupQP st))"
  by (simp_all add: wc_kept_def get_search_direction_def get_trial_point_info_def ratio_test_def
        get_multipliers_def setupLP_def update_radius_def setupQP_def result_state_def Let_def
        split: prod.splits)

lemma wc_kept_penalty_finish:
  "wc_kept W st \<Longrightarrow> wc_kept W (penalty_finish opts env tmp st s)"
  by (simp add: wc_kept_def penalty_finish_def get_search_direction_def get_trial_point_info_def Let_def)

lemma wc_kept_update_penalty_parameter:
  assumes w: "wc_kept W st" and r: "update_penalty_parameter opts env st = Some r"
  shows "wc_kept W (result_state r)"
proof (cases "penalty_update opts \<and> penalty_update_tol opts < get_infea_measure_model (myQP st)")
  case True
  define st1 where "st1 = setupLP (st\<lparr>infea_measure_model := get_infea_measure_model (myQP st)\<rparr>)"
  have w1: "wc_kept W st1" using w by (simp add: st1_def setupLP_def wc_kept_def)
  show ?thesis
  proof (cases "solveLP (lp_solver env) (myLP st1)")
    case (Inl a)
    then show ?thesis using r True w1
      by (auto simp: update_penalty_parameter_def result_state_def st1_def [symmetric] Let_def wc_kept_def
               split: prod.splits)
  next
    case (Inr lp')
    have w2: "wc_kept W (st1\<lparr>myLP := lp'\<rparr>)" using w1 by (simp add: wc_kept_def)
    obtain s where "result_state r = penalty_finish opts env (get_infea_measure_model (myQP st)) (st1\<lparr>myLP := lp'\<rparr>) s"
      using r True Inr by (auto simp: update_penalty_parameter_def result_state_def st1_def [symmetric] Let_def)
    then show ?thesis using wc_kept_penalty_finish [OF w2] by simp
  qed
next
  case False
  then show ?thesis using r w
    by (auto simp: update_penalty_parameter_def Let_def result_state_def wc_kept_def split: if_splits)
qed

lemma wc_kept_second_order_correction:
  "wc_kept W st \<Longrightarrow> wc_kept W (result_state (second_order_correction opts env st))"
  by (simp add: second_order_correction_def Let_def result_state_def wc_kept_def
                ratio_test_def get_multipliers_def get_trial_point_info_def split: sum.splits prod.splits)

lemma wc_kept_optimize_tail:
  "wc_kept W st \<Longrightarrow> wc_kept W (ir_state (optimize_tail opts env st))"
  by (auto simp: optimize_tail_def Let_def ir_state_def wc_kept_def update_radius_def
                 check_optimality_W_constr split: sum.splits prod.splits)

lemma wc_kept_optimize_step:
  assumes w: "wc_kept W st" and r: "optimize_step opts env st = Some r"
  shows "wc_kept W (ir_state r)"
proof -
  let ?st3 = "(get_search_direction st)\<lparr>qp_obj := get_obj_QP (get_search_direction st)\<rparr>"
  have w3: "wc_kept W ?st3" using w by (simp add: wc_kept_def get_search_direction_def)
  obtain r4 where r4: "update_penalty_parameter opts env ?st3 = Some r4"
    using r by (cases "update_penalty_parameter opts env ?st3") (simp_all add: optimize_step_def)
  have w4: "wc_kept W (result_state r4)" using wc_kept_update_penalty_parameter [OF w3 r4] .
  show ?thesis
  proof (cases r4)
    case (Inl a)
    then show ?thesis using r r4 w4
      by (auto simp: optimize_step_def ir_state_def result_state_def split: prod.splits)
  next
    case (Inr st4)
    let ?st5 = "ratio_test opts env (get_trial_point_info env (st4\<lparr>norm_p_k := getInfNorm (p_k st4)\<rparr>))"
    have "wc_kept W (st4\<lparr>norm_p_k := getInfNorm (p_k st4)\<rparr>)"
      using w4 Inr by (simp add: result_state_def wc_kept_def)
    then have "wc_kept W ?st5" by blast
    then have w6: "wc_kept W (result_state (second_order_correction opts env ?st5))"
      by (rule wc_kept_second_order_correction)
    show ?thesis
    proof (cases "second_order_correction opts env ?st5")
      case (Inl a)
      then show ?thesis using r r4 Inr w6
        by (auto simp: optimize_step_def ir_state_def result_state_def split: prod.splits)
    next
      case (Inr st6)
      then have "r = optimize_tail opts env st6" using r r4 \<open>r4 = Inr st4\<close> by (simp add: optimize_step_def)
      then show ?thesis using wc_kept_optimize_tail [of W st6] w6 Inr by (simp add: result_state_def)
    qed
  qed
qed

lemma wc_kept_optimize_body:
  assumes w: "wc_kept W st" and r: "optimize_body opts env st = Some r"
  shows "wc_kept W (ir_state r)"
proof (cases "setupQP st")
  case (Inl a)
  then show ?thesis using r w wc_kept_steps(6) [OF w]
    by (auto simp: optimize_body_def ir_state_def result_state_def split: prod.splits)
next
  case (Inr st1)
  then have w1: "wc_kept W st1" using wc_kept_steps(6) [OF w] by (simp add: result_state_def)
  show ?thesis
  proof (cases "solveQP (qp_solver env) (myQP st1)")
    case (Inl a)
    then show ?thesis using r Inr w1
      by (auto simp: optimize_body_def ir_state_def wc_kept_def split: prod.splits)
  next
    case (Inr q)
    then have "optimize_step opts env (st1\<lparr>myQP := q\<rparr>) = Some r" using r \<open>setupQP st = Inr st1\<close>
      by (simp add: optimize_body_def)
    moreover have "wc_kept W (st1\<lparr>myQP := q\<rparr>)" using w1 by (simp add: wc_kept_def)
    ultimately show ?thesis using wc_kept_optimize_step by blast
  qed
qed

lemma wc_kept_optimize_loop:
  "wc_kept W st \<Longrightarrow> optimize_loop opts env st = Some r \<Longrightarrow> wc_kept W (result_state r)"
proof (induction opts env st arbitrary: r rule: optimize_loop.induct)
  case (1 opts env st)
  show ?case
  proof (cases "iter st < iter_max opts \<and> exitflag st = UNKNOWN")
    case True
    obtain b where b: "optimize_body opts env st = Some b"
      using "1.prems"(2) True by (cases "optimize_body opts env st") (simp_all add: optimize_loop_unfold)
    have wb: "wc_kept W (ir_state b)" using wc_kept_optimize_body [OF "1.prems"(1) b] .
    show ?thesis
    proof (cases b)
      case (Next st')
      then show ?thesis using "1.IH" [OF True b [unfolded Next]] "1.prems" True b wb
        by (simp add: optimize_loop_unfold ir_state_def)
    qed (use "1.prems" True b wb in \<open>auto simp: optimize_loop_unfold ir_state_def result_state_def\<close>)
  qed (use "1.prems" in \<open>auto simp: optimize_loop_exit result_state_def\<close>)
qed

lemma wc_kept_Optimize:
  assumes "wc_kept W st" "Optimize opts env st = Some r"
  shows "wc_kept W (result_state r)"
proof -
  obtain r0 where r0: "optimize_loop opts env st = Some r0"
    "r = (case r0 of Inl x \<Rightarrow> Inl x
              | Inr st' \<Rightarrow> Inr (if iter st' = iter_max opts then st'\<lparr>exitflag := EXCEED_MAX_ITER\<rparr> else st'))"
    using assms(2) by (auto simp: Optimize_def)
  have "wc_kept W (result_state r0)" using wc_kept_optimize_loop [OF assms(1) r0(1)] .
  then show ?thesis using r0(2) by (auto simp: result_state_def wc_kept_def split: sum.splits)
qed

lemma wc_kept_initialization:
  "wc_kept (W_constr (initialization opts sz setup tnlp delta0 rho0 e1)) (initialization opts sz setup tnlp delta0 rho0 e1)"
  by (simp add: wc_kept_def initialization_def allocate_memory_def Let_def split: prod.splits)

lemma wc_kept_reach:
  "sqp_reach opts env st0 st \<Longrightarrow> wc_kept W st0 \<Longrightarrow> wc_kept W st"
proof (induction rule: sqp_reach.induct)
  case (iterate st0 st st')
  then show ?case using wc_kept_optimize_body [of W st opts env "Next st'"] by (simp add: ir_state_def)
qed simp

text \<open>Along every run from \<open>initialization\<close>, the guard of the activity loop of
  \<open>check_optimality\<close> is false, so the call leaves \<open>W_constr\<close> unchanged.\<close>

lemma reach_check_optimality_W_constr:
  "sqp_reach opts env (initialization opts sz setup tnlp delta0 rho0 e1) st \<Longrightarrow>
   W_constr (check_optimality opts st) = W_constr st"
  using wc_kept_reach [OF _ wc_kept_initialization] by (auto simp: wc_kept_def check_optimality_W_constr)

text \<open>C22. The loop of Algorithm::check_optimality that recomputes the constraint
  activity W_constr_ is guarded by multiplier_vars_ == nullptr, which never holds after
  allocate_memory: a whole run, initialization followed by Optimize, returns (normally or
  by an exception) with multiplier_vars_ allocated and W_constr_ exactly as allocate_memory
  left it.\<close>

theorem sqp_main_keeps_W_constr:
  assumes "sqp_main opts env sz setup delta0 rho0 e1 = Some r"
  shows "W_constr (result_state r) = W_constr (allocate_memory opts sz e1)
         \<and> \<not> multiplier_vars_null (result_state r)"
proof -
  have "wc_kept (W_constr (initialization opts sz setup (nlp env) delta0 rho0 e1)) (result_state r)"
    using wc_kept_Optimize [OF wc_kept_initialization] assms by (simp add: sqp_main_def)
  then show ?thesis by (simp add: wc_kept_def initialization_def Let_def split: prod.splits)
qed

end
