(* ===== verification/SQP_Exit.thy ===== *)
theory SQP_Exit
  imports SQP_Optimize
begin

text \<open>
  \<open>Algorithm::print_final_stats\<close> reports a run once \<open>Optimize\<close> has returned: the
  exit flag by name (the \<open>switch\<close> of \<open>exitflag_name\<close>), the sizes, the iteration
  counts, the objective, the four violations, \<open>||p_k||\<close> and \<open>||c_k||\<close>. The report is
  the list of its labelled lines; the choice of journal (console or log file) and the
  number formats are output and are not modelled. The counters \<open>stats_->qp_iter\<close> and
  \<open>total_time\<close>, kept outside the modelled state, are parameters.
\<close>

text \<open>The name printed for each exit flag.\<close>

fun exitflag_name :: "exitflag \<Rightarrow> string" where
  "exitflag_name OPTIMAL = ''OPTIMAL''"
| "exitflag_name PRED_REDUCTION_NEGATIVE = ''PRED_REDUCTION_NEGATIVE''"
| "exitflag_name INVALID_NLP = ''INVALID_NLP''"
| "exitflag_name EXCEED_MAX_ITER = ''EXCEED_MAX_ITER''"
| "exitflag_name EXCEED_TIME_LIMITS = ''EXCEED_TIME_LIMITS''"
| "exitflag_name QP_OPTIMAL = ''QP_SOL_IS_NOT_KKT_POINT''"
| "exitflag_name QPERROR_INTERNAL_ERROR = ''QP_INTERNAL_ERROR''"
| "exitflag_name QPERROR_INFEASIBLE = ''QP_INFEASIBLE''"
| "exitflag_name QPERROR_UNBOUNDED = ''QP_UNBOUNDED''"
| "exitflag_name QPERROR_EXCEED_MAX_ITER = ''QP_EXCEED_MAX_ITER''"
| "exitflag_name QPERROR_NOTINITIALISED = ''QP_NOTINITIALISED''"
| "exitflag_name AUXINPUT_NOT_OPTIMAL = ''AUXINPUT_NOT_OPTIMAL''"
| "exitflag_name CONVERGE_TO_NONOPTIMAL = ''CONVERGE_TO_NONOPTIMAL''"
| "exitflag_name QPERROR_PREPARINGAUXILIARYQP = ''QPERROR_PREPARINGAUXILIARYQP''"
| "exitflag_name QPERROR_AUXILIARYQPSOLVED = ''QPERROR_AUXILIARYQPSOLVED''"
| "exitflag_name QPERROR_PERFORMINGHOMOTOPY = ''QPERROR_PERFORMINGHOMOTOPY''"
| "exitflag_name QPERROR_HOMOTOPYQPSOLVED = ''QPERROR_HOMOTOPYQPSOLVED''"
| "exitflag_name TRUST_REGION_TOO_SMALL = ''TRUST_REGION_TOO_SMALL''"
| "exitflag_name STEP_LARGER_THAN_TRUST_REGION = ''STEP_LARGER_THAN_TRUST_REGION''"
| "exitflag_name QPERROR_UNKNOWN = ''QPERROR_UNKNOWN''"
| "exitflag_name UNKNOWN = ''UNKNOWN ERROR''"

datatype report_value = RText string | RCount nat | RNum real

definition print_final_stats ::
    "nat \<Rightarrow> nat \<Rightarrow> nat \<Rightarrow> real \<Rightarrow> sqp_state \<Rightarrow> (string \<times> report_value) list" where
  "print_final_stats nV nC qp_iter total_time st =
     [(''Exitflag:'', RText (exitflag_name (exitflag st))),
      (''Number of Variables'', RCount nV),
      (''Number of Constraints'', RCount nC),
      (''Iterations:'', RCount (iter st)),
      (''QP Solver Iterations:'', RCount qp_iter),
      (''Final Objectives:'', RNum (obj_value st)),
      (''Total Times:'', RNum total_time),
      (''Primal Feasibility Violation'', RNum (primal_violation (opt_status st))),
      (''Dual Feasibility Violation'', RNum (dual_violation (opt_status st))),
      (''Complmentarity Violation'', RNum (compl_violation (opt_status st))),
      (''Stationarity Violation'', RNum (stationarity_violation (opt_status st))),
      (''||p_k||'', RNum (norm_p_k st)),
      (''||c_k||'', RNum (infea_measure st))]"

end
