(* ===== verification/SQP_Examples.thy ===== *)
theory SQP_Examples
  imports SQP_Frame SQP_Exit
begin

text \<open>
  Concrete inputs on which the driver's definitions evaluate (by \<open>code_simp\<close>), and the
  theorems that apply the properties of the other theories to them. The main example
  minimises \<open>x^2\<close> over \<open>[-10, 10]\<close> from \<open>x = 1\<close> with trust radius 1, no
  constraints, and a QP engine that returns the Newton step \<open>-1\<close> with objective \<open>-1\<close>:
  one iteration reaches the minimiser and the optimality test declares it \<open>OPTIMAL\<close>.
  A second example has one equality constraint whose QP model is infeasible and an LP
  that cannot remove the infeasibility, with the penalty trial counter already at
  \<open>penalty_iter_max\<close>.
\<close>

text \<open>The feasible penalty loop is a \<^theory_text>\<open>partial_function\<close>; its unfolding equation is
  used for evaluation on the examples whose run enters it.\<close>

declare penalty_loop_feasible.simps [code]

definition ex_jac :: sp_triplet where
  "ex_jac = \<lparr>RowNum = 0, ColNum = 1, isSymmetric = False, RowIndex = [], ColIndex = [], MatVal = [], order = []\<rparr>"

definition ex_hess :: sp_triplet where
  "ex_hess = \<lparr>RowNum = 1, ColNum = 1, isSymmetric = True, RowIndex = [1], ColIndex = [1], MatVal = [2], order = [0]\<rparr>"

definition ex_nlp :: nlp_oracle where
  "ex_nlp = \<lparr>Eval_f = (\<lambda>x. (x ! 0) * (x ! 0)), Eval_gradient = (\<lambda>x. [2 * (x ! 0)]),
             Eval_constraints = (\<lambda>x. []), Eval_Jacobian = (\<lambda>x M. M), Eval_Hessian = (\<lambda>x y M. M)\<rparr>"

definition ex_qp :: qp_oracle where
  "ex_qp ifc = QpOptimal [-1] [0] (-1)"

definition ex_env :: sqp_env where
  "ex_env = \<lparr>nlp = ex_nlp, qp_solver = ex_qp, lp_solver = ex_qp, time_exceeded = (\<lambda>n. False)\<rparr>"

definition ex_opts :: sqp_options where
  "ex_opts = \<lparr>eta_c = 0.25, eta_s = 0.00000001, eta_e = 0.75, gamma_c = 0.5, gamma_e = 2,
     delta_max = 100, delta_min = 0.0001, rho_max = 100000000, increase_parm = 10, eps2 = 0.000001,
     eps1_change_parm = 0.1, penalty_iter_max = 200, penalty_update = True,
     penalty_update_tol = 0.00000001, opt_prim_fea_tol = 0.00001, opt_dual_fea_tol = 0.00001,
     opt_compl_tol = 0.00001, opt_stat_tol = 0.00001, active_set_tol = 0.00001, tol = 0.00000001,
     iter_max = 2, second_order_correction = False, QPsolverChoice_opt = QPOASES\<rparr>"

definition ex_status :: opt_status_rec where
  "ex_status = \<lparr>primal_violation = 0, dual_violation = 0, compl_violation = 0,
     stationarity_violation = 0, KKT_error = 0, primal_feasibility = False, dual_feasibility = False,
     complementarity = False, stationarity = False, first_order_opt = False\<rparr>"

definition ex_state :: sqp_state where
  "ex_state = \<lparr>x_k = [1], x_trial = [0], p_k = [0], c_k = [], c_trial = [], x_l = [-10], x_u = [10],
     c_l = [], c_u = [], grad_f = [2], jacobian = ex_jac, hessian = ex_hess, multiplier_cons = [],
     multiplier_vars = [0], multiplier_vars_null = False, cons_type = [], bound_cons_type = [EQUAL], W_constr = [],
     W_bounds = [INACTIVE], obj_value = 1, obj_value_trial = 0, infea_measure = 0,
     infea_measure_trial = 0, infea_measure_model = 0, delta = 1, rho = 1, norm_p_k = 0, qp_obj = 0,
     actual_reduction = 0, pred_reduction = 0, QPinfoFlag = no_flags, isaccept = False,
     exitflag = UNKNOWN, iter = 0, penalty_change_trial = 0, eps1 = 0.1,
     myQP = QPhandler_init 1 0 QPOASES ex_jac, myLP = QPhandler_init 1 0 QPOASES ex_jac,
     opt_status = ex_status\<rparr>"

definition ex_final :: sqp_state where
  "ex_final = projr (the (Optimize ex_opts ex_env ex_state))"

definition ex_kkt :: sqp_state where
  "ex_kkt = ex_state\<lparr>x_k := [0], grad_f := [0]\<rparr>"

definition ex_jac1 :: sp_triplet where
  "ex_jac1 = \<lparr>RowNum = 1, ColNum = 1, isSymmetric = False, RowIndex = [1], ColIndex = [1], MatVal = [1], order = [0]\<rparr>"

definition ex_lp :: qp_oracle where
  "ex_lp ifc = QpOptimal [0, 0.5, 0] [0, 0, 0, 0] 0"

definition ex_pen_env :: sqp_env where
  "ex_pen_env = ex_env\<lparr>lp_solver := ex_lp\<rparr>"

definition ex_pen_state :: sqp_state where
  "ex_pen_state = ex_state\<lparr>c_k := [1], c_l := [0], c_u := [0], c_trial := [1], jacobian := ex_jac1,
     cons_type := [EQUAL], multiplier_cons := [0], W_constr := [INACTIVE], infea_measure := 1,
     penalty_change_trial := 200,
     myQP := on_iface (\<lambda>s. s\<lparr>x_qp := [0, 1, 0]\<rparr>) (QPhandler_init 1 1 QPOASES ex_jac1),
     myLP := on_iface (\<lambda>s. s\<lparr>firstQPsolved := True\<rparr>) (QPhandler_init 1 1 QPOASES ex_jac1)\<rparr>"

definition ex_pen_result :: sqp_state where
  "ex_pen_result = projr (the (update_penalty_parameter ex_opts ex_pen_env ex_pen_state))"

definition ex_rt :: sqp_state where
  "ex_rt = ex_state\<lparr>obj_value := 2, obj_value_trial := 1.2, rho := 10, infea_measure := 0.05,
     infea_measure_trial := 0, myQP := on_iface (\<lambda>s. s\<lparr>obj_val := 0.2\<rparr>) (myQP ex_state)\<rparr>"

definition ex_shrink :: sqp_state where
  "ex_shrink = ex_state\<lparr>actual_reduction := 0.1, pred_reduction := 1\<rparr>"

definition ex_dirty :: sqp_state where
  "ex_dirty = ex_state\<lparr>iter := 1, QPinfoFlag := no_flags\<lparr>Update_g := True\<rparr>\<rparr>"

text \<open>A third example: QP and LP engines that both leave the constraint violated
  (slack 1), so the LP shows that no step reduces the infeasibility. With a fresh LP
  handler this is the first LP of the run.\<close>

definition ex_qp_inf :: qp_oracle where
  "ex_qp_inf ifc = QpOptimal [0, 1, 0] [0, 0, 0, 0] 0"

definition ex_first_env :: sqp_env where
  "ex_first_env = ex_pen_env\<lparr>qp_solver := ex_qp_inf, lp_solver := ex_qp_inf\<rparr>"

definition ex_first_state :: sqp_state where
  "ex_first_state = ex_pen_state\<lparr>penalty_change_trial := 0, myLP := QPhandler_init 1 1 QPOASES ex_jac1\<rparr>"

text \<open>The set-up of the first example from the NLP's one-time queries: one variable
  in \<open>[-10, 10]\<close>, no constraint, starting point 1; and a one-constraint problem whose
  starting point 20 lies outside the bounds.\<close>

definition ex_sizes :: nlp_sizes where
  "ex_sizes = \<lparr>nlp_nVar = 1, nlp_nCon = 0, nnz_jac_g = 0, nnz_h_lag = 1\<rparr>"

definition ex_setup :: nlp_setup where
  "ex_setup = \<lparr>Get_bounds_info = ([-10], [10], [], []), Get_starting_point = ([1], []),
     Get_Structure_Hessian = (\<lambda>x y M. ex_hess), Get_Strucutre_Jacobian = (\<lambda>x M. ex_jac)\<rparr>"

definition ex_sizes1 :: nlp_sizes where
  "ex_sizes1 = \<lparr>nlp_nVar = 1, nlp_nCon = 1, nnz_jac_g = 1, nnz_h_lag = 1\<rparr>"

definition ex_nlp1 :: nlp_oracle where
  "ex_nlp1 = ex_nlp\<lparr>Eval_constraints := (\<lambda>x. [x ! 0])\<rparr>"

definition ex_setup1 :: nlp_setup where
  "ex_setup1 = \<lparr>Get_bounds_info = ([-10], [10], [0], [0]), Get_starting_point = ([20], [0]),
     Get_Structure_Hessian = (\<lambda>x y M. ex_hess), Get_Strucutre_Jacobian = (\<lambda>x M. ex_jac1)\<rparr>"

lemma ex_Optimize: "Optimize ex_opts ex_env ex_state = Some (Inr ex_final)"
  by code_simp

lemma ex_final_fields: "exitflag ex_final = OPTIMAL \<and> iter ex_final = 1 \<and> rho ex_final = 1"
  by code_simp

lemma ex_pen: "update_penalty_parameter ex_opts ex_pen_env ex_pen_state = Some (Inr ex_pen_result)"
  by code_simp

lemma ex_pen_fields: "get_infea_measure_model (myLP ex_pen_result) = 0.5"
  by code_simp

text \<open>On the example problem with iter_max = 1 the loop ends with OPTIMAL, and Optimize then reports EXCEED_MAX_ITER.\<close>

theorem Optimize_budget_overwrites_optimal:
  "map_option (\<lambda>r. exitflag (result_state r)) (optimize_loop (ex_opts\<lparr>iter_max := 1\<rparr>) ex_env ex_state)
     = Some OPTIMAL
   \<and> map_option (\<lambda>r. exitflag (result_state r)) (Optimize (ex_opts\<lparr>iter_max := 1\<rparr>) ex_env ex_state)
     = Some EXCEED_MAX_ITER"
  by code_simp

text \<open>The first LP of a run is misread: its solution is never copied into the
  handler, so \<open>update_penalty_parameter\<close> reads a model infeasibility of 0 from the LP
  and raises rho from 1 to \<open>rho_max = 10^8\<close>, although the LP leaves the constraint
  as violated as the QP does. The same call with an LP handler that has solved an LP
  before keeps rho at 1.\<close>

lemma update_penalty_first_LP_misread:
  "map_option (\<lambda>r. rho (result_state r)) (update_penalty_parameter ex_opts ex_first_env ex_first_state)
     = Some 100000000
   \<and> map_option (\<lambda>r. rho (result_state r))
       (update_penalty_parameter ex_opts ex_first_env (ex_first_state\<lparr>myLP := myLP ex_pen_state\<rparr>))
     = Some 1"
  by code_simp

theorem check_optimality_kkt_point_witness:
  "KKT_error (opt_status (check_optimality ex_opts ex_kkt)) = 0 \<and> exitflag (check_optimality ex_opts ex_kkt) = OPTIMAL"
  by (rule check_optimality_kkt_point) code_simp+

theorem penalty_trial_cap_cumulative_witness:
  "rho ex_pen_result = rho ex_pen_state \<and> penalty_change_trial ex_pen_result = penalty_change_trial ex_pen_state"
  by (rule penalty_trial_cap_cumulative[OF ex_pen]) (code_simp, simp add: ex_pen_fields ex_opts_def)

theorem Optimize_rho_monotone_witness:
  "Optimize ex_opts ex_env ex_state = Some (Inr ex_final)
   \<and> rho ex_state \<le> rho ex_final \<and> rho ex_final \<le> max (rho ex_state) (rho_max ex_opts)"
  using Optimize_rho_monotone[OF ex_Optimize] ex_Optimize by (simp add: result_state_def)

theorem Optimize_terminates_witness:
  "1 < increase_parm ex_opts \<and> 0 < rho ex_state \<and> Optimize ex_opts ex_env ex_state \<noteq> None"
  using Optimize_terminates[of ex_opts ex_state ex_env] by (simp add: ex_opts_def ex_state_def)

theorem Optimize_exitflag_set_witness:
  "Optimize ex_opts ex_env ex_state = Some (Inr ex_final) \<and> exitflag ex_final \<noteq> UNKNOWN"
  using Optimize_exitflag_set[OF ex_Optimize] ex_Optimize
  by (simp add: ex_opts_def ex_state_def ex_env_def ex_qp_def)

theorem Optimize_optimal_before_budget_witness:
  "Optimize ex_opts ex_env ex_state = Some (Inr ex_final) \<and> exitflag ex_final = OPTIMAL
   \<and> iter ex_final < iter_max ex_opts"
  using Optimize_optimal_before_budget[OF ex_Optimize] ex_Optimize ex_final_fields
  by (simp add: ex_opts_def ex_state_def)

theorem sqp_reach_rho_monotone_witness:
  "rho ex_state \<le> rho ex_state \<and> rho ex_state \<le> max (rho ex_state) (rho_max ex_opts)"
  using sqp_reach_rho_monotone[OF sqp_reach.start[of ex_opts ex_env ex_state]] .

theorem check_optimality_KKT_error_nonneg_witness:
  "0 \<le> infea_measure ex_state \<and> 0 \<le> KKT_error (opt_status (check_optimality ex_opts ex_state))"
  using check_optimality_KKT_error_nonneg[of ex_state ex_opts] by (simp add: ex_state_def)

theorem update_penalty_parameter_eps1_witness:
  "eps1 ex_pen_state \<le> eps1 ex_pen_result \<and> eps1 ex_pen_result \<le> 1"
  using update_penalty_parameter_eps1[OF ex_pen] by (simp add: ex_opts_def ex_pen_state_def ex_state_def result_state_def)

text \<open>The ratio test of the spec's example (objective 2.0 to 1.2, rho 10, infeasibility 0.05 to 0, QP objective 0.2) computes an actual reduction of 1.3 and a predicted reduction of 0.3, and accepts the step.\<close>

theorem ratio_test_spec_example:
  "actual_reduction (ratio_test ex_opts ex_env ex_rt) = 1.3
   \<and> pred_reduction (ratio_test ex_opts ex_env ex_rt) = 0.3
   \<and> isaccept (ratio_test ex_opts ex_env ex_rt)"
  by code_simp

theorem ratio_test_commits_witness:
  "isaccept (ratio_test ex_opts ex_env ex_rt) \<and> obj_value (ratio_test ex_opts ex_env ex_rt) = 1.2
   \<and> Update_g (QPinfoFlag (ratio_test ex_opts ex_env ex_rt))"
proof -
  have a: "isaccept (ratio_test ex_opts ex_env ex_rt)" by code_simp
  show ?thesis using ratio_test_commits[OF a] a by (simp add: ex_rt_def)
qed

theorem ratio_test_reject_keeps_witness:
  "\<not> isaccept (ratio_test ex_opts ex_env (ex_rt\<lparr>obj_value_trial := 3\<rparr>))
   \<and> obj_value (ratio_test ex_opts ex_env (ex_rt\<lparr>obj_value_trial := 3\<rparr>)) = 2"
proof -
  have a: "\<not> isaccept (ratio_test ex_opts ex_env (ex_rt\<lparr>obj_value_trial := 3\<rparr>))" by code_simp
  show ?thesis using ratio_test_reject_keeps[OF a] a by (simp add: ex_rt_def)
qed

theorem update_radius_rule_witness:
  "update_radius ex_opts ex_shrink = Inr (projr (update_radius ex_opts ex_shrink))
   \<and> delta (projr (update_radius ex_opts ex_shrink)) = 0.5"
proof -
  have u: "update_radius ex_opts ex_shrink = Inr (projr (update_radius ex_opts ex_shrink))" by code_simp
  show ?thesis using update_radius_rule[OF u] u by (simp add: ex_opts_def ex_shrink_def ex_state_def)
qed

theorem setupQP_twice_unchanged_witness:
  "setupQP ex_dirty = Inr (projr (setupQP ex_dirty))
   \<and> setupQP (projr (setupQP ex_dirty)) = Inl (QP_UNCHANGED, projr (setupQP ex_dirty))"
proof -
  have u: "setupQP ex_dirty = Inr (projr (setupQP ex_dirty))" by code_simp
  have "iter ex_dirty \<noteq> 0" by (simp add: ex_dirty_def)
  then show ?thesis using setupQP_twice_unchanged[OF _ u] u by simp
qed

theorem cal_infea_zero_iff_witness:
  "0 \<le> cal_infea [1, 3] [0, 0] [2, 2] None \<and> cal_infea [1, 3] [0, 0] [2, 2] None \<noteq> 0"
  using cal_infea_zero_iff[of "[0, 0]" "[1, 3]" "[2, 2]"] by (simp add: Ex_less_Suc)

text \<open>The whole program on the first example: set-up from the NLP's queries, then the
  main loop, ends normally at iteration 1 with \<open>OPTIMAL\<close> at the minimiser 0.\<close>

theorem sqp_main_example_optimal:
  "map_option (\<lambda>r. (exitflag (result_state r), iter (result_state r), x_k (result_state r)))
     (sqp_main ex_opts ex_env ex_sizes ex_setup 1 1 0.3) = Some (OPTIMAL, 1, [0])"
  by code_simp simp

theorem initialization_sized_witness:
  "nlp_sized ex_sizes1 ex_setup1 ex_nlp1
   \<and> sqp_sized 1 1 (initialization ex_opts ex_sizes1 ex_setup1 ex_nlp1 1 1 0.3)"
proof -
  have h: "nlp_sized ex_sizes1 ex_setup1 ex_nlp1"
    by (simp add: nlp_sized_def ex_sizes1_def ex_setup1_def ex_nlp1_def ex_nlp_def)
  show ?thesis using initialization_sized [OF h, of ex_opts 1 1 "0.3"] h by (simp add: ex_sizes1_def)
qed

theorem initialization_in_bounds_witness:
  "Get_bounds_info ex_setup1 = ([-10], [10], [0], [0]) \<and> fst (Get_starting_point ex_setup1) = [20]
   \<and> x_k (initialization ex_opts ex_sizes1 ex_setup1 ex_nlp1 1 1 0.3) ! 0 \<le> 10"
proof -
  have h: "Get_bounds_info ex_setup1 = ([-10], [10], [0], [0])" "fst (Get_starting_point ex_setup1) = [20]"
    by (simp_all add: ex_setup1_def)
  show ?thesis using initialization_in_bounds [OF h, of ex_opts ex_sizes1 ex_nlp1 1 1 "0.3"] h by simp
qed

theorem update_penalty_first_LP_ignored_witness:
  "\<not> firstQPsolved (iface (myLP ex_first_state))
   \<and> update_penalty_parameter ex_opts (ex_first_env\<lparr>lp_solver := \<lambda>ifc. QpOptimal [0, 1, 1] [0, 0, 0, 0] 0\<rparr>) ex_first_state
     = update_penalty_parameter ex_opts (ex_first_env\<lparr>lp_solver := \<lambda>ifc. QpOptimal [0, 0, 0] [1, 0, 0, 0] 0\<rparr>) ex_first_state"
proof -
  have h: "\<not> firstQPsolved (iface (myLP ex_first_state))"
    by (simp add: ex_first_state_def QPhandler_init_def)
  show ?thesis
    using update_penalty_first_LP_ignored [OF h, where opts = ex_opts and env = ex_first_env
            and x = "[0, 1, 1]" and y = "[0, 0, 0, 0]" and obj = 0 and x' = "[0, 0, 0]" and y' = "[1, 0, 0, 0]"] h
    by simp
qed

theorem sqp_main_keeps_W_constr_witness:
  "\<exists>r. sqp_main ex_opts ex_pen_env ex_sizes1 ex_setup1 1 1 0.3 = Some r
       \<and> W_constr (result_state r) = W_constr (allocate_memory ex_opts ex_sizes1 0.3)
       \<and> \<not> multiplier_vars_null (result_state r)"
proof -
  have "sqp_main ex_opts ex_pen_env ex_sizes1 ex_setup1 1 1 0.3 \<noteq> None"
    using optimize_loop_terminates [of ex_opts "initialization ex_opts ex_sizes1 ex_setup1 (nlp ex_pen_env) 1 1 0.3" ex_pen_env]
    by (simp add: sqp_main_def Optimize_def initialization_fields ex_opts_def)
  then obtain r where r: "sqp_main ex_opts ex_pen_env ex_sizes1 ex_setup1 1 1 0.3 = Some r" by blast
  show ?thesis using sqp_main_keeps_W_constr [OF r] r by blast
qed

end
