(* ===== verification/QpHandler_Restart.thy ===== *)
theory QpHandler_Restart
  imports QP_Handler
begin

text \<open>
  \<open>QpHandler\<close> of \<open>src/src/QpHandler.cpp\<close>, the QP builder of the newer RestartSQP
  code base. It supports two formulations, fixed at construction. The compact one has
  variables \<open>(p, u, v)\<close> and constraints \<open>c_l - c_k <= J p + u - v <= c_u - c_k\<close>, with
  the trust region and the variable bounds intersected on \<open>p\<close>. The slack one has
  variables \<open>(p, u, v, w, t)\<close>; it adds the rows \<open>x_l - x_k <= p + w - t <= x_u - x_k\<close>
  and bounds \<open>p\<close> by the trust region alone. The solver interface it drives
  (\<open>QpSolverInterface\<close>, whose header is not in the repository) is modelled from the
  calls the handler makes: a record of the bound vectors, the linear objective, the
  installed Hessian and Jacobian with its identity blocks, and the last solution. The
  identity-block descriptor \<open>IdentityMatrixPositions::add_matrix(row, col, size, value)\<close>
  is a list of 1-based blocks. Only the code that is compiled is modelled; the blocks
  under \<open>#if 0\<close> and the debug comparisons are not.
\<close>

record identity_block =
  ib_row :: nat
  ib_col :: nat
  ib_size :: nat
  ib_value :: real

datatype qps_result = QpsOptimal vec vec vec real real | QpsFailed

record qps_iface =
  qs_lb :: vec
  qs_ub :: vec
  qs_lbA :: vec
  qs_ubA :: vec
  qs_g :: vec
  qs_H :: "sp_triplet option"
  qs_A :: "(sp_triplet \<times> identity_block list) option"
  qs_x :: vec
  qs_yb :: vec
  qs_yc :: vec
  qs_obj :: real

type_synonym qps_oracle = "qps_iface \<Rightarrow> qps_result"

definition qps_init :: "nat \<Rightarrow> nat \<Rightarrow> qps_iface" where
  "qps_init nqv nqc =
     \<lparr>qs_lb = replicate nqv 0, qs_ub = replicate nqv 0, qs_lbA = replicate nqc 0,
      qs_ubA = replicate nqc 0, qs_g = replicate nqv 0, qs_H = None, qs_A = None,
      qs_x = replicate nqv 0, qs_yb = replicate nqv 0, qs_yc = replicate nqc 0, qs_obj = 0\<rparr>"

definition set_lower_variable_bound :: "nat \<Rightarrow> real \<Rightarrow> qps_iface \<Rightarrow> qps_iface" where
  "set_lower_variable_bound i v s = s\<lparr>qs_lb := (qs_lb s)[i := v]\<rparr>"

definition set_upper_variable_bound :: "nat \<Rightarrow> real \<Rightarrow> qps_iface \<Rightarrow> qps_iface" where
  "set_upper_variable_bound i v s = s\<lparr>qs_ub := (qs_ub s)[i := v]\<rparr>"

definition set_lower_constraint_bound :: "nat \<Rightarrow> real \<Rightarrow> qps_iface \<Rightarrow> qps_iface" where
  "set_lower_constraint_bound i v s = s\<lparr>qs_lbA := (qs_lbA s)[i := v]\<rparr>"

definition set_upper_constraint_bound :: "nat \<Rightarrow> real \<Rightarrow> qps_iface \<Rightarrow> qps_iface" where
  "set_upper_constraint_bound i v s = s\<lparr>qs_ubA := (qs_ubA s)[i := v]\<rparr>"

definition set_linear_objective_coefficient :: "nat \<Rightarrow> real \<Rightarrow> qps_iface \<Rightarrow> qps_iface" where
  "set_linear_objective_coefficient i v s = s\<lparr>qs_g := (qs_g s)[i := v]\<rparr>"

record qp_handler_rs =
  num_nlp_variables :: nat
  num_nlp_constraints :: nat
  num_qp_variables :: nat
  num_qp_constraints :: nat
  slack_formulation :: bool
  last_penalty_parameter :: real
  identity_matrix_positions :: "identity_block list"
  qp_solver_choice :: qp_solver_choice
  qp_solver_interface :: qps_iface
  last_kkt_error :: real

definition on_solver :: "(qps_iface \<Rightarrow> qps_iface) \<Rightarrow> qp_handler_rs \<Rightarrow> qp_handler_rs" where
  "on_solver f h = h\<lparr>qp_solver_interface := f (qp_solver_interface h)\<rparr>"

text \<open>The constructor: sizes, identity blocks, and the bounds \<open>[0, INF]\<close> of every
  variable after the step, which "will not change later".\<close>

definition add_matrix :: "nat \<Rightarrow> nat \<Rightarrow> nat \<Rightarrow> real \<Rightarrow> identity_block list \<Rightarrow> identity_block list" where
  "add_matrix r c n v bs = bs @ [\<lparr>ib_row = r, ib_col = c, ib_size = n, ib_value = v\<rparr>]"

definition QpHandler_rs_init :: "nat \<Rightarrow> nat \<Rightarrow> bool \<Rightarrow> qp_solver_choice \<Rightarrow> qp_handler_rs" where
  "QpHandler_rs_init nv nc slack choice =
     (let nqv = (if \<not> slack then nv + 2 * nc else 3 * nv + 2 * nc);
          nqc = (if \<not> slack then nc else nv + nc);
          ids0 = add_matrix 1 (nv + nc + 1) nc (-1) (add_matrix 1 (nv + 1) nc 1 []);
          ids = (if \<not> slack then ids0
                 else add_matrix (nc + 1) (2 * nv + 2 * nc + 1) nv (-1)
                        (add_matrix (nc + 1) (nv + 2 * nc + 1) nv 1 (add_matrix (nc + 1) 1 nv 1 ids0)));
          s = for_upto (nqv - nv)
                (\<lambda>k s. set_upper_variable_bound (nv + k) INF_val (set_lower_variable_bound (nv + k) 0 s))
                (qps_init nqv nqc)
      in \<lparr>num_nlp_variables = nv, num_nlp_constraints = nc, num_qp_variables = nqv,
          num_qp_constraints = nqc, slack_formulation = slack, last_penalty_parameter = -1,
          identity_matrix_positions = ids, qp_solver_choice = choice, qp_solver_interface = s,
          last_kkt_error = 0\<rparr>)"

text \<open>\<open>set_bounds\<close> in both formulations.\<close>

definition set_bounds_rs ::
    "real \<Rightarrow> vec \<Rightarrow> vec \<Rightarrow> vec \<Rightarrow> vec \<Rightarrow> vec \<Rightarrow> vec \<Rightarrow> qp_handler_rs \<Rightarrow> qp_handler_rs" where
  "set_bounds_rs tr x_l x_u x_k c_l c_u c_k h =
     (let nv = num_nlp_variables h; nc = num_nlp_constraints h
      in if \<not> slack_formulation h then
           on_solver
             (\<lambda>s. for_upto nc (\<lambda>i s. set_upper_constraint_bound i (c_u ! i - c_k ! i)
                                       (set_lower_constraint_bound i (c_l ! i - c_k ! i) s))
                    (for_upto nv (\<lambda>i s. set_upper_variable_bound i (min (x_u ! i - x_k ! i) tr)
                                          (set_lower_variable_bound i (max (x_l ! i - x_k ! i) (- tr)) s)) s)) h
         else
           on_solver
             (\<lambda>s. for_upto nv (\<lambda>i s. set_upper_constraint_bound (nc + i) (x_u ! i - x_k ! i)
                                       (set_lower_constraint_bound (nc + i) (x_l ! i - x_k ! i) s))
                    (for_upto nc (\<lambda>i s. set_upper_constraint_bound i (c_u ! i - c_k ! i)
                                          (set_lower_constraint_bound i (c_l ! i - c_k ! i) s))
                      (for_upto nv (\<lambda>i s. set_upper_variable_bound i tr
                                            (set_lower_variable_bound i (- tr) s)) s))) h)"

text \<open>The linear objective \<open>[grad; rho e]\<close>. The penalty entries are written only
  when the penalty differs from \<open>last_penalty_parameter_\<close>, which the loop then sets.\<close>

definition set_linear_qp_objective_coefficients :: "vec \<Rightarrow> real \<Rightarrow> qp_handler_rs \<Rightarrow> qp_handler_rs" where
  "set_linear_qp_objective_coefficients grad rho h =
     (let nv = num_nlp_variables h; nqv = num_qp_variables h;
          h1 = on_solver (for_upto nv (\<lambda>i s. set_linear_objective_coefficient i (grad ! i) s)) h
      in if rho \<noteq> last_penalty_parameter h1 then
           for_upto (nqv - nv)
             (\<lambda>k h. (on_solver (set_linear_objective_coefficient (nv + k) rho) h)\<lparr>last_penalty_parameter := rho\<rparr>) h1
         else h1)"

definition update_penalty_parameter_rs :: "real \<Rightarrow> qp_handler_rs \<Rightarrow> qp_handler_rs" where
  "update_penalty_parameter_rs rho h =
     (if rho \<noteq> last_penalty_parameter h then
        on_solver (for_upto (num_qp_variables h - num_nlp_variables h)
                     (\<lambda>k s. set_linear_objective_coefficient (num_nlp_variables h + k) rho s)) h
      else h)"

definition set_hessian_rs :: "sp_triplet \<Rightarrow> qp_handler_rs \<Rightarrow> qp_handler_rs" where
  "set_hessian_rs H h = on_solver (\<lambda>s. s\<lparr>qs_H := Some H\<rparr>) h"

definition set_jacobian_rs :: "sp_triplet \<Rightarrow> qp_handler_rs \<Rightarrow> qp_handler_rs" where
  "set_jacobian_rs J h = on_solver (\<lambda>s. s\<lparr>qs_A := Some (J, identity_matrix_positions h)\<rparr>) h"

text \<open>\<open>decrease_trust_region\<close>: the slack formulation resets the step bounds to the
  new radius; the compact one only tightens the bounds that are looser than it.\<close>

definition decrease_trust_region :: "real \<Rightarrow> qp_handler_rs \<Rightarrow> qp_handler_rs" where
  "decrease_trust_region tr h =
     (if slack_formulation h then
        on_solver (for_upto (num_nlp_variables h)
                     (\<lambda>i s. set_upper_variable_bound i tr (set_lower_variable_bound i (- tr) s))) h
      else
        on_solver (for_upto (num_nlp_variables h)
                     (\<lambda>i s. let s1 = (if qs_lb s ! i < - tr then set_lower_variable_bound i (- tr) s else s)
                           in if qs_ub s1 ! i > tr then set_upper_variable_bound i tr s1 else s1)) h)"

text \<open>\<open>solve\<close>: an optimal answer is stored with its KKT error; any other status sets
  the error to \<open>1e20\<close> and fails the assertion "We do not handle failures of the QP
  solvers yet", which the model returns as \<open>None\<close>.\<close>

definition solve_rs :: "qps_oracle \<Rightarrow> qp_handler_rs \<Rightarrow> qp_handler_rs option" where
  "solve_rs solver h =
     (let s = qp_solver_interface h
      in case solver s of
           QpsOptimal x yb yc obj kkt \<Rightarrow>
             Some ((on_solver (\<lambda>s. s\<lparr>qs_x := x, qs_yb := yb, qs_yc := yc, qs_obj := obj\<rparr>) h)
                     \<lparr>last_kkt_error := kkt\<rparr>)
         | QpsFailed \<Rightarrow> None)"

definition get_bounds_multipliers_rs :: "qp_handler_rs \<Rightarrow> vec" where
  "get_bounds_multipliers_rs h = take (num_nlp_variables h) (qs_yb (qp_solver_interface h))"

definition get_constraint_multipliers_rs :: "qp_handler_rs \<Rightarrow> vec" where
  "get_constraint_multipliers_rs h = take (num_nlp_constraints h) (qs_yc (qp_solver_interface h))"

definition get_qp_objective :: "qp_handler_rs \<Rightarrow> real" where
  "get_qp_objective h = qs_obj (qp_solver_interface h)"

definition get_model_infeasibility :: "qp_handler_rs \<Rightarrow> real" where
  "get_model_infeasibility h =
     (\<Sum>k<num_qp_variables h - num_nlp_variables h.
        \<bar>qs_x (qp_solver_interface h) ! (num_nlp_variables h + k)\<bar>)"

text \<open>The calls a client makes on the handler, as data, and a run of a sequence of them:
  the handler's protocol is the set of such sequences, and invariants are stated over
  all of them.\<close>

datatype rs_op =
    RsSetBounds real vec vec vec vec vec vec
  | RsSetObjective vec real
  | RsUpdatePenalty real
  | RsDecreaseTR real
  | RsSetHessian sp_triplet
  | RsSetJacobian sp_triplet
  | RsSolve

fun rs_step :: "qps_oracle \<Rightarrow> rs_op \<Rightarrow> qp_handler_rs \<Rightarrow> qp_handler_rs option" where
  "rs_step solver (RsSetBounds tr x_l x_u x_k c_l c_u c_k) h = Some (set_bounds_rs tr x_l x_u x_k c_l c_u c_k h)"
| "rs_step solver (RsSetObjective grad rho) h = Some (set_linear_qp_objective_coefficients grad rho h)"
| "rs_step solver (RsUpdatePenalty rho) h = Some (update_penalty_parameter_rs rho h)"
| "rs_step solver (RsDecreaseTR tr) h = Some (decrease_trust_region tr h)"
| "rs_step solver (RsSetHessian H) h = Some (set_hessian_rs H h)"
| "rs_step solver (RsSetJacobian J) h = Some (set_jacobian_rs J h)"
| "rs_step solver RsSolve h = solve_rs solver h"

primrec rs_run :: "qps_oracle \<Rightarrow> rs_op list \<Rightarrow> qp_handler_rs \<Rightarrow> qp_handler_rs option" where
  "rs_run solver [] h = Some h"
| "rs_run solver (op # ops) h = (case rs_step solver op h of None \<Rightarrow> None | Some h' \<Rightarrow> rs_run solver ops h')"

text \<open>Well-formedness of the handler (sizes and vector lengths), the bounds that the
  constructor fixes for every variable after the step, and the invariant behind the
  skipped penalty writes: when \<open>last_penalty_parameter_\<close> is set, every penalty
  coefficient holds it.\<close>

definition rs_wf :: "qp_handler_rs \<Rightarrow> bool" where
  "rs_wf h = (let s = qp_solver_interface h in
     num_nlp_variables h \<le> num_qp_variables h \<and> num_nlp_constraints h \<le> num_qp_constraints h
     \<and> length (qs_lb s) = num_qp_variables h \<and> length (qs_ub s) = num_qp_variables h
     \<and> length (qs_g s) = num_qp_variables h
     \<and> length (qs_lbA s) = num_qp_constraints h \<and> length (qs_ubA s) = num_qp_constraints h
     \<and> (slack_formulation h \<longrightarrow> num_nlp_constraints h + num_nlp_variables h \<le> num_qp_constraints h))"

definition slack_bounds_ok :: "qp_handler_rs \<Rightarrow> bool" where
  "slack_bounds_ok h = (\<forall>k < num_qp_variables h - num_nlp_variables h.
      qs_lb (qp_solver_interface h) ! (num_nlp_variables h + k) = 0
      \<and> qs_ub (qp_solver_interface h) ! (num_nlp_variables h + k) = INF_val)"

definition pen_cache_ok :: "qp_handler_rs \<Rightarrow> bool" where
  "pen_cache_ok h = (last_penalty_parameter h = -1 \<or>
      (\<forall>k < num_qp_variables h - num_nlp_variables h.
         qs_g (qp_solver_interface h) ! (num_nlp_variables h + k) = last_penalty_parameter h))"

subsection \<open>Lemmas\<close>

lemma qps_setter_fields [simp]:
  "qs_lb (set_lower_variable_bound i v s) = (qs_lb s)[i := v]"
  "qs_ub (set_lower_variable_bound i v s) = qs_ub s"
  "qs_g (set_lower_variable_bound i v s) = qs_g s"
  "qs_lbA (set_lower_variable_bound i v s) = qs_lbA s"
  "qs_ubA (set_lower_variable_bound i v s) = qs_ubA s"
  "qs_lb (set_upper_variable_bound i v s) = qs_lb s"
  "qs_ub (set_upper_variable_bound i v s) = (qs_ub s)[i := v]"
  "qs_g (set_upper_variable_bound i v s) = qs_g s"
  "qs_lbA (set_upper_variable_bound i v s) = qs_lbA s"
  "qs_ubA (set_upper_variable_bound i v s) = qs_ubA s"
  "qs_lb (set_lower_constraint_bound i v s) = qs_lb s"
  "qs_ub (set_lower_constraint_bound i v s) = qs_ub s"
  "qs_g (set_lower_constraint_bound i v s) = qs_g s"
  "qs_lbA (set_lower_constraint_bound i v s) = (qs_lbA s)[i := v]"
  "qs_ubA (set_lower_constraint_bound i v s) = qs_ubA s"
  "qs_lb (set_upper_constraint_bound i v s) = qs_lb s"
  "qs_ub (set_upper_constraint_bound i v s) = qs_ub s"
  "qs_g (set_upper_constraint_bound i v s) = qs_g s"
  "qs_lbA (set_upper_constraint_bound i v s) = qs_lbA s"
  "qs_ubA (set_upper_constraint_bound i v s) = (qs_ubA s)[i := v]"
  "qs_lb (set_linear_objective_coefficient i v s) = qs_lb s"
  "qs_ub (set_linear_objective_coefficient i v s) = qs_ub s"
  "qs_g (set_linear_objective_coefficient i v s) = (qs_g s)[i := v]"
  "qs_lbA (set_linear_objective_coefficient i v s) = qs_lbA s"
  "qs_ubA (set_linear_objective_coefficient i v s) = qs_ubA s"
  by (simp_all add: set_lower_variable_bound_def set_upper_variable_bound_def
      set_lower_constraint_bound_def set_upper_constraint_bound_def set_linear_objective_coefficient_def)

lemma on_solver_fields [simp]:
  "qp_solver_interface (on_solver f h) = f (qp_solver_interface h)"
  "num_nlp_variables (on_solver f h) = num_nlp_variables h"
  "num_nlp_constraints (on_solver f h) = num_nlp_constraints h"
  "num_qp_variables (on_solver f h) = num_qp_variables h"
  "num_qp_constraints (on_solver f h) = num_qp_constraints h"
  "slack_formulation (on_solver f h) = slack_formulation h"
  "last_penalty_parameter (on_solver f h) = last_penalty_parameter h"
  "identity_matrix_positions (on_solver f h) = identity_matrix_positions h"
  by (simp_all add: on_solver_def)

text \<open>Each field of the interface under the loops of the handler.\<close>

lemma set_bounds_rs_fields:
  "qs_g (qp_solver_interface (set_bounds_rs tr x_l x_u x_k c_l c_u c_k h)) = qs_g (qp_solver_interface h)"
  "qs_lb (qp_solver_interface (set_bounds_rs tr x_l x_u x_k c_l c_u c_k h)) =
     for_upto (num_nlp_variables h)
       (\<lambda>i v. v[i := if slack_formulation h then - tr else max (x_l ! i - x_k ! i) (- tr)])
       (qs_lb (qp_solver_interface h))"
  "qs_ub (qp_solver_interface (set_bounds_rs tr x_l x_u x_k c_l c_u c_k h)) =
     for_upto (num_nlp_variables h)
       (\<lambda>i v. v[i := if slack_formulation h then tr else min (x_u ! i - x_k ! i) tr])
       (qs_ub (qp_solver_interface h))"
  "qs_lbA (qp_solver_interface (set_bounds_rs tr x_l x_u x_k c_l c_u c_k h)) =
     (let l0 = for_upto (num_nlp_constraints h) (\<lambda>i v. v[i := c_l ! i - c_k ! i]) (qs_lbA (qp_solver_interface h))
      in if slack_formulation h
         then for_upto (num_nlp_variables h) (\<lambda>i v. v[num_nlp_constraints h + i := x_l ! i - x_k ! i]) l0
         else l0)"
  "qs_ubA (qp_solver_interface (set_bounds_rs tr x_l x_u x_k c_l c_u c_k h)) =
     (let u0 = for_upto (num_nlp_constraints h) (\<lambda>i v. v[i := c_u ! i - c_k ! i]) (qs_ubA (qp_solver_interface h))
      in if slack_formulation h
         then for_upto (num_nlp_variables h) (\<lambda>i v. v[num_nlp_constraints h + i := x_u ! i - x_k ! i]) u0
         else u0)"
  by (auto simp: set_bounds_rs_def Let_def for_upto_frame[where P = qs_g] for_upto_proj[where P = qs_lb]
                 for_upto_proj[where P = qs_ub] for_upto_proj[where P = qs_lbA] for_upto_proj[where P = qs_ubA]
                 on_solver_def)

lemma for_upto_const: "for_upto n (\<lambda>i x. c) s = (if n = 0 then s else c)"
  by (induction n) simp_all

lemma list_update_same_nth: "xs ! i = v \<Longrightarrow> xs[i := v] = xs"
  by (cases "i < length xs") (auto simp: list_update_beyond)

lemma decrease_trust_region_fields:
  "qs_lb (qp_solver_interface (decrease_trust_region tr h)) =
     for_upto (num_nlp_variables h)
       (\<lambda>i v. v[i := if slack_formulation h then - tr else max (v ! i) (- tr)]) (qs_lb (qp_solver_interface h))"
  "qs_ub (qp_solver_interface (decrease_trust_region tr h)) =
     for_upto (num_nlp_variables h)
       (\<lambda>i v. v[i := if slack_formulation h then tr else min (v ! i) tr]) (qs_ub (qp_solver_interface h))"
  "qs_lbA (qp_solver_interface (decrease_trust_region tr h)) = qs_lbA (qp_solver_interface h)"
  "qs_ubA (qp_solver_interface (decrease_trust_region tr h)) = qs_ubA (qp_solver_interface h)"
  "qs_g (qp_solver_interface (decrease_trust_region tr h)) = qs_g (qp_solver_interface h)"
  by (auto simp: decrease_trust_region_def Let_def max_def min_def list_update_beyond not_less
        list_update_same_nth intro!: for_upto_frame for_upto_proj split: if_splits)

lemma set_bounds_rs_frame [simp]:
  "num_nlp_variables (set_bounds_rs tr x_l x_u x_k c_l c_u c_k h) = num_nlp_variables h"
  "num_nlp_constraints (set_bounds_rs tr x_l x_u x_k c_l c_u c_k h) = num_nlp_constraints h"
  "num_qp_variables (set_bounds_rs tr x_l x_u x_k c_l c_u c_k h) = num_qp_variables h"
  "num_qp_constraints (set_bounds_rs tr x_l x_u x_k c_l c_u c_k h) = num_qp_constraints h"
  "slack_formulation (set_bounds_rs tr x_l x_u x_k c_l c_u c_k h) = slack_formulation h"
  "last_penalty_parameter (set_bounds_rs tr x_l x_u x_k c_l c_u c_k h) = last_penalty_parameter h"
  by (simp_all add: set_bounds_rs_def Let_def)

lemma decrease_trust_region_nth:
  assumes "j < length (qs_lb (qp_solver_interface h))"
  shows "qs_lb (qp_solver_interface (decrease_trust_region tr h)) ! j =
           (if j < num_nlp_variables h then (if slack_formulation h then - tr else max (qs_lb (qp_solver_interface h) ! j) (- tr))
            else qs_lb (qp_solver_interface h) ! j)"
  unfolding decrease_trust_region_fields(1)
  by (rule nth_for_upto_update0[OF assms, where h = "\<lambda>i x. if slack_formulation h then - tr else max x (- tr)"])

lemma decrease_trust_region_nth_ub:
  assumes "j < length (qs_ub (qp_solver_interface h))"
  shows "qs_ub (qp_solver_interface (decrease_trust_region tr h)) ! j =
           (if j < num_nlp_variables h then (if slack_formulation h then tr else min (qs_ub (qp_solver_interface h) ! j) tr)
            else qs_ub (qp_solver_interface h) ! j)"
  unfolding decrease_trust_region_fields(2)
  by (rule nth_for_upto_update0[OF assms, where h = "\<lambda>i x. if slack_formulation h then tr else min x tr"])

lemma set_bounds_rs_nth:
  "j < length (qs_lb (qp_solver_interface h)) \<Longrightarrow>
   qs_lb (qp_solver_interface (set_bounds_rs tr x_l x_u x_k c_l c_u c_k h)) ! j =
     (if j < num_nlp_variables h then (if slack_formulation h then - tr else max (x_l ! j - x_k ! j) (- tr))
      else qs_lb (qp_solver_interface h) ! j)"
  by (simp add: set_bounds_rs_fields nth_for_upto_set0)

lemma set_bounds_rs_nth_ub:
  "j < length (qs_ub (qp_solver_interface h)) \<Longrightarrow>
   qs_ub (qp_solver_interface (set_bounds_rs tr x_l x_u x_k c_l c_u c_k h)) ! j =
     (if j < num_nlp_variables h then (if slack_formulation h then tr else min (x_u ! j - x_k ! j) tr)
      else qs_ub (qp_solver_interface h) ! j)"
  by (simp add: set_bounds_rs_fields nth_for_upto_set0)

lemma set_bounds_rs_length [simp]:
  "length (qs_lb (qp_solver_interface (set_bounds_rs tr x_l x_u x_k c_l c_u c_k h))) = length (qs_lb (qp_solver_interface h))"
  "length (qs_ub (qp_solver_interface (set_bounds_rs tr x_l x_u x_k c_l c_u c_k h))) = length (qs_ub (qp_solver_interface h))"
  by (simp_all add: set_bounds_rs_fields)

lemma decrease_trust_region_length [simp]:
  "length (qs_lb (qp_solver_interface (decrease_trust_region tr h))) = length (qs_lb (qp_solver_interface h))"
  "length (qs_ub (qp_solver_interface (decrease_trust_region tr h))) = length (qs_ub (qp_solver_interface h))"
  by (simp_all add: decrease_trust_region_fields)

lemma decrease_trust_region_frame [simp]:
  "num_nlp_variables (decrease_trust_region tr h) = num_nlp_variables h"
  "slack_formulation (decrease_trust_region tr h) = slack_formulation h"
  "num_nlp_constraints (decrease_trust_region tr h) = num_nlp_constraints h"
  "num_qp_variables (decrease_trust_region tr h) = num_qp_variables h"
  "num_qp_constraints (decrease_trust_region tr h) = num_qp_constraints h"
  by (simp_all add: decrease_trust_region_def)

lemma radius_clip:
  fixes a tr delta :: real
  assumes "tr \<le> delta"
  shows "max (max a (- delta)) (- tr) = max a (- tr)" and "min (min a delta) tr = min a tr"
  using assms by (simp_all add: max_def min_def)

text \<open>C27. In both formulations, \<open>decrease_trust_region\<close> to a radius no larger than the one the bounds were set with gives exactly the bounds \<open>set_bounds\<close> would give for the new radius: the shortcut refines a fresh call.\<close>

theorem decrease_trust_region_refines:
  assumes "tr \<le> delta"
  shows "qs_lb (qp_solver_interface (decrease_trust_region tr (set_bounds_rs delta x_l x_u x_k c_l c_u c_k h)))
           = qs_lb (qp_solver_interface (set_bounds_rs tr x_l x_u x_k c_l c_u c_k h))
       \<and> qs_ub (qp_solver_interface (decrease_trust_region tr (set_bounds_rs delta x_l x_u x_k c_l c_u c_k h)))
           = qs_ub (qp_solver_interface (set_bounds_rs tr x_l x_u x_k c_l c_u c_k h))
       \<and> qs_lbA (qp_solver_interface (decrease_trust_region tr (set_bounds_rs delta x_l x_u x_k c_l c_u c_k h)))
           = qs_lbA (qp_solver_interface (set_bounds_rs tr x_l x_u x_k c_l c_u c_k h))
       \<and> qs_ubA (qp_solver_interface (decrease_trust_region tr (set_bounds_rs delta x_l x_u x_k c_l c_u c_k h)))
           = qs_ubA (qp_solver_interface (set_bounds_rs tr x_l x_u x_k c_l c_u c_k h))"
proof (intro conjI)
  show "qs_lb (qp_solver_interface (decrease_trust_region tr (set_bounds_rs delta x_l x_u x_k c_l c_u c_k h)))
      = qs_lb (qp_solver_interface (set_bounds_rs tr x_l x_u x_k c_l c_u c_k h))"
    using assms by (intro nth_equalityI) (simp_all add: decrease_trust_region_nth set_bounds_rs_nth radius_clip)
  show "qs_ub (qp_solver_interface (decrease_trust_region tr (set_bounds_rs delta x_l x_u x_k c_l c_u c_k h)))
      = qs_ub (qp_solver_interface (set_bounds_rs tr x_l x_u x_k c_l c_u c_k h))"
    using assms by (intro nth_equalityI) (simp_all add: decrease_trust_region_nth_ub set_bounds_rs_nth_ub radius_clip)
qed (simp_all add: decrease_trust_region_fields set_bounds_rs_fields)

lemma coef_loop_fields:
  "qs_g (for_upto n (\<lambda>i s. set_linear_objective_coefficient (f i) (c i) s) s) = for_upto n (\<lambda>i v. v[f i := c i]) (qs_g s)"
  by (rule for_upto_proj) simp

lemma coef_loop_frame:
  "qs_lb (for_upto n (\<lambda>i s. set_linear_objective_coefficient (f i) (c i) s) s) = qs_lb s"
  "qs_ub (for_upto n (\<lambda>i s. set_linear_objective_coefficient (f i) (c i) s) s) = qs_ub s"
  "qs_lbA (for_upto n (\<lambda>i s. set_linear_objective_coefficient (f i) (c i) s) s) = qs_lbA s"
  "qs_ubA (for_upto n (\<lambda>i s. set_linear_objective_coefficient (f i) (c i) s) s) = qs_ubA s"
  by (rule for_upto_frame; simp)+

lemma penalty_loop_rs_fields:
  "qs_g (qp_solver_interface (for_upto m (\<lambda>k h. (on_solver (set_linear_objective_coefficient (off + k) r) h)
       \<lparr>last_penalty_parameter := r\<rparr>) h)) = for_upto m (\<lambda>k v. v[off + k := r]) (qs_g (qp_solver_interface h))"
  "last_penalty_parameter (for_upto m (\<lambda>k h. (on_solver (set_linear_objective_coefficient (off + k) r) h)
       \<lparr>last_penalty_parameter := r\<rparr>) h) = (if m = 0 then last_penalty_parameter h else r)"
  "qs_lb (qp_solver_interface (for_upto m (\<lambda>k h. (on_solver (set_linear_objective_coefficient (off + k) r) h)
       \<lparr>last_penalty_parameter := r\<rparr>) h)) = qs_lb (qp_solver_interface h)"
  "qs_ub (qp_solver_interface (for_upto m (\<lambda>k h. (on_solver (set_linear_objective_coefficient (off + k) r) h)
       \<lparr>last_penalty_parameter := r\<rparr>) h)) = qs_ub (qp_solver_interface h)"
  "qs_lbA (qp_solver_interface (for_upto m (\<lambda>k h. (on_solver (set_linear_objective_coefficient (off + k) r) h)
       \<lparr>last_penalty_parameter := r\<rparr>) h)) = qs_lbA (qp_solver_interface h)"
  "qs_ubA (qp_solver_interface (for_upto m (\<lambda>k h. (on_solver (set_linear_objective_coefficient (off + k) r) h)
       \<lparr>last_penalty_parameter := r\<rparr>) h)) = qs_ubA (qp_solver_interface h)"
  "num_nlp_variables (for_upto m (\<lambda>k h. (on_solver (set_linear_objective_coefficient (off + k) r) h)
       \<lparr>last_penalty_parameter := r\<rparr>) h) = num_nlp_variables h"
  "num_nlp_constraints (for_upto m (\<lambda>k h. (on_solver (set_linear_objective_coefficient (off + k) r) h)
       \<lparr>last_penalty_parameter := r\<rparr>) h) = num_nlp_constraints h"
  "num_qp_variables (for_upto m (\<lambda>k h. (on_solver (set_linear_objective_coefficient (off + k) r) h)
       \<lparr>last_penalty_parameter := r\<rparr>) h) = num_qp_variables h"
  "num_qp_constraints (for_upto m (\<lambda>k h. (on_solver (set_linear_objective_coefficient (off + k) r) h)
       \<lparr>last_penalty_parameter := r\<rparr>) h) = num_qp_constraints h"
  "slack_formulation (for_upto m (\<lambda>k h. (on_solver (set_linear_objective_coefficient (off + k) r) h)
       \<lparr>last_penalty_parameter := r\<rparr>) h) = slack_formulation h"
  by (simp add: for_upto_proj[where P = "\<lambda>h. qs_g (qp_solver_interface h)" and F = "\<lambda>k v. v[off + k := r]"],
      simp add: for_upto_const for_upto_proj[where P = last_penalty_parameter and F = "\<lambda>k x. r"],
      (rule for_upto_frame; simp)+)

lemma set_linear_qp_objective_coefficients_fields:
  "qs_g (qp_solver_interface (set_linear_qp_objective_coefficients grad rho h)) =
     (let G1 = for_upto (num_nlp_variables h) (\<lambda>i v. v[i := grad ! i]) (qs_g (qp_solver_interface h))
      in if rho \<noteq> last_penalty_parameter h
         then for_upto (num_qp_variables h - num_nlp_variables h) (\<lambda>k v. v[num_nlp_variables h + k := rho]) G1
         else G1)"
  "last_penalty_parameter (set_linear_qp_objective_coefficients grad rho h) =
     (if rho \<noteq> last_penalty_parameter h \<and> num_nlp_variables h < num_qp_variables h then rho
      else last_penalty_parameter h)"
  "qs_lb (qp_solver_interface (set_linear_qp_objective_coefficients grad rho h)) = qs_lb (qp_solver_interface h)"
  "qs_ub (qp_solver_interface (set_linear_qp_objective_coefficients grad rho h)) = qs_ub (qp_solver_interface h)"
  "qs_lbA (qp_solver_interface (set_linear_qp_objective_coefficients grad rho h)) = qs_lbA (qp_solver_interface h)"
  "qs_ubA (qp_solver_interface (set_linear_qp_objective_coefficients grad rho h)) = qs_ubA (qp_solver_interface h)"
  "num_nlp_variables (set_linear_qp_objective_coefficients grad rho h) = num_nlp_variables h"
  "num_nlp_constraints (set_linear_qp_objective_coefficients grad rho h) = num_nlp_constraints h"
  "num_qp_variables (set_linear_qp_objective_coefficients grad rho h) = num_qp_variables h"
  "num_qp_constraints (set_linear_qp_objective_coefficients grad rho h) = num_qp_constraints h"
  "slack_formulation (set_linear_qp_objective_coefficients grad rho h) = slack_formulation h"
  by (simp_all add: set_linear_qp_objective_coefficients_def Let_def penalty_loop_rs_fields coef_loop_fields
      coef_loop_frame)

lemma update_penalty_parameter_rs_fields:
  "qs_g (qp_solver_interface (update_penalty_parameter_rs rho h)) =
     (if rho \<noteq> last_penalty_parameter h
      then for_upto (num_qp_variables h - num_nlp_variables h) (\<lambda>k v. v[num_nlp_variables h + k := rho])
             (qs_g (qp_solver_interface h))
      else qs_g (qp_solver_interface h))"
  "last_penalty_parameter (update_penalty_parameter_rs rho h) = last_penalty_parameter h"
  "qs_lb (qp_solver_interface (update_penalty_parameter_rs rho h)) = qs_lb (qp_solver_interface h)"
  "qs_ub (qp_solver_interface (update_penalty_parameter_rs rho h)) = qs_ub (qp_solver_interface h)"
  "qs_lbA (qp_solver_interface (update_penalty_parameter_rs rho h)) = qs_lbA (qp_solver_interface h)"
  "qs_ubA (qp_solver_interface (update_penalty_parameter_rs rho h)) = qs_ubA (qp_solver_interface h)"
  "num_nlp_variables (update_penalty_parameter_rs rho h) = num_nlp_variables h"
  "num_nlp_constraints (update_penalty_parameter_rs rho h) = num_nlp_constraints h"
  "num_qp_variables (update_penalty_parameter_rs rho h) = num_qp_variables h"
  "num_qp_constraints (update_penalty_parameter_rs rho h) = num_qp_constraints h"
  "slack_formulation (update_penalty_parameter_rs rho h) = slack_formulation h"
  by (simp_all add: update_penalty_parameter_rs_def coef_loop_fields coef_loop_frame)

text \<open>C26. When the penalty cache is consistent, \<open>set_linear_qp_objective_coefficients\<close> leaves the QP's linear objective equal to the gradient followed by rho on every slack variable, whether or not the penalty writes were skipped, and the cache stays consistent.\<close>

theorem set_linear_qp_objective_coefficients_correct:
  assumes "rs_wf h" "pen_cache_ok h" "rho \<noteq> -1"
  shows "qs_g (qp_solver_interface (set_linear_qp_objective_coefficients grad rho h))
           = map (\<lambda>i. if i < num_nlp_variables h then grad ! i else rho) [0..<num_qp_variables h]
       \<and> pen_cache_ok (set_linear_qp_objective_coefficients grad rho h)"
proof -
  let ?nv = "num_nlp_variables h" and ?nq = "num_qp_variables h" and ?g = "qs_g (qp_solver_interface h)"
  have len: "length ?g = ?nq" "?nv \<le> ?nq" using assms(1) by (simp_all add: rs_wf_def Let_def)
  have old: "?g ! j = rho" if "?nv \<le> j" "j < ?nq" "rho = last_penalty_parameter h" for j
    using assms(2,3) that by (auto simp: pen_cache_ok_def dest: spec[of _ "j - ?nv"])
  have g: "qs_g (qp_solver_interface (set_linear_qp_objective_coefficients grad rho h))
           = map (\<lambda>i. if i < ?nv then grad ! i else rho) [0..<?nq]"
    using len old
    by (intro nth_equalityI)
       (auto simp: set_linear_qp_objective_coefficients_fields(1) Let_def nth_for_upto_set
                   nth_for_upto_set0 for_upto_write_beyond)
  then show ?thesis
    by (auto simp: pen_cache_ok_def set_linear_qp_objective_coefficients_fields(2,7,9))
qed

text \<open>C25. \<open>update_penalty_parameter\<close> writes the new penalty into the objective but does not record it in \<open>last_penalty_parameter_\<close>; a later \<open>set_linear_qp_objective_coefficients\<close> with the recorded penalty therefore skips its penalty writes and leaves the stale value in place.\<close>

theorem update_penalty_leaves_stale_coefficients:
  assumes "rs_wf h" "num_nlp_variables h < num_qp_variables h" "rho \<noteq> last_penalty_parameter h"
  shows "qs_g (qp_solver_interface
            (set_linear_qp_objective_coefficients grad (last_penalty_parameter h) (update_penalty_parameter_rs rho h)))
           ! num_nlp_variables h = rho"
proof -
  have "num_nlp_variables h < length (qs_g (qp_solver_interface h))" using assms(1,2) by (simp add: rs_wf_def Let_def)
  then show ?thesis using assms(2,3)
    by (simp add: set_linear_qp_objective_coefficients_fields update_penalty_parameter_rs_fields
                  for_upto_write_beyond nth_for_upto_set)
qed

lemma QpHandler_rs_init_sizes [simp]:
  "num_nlp_variables (QpHandler_rs_init nv nc slack choice) = nv"
  "num_nlp_constraints (QpHandler_rs_init nv nc slack choice) = nc"
  "slack_formulation (QpHandler_rs_init nv nc slack choice) = slack"
  "num_qp_variables (QpHandler_rs_init nv nc slack choice) = (if \<not> slack then nv + 2 * nc else 3 * nv + 2 * nc)"
  "num_qp_constraints (QpHandler_rs_init nv nc slack choice) = (if \<not> slack then nc else nv + nc)"
  "last_penalty_parameter (QpHandler_rs_init nv nc slack choice) = -1"
  by (simp_all add: QpHandler_rs_init_def Let_def)

lemma QpHandler_rs_init_lb:
  "qs_lb (qp_solver_interface (QpHandler_rs_init nv nc slack choice)) =
     for_upto (num_qp_variables (QpHandler_rs_init nv nc slack choice) - nv) (\<lambda>k v. v[nv + k := 0])
       (replicate (num_qp_variables (QpHandler_rs_init nv nc slack choice)) 0)"
  by (simp add: QpHandler_rs_init_def Let_def qps_init_def for_upto_proj[where P = qs_lb and F = "\<lambda>k v. v[nv + k := 0]"])

lemma QpHandler_rs_init_ub:
  "qs_ub (qp_solver_interface (QpHandler_rs_init nv nc slack choice)) =
     for_upto (num_qp_variables (QpHandler_rs_init nv nc slack choice) - nv) (\<lambda>k v. v[nv + k := INF_val])
       (replicate (num_qp_variables (QpHandler_rs_init nv nc slack choice)) 0)"
  by (simp add: QpHandler_rs_init_def Let_def qps_init_def for_upto_proj[where P = qs_ub and F = "\<lambda>k v. v[nv + k := INF_val]"])

lemma QpHandler_rs_init_other:
  "qs_g (qp_solver_interface (QpHandler_rs_init nv nc slack choice)) =
     replicate (num_qp_variables (QpHandler_rs_init nv nc slack choice)) 0"
  "qs_lbA (qp_solver_interface (QpHandler_rs_init nv nc slack choice)) =
     replicate (num_qp_constraints (QpHandler_rs_init nv nc slack choice)) 0"
  "qs_ubA (qp_solver_interface (QpHandler_rs_init nv nc slack choice)) =
     replicate (num_qp_constraints (QpHandler_rs_init nv nc slack choice)) 0"
  by (simp_all add: QpHandler_rs_init_def Let_def qps_init_def for_upto_frame[where P = qs_g]
        for_upto_frame[where P = qs_lbA] for_upto_frame[where P = qs_ubA])

lemma QpHandler_rs_init_invariants:
  "rs_wf (QpHandler_rs_init nv nc slack choice) \<and> slack_bounds_ok (QpHandler_rs_init nv nc slack choice)
   \<and> pen_cache_ok (QpHandler_rs_init nv nc slack choice)"
  by (simp add: rs_wf_def slack_bounds_ok_def pen_cache_ok_def Let_def QpHandler_rs_init_lb
        QpHandler_rs_init_ub QpHandler_rs_init_other nth_for_upto_set del: QpHandler_rs_init_sizes(4,5))
     (simp add: QpHandler_rs_init_sizes(4,5))

lemma rs_step_invariants:
  assumes "rs_step solver op h = Some h'" "rs_wf h" "slack_bounds_ok h"
  shows "rs_wf h' \<and> slack_bounds_ok h'"
proof (cases op)
  case (RsSetBounds tr x_l x_u x_k c_l c_u c_k)
  then show ?thesis using assms
    by (auto simp: rs_wf_def slack_bounds_ok_def Let_def set_bounds_rs_fields for_upto_write_beyond
                   set_bounds_rs_nth_ub)
next
  case (RsSetObjective grad rho)
  then show ?thesis using assms
    by (auto simp: rs_wf_def slack_bounds_ok_def Let_def set_linear_qp_objective_coefficients_fields)
next
  case (RsUpdatePenalty rho)
  then show ?thesis using assms
    by (auto simp: rs_wf_def slack_bounds_ok_def Let_def update_penalty_parameter_rs_fields)
next
  case (RsDecreaseTR tr)
  then show ?thesis using assms
    by (auto simp: rs_wf_def slack_bounds_ok_def Let_def decrease_trust_region_fields(3-5)
                   decrease_trust_region_nth decrease_trust_region_nth_ub)
next
  case (RsSetHessian H)
  then show ?thesis using assms by (auto simp: rs_wf_def slack_bounds_ok_def set_hessian_rs_def Let_def)
next
  case (RsSetJacobian J)
  then show ?thesis using assms by (auto simp: rs_wf_def slack_bounds_ok_def set_jacobian_rs_def Let_def)
next
  case RsSolve
  then show ?thesis using assms
    by (auto simp: rs_wf_def slack_bounds_ok_def solve_rs_def Let_def split: qps_result.splits)
qed

lemma rs_run_invariants:
  "rs_run solver ops h = Some h' \<Longrightarrow> rs_wf h \<Longrightarrow> slack_bounds_ok h \<Longrightarrow> rs_wf h' \<and> slack_bounds_ok h'"
proof (induction ops arbitrary: h)
  case (Cons op ops)
  then show ?case by (auto split: option.splits dest: rs_step_invariants)
qed simp

text \<open>C28. Along every sequence of handler calls from the constructor, the handler stays well formed and every slack variable keeps the bounds [0, INF] the constructor gave it.\<close>

theorem QpHandler_rs_slack_bounds_fixed:
  "rs_run solver ops (QpHandler_rs_init nv nc slack choice) = Some h \<Longrightarrow> rs_wf h \<and> slack_bounds_ok h"
  using rs_run_invariants QpHandler_rs_init_invariants by blast

text \<open>Every identity block the constructor registers lies inside the QP's constraint matrix (1-based rows and columns).\<close>

theorem QpHandler_rs_identity_blocks:
  "\<forall>b \<in> set (identity_matrix_positions (QpHandler_rs_init nv nc slack choice)).
     1 \<le> ib_row b \<and> ib_row b + ib_size b \<le> num_qp_constraints (QpHandler_rs_init nv nc slack choice) + 1
     \<and> 1 \<le> ib_col b \<and> ib_col b + ib_size b \<le> num_qp_variables (QpHandler_rs_init nv nc slack choice) + 1"
  by (auto simp: QpHandler_rs_init_def Let_def add_matrix_def)

text \<open>The constructor's identity blocks cover exactly the slack columns: the columns after the step variables in the compact formulation, all columns in the slack formulation.\<close>

theorem QpHandler_rs_identity_columns:
  "(\<Union>b \<in> set (identity_matrix_positions (QpHandler_rs_init nv nc slack choice)).
      {ib_col b ..< ib_col b + ib_size b})
   = (if slack then {1 ..< 3 * nv + 2 * nc + 1} else {nv + 1 ..< nv + 2 * nc + 1})"
  by (auto simp: QpHandler_rs_init_def Let_def add_matrix_def)

end
