(* ===== verification/QpHandler_Examples.thy ===== *)
theory QpHandler_Examples
  imports QpHandler_Restart
begin

text \<open>
  Concrete runs of the handler of \<open>QpHandler.cpp\<close>, evaluated by \<open>code_simp\<close>: one
  NLP variable and one constraint in the compact formulation (three QP variables: the
  step and two slacks). They instantiate the hypotheses of the lemmas of
  \<open>QpHandler_Restart\<close>, and show the stale penalty coefficients left by
  \<open>update_penalty_parameter\<close>.
\<close>

definition ex_rs0 :: qp_handler_rs where
  "ex_rs0 = QpHandler_rs_init 1 1 False QPOASES"

definition ex_rs1 :: qp_handler_rs where
  "ex_rs1 = set_linear_qp_objective_coefficients [2] 1 ex_rs0"

definition ex_rs_solver :: qps_oracle where
  "ex_rs_solver s = QpsOptimal [1 / 2] [0] [0] (-1) 0"

definition ex_rs_ops :: "rs_op list" where
  "ex_rs_ops = [RsSetBounds 1 [-10] [10] [0] [0] [0] [1], RsSetObjective [2] 1, RsDecreaseTR (1 / 2),
                RsSolve, RsUpdatePenalty 10]"

lemma ex_rs1_wf: "rs_wf ex_rs1 \<and> last_penalty_parameter ex_rs1 = 1 \<and> num_nlp_variables ex_rs1 = 1
                  \<and> num_qp_variables ex_rs1 = 3"
  by code_simp

lemma ex_rs_run: "rs_run ex_rs_solver ex_rs_ops ex_rs0 \<noteq> None"
  by code_simp

text \<open>The stale coefficients: after the objective \<open>[2; 1; 1]\<close>, a penalty update to 10
  and a new objective with penalty 1, the slack coefficients still read 10.\<close>

lemma ex_rs_stale:
  "qs_g (qp_solver_interface (set_linear_qp_objective_coefficients [2] 1 (update_penalty_parameter_rs 10 ex_rs1)))
     = [2, 10, 10]"
  by code_simp

theorem decrease_trust_region_refines_witness:
  "(1 / 2 :: real) \<le> 1
   \<and> qs_lb (qp_solver_interface (decrease_trust_region (1 / 2) (set_bounds_rs 1 [-10] [10] [0] [0] [0] [1] ex_rs0)))
       = qs_lb (qp_solver_interface (set_bounds_rs (1 / 2) [-10] [10] [0] [0] [0] [1] ex_rs0))"
  using decrease_trust_region_refines [where tr = "1 / 2" and delta = 1 and h = ex_rs0 and x_l = "[-10]"
    and x_u = "[10]" and x_k = "[0]" and c_l = "[0]" and c_u = "[0]" and c_k = "[1]"] by simp

theorem set_linear_qp_objective_coefficients_correct_witness:
  "rs_wf ex_rs0 \<and> pen_cache_ok ex_rs0 \<and> (1 :: real) \<noteq> -1
   \<and> qs_g (qp_solver_interface (set_linear_qp_objective_coefficients [2] 1 ex_rs0)) = [2, 1, 1]"
proof -
  have h: "rs_wf ex_rs0" "pen_cache_ok ex_rs0" by code_simp+
  have "qs_g (qp_solver_interface (set_linear_qp_objective_coefficients [2] 1 ex_rs0))
          = map (\<lambda>i. if i < num_nlp_variables ex_rs0 then [2] ! i else 1) [0..<num_qp_variables ex_rs0]"
    using set_linear_qp_objective_coefficients_correct [OF h, where rho = 1 and grad = "[2]"] by simp
  also have "\<dots> = [2, 1, 1]" by code_simp
  finally show ?thesis using h by simp
qed

theorem update_penalty_leaves_stale_coefficients_witness:
  "rs_wf ex_rs1 \<and> num_nlp_variables ex_rs1 < num_qp_variables ex_rs1 \<and> (10 :: real) \<noteq> last_penalty_parameter ex_rs1
   \<and> qs_g (qp_solver_interface (set_linear_qp_objective_coefficients [2] 1 (update_penalty_parameter_rs 10 ex_rs1))) ! 1 = 10"
  using update_penalty_leaves_stale_coefficients [where h = ex_rs1 and rho = 10 and grad = "[2]"] ex_rs1_wf by simp

theorem QpHandler_rs_slack_bounds_fixed_witness:
  "rs_run ex_rs_solver ex_rs_ops (QpHandler_rs_init 1 1 False QPOASES)
     = Some (the (rs_run ex_rs_solver ex_rs_ops ex_rs0))
   \<and> rs_wf (the (rs_run ex_rs_solver ex_rs_ops ex_rs0))
   \<and> slack_bounds_ok (the (rs_run ex_rs_solver ex_rs_ops ex_rs0))"
proof -
  have r: "rs_run ex_rs_solver ex_rs_ops (QpHandler_rs_init 1 1 False QPOASES)
             = Some (the (rs_run ex_rs_solver ex_rs_ops ex_rs0))"
    using ex_rs_run by (simp add: ex_rs0_def)
  show ?thesis using r QpHandler_rs_slack_bounds_fixed [OF r] by simp
qed

theorem QpHandler_rs_identity_blocks_witness:
  "let b = identity_matrix_positions (QpHandler_rs_init 1 1 True QPOASES) ! 4 in
     1 \<le> ib_row b \<and> ib_row b + ib_size b \<le> num_qp_constraints (QpHandler_rs_init 1 1 True QPOASES) + 1
     \<and> 1 \<le> ib_col b \<and> ib_col b + ib_size b \<le> num_qp_variables (QpHandler_rs_init 1 1 True QPOASES) + 1"
proof -
  have m: "identity_matrix_positions (QpHandler_rs_init 1 1 True QPOASES) ! 4
             \<in> set (identity_matrix_positions (QpHandler_rs_init 1 1 True QPOASES))"
    by (simp add: QpHandler_rs_init_def Let_def add_matrix_def)
  show ?thesis unfolding Let_def using bspec [OF QpHandler_rs_identity_blocks m] .
qed

end
