(* ===== verification/QpOases_Interface.thy ===== *)
theory QpOases_Interface
  imports SQP_State
begin

text \<open>
  The qpOASES back end \<open>qpOASESInterface\<close> (\<open>src/src/qpOASESInterface.cpp\<close>) between
  \<open>QPhandler\<close> and the qpOASES library. The interface keeps the QP data (the record
  \<open>qp_iface\<close> of \<open>QP_Handler\<close>), the matrix status pair
  \<open>old_QP_matrix_status_\<close>/\<open>new_QP_matrix_status_\<close>, and the library's
  \<open>SQProblem\<close> object, of which the model keeps what the interface relies on: the
  Hessian and Jacobian it was last given and the outcome of its last call. The library
  itself (spec \<section>4.4) is an engine \<open>sq_engine\<close> that maps a call and the object's
  state to an outcome; \<open>init\<close> and the hot start with new matrices install the
  matrices they are given, the hot start with vectors only keeps the stored ones.
  \<open>optimizeQP\<close>, \<open>optimizeLP\<close>, \<open>handler_error\<close>, \<open>obtain_status\<close>,
  \<open>get_Matrix_change_status\<close> and \<open>reset_flags\<close> are modelled from the code;
  \<open>getPrimalSolution\<close>/\<open>getDualSolution\<close> copy the solution only when the last call
  solved the problem, as qpOASES does. The assertion of \<open>optimizeQP\<close> is the value
  \<open>None\<close>. Print levels (\<open>setQP_options\<close>), the iteration statistics and file output
  are not modelled.
\<close>

datatype qp_type = QP | LP

text \<open>\<open>qpOASES::QProblemStatus\<close>.\<close>

datatype qpoases_status =
    QPS_NOTINITIALISED | QPS_PREPARINGAUXILIARYQP | QPS_AUXILIARYQPSOLVED
  | QPS_PERFORMINGHOMOTOPY | QPS_HOMOTOPYQPSOLVED | QPS_SOLVED

text \<open>What the library reports after a call: \<open>isSolved\<close>, \<open>isInfeasible\<close>,
  \<open>isUnbounded\<close>, \<open>getStatus\<close>, the primal and dual solution and \<open>getObjVal\<close>.\<close>

record sq_outcome =
  so_solved :: bool
  so_infeasible :: bool
  so_unbounded :: bool
  so_status :: qpoases_status
  so_x :: vec
  so_y :: vec
  so_obj :: real

text \<open>The QP data a call works on: Hessian (none for an LP, the \<open>0\<close> pointer), Jacobian,
  linear objective and the four bound vectors.\<close>

type_synonym qp_data = "sp_triplet option \<times> sp_triplet \<times> vec \<times> vec \<times> vec \<times> vec \<times> vec"

text \<open>The library calls in their argument order: \<open>init(H, g, A, lb, ub, lbA, ubA)\<close>,
  \<open>hotstart(g, lb, ub, lbA, ubA)\<close> and \<open>hotstart(H, g, A, lb, ub, lbA, ubA)\<close>.\<close>

datatype sq_call =
    SqInit "sp_triplet option" vec sp_triplet vec vec vec vec
  | SqHotstartVec vec vec vec vec vec
  | SqHotstartMat "sp_triplet option" vec sp_triplet vec vec vec vec

record sqproblem =
  sq_H :: "sp_triplet option"
  sq_A :: sp_triplet
  sq_out :: sq_outcome

type_synonym sq_engine = "sq_call \<Rightarrow> sqproblem \<Rightarrow> sq_outcome"

fun call_data :: "sq_call \<Rightarrow> sqproblem \<Rightarrow> qp_data" where
  "call_data (SqInit H gv A l u la ua) sq = (H, A, gv, l, u, la, ua)"
| "call_data (SqHotstartVec gv l u la ua) sq = (sq_H sq, sq_A sq, gv, l, u, la, ua)"
| "call_data (SqHotstartMat H gv A l u la ua) sq = (H, A, gv, l, u, la, ua)"

definition sq_run :: "sq_engine \<Rightarrow> sq_call \<Rightarrow> sqproblem \<Rightarrow> sqproblem" where
  "sq_run e c sq =
     (case call_data c sq of (H, A, _) \<Rightarrow> sq\<lparr>sq_H := H, sq_A := A, sq_out := e c sq\<rparr>)"

record oases_iface =
  oi :: qp_iface
  old_QP_matrix_status :: matrix_status
  new_QP_matrix_status :: matrix_status
  solver :: sqproblem

type_synonym oases_result = "(sqp_exception \<times> oases_iface) + oases_iface"

subsection \<open>Members of the interface\<close>

definition data_of :: "qp_type \<Rightarrow> qp_iface \<Rightarrow> qp_data" where
  "data_of t s = ((if t = LP then None else Some (H_qp s)), A_qp s, g s, lb s, ub s, lbA s, ubA s)"

definition init_call :: "qp_type \<Rightarrow> oases_iface \<Rightarrow> sq_call" where
  "init_call t st = (let s = oi st in
     SqInit (if t = LP then None else Some (H_qp s)) (g s) (A_qp s) (lb s) (ub s) (lbA s) (ubA s))"

definition hotstart_vec_call :: "oases_iface \<Rightarrow> sq_call" where
  "hotstart_vec_call st = (let s = oi st in SqHotstartVec (g s) (lb s) (ub s) (lbA s) (ubA s))"

definition hotstart_mat_call :: "qp_type \<Rightarrow> oases_iface \<Rightarrow> sq_call" where
  "hotstart_mat_call t st = (let s = oi st in
     SqHotstartMat (if t = LP then None else Some (H_qp s)) (g s) (A_qp s) (lb s) (ub s) (lbA s) (ubA s))"

definition call_solver :: "sq_engine \<Rightarrow> sq_call \<Rightarrow> oases_iface \<Rightarrow> oases_iface" where
  "call_solver e c st = st\<lparr>solver := sq_run e c (solver st)\<rparr>"

definition is_solved :: "oases_iface \<Rightarrow> bool" where
  "is_solved st = so_solved (sq_out (solver st))"

definition get_Matrix_change_status :: "oases_iface \<Rightarrow> oases_iface" where
  "get_Matrix_change_status st =
     (let f = data_change_flags (oi st);
          m = (if Update_A f \<or> Update_H f then VARIED else FIXED)
      in if old_QP_matrix_status st = UNDEFINED then st\<lparr>old_QP_matrix_status := m\<rparr>
         else st\<lparr>old_QP_matrix_status := (if new_QP_matrix_status st \<noteq> UNDEFINED
                                          then new_QP_matrix_status st else old_QP_matrix_status st),
                 new_QP_matrix_status := m\<rparr>)"

definition reset_flags :: "oases_iface \<Rightarrow> oases_iface" where
  "reset_flags st = st\<lparr>oi := (oi st)\<lparr>data_change_flags := no_flags\<rparr>\<rparr>"

text \<open>\<open>obtain_status\<close>: infeasible and unbounded first, then the library status; a
  status outside the \<open>switch\<close> leaves \<open>status_\<close> unchanged.\<close>

definition status_of :: "sq_outcome \<Rightarrow> exitflag \<Rightarrow> exitflag" where
  "status_of out prev =
     (if so_infeasible out then QPERROR_INFEASIBLE
      else if so_unbounded out then QPERROR_UNBOUNDED
      else case so_status out of
             QPS_NOTINITIALISED \<Rightarrow> QPERROR_NOTINITIALISED
           | QPS_PREPARINGAUXILIARYQP \<Rightarrow> QPERROR_PREPARINGAUXILIARYQP
           | QPS_AUXILIARYQPSOLVED \<Rightarrow> QPERROR_AUXILIARYQPSOLVED
           | QPS_PERFORMINGHOMOTOPY \<Rightarrow> QPERROR_PERFORMINGHOMOTOPY
           | QPS_HOMOTOPYQPSOLVED \<Rightarrow> QPERROR_HOMOTOPYQPSOLVED
           | QPS_SOLVED \<Rightarrow> prev)"

definition obtain_status :: "oases_iface \<Rightarrow> oases_iface" where
  "obtain_status st =
     st\<lparr>oi := (oi st)\<lparr>qp_status := status_of (sq_out (solver st)) (qp_status (oi st))\<rparr>\<rparr>"

text \<open>\<open>handler_error\<close>: re-initialise the solver on the current data (the \<open>if (true)\<close>
  branch), reset the matrix statuses, and throw when that fails too.\<close>

definition handler_error :: "qp_type \<Rightarrow> sq_engine \<Rightarrow> oases_iface \<Rightarrow> oases_result" where
  "handler_error t e st =
     (let st1 = obtain_status (call_solver e (init_call t st) st);
          st2 = st1\<lparr>old_QP_matrix_status := UNDEFINED, new_QP_matrix_status := UNDEFINED\<rparr>
      in if is_solved st2 then Inr st2
         else Inl (if t = LP then LP_NOT_OPTIMAL else QP_NOT_OPTIMAL, st2))"

definition fetch_solution :: "oases_iface \<Rightarrow> oases_iface" where
  "fetch_solution st =
     (if is_solved st
      then st\<lparr>oi := (oi st)\<lparr>x_qp := so_x (sq_out (solver st)), y_qp := so_y (sq_out (solver st))\<rparr>\<rparr>
      else st)"

text \<open>The choice of call once a QP has been solved: an assertion failure, no call, or a
  call together with whether the matrix statuses are reset afterwards. Only
  \<open>optimizeQP\<close> asserts \<open>old_QP_matrix_status_ != UNDEFINED\<close>.\<close>

datatype hs_choice = HsAssertFail | HsNoCall | HsCall sq_call bool

definition hotstart_choice :: "qp_type \<Rightarrow> oases_iface \<Rightarrow> hs_choice" where
  "hotstart_choice t st =
     (let old = old_QP_matrix_status st; new = new_QP_matrix_status st in
      if new = UNDEFINED then
        (if t = QP \<and> old = UNDEFINED then HsAssertFail
         else if old = FIXED then HsCall (hotstart_vec_call st) False
         else HsCall (hotstart_mat_call t st) False)
      else if new = FIXED \<and> old = FIXED then HsCall (hotstart_vec_call st) False
      else if new = VARIED \<and> old = VARIED then HsCall (hotstart_mat_call t st) False
      else if new \<noteq> old then HsCall (init_call t st) True
      else HsNoCall)"

definition hotstart_step :: "qp_type \<Rightarrow> sq_engine \<Rightarrow> oases_iface \<Rightarrow> oases_iface option" where
  "hotstart_step t e st =
     (case hotstart_choice t st of
        HsAssertFail \<Rightarrow> None
      | HsNoCall \<Rightarrow> Some st
      | HsCall c rs \<Rightarrow>
          (let st1 = call_solver e c st
           in Some (if rs then st1\<lparr>old_QP_matrix_status := UNDEFINED, new_QP_matrix_status := UNDEFINED\<rparr>
                    else st1)))"

text \<open>The first solve: \<open>init\<close>, and on failure \<open>obtain_status\<close> and \<open>handler_error\<close>.\<close>

definition first_solve :: "qp_type \<Rightarrow> sq_engine \<Rightarrow> oases_iface \<Rightarrow> oases_result" where
  "first_solve t e st =
     (let st1 = call_solver e (init_call t st) st
      in if is_solved st1 then Inr (st1\<lparr>oi := (oi st1)\<lparr>firstQPsolved := True\<rparr>\<rparr>)
         else handler_error t e (obtain_status st1))"

text \<open>The common tail: reset the dirty flags, copy the solution, and on failure
  \<open>obtain_status\<close> and \<open>handler_error\<close>.\<close>

definition solve_tail :: "qp_type \<Rightarrow> sq_engine \<Rightarrow> oases_iface \<Rightarrow> oases_result" where
  "solve_tail t e st =
     (let st1 = fetch_solution (reset_flags st)
      in if is_solved st1 then Inr st1 else handler_error t e (obtain_status st1))"

definition optimizeQP :: "sq_engine \<Rightarrow> oases_iface \<Rightarrow> oases_result option" where
  "optimizeQP e st =
     (if \<not> firstQPsolved (oi st) then
        (case first_solve QP e st of
           Inl x \<Rightarrow> Some (Inl x)
         | Inr st1 \<Rightarrow> Some (solve_tail QP e st1))
      else
        (case hotstart_step QP e (get_Matrix_change_status st) of
           None \<Rightarrow> None
         | Some st1 \<Rightarrow> Some (solve_tail QP e st1)))"

text \<open>\<open>optimizeLP\<close>: the tail (flag reset, solution copy, failure check) is inside the
  hot-start branch only.\<close>

definition optimizeLP :: "sq_engine \<Rightarrow> oases_iface \<Rightarrow> oases_result option" where
  "optimizeLP e st =
     (if \<not> firstQPsolved (oi st) then Some (first_solve LP e st)
      else
        (case hotstart_step LP e (get_Matrix_change_status st) of
           None \<Rightarrow> None
         | Some st1 \<Rightarrow> Some (solve_tail LP e st1)))"

subsection \<open>The correspondence with the oracle of \<open>QP_Handler\<close>\<close>

text \<open>The solver's view of the interface after a call: \<open>getObjVal\<close> is read live.
  The hot-start invariant: once a QP is solved, the matrices stored in the solver are the
  interface's matrices unless their dirty flag is raised.\<close>

definition abs_iface :: "oases_iface \<Rightarrow> qp_iface" where
  "abs_iface st = (oi st)\<lparr>obj_val := so_obj (sq_out (solver st))\<rparr>"

definition hs_inv :: "qp_type \<Rightarrow> oases_iface \<Rightarrow> bool" where
  "hs_inv t st =
     (firstQPsolved (oi st) \<longrightarrow>
        (\<not> Update_H (data_change_flags (oi st)) \<longrightarrow>
           sq_H (solver st) = (if t = LP then None else Some (H_qp (oi st))))
      \<and> (\<not> Update_A (data_change_flags (oi st)) \<longrightarrow> sq_A (solver st) = A_qp (oi st)))"

text \<open>An engine that answers from the data alone (no warm start effect), and the oracle
  it induces on the interface's data.\<close>

definition cold_engine :: "(qp_data \<Rightarrow> sq_outcome) \<Rightarrow> sq_engine" where
  "cold_engine solve c sq = solve (call_data c sq)"

definition oracle_of :: "qp_type \<Rightarrow> (qp_data \<Rightarrow> sq_outcome) \<Rightarrow> qp_oracle" where
  "oracle_of t solve s =
     (let out = solve (data_of t s)
      in if so_solved out then QpOptimal (so_x out) (so_y out) (so_obj out)
         else QpFail (status_of out (qp_status s)))"

subsection \<open>Runs of the interface\<close>

text \<open>The calls \<open>QPhandler\<close> makes on the interface for qpOASES: the entry setters,
  the Hessian and Jacobian (structure and values, as \<open>QPhandler::set_H\<close> and
  \<open>set_A\<close> do), and the solve of the handler's problem type.\<close>

datatype oases_op =
    OSetLb nat real | OSetUb nat real | OSetLbA nat real | OSetUbA nat real | OSetG nat real
  | OSetH sp_triplet | OSetA sp_triplet | OSolve

fun oases_step :: "qp_type \<Rightarrow> sq_engine \<Rightarrow> oases_op \<Rightarrow> oases_iface \<Rightarrow> oases_result option" where
  "oases_step t e (OSetLb i v) st = Some (Inr (st\<lparr>oi := set_lb i v (oi st)\<rparr>))"
| "oases_step t e (OSetUb i v) st = Some (Inr (st\<lparr>oi := set_ub i v (oi st)\<rparr>))"
| "oases_step t e (OSetLbA i v) st = Some (Inr (st\<lparr>oi := set_lbA i v (oi st)\<rparr>))"
| "oases_step t e (OSetUbA i v) st = Some (Inr (st\<lparr>oi := set_ubA i v (oi st)\<rparr>))"
| "oases_step t e (OSetG i v) st = Some (Inr (st\<lparr>oi := set_g i v (oi st)\<rparr>))"
| "oases_step t e (OSetH M) st = Some (Inr (st\<lparr>oi := set_H_values M (set_H_structure M (oi st))\<rparr>))"
| "oases_step t e (OSetA M) st = Some (Inr (st\<lparr>oi := set_A_values M (set_A_structure M (oi st))\<rparr>))"
| "oases_step t e OSolve st = (if t = LP then optimizeLP e st else optimizeQP e st)"

primrec oases_run :: "qp_type \<Rightarrow> sq_engine \<Rightarrow> oases_op list \<Rightarrow> oases_iface \<Rightarrow> oases_result option" where
  "oases_run t e [] st = Some (Inr st)"
| "oases_run t e (op # ops) st =
     (case oases_step t e op st of Some (Inr st') \<Rightarrow> oases_run t e ops st' | r \<Rightarrow> r)"

text \<open>Installing the current matrices in the solver establishes the invariant; the
  steps after a call keep the installed matrices and the QP data.\<close>

definition installed :: "qp_type \<Rightarrow> oases_iface \<Rightarrow> bool" where
  "installed t st = (sq_H (solver st) = fst (data_of t (oi st)) \<and> sq_A (solver st) = fst (snd (data_of t (oi st))))"

subsection \<open>Lemmas\<close>

lemma call_data_calls [simp]:
  "call_data (init_call t st) sq = data_of t (oi st)"
  "call_data (hotstart_mat_call t st) sq = data_of t (oi st)"
  "call_data (hotstart_vec_call st) sq = (sq_H sq, sq_A sq, g (oi st), lb (oi st), ub (oi st), lbA (oi st), ubA (oi st))"
  by (simp_all add: init_call_def hotstart_mat_call_def hotstart_vec_call_def data_of_def Let_def)

lemma sq_run_fields [simp]:
  "sq_out (sq_run e c sq) = e c sq"
  "sq_H (sq_run e c sq) = fst (call_data c sq)"
  "sq_A (sq_run e c sq) = fst (snd (call_data c sq))"
  by (simp_all add: sq_run_def split: prod.splits)

lemma gMcs_frame [simp]:
  "oi (get_Matrix_change_status st) = oi st"
  "solver (get_Matrix_change_status st) = solver st"
  by (simp_all add: get_Matrix_change_status_def Let_def)

lemma gMcs_old_defined: "old_QP_matrix_status (get_Matrix_change_status st) \<noteq> UNDEFINED"
  by (simp add: get_Matrix_change_status_def Let_def)

lemma op_frames [simp]:
  "oi (call_solver e c st) = oi st" "solver (call_solver e c st) = sq_run e c (solver st)"
  "solver (reset_flags st) = solver st" "oi (reset_flags st) = (oi st)\<lparr>data_change_flags := no_flags\<rparr>"
  "solver (obtain_status st) = solver st"
  "oi (obtain_status st) = (oi st)\<lparr>qp_status := status_of (sq_out (solver st)) (qp_status (oi st))\<rparr>"
  "solver (fetch_solution st) = solver st"
  by (simp_all add: call_solver_def reset_flags_def obtain_status_def fetch_solution_def)

lemma status_of_idem [simp]: "status_of out (status_of out p) = status_of out p"
  by (simp add: status_of_def split: qpoases_status.splits)

lemma hotstart_choice_current:
  assumes "hs_inv t st" "firstQPsolved (oi st)"
    and "hotstart_choice t (get_Matrix_change_status st) = HsCall c rs"
  shows "call_data c (solver st) = data_of t (oi st)"
  using assms
  by (auto simp: hotstart_choice_def get_Matrix_change_status_def Let_def hs_inv_def data_of_def
           split: if_splits)

lemma hotstart_choice_calls:
  "\<exists>c rs. hotstart_choice t (get_Matrix_change_status st) = HsCall c rs"
  by (cases "old_QP_matrix_status st"; cases "new_QP_matrix_status st")
     (auto simp: hotstart_choice_def get_Matrix_change_status_def Let_def)

text \<open>C15. Once a QP has been solved, \<open>optimizeQP\<close> and \<open>optimizeLP\<close> choose the hot
  start that reuses the solver's matrices only when neither the Jacobian nor the Hessian
  has been marked as changed since the last solve.\<close>

theorem hotstart_vec_only_unchanged:
  "hotstart_choice t (get_Matrix_change_status st) = HsCall (SqHotstartVec gv l u la ua) rs
   \<Longrightarrow> \<not> Update_A (data_change_flags (oi st)) \<and> \<not> Update_H (data_change_flags (oi st))"
  by (auto simp: hotstart_choice_def get_Matrix_change_status_def Let_def hotstart_mat_call_def
           init_call_def split: if_splits)

lemma hotstart_step_current:
  assumes "hs_inv t st" "firstQPsolved (oi st)"
  shows "\<exists>c st1. hotstart_step t e (get_Matrix_change_status st) = Some st1 \<and> oi st1 = oi st
           \<and> solver st1 = sq_run e c (solver st) \<and> call_data c (solver st) = data_of t (oi st)"
proof -
  obtain c rs where ch: "hotstart_choice t (get_Matrix_change_status st) = HsCall c rs"
    using hotstart_choice_calls by blast
  have "call_data c (solver st) = data_of t (oi st)"
    using hotstart_choice_current [OF assms ch] .
  with ch show ?thesis by (auto simp: hotstart_step_def Let_def)
qed

lemma cold_run [simp]:
  "call_data c sq = data_of t s \<Longrightarrow> sq_out (sq_run (cold_engine solve) c sq) = solve (data_of t s)"
  by (simp add: cold_engine_def)

lemma data_of_updates [simp]:
  "data_of t (s\<lparr>data_change_flags := f\<rparr>) = data_of t s"
  "data_of t (s\<lparr>qp_status := q\<rparr>) = data_of t s"
  "data_of t (s\<lparr>x_qp := x, y_qp := y\<rparr>) = data_of t s"
  "data_of t (s\<lparr>firstQPsolved := b\<rparr>) = data_of t s"
  by (simp_all add: data_of_def)

text \<open>The tail after a call on the current data, for an engine that answers from the
  data alone.\<close>

lemma solve_tail_cold:
  assumes "sq_out (solver st) = solve (data_of t (oi st))"
  shows "solve_tail t (cold_engine solve) st =
     (if so_solved (solve (data_of t (oi st)))
      then Inr (fetch_solution (reset_flags st))
      else handler_error t (cold_engine solve) (obtain_status (fetch_solution (reset_flags st))))"
  using assms by (simp add: solve_tail_def is_solved_def fetch_solution_def reset_flags_def Let_def)

lemma handler_error_cold:
  "handler_error t (cold_engine solve) st =
     (let out = solve (data_of t (oi st));
          st2 = (obtain_status (call_solver (cold_engine solve) (init_call t st) st))
                  \<lparr>old_QP_matrix_status := UNDEFINED, new_QP_matrix_status := UNDEFINED\<rparr>
      in if so_solved out then Inr st2 else Inl (if t = LP then LP_NOT_OPTIMAL else QP_NOT_OPTIMAL, st2))"
  by (simp add: handler_error_def is_solved_def Let_def cold_engine_def obtain_status_def call_solver_def)

lemmas oases_state_defs = is_solved_def on_iface_def abs_iface_def fetch_solution_def reset_flags_def
  call_solver_def obtain_status_def cold_engine_def Let_def hs_inv_def data_of_def

lemma hs_inv_installed:
  "sq_H (solver st) = fst (data_of t (oi st)) \<Longrightarrow> sq_A (solver st) = fst (snd (data_of t (oi st))) \<Longrightarrow> hs_inv t st"
  by (simp add: hs_inv_def data_of_def)

text \<open>For an engine that answers from the QP data alone, \<open>optimizeQP\<close> with its hot starts, status bookkeeping and retry behaves exactly as the oracle-level \<open>QPhandler::solveQP\<close> of the driver model: same solution, objective, flags and solved mark on success, \<open>QP_NOT_OPTIMAL\<close> with the same status on failure, and the hot-start invariant is kept.\<close>

theorem optimizeQP_refines_solveQP:
  assumes inv: "hs_inv QP st" and h: "iface h = abs_iface st"
  shows "case optimizeQP (cold_engine solve) st of
           None \<Rightarrow> False
         | Some (Inr st') \<Rightarrow> solveQP (oracle_of QP solve) h = Inr (h\<lparr>iface := abs_iface st'\<rparr>) \<and> hs_inv QP st'
         | Some (Inl (ex, st')) \<Rightarrow> ex = QP_NOT_OPTIMAL
             \<and> solveQP (oracle_of QP solve) h = Inl (qp_status (oi st'), h\<lparr>iface := (iface h)\<lparr>qp_status := qp_status (oi st')\<rparr>\<rparr>)"
proof -
  let ?out = "solve (data_of QP (oi st))"
  have abs: "oracle_of QP solve (iface h) = (if so_solved ?out then QpOptimal (so_x ?out) (so_y ?out) (so_obj ?out)
                                              else QpFail (status_of ?out (qp_status (oi st))))"
    using h by (simp add: oracle_of_def abs_iface_def data_of_def Let_def)
  show ?thesis
  proof (cases "firstQPsolved (oi st)")
    case False
    then show ?thesis using h abs
      by (auto simp: optimizeQP_def first_solve_def solve_tail_cold handler_error_cold solveQP_def
            oases_state_defs)
  next
    case True
    obtain c st1 where st1: "hotstart_step QP (cold_engine solve) (get_Matrix_change_status st) = Some st1"
      "oi st1 = oi st" "solver st1 = sq_run (cold_engine solve) c (solver st)"
      "call_data c (solver st) = data_of QP (oi st)"
      using hotstart_step_current [OF inv True] by blast
    have out: "sq_out (solver st1) = solve (data_of QP (oi st1))" using st1 by (simp add: cold_engine_def)
    show ?thesis using h abs st1 True
      by (auto simp: optimizeQP_def solve_tail_cold [where solve = solve, OF out] handler_error_cold
            solveQP_def oases_state_defs)
  qed
qed

text \<open>For an engine that answers from the QP data alone, \<open>optimizeLP\<close> behaves exactly as the oracle-level \<open>solveLP\<close> of the driver model, including the first LP whose solution is not copied; a failure is \<open>LP_NOT_OPTIMAL\<close> with the same status.\<close>

theorem optimizeLP_refines_solveLP:
  assumes inv: "hs_inv LP st" and h: "iface h = abs_iface st"
  shows "case optimizeLP (cold_engine solve) st of
           None \<Rightarrow> False
         | Some (Inr st') \<Rightarrow> solveLP (oracle_of LP solve) h = Inr (h\<lparr>iface := abs_iface st'\<rparr>) \<and> hs_inv LP st'
         | Some (Inl (ex, st')) \<Rightarrow> ex = LP_NOT_OPTIMAL
             \<and> solveLP (oracle_of LP solve) h = Inl (qp_status (oi st'), h\<lparr>iface := (iface h)\<lparr>qp_status := qp_status (oi st')\<rparr>\<rparr>)"
proof -
  let ?out = "solve (data_of LP (oi st))"
  have abs: "oracle_of LP solve (iface h) = (if so_solved ?out then QpOptimal (so_x ?out) (so_y ?out) (so_obj ?out)
                                              else QpFail (status_of ?out (qp_status (oi st))))"
    using h by (simp add: oracle_of_def abs_iface_def data_of_def Let_def)
  show ?thesis
  proof (cases "firstQPsolved (oi st)")
    case False
    then show ?thesis using h abs
      by (auto simp: optimizeLP_def first_solve_def solve_tail_cold handler_error_cold solveLP_def
            oases_state_defs)
  next
    case True
    obtain c st1 where st1: "hotstart_step LP (cold_engine solve) (get_Matrix_change_status st) = Some st1"
      "oi st1 = oi st" "solver st1 = sq_run (cold_engine solve) c (solver st)"
      "call_data c (solver st) = data_of LP (oi st)"
      using hotstart_step_current [OF inv True] by blast
    have out: "sq_out (solver st1) = solve (data_of LP (oi st1))" using st1 by (simp add: cold_engine_def)
    show ?thesis using h abs st1 True
      by (auto simp: optimizeLP_def solve_tail_cold [where solve = solve, OF out] handler_error_cold
            solveLP_def oases_state_defs)
  qed
qed

text \<open>C19. The assertion \<open>old_QP_matrix_status_ != UNDEFINED\<close> of \<open>optimizeQP\<close> never fails, and both solve routines always return or throw, for any engine and any interface state.\<close>

theorem optimize_no_assert_failure:
  "optimizeQP e st \<noteq> None \<and> optimizeLP e st \<noteq> None"
proof -
  obtain c rs where "hotstart_choice QP (get_Matrix_change_status st) = HsCall c rs"
    using hotstart_choice_calls by blast
  moreover obtain c' rs' where "hotstart_choice LP (get_Matrix_change_status st) = HsCall c' rs'"
    using hotstart_choice_calls by blast
  ultimately show ?thesis
    by (auto simp: optimizeQP_def optimizeLP_def hotstart_step_def Let_def split: sum.splits)
qed

lemma installed_hs_inv: "installed t st \<Longrightarrow> hs_inv t st"
  by (simp add: installed_def hs_inv_def data_of_def)

lemma handler_error_installed: "handler_error t e st = Inr st' \<Longrightarrow> installed t st'"
  by (auto simp: handler_error_def installed_def oases_state_defs split: if_splits)

lemma solve_tail_installed: "installed t st \<Longrightarrow> solve_tail t e st = Inr st' \<Longrightarrow> installed t st'"
  by (auto simp: solve_tail_def installed_def oases_state_defs dest: handler_error_installed split: if_splits)

lemma first_solve_installed: "first_solve t e st = Inr st' \<Longrightarrow> installed t st'"
  by (auto simp: first_solve_def installed_def oases_state_defs dest: handler_error_installed split: if_splits)

lemma hotstart_step_installed:
  assumes "hs_inv t st" "firstQPsolved (oi st)" "hotstart_step t e (get_Matrix_change_status st) = Some st1"
  shows "installed t st1"
  using hotstart_step_current [OF assms(1,2), of e] assms(3)
  by (auto simp: installed_def)


lemma optimize_hs_inv:
  assumes inv: "hs_inv t st" and run: "(if t = LP then optimizeLP e st else optimizeQP e st) = Some (Inr st')"
  shows "hs_inv t st'"
proof (cases "firstQPsolved (oi st)")
  case False
  show ?thesis
  proof (cases "t = LP")
    case True
    with False run have "first_solve t e st = Inr st'" by (simp add: optimizeLP_def)
    then show ?thesis by (rule installed_hs_inv [OF first_solve_installed])
  next
    case nLP: False
    then have t: "t = QP" by (cases t) auto
    with False run obtain st1 where "first_solve t e st = Inr st1" "solve_tail t e st1 = Inr st'"
      by (auto simp: optimizeQP_def split: sum.splits)
    then show ?thesis by (blast intro: installed_hs_inv first_solve_installed solve_tail_installed)
  qed
next
  case True
  have "\<exists>st1. hotstart_step t e (get_Matrix_change_status st) = Some st1 \<and> solve_tail t e st1 = Inr st'"
    using run True by (cases t) (auto simp: optimizeQP_def optimizeLP_def split: option.splits)
  then obtain st1 where "hotstart_step t e (get_Matrix_change_status st) = Some st1" "solve_tail t e st1 = Inr st'"
    by blast
  then show ?thesis by (blast intro: installed_hs_inv solve_tail_installed hotstart_step_installed [OF inv True])
qed

lemma setter_hs_inv:
  assumes "hs_inv t st" "oases_step t e op st = Some (Inr st')" "op \<noteq> OSolve"
  shows "hs_inv t st'"
  using assms by (cases op) (auto simp: hs_inv_def setter_defs Let_def split: if_splits)

text \<open>C16. Along every sequence of setter calls and solves, with any engine, the matrices stored in the solver are the interface's current Hessian and Jacobian whenever their dirty flags are clear after the first solve (the hot-start invariant).\<close>

theorem oases_run_hs_inv:
  "hs_inv t st \<Longrightarrow> oases_run t e ops st = Some (Inr st') \<Longrightarrow> hs_inv t st'"
proof (induction ops arbitrary: st)
  case (Cons op ops)
  then obtain st1 where s1: "oases_step t e op st = Some (Inr st1)" "oases_run t e ops st1 = Some (Inr st')"
    by (auto split: option.splits sum.splits)
  have "hs_inv t st1"
  proof (cases "op = OSolve")
    case True
    then show ?thesis using s1(1) optimize_hs_inv [OF Cons.prems(1)] by simp
  qed (rule setter_hs_inv [OF Cons.prems(1) s1(1)])
  then show ?case using Cons.IH s1(2) by blast
qed simp


text \<open>C17. When a hot start fails and the re-initialising retry of \<open>handler_error\<close> succeeds, \<open>optimizeQP\<close> returns normally with the primal and dual solution of the interface unchanged: they were copied before the retry, so the solver holds the retry's solution and the interface reports the old one.\<close>

theorem optimizeQP_retry_stale_solution:
  assumes first: "firstQPsolved (oi st)"
    and ch: "hotstart_choice QP (get_Matrix_change_status st) = HsCall c rs"
    and fail: "\<not> so_solved (e c (solver st))"
    and retry: "so_solved (e (init_call QP st) (sq_run e c (solver st)))"
  shows "\<exists>st'. optimizeQP e st = Some (Inr st') \<and> x_qp (oi st') = x_qp (oi st) \<and> y_qp (oi st') = y_qp (oi st)
           \<and> sq_out (solver st') = e (init_call QP st) (sq_run e c (solver st))"
proof -
  obtain st1 where s1: "hotstart_step QP e (get_Matrix_change_status st) = Some st1"
      "oi st1 = oi st" "solver st1 = sq_run e c (solver st)"
    using ch by (cases rs) (auto simp: hotstart_step_def Let_def)
  define st2 where "st2 = obtain_status (fetch_solution (reset_flags st1))"
  have st2: "oi st2 = (oi st)\<lparr>data_change_flags := no_flags, qp_status := status_of (e c (solver st)) (qp_status (oi st))\<rparr>"
    "solver st2 = sq_run e c (solver st)" "\<not> is_solved (fetch_solution (reset_flags st1))"
    using s1 fail by (simp_all add: st2_def fetch_solution_def is_solved_def)
  have ic: "init_call QP st2 = init_call QP st" using st2(1) by (simp add: init_call_def Let_def)
  have "solve_tail QP e st1 = handler_error QP e st2"
    using st2(3) by (simp add: solve_tail_def st2_def Let_def)
  also have "\<dots> = Inr ((obtain_status (call_solver e (init_call QP st) st2))
                      \<lparr>old_QP_matrix_status := UNDEFINED, new_QP_matrix_status := UNDEFINED\<rparr>)"
    using retry st2(2) ic by (simp add: handler_error_def is_solved_def Let_def)
  finally show ?thesis using first s1(1) st2(1,2) by (simp add: optimizeQP_def)
qed

end
