(* ===== verification/QpOases_Legacy.thy ===== *)
theory QpOases_Legacy
  imports QpOases_Interface SQP_Init
begin

text \<open>
  The earlier qpOASES back end \<open>src/src/QPsolverInterface.cpp\<close>. It defines the same
  class \<open>qpOASESInterface\<close> as \<open>src/src/qpOASESInterface.cpp\<close>, without the matrix
  statuses, the dirty flags and the retry \<open>handler_error\<close>: \<open>optimizeQP\<close> calls
  \<open>init\<close> on the first QP and the hot start with the full data afterwards, and throws
  \<open>QP_NOT_OPTIMAL\<close> with the status of \<open>get_status\<close> on any failure. Its header
  (\<open>QPsolverInterface.hpp\<close>, with the status type \<open>QPReturnType\<close>) is not in the
  repository; the status type is the datatype of the constants the file uses, and the
  member \<open>firstQPsolved\<close> starts \<open>false\<close> as in the current interface. The solution
  is read from the library on demand (\<open>getPrimalSolution\<close>, \<open>getDualSolution\<close>,
  \<open>getObjVal\<close>). The state is the record \<open>legacy_iface\<close>; the library object is the
  \<open>sqproblem\<close> of \<open>QpOases_Interface\<close>, run by the same engines. The Hessian of an
  LP interface is the null pointer \<open>None\<close>; a member function that dereferences it
  returns \<open>None\<close>.

  The main result compares the two back ends: for an engine that answers from the QP
  data alone, the current \<open>optimizeQP\<close>, with its hot starts, matrix statuses and
  retry, succeeds exactly when the legacy one does, with the same solution,
  multipliers and objective.
\<close>

datatype qp_return_type = UNSOLVED | QP_NOTINITIALISED | QP_INFEASIBLE | QP_UNBOUNDED | QP_UNKNOWN_ERROR

record legacy_iface =
  lg_lb :: vec
  lg_ub :: vec
  lg_lbA :: vec
  lg_ubA :: vec
  lg_g :: vec
  lg_A :: sp_triplet
  lg_H :: "sp_triplet option"
  lg_first :: bool
  lg_status :: qp_return_type
  lg_qp :: sqproblem

text \<open>\<open>allocate\<close> and the constructor: zero vectors, empty matrices (no Hessian for an
  LP), a fresh \<open>SQProblem\<close> whose status is \<open>QPS_NOTINITIALISED\<close>.\<close>

definition legacy_allocate :: "nlp_sizes \<Rightarrow> qp_type \<Rightarrow> legacy_iface" where
  "legacy_allocate sz t =
     (let nvq = 2 * nlp_nCon sz + nlp_nVar sz; ncq = nlp_nCon sz;
          A0 = new_triplet (nnz_jac_g sz + 2 * nlp_nCon sz) ncq nvq False
      in \<lparr>lg_lb = replicate nvq 0, lg_ub = replicate nvq 0, lg_lbA = replicate ncq 0,
          lg_ubA = replicate ncq 0, lg_g = replicate nvq 0, lg_A = A0,
          lg_H = (if t \<noteq> LP then Some (new_triplet 0 nvq nvq True) else None),
          lg_first = False, lg_status = UNSOLVED,
          lg_qp = \<lparr>sq_H = None, sq_A = A0,
                   sq_out = \<lparr>so_solved = False, so_infeasible = False, so_unbounded = False,
                             so_status = QPS_NOTINITIALISED, so_x = replicate nvq 0,
                             so_y = replicate (nvq + ncq) 0, so_obj = 0\<rparr>\<rparr>\<rparr>)"

text \<open>\<open>get_status\<close>: the library status, then infeasibility and unboundedness; any
  other failure is \<open>QP_UNKNOWN_ERROR\<close>.\<close>

definition legacy_get_status :: "legacy_iface \<Rightarrow> legacy_iface" where
  "legacy_get_status st =
     (let out = sq_out (lg_qp st)
      in st\<lparr>lg_status := (if so_status out = QPS_NOTINITIALISED then QP_NOTINITIALISED
                          else if so_infeasible out then QP_INFEASIBLE
                          else if so_unbounded out then QP_UNBOUNDED
                          else QP_UNKNOWN_ERROR)\<rparr>)"

definition legacy_solved :: "legacy_iface \<Rightarrow> bool" where
  "legacy_solved st = so_solved (sq_out (lg_qp st))"

definition legacy_call :: "sq_engine \<Rightarrow> sq_call \<Rightarrow> legacy_iface \<Rightarrow> legacy_iface" where
  "legacy_call e c st = st\<lparr>lg_qp := sq_run e c (lg_qp st)\<rparr>"

text \<open>The check after either call: a problem not solved throws \<open>QP_NOT_OPTIMAL\<close>.\<close>

definition legacy_check :: "legacy_iface \<Rightarrow> (sqp_exception \<times> legacy_iface) + legacy_iface" where
  "legacy_check st = (if legacy_solved st then Inr st else Inl (QP_NOT_OPTIMAL, legacy_get_status st))"

text \<open>\<open>optimizeQP\<close> and \<open>optimizeLP\<close>: \<open>init\<close> on the first problem (a failure throws
  at once), then the hot start with Hessian (the null pointer for an LP) and
  Jacobian; both throw \<open>QP_NOT_OPTIMAL\<close>. The print level and iteration count are not
  modelled.\<close>

definition legacy_solve :: "sp_triplet option \<Rightarrow> sq_engine \<Rightarrow> legacy_iface \<Rightarrow>
    (sqp_exception \<times> legacy_iface) + legacy_iface" where
  "legacy_solve H e st =
     (if \<not> lg_first st then
        (let st1 = legacy_call e (SqInit H (lg_g st) (lg_A st) (lg_lb st) (lg_ub st) (lg_lbA st) (lg_ubA st)) st
         in if legacy_solved st1 then legacy_check (st1\<lparr>lg_first := True\<rparr>)
            else Inl (QP_NOT_OPTIMAL, legacy_get_status st1))
      else legacy_check
             (legacy_call e (SqHotstartMat H (lg_g st) (lg_A st) (lg_lb st) (lg_ub st) (lg_lbA st) (lg_ubA st)) st))"

definition legacy_optimizeQP :: "sq_engine \<Rightarrow> legacy_iface \<Rightarrow> ((sqp_exception \<times> legacy_iface) + legacy_iface) option" where
  "legacy_optimizeQP e st = (case lg_H st of None \<Rightarrow> None | Some H \<Rightarrow> Some (legacy_solve (Some H) e st))"

definition legacy_optimizeLP :: "sq_engine \<Rightarrow> legacy_iface \<Rightarrow> (sqp_exception \<times> legacy_iface) + legacy_iface" where
  "legacy_optimizeLP e st = legacy_solve None e st"

text \<open>The getters read the library: \<open>getPrimalSolution\<close> and \<open>getDualSolution\<close> write
  the caller's array only when the last call solved the problem.\<close>

definition legacy_get_optimal_solution :: "vec \<Rightarrow> legacy_iface \<Rightarrow> vec" where
  "legacy_get_optimal_solution p st = (if legacy_solved st then so_x (sq_out (lg_qp st)) else p)"

definition legacy_get_multipliers :: "vec \<Rightarrow> legacy_iface \<Rightarrow> vec" where
  "legacy_get_multipliers y st = (if legacy_solved st then so_y (sq_out (lg_qp st)) else y)"

definition legacy_get_obj_value :: "legacy_iface \<Rightarrow> real" where
  "legacy_get_obj_value st = so_obj (sq_out (lg_qp st))"

text \<open>The setters: one entry (\<open>setValueAt\<close>) or a whole vector (\<open>copy_vector\<close>), with
  no dirty flag; the Hessian setters dereference \<open>H_\<close>.\<close>

datatype legacy_op =
    LSetLb nat real | LSetUb nat real | LSetLbA nat real | LSetUbA nat real | LSetG nat real
  | LSetHStructure sp_triplet | LSetHValues sp_triplet | LSetAStructure sp_triplet | LSetAValues sp_triplet
  | LSetUbVec vec | LSetLbVec vec | LSetLbAVec vec | LSetUbAVec vec | LSetGVec vec

fun legacy_set :: "legacy_op \<Rightarrow> legacy_iface \<Rightarrow> legacy_iface option" where
  "legacy_set (LSetLb i v) st = Some (st\<lparr>lg_lb := (lg_lb st)[i := v]\<rparr>)"
| "legacy_set (LSetUb i v) st = Some (st\<lparr>lg_ub := (lg_ub st)[i := v]\<rparr>)"
| "legacy_set (LSetLbA i v) st = Some (st\<lparr>lg_lbA := (lg_lbA st)[i := v]\<rparr>)"
| "legacy_set (LSetUbA i v) st = Some (st\<lparr>lg_ubA := (lg_ubA st)[i := v]\<rparr>)"
| "legacy_set (LSetG i v) st = Some (st\<lparr>lg_g := (lg_g st)[i := v]\<rparr>)"
| "legacy_set (LSetHStructure M) st = map_option (\<lambda>_. st\<lparr>lg_H := Some M\<rparr>) (lg_H st)"
| "legacy_set (LSetHValues M) st = map_option (\<lambda>_. st\<lparr>lg_H := Some M\<rparr>) (lg_H st)"
| "legacy_set (LSetAStructure M) st = Some (st\<lparr>lg_A := M\<rparr>)"
| "legacy_set (LSetAValues M) st = Some (st\<lparr>lg_A := M\<rparr>)"
| "legacy_set (LSetUbVec r) st = Some (st\<lparr>lg_ub := copy_vector r (lg_ub st)\<rparr>)"
| "legacy_set (LSetLbVec r) st = Some (st\<lparr>lg_lb := copy_vector r (lg_lb st)\<rparr>)"
| "legacy_set (LSetLbAVec r) st = Some (st\<lparr>lg_lbA := copy_vector r (lg_lbA st)\<rparr>)"
| "legacy_set (LSetUbAVec r) st = Some (st\<lparr>lg_ubA := copy_vector r (lg_ubA st)\<rparr>)"
| "legacy_set (LSetGVec r) st = Some (st\<lparr>lg_g := copy_vector r (lg_g st)\<rparr>)"

text \<open>The correspondence of a legacy and a current interface: the same QP data and the
  same first-solve mark.\<close>

definition legacy_data :: "legacy_iface \<Rightarrow> sp_triplet option \<Rightarrow> qp_data" where
  "legacy_data st H = (H, lg_A st, lg_g st, lg_lb st, lg_ub st, lg_lbA st, lg_ubA st)"

definition lg_corr :: "qp_type \<Rightarrow> legacy_iface \<Rightarrow> oases_iface \<Rightarrow> bool" where
  "lg_corr t L st =
     (legacy_data L (lg_H L) = data_of t (oi st) \<and> lg_first L = firstQPsolved (oi st))"

subsection \<open>Lemmas\<close>

lemma legacy_solve_cold:
  "\<exists>L'. legacy_solve H (cold_engine solve) L
          = (if so_solved (solve (legacy_data L H)) then Inr L' else Inl (QP_NOT_OPTIMAL, L'))
        \<and> sq_out (lg_qp L') = solve (legacy_data L H)
        \<and> legacy_data L' = legacy_data L \<and> lg_H L' = lg_H L
        \<and> (so_solved (solve (legacy_data L H)) \<longrightarrow> lg_first L')"
  by (auto simp: legacy_solve_def legacy_check_def legacy_call_def legacy_solved_def legacy_get_status_def
        legacy_data_def cold_engine_def Let_def)

text \<open>The current \<open>optimizeQP\<close> for an engine that answers from the data alone: one
  answer on the current data decides success, and the interface ends with that answer
  in the solver and, on success, its solution copied.\<close>

lemma optimizeQP_cold:
  assumes inv: "hs_inv QP st"
  shows "\<exists>st'. optimizeQP (cold_engine solve) st
            = Some (if so_solved (solve (data_of QP (oi st))) then Inr st' else Inl (QP_NOT_OPTIMAL, st'))
          \<and> sq_out (solver st') = solve (data_of QP (oi st)) \<and> data_of QP (oi st') = data_of QP (oi st)
          \<and> (so_solved (solve (data_of QP (oi st))) \<longrightarrow>
               x_qp (oi st') = so_x (solve (data_of QP (oi st))) \<and> y_qp (oi st') = so_y (solve (data_of QP (oi st)))
               \<and> firstQPsolved (oi st'))"
proof (cases "firstQPsolved (oi st)")
  case False
  then show ?thesis
    by (auto simp: optimizeQP_def first_solve_def solve_tail_cold handler_error_cold oases_state_defs)
next
  case True
  obtain c st1 where st1: "hotstart_step QP (cold_engine solve) (get_Matrix_change_status st) = Some st1"
    "oi st1 = oi st" "solver st1 = sq_run (cold_engine solve) c (solver st)"
    "call_data c (solver st) = data_of QP (oi st)"
    using hotstart_step_current [OF inv True] by blast
  have out: "sq_out (solver st1) = solve (data_of QP (oi st1))" using st1 by (simp add: cold_engine_def)
  show ?thesis using st1 True
    by (auto simp: optimizeQP_def solve_tail_cold [where solve = solve, OF out] handler_error_cold
          oases_state_defs)
qed

text \<open>C14. For an engine that answers from the QP data alone, the current \<open>optimizeQP\<close>
  (hot starts chosen by the matrix statuses, dirty flags, re-initialising retry) and the
  legacy one of \<open>QPsolverInterface.cpp\<close> (always the full data) started on the same data
  succeed or fail together; on success they report the same primal solution,
  multipliers and objective and still hold the same data, and both failures are
  \<open>QP_NOT_OPTIMAL\<close>.\<close>

theorem legacy_optimizeQP_equiv:
  assumes corr: "lg_corr QP L st" and inv: "hs_inv QP st"
  shows "case (legacy_optimizeQP (cold_engine solve) L, optimizeQP (cold_engine solve) st) of
           (Some (Inr L'), Some (Inr st')) \<Rightarrow>
              legacy_get_optimal_solution p L' = x_qp (oi st') \<and> legacy_get_multipliers y L' = y_qp (oi st')
              \<and> legacy_get_obj_value L' = obj_val (abs_iface st') \<and> lg_corr QP L' st'
         | (Some (Inl (e1, L')), Some (Inl (e2, st'))) \<Rightarrow> e1 = QP_NOT_OPTIMAL \<and> e2 = QP_NOT_OPTIMAL
         | _ \<Rightarrow> False"
proof -
  have H: "lg_H L = Some (H_qp (oi st))" and d: "legacy_data L (lg_H L) = data_of QP (oi st)"
    and f: "lg_first L = firstQPsolved (oi st)"
    using corr by (simp_all add: lg_corr_def legacy_data_def data_of_def)
  obtain L' where L': "legacy_solve (lg_H L) (cold_engine solve) L
          = (if so_solved (solve (data_of QP (oi st))) then Inr L' else Inl (QP_NOT_OPTIMAL, L'))"
      "sq_out (lg_qp L') = solve (data_of QP (oi st))" "legacy_data L' = legacy_data L" "lg_H L' = lg_H L"
      "so_solved (solve (data_of QP (oi st))) \<longrightarrow> lg_first L'"
    using legacy_solve_cold [of "lg_H L" solve L] d by auto
  obtain st' where st': "optimizeQP (cold_engine solve) st
          = Some (if so_solved (solve (data_of QP (oi st))) then Inr st' else Inl (QP_NOT_OPTIMAL, st'))"
      "sq_out (solver st') = solve (data_of QP (oi st))" "data_of QP (oi st') = data_of QP (oi st)"
      "so_solved (solve (data_of QP (oi st))) \<longrightarrow>
         x_qp (oi st') = so_x (solve (data_of QP (oi st))) \<and> y_qp (oi st') = so_y (solve (data_of QP (oi st)))
         \<and> firstQPsolved (oi st')"
    using optimizeQP_cold [OF inv, of solve] by blast
  have "legacy_optimizeQP (cold_engine solve) L = Some (legacy_solve (lg_H L) (cold_engine solve) L)"
    using H by (simp add: legacy_optimizeQP_def)
  then show ?thesis using L' st' d
    by (auto simp: legacy_get_optimal_solution_def legacy_get_multipliers_def legacy_get_obj_value_def
          legacy_solved_def abs_iface_def lg_corr_def)
qed

end
