(* ===== verification/QP_ActiveSet.thy ===== *)
theory QP_ActiveSet
  imports QP_Handler
begin

text \<open>
  \<open>QPhandler::get_active_set\<close> (\<open>src/src/QPhandler.cpp\<close>): the activity of every QP
  variable and constraint at a point, read against the bounds held by the solver
  interface. \<open>A_c\<close> and \<open>A_b\<close> are the caller's arrays, written entry by entry; a
  missing point \<open>x\<close> is the QP solution and a missing product \<open>Ax\<close> is computed with
  the constraint matrix \<open>[J, I, -I]\<close> of the compact formulation. The tolerance
  \<open>sqrt_m_eps\<close> (declared in a header that is not in the repository) is the square root
  of the double machine epsilon, \<open>2^-26\<close>. For qpOASES the code reads the lower
  constraint bounds with \<open>getUbA()\<close>.
\<close>

definition sqrt_m_eps :: real where
  "sqrt_m_eps = 1 / 2 ^ 26"

text \<open>The classification of one entry, as each of the three loops writes it.\<close>

definition activity :: "real \<Rightarrow> real \<Rightarrow> real \<Rightarrow> active_type" where
  "activity v l u =
     (if \<bar>v - l\<bar> < sqrt_m_eps then (if \<bar>u - v\<bar> < sqrt_m_eps then ACTIVE_BOTH_SIDE else ACTIVE_BELOW)
      else if \<bar>u - v\<bar> < sqrt_m_eps then ACTIVE_ABOVE
      else INACTIVE)"

text \<open>\<open>getA()->times(x, Ax)\<close>: the QP constraint matrix is the Jacobian followed by the
  identity blocks of the two slack vectors (\<open>QPhandler::set_A\<close> with the identity
  information), so row \<open>i\<close> is \<open>(J p)_i + s+_i - s-_i\<close>.\<close>

definition qp_constraint_times :: "qp_handler \<Rightarrow> vec \<Rightarrow> vec" where
  "qp_constraint_times h x =
     (let Jp = sp_times (A_qp (iface h)) (take (nVar h) x)
      in map (\<lambda>i. Jp ! i + x ! (nVar h + i) - x ! (nVar h + nCon h + i)) [0..<nConstr_QP h])"

definition get_active_set ::
    "qp_handler \<Rightarrow> active_type list \<Rightarrow> active_type list \<Rightarrow> vec option \<Rightarrow> vec option
     \<Rightarrow> active_type list \<times> active_type list" where
  "get_active_set h A_c A_b xo Axo =
     (let s = iface h;
          x = (case xo of None \<Rightarrow> copy_vector (x_qp s) (replicate (nVar_QP h) 0) | Some v \<Rightarrow> v);
          Ax = (case Axo of None \<Rightarrow> qp_constraint_times h x | Some v \<Rightarrow> v);
          A_b' = for_upto (nVar_QP h) (\<lambda>i A. A[i := activity (x ! i) (lb s ! i) (ub s ! i)]) A_b;
          A_c' = (if QPsolverChoice h = QORE then
                    for_upto (nConstr_QP h)
                      (\<lambda>i A. A[i := activity (Ax ! i) (lb s ! (i + nVar_QP h)) (ub s ! (i + nVar_QP h))]) A_c
                  else
                    (let lbA' = ubA s; ubA' = ubA s
                     in for_upto (nConstr_QP h) (\<lambda>i A. A[i := activity (Ax ! i) (lbA' ! i) (ubA' ! i)]) A_c))
      in (A_c', A_b'))"

text \<open>The classification the comments and \<open>NLP_OptTest::IdentifyActiveSet\<close> describe:
  each constraint value against its own lower and upper bound.\<close>

definition intended_constraint_activity :: "qp_handler \<Rightarrow> vec \<Rightarrow> nat \<Rightarrow> active_type" where
  "intended_constraint_activity h Ax i = activity (Ax ! i) (lbA (iface h) ! i) (ubA (iface h) ! i)"

subsection \<open>Lemmas\<close>

lemma activity_same_bound:
  "activity v u u = (if \<bar>u - v\<bar> < sqrt_m_eps then ACTIVE_BOTH_SIDE else INACTIVE)"
  by (simp add: activity_def abs_minus_commute)

lemma get_active_set_bounds:
  assumes "i < nVar_QP h" "length A_b = nVar_QP h"
  shows "snd (get_active_set h A_c A_b (Some x) Axo) ! i = activity (x ! i) (lb (iface h) ! i) (ub (iface h) ! i)"
  using assms nth_for_upto_set0 [where h = "\<lambda>i. activity (x ! i) (lb (iface h) ! i) (ub (iface h) ! i)"]
  by (simp add: get_active_set_def Let_def)

lemma get_active_set_constraints:
  assumes "i < nConstr_QP h" "length A_c = nConstr_QP h"
  shows "fst (get_active_set h A_c A_b xo (Some Ax)) ! i =
           (if QPsolverChoice h = QORE then activity (Ax ! i) (lb (iface h) ! (i + nVar_QP h)) (ub (iface h) ! (i + nVar_QP h))
            else activity (Ax ! i) (ubA (iface h) ! i) (ubA (iface h) ! i))"
  using assms
    nth_for_upto_set0 [where h = "\<lambda>i. activity (Ax ! i) (lb (iface h) ! (i + nVar_QP h)) (ub (iface h) ! (i + nVar_QP h))"]
    nth_for_upto_set0 [where h = "\<lambda>i. activity (Ax ! i) (ubA (iface h) ! i) (ubA (iface h) ! i)"]
  by (simp add: get_active_set_def Let_def)

theorem get_active_set_never_one_sided:
  assumes "QPsolverChoice h \<noteq> QORE" "i < nConstr_QP h" "length A_c = nConstr_QP h"
  shows "fst (get_active_set h A_c A_b xo (Some Ax)) ! i \<in> {INACTIVE, ACTIVE_BOTH_SIDE}"
  using get_active_set_constraints [OF assms(2,3)] assms(1) by (simp add: activity_same_bound)

text \<open>C20. With qpOASES, \<open>QPhandler::get_active_set\<close> reads the lower constraint bounds from \<open>getUbA()\<close>: a constraint value sitting at its lower bound, away from its upper bound, is reported \<open>INACTIVE\<close> where the intended classification is \<open>ACTIVE_BELOW\<close>.\<close>

theorem get_active_set_misses_lower:
  assumes "QPsolverChoice h \<noteq> QORE" "i < nConstr_QP h" "length A_c = nConstr_QP h"
    and "Ax ! i = lbA (iface h) ! i" "lbA (iface h) ! i + sqrt_m_eps \<le> ubA (iface h) ! i"
  shows "fst (get_active_set h A_c A_b xo (Some Ax)) ! i = INACTIVE
       \<and> intended_constraint_activity h Ax i = ACTIVE_BELOW"
  using get_active_set_constraints [OF assms(2,3)] assms(1,4,5)
  by (simp add: intended_constraint_activity_def activity_def sqrt_m_eps_def)

end
