(* ===== verification/Handler_Oases.thy ===== *)
theory Handler_Oases
  imports QpOases_Interface
begin

text \<open>
  The composition of the QP subproblem builder \<open>QPhandler\<close> (\<open>src/src/QPhandler.cpp\<close>)
  with the qpOASES back end \<open>qpOASESInterface\<close> (\<open>src/src/qpOASESInterface.cpp\<close>). The
  driver model (\<open>SQP_Steps\<close>, \<open>SQP_Driver\<close>) runs the handler over the oracle-level
  \<open>solveQP\<close>/\<open>solveLP\<close>; here the same handler calls are run over the interface of
  \<open>QpOases_Interface\<close>: each builder call writes through the interface's setters into
  \<open>oi\<close>, and a solve is \<open>optimizeQP\<close> or \<open>optimizeLP\<close>. The calls the driver makes on
  a handler are the datatype \<open>qph_call\<close>; \<open>qph_run\<close> runs a sequence of them over an
  oracle, \<open>qph_oases_run\<close> over an engine, both stopping at the first failed solve.

  Every builder call acts on the interface through setters that only raise dirty flags,
  never clear them or the first-solve mark, and change the Hessian or Jacobian only
  with their flag raised (\<open>iface_setter\<close>); they commute with the live objective
  value. Hence the hot-start invariant survives every builder call, and the refinement
  of a single solve (\<open>optimizeQP_refines_solveQP\<close>,
  \<open>optimizeLP_refines_solveLP\<close>) extends to every sequence of calls.
\<close>

datatype qph_call =
    CSetBounds real vec vec vec vec vec vec
  | CSetG vec real
  | CSetGLP real
  | CSetH sp_triplet
  | CSetA sp_triplet
  | CUpdateBounds real vec vec vec vec vec vec
  | CUpdateDelta real vec vec vec
  | CUpdatePenalty real
  | CUpdateGrad vec
  | CUpdateH sp_triplet
  | CUpdateA sp_triplet
  | CSolve

fun qph_apply :: "qph_call \<Rightarrow> qp_handler \<Rightarrow> qp_handler" where
  "qph_apply (CSetBounds d xl xu xk cl cu ck) h = set_bounds d xl xu xk cl cu ck h"
| "qph_apply (CSetG gr r) h = set_g_qp gr r h"
| "qph_apply (CSetGLP r) h = set_g_lp r h"
| "qph_apply (CSetH M) h = set_H M h"
| "qph_apply (CSetA M) h = set_A M h"
| "qph_apply (CUpdateBounds d xl xu xk cl cu ck) h = update_bounds d xl xu xk cl cu ck h"
| "qph_apply (CUpdateDelta d xl xu xk) h = update_delta d xl xu xk h"
| "qph_apply (CUpdatePenalty r) h = update_penalty r h"
| "qph_apply (CUpdateGrad gr) h = update_grad gr h"
| "qph_apply (CUpdateH M) h = update_H M h"
| "qph_apply (CUpdateA M) h = update_A M h"
| "qph_apply CSolve h = h"

text \<open>Over the oracle: \<open>solveQP\<close> or \<open>solveLP\<close> by the handler's problem type.\<close>

definition qph_step :: "qp_type \<Rightarrow> qp_oracle \<Rightarrow> qph_call \<Rightarrow> qp_handler \<Rightarrow> (exitflag \<times> qp_handler) + qp_handler" where
  "qph_step t orc c h =
     (if c = CSolve then (if t = LP then solveLP orc h else solveQP orc h) else Inr (qph_apply c h))"

primrec qph_run :: "qp_type \<Rightarrow> qp_oracle \<Rightarrow> qph_call list \<Rightarrow> qp_handler \<Rightarrow> (exitflag \<times> qp_handler) + qp_handler" where
  "qph_run t orc [] h = Inr h"
| "qph_run t orc (c # cs) h = (case qph_step t orc c h of Inl x \<Rightarrow> Inl x | Inr h' \<Rightarrow> qph_run t orc cs h')"

text \<open>Over the interface: the builder calls go through \<open>solverInterface_\<close>, whose data is
  \<open>oi\<close>; a solve is \<open>optimizeQP\<close>/\<open>optimizeLP\<close>, whose exception leaves the run.\<close>

type_synonym qph_oases = "qp_handler \<times> oases_iface"

definition qph_oases_step :: "qp_type \<Rightarrow> sq_engine \<Rightarrow> qph_call \<Rightarrow> qph_oases \<Rightarrow>
    ((sqp_exception \<times> qph_oases) + qph_oases) option" where
  "qph_oases_step t e c hs =
     (case hs of (h, st) \<Rightarrow>
        if c = CSolve then
          map_option (map_sum (\<lambda>(x, st'). (x, (h, st'))) (\<lambda>st'. (h, st')))
            (if t = LP then optimizeLP e st else optimizeQP e st)
        else (let h' = qph_apply c (h\<lparr>iface := oi st\<rparr>) in Some (Inr (h', st\<lparr>oi := iface h'\<rparr>))))"

primrec qph_oases_run :: "qp_type \<Rightarrow> sq_engine \<Rightarrow> qph_call list \<Rightarrow> qph_oases \<Rightarrow>
    ((sqp_exception \<times> qph_oases) + qph_oases) option" where
  "qph_oases_run t e [] hs = Some (Inr hs)"
| "qph_oases_run t e (c # cs) hs =
     (case qph_oases_step t e c hs of Some (Inr hs') \<Rightarrow> qph_oases_run t e cs hs' | r \<Rightarrow> r)"

text \<open>What the builder's writes may do to the interface.\<close>

definition iface_setter :: "(qp_iface \<Rightarrow> qp_iface) \<Rightarrow> bool" where
  "iface_setter F =
     (\<forall>s v. F (s\<lparr>obj_val := v\<rparr>) = (F s)\<lparr>obj_val := v\<rparr>
        \<and> firstQPsolved (F s) = firstQPsolved s
        \<and> (Update_H (data_change_flags s) \<longrightarrow> Update_H (data_change_flags (F s)))
        \<and> (Update_A (data_change_flags s) \<longrightarrow> Update_A (data_change_flags (F s)))
        \<and> (firstQPsolved s \<and> \<not> Update_H (data_change_flags (F s)) \<longrightarrow> H_qp (F s) = H_qp s)
        \<and> (firstQPsolved s \<and> \<not> Update_A (data_change_flags (F s)) \<longrightarrow> A_qp (F s) = A_qp s))"

subsection \<open>The builder's writes are setters\<close>

lemma iface_setter_comp:
  assumes F: "iface_setter F" and G: "iface_setter G"
  shows "iface_setter (\<lambda>s. G (F s))"
  unfolding iface_setter_def
proof (intro allI)
  fix s v
  have f: "F (s\<lparr>obj_val := v\<rparr>) = (F s)\<lparr>obj_val := v\<rparr>" "firstQPsolved (F s) = firstQPsolved s"
    "Update_H (data_change_flags s) \<longrightarrow> Update_H (data_change_flags (F s))"
    "Update_A (data_change_flags s) \<longrightarrow> Update_A (data_change_flags (F s))"
    "firstQPsolved s \<and> \<not> Update_H (data_change_flags (F s)) \<longrightarrow> H_qp (F s) = H_qp s"
    "firstQPsolved s \<and> \<not> Update_A (data_change_flags (F s)) \<longrightarrow> A_qp (F s) = A_qp s"
    using F unfolding iface_setter_def by blast+
  have g: "G ((F s)\<lparr>obj_val := v\<rparr>) = (G (F s))\<lparr>obj_val := v\<rparr>" "firstQPsolved (G (F s)) = firstQPsolved (F s)"
    "Update_H (data_change_flags (F s)) \<longrightarrow> Update_H (data_change_flags (G (F s)))"
    "Update_A (data_change_flags (F s)) \<longrightarrow> Update_A (data_change_flags (G (F s)))"
    "firstQPsolved (F s) \<and> \<not> Update_H (data_change_flags (G (F s))) \<longrightarrow> H_qp (G (F s)) = H_qp (F s)"
    "firstQPsolved (F s) \<and> \<not> Update_A (data_change_flags (G (F s))) \<longrightarrow> A_qp (G (F s)) = A_qp (F s)"
    using G unfolding iface_setter_def by blast+
  show "G (F (s\<lparr>obj_val := v\<rparr>)) = (G (F s))\<lparr>obj_val := v\<rparr> \<and>
        firstQPsolved (G (F s)) = firstQPsolved s \<and>
        (Update_H (data_change_flags s) \<longrightarrow> Update_H (data_change_flags (G (F s)))) \<and>
        (Update_A (data_change_flags s) \<longrightarrow> Update_A (data_change_flags (G (F s)))) \<and>
        (firstQPsolved s \<and> \<not> Update_H (data_change_flags (G (F s))) \<longrightarrow> H_qp (G (F s)) = H_qp s) \<and>
        (firstQPsolved s \<and> \<not> Update_A (data_change_flags (G (F s))) \<longrightarrow> A_qp (G (F s)) = A_qp s)"
    using f g by auto
qed

lemma iface_setter_if: "iface_setter F \<Longrightarrow> iface_setter G \<Longrightarrow> iface_setter (\<lambda>s. if b then F s else G s)"
  by (cases b) (simp_all only: if_True if_False)

lemma iface_setter_id: "iface_setter (\<lambda>s. s)"
  by (simp add: iface_setter_def)

lemma iface_setter_for_upto: "(\<And>i. iface_setter (body i)) \<Longrightarrow> iface_setter (for_upto n body)"
proof (induction n)
  case 0
  have "for_upto 0 body = (\<lambda>s. s)" by (simp add: fun_eq_iff)
  then show ?case by (simp only: iface_setter_id)
next
  case (Suc n)
  have "iface_setter (\<lambda>s. body n (for_upto n body s))"
    by (rule iface_setter_comp [OF Suc.IH [OF Suc.prems] Suc.prems])
  moreover have "for_upto (Suc n) body = (\<lambda>s. body n (for_upto n body s))" by (simp add: fun_eq_iff)
  ultimately show ?case by (simp only:)
qed

lemma iface_setter_entries [intro]:
  "iface_setter (set_lb i v)" "iface_setter (set_ub i v)" "iface_setter (set_lbA i v)"
  "iface_setter (set_ubA i v)" "iface_setter (set_g i v)" "iface_setter (set_H_values M)"
  "iface_setter (set_A_values M)" "iface_setter (\<lambda>s. set_H_values M (set_H_structure M s))"
  "iface_setter (\<lambda>s. set_A_values M (set_A_structure M s))"
  by (auto simp: iface_setter_def setter_defs Let_def)

lemma iface_setter_vectors [intro]:
  "iface_setter (set_lb_vec r)" "iface_setter (set_ub_vec r)" "iface_setter (set_lbA_vec r)"
  "iface_setter (set_ubA_vec r)" "iface_setter (set_g_vec r)"
  by (simp_all add: iface_setter_def set_lb_vec_def set_ub_vec_def set_lbA_vec_def set_ubA_vec_def
        set_g_vec_def bounds_flag_def Let_def)

lemma iface_setter_step2: "iface_setter (\<lambda>s. set_ub i b (set_lb i a s))" "iface_setter (\<lambda>s. set_ubA i b (set_lbA i a s))"
  by (rule iface_setter_comp; rule iface_setter_entries)+

lemma iface_setter_loops:
  "iface_setter (for_upto n (\<lambda>i s. set_ub (f i) (b i) (set_lb (f i) (a i) s)))"
  "iface_setter (for_upto n (\<lambda>i s. set_ubA i (b i) (set_lbA i (a i) s)))"
  "iface_setter (for_upto n (\<lambda>i s. set_lbA i (a i) s))"
  "iface_setter (for_upto n (\<lambda>i s. set_ub (f i) (b i) s))"
  "iface_setter (for_upto n (\<lambda>i s. set_g (f i) (b i) s))"
  "iface_setter (for_upto n (\<lambda>i s. if i < k then set_g i (a i) s else set_g i (b i) s))"
  by (rule iface_setter_for_upto;
      (rule iface_setter_if iface_setter_comp; rule iface_setter_entries)?; rule iface_setter_entries)+

lemma iface_setter_comp3:
  "iface_setter F1 \<Longrightarrow> iface_setter F2 \<Longrightarrow> iface_setter F3 \<Longrightarrow> iface_setter (\<lambda>s. F3 (F2 (F1 s)))"
  by (rule iface_setter_comp [OF iface_setter_comp])

lemma iface_setter_bounds_loops:
  "iface_setter (\<lambda>s. for_upto k (\<lambda>i. set_ub (p + i) INF_val)
       (for_upto n (\<lambda>i s. set_ub i (b i) (set_lb i (a i) s))
         (for_upto m (\<lambda>i s. set_ubA i (d i) (set_lbA i (c i) s)) s)))"
  "iface_setter (\<lambda>s. for_upto m (\<lambda>i s. set_ub (q + i) (d i) (set_lb (q + i) (c i) s))
       (for_upto k (\<lambda>i. set_ub (p + i) INF_val)
         (for_upto n (\<lambda>i s. set_ub i (b i) (set_lb i (a i) s)) s)))"
  "iface_setter (\<lambda>s. for_upto n (\<lambda>i s. set_ub i (b i) (set_lb i (a i) s))
       (for_upto m (\<lambda>i s. set_lbA i (c i) s) s))"
  "iface_setter (\<lambda>s. for_upto m (\<lambda>i s. set_ub (q + i) (d i) (set_lb (q + i) (c i) s))
       (for_upto n (\<lambda>i s. set_ub i (b i) (set_lb i (a i) s)) s))"
  by (rule iface_setter_comp3 [OF iface_setter_loops(2) iface_setter_loops(1) [where f = "\<lambda>i. i"]
                                  iface_setter_loops(4) [where f = "\<lambda>i. p + i"]],
      rule iface_setter_comp3 [OF iface_setter_loops(1) [where f = "\<lambda>i. i"]
                                  iface_setter_loops(4) [where f = "\<lambda>i. p + i"]
                                  iface_setter_loops(1) [where f = "\<lambda>i. q + i"]],
      rule iface_setter_comp [OF iface_setter_loops(3) iface_setter_loops(1) [where f = "\<lambda>i. i"]],
      rule iface_setter_comp [OF iface_setter_loops(1) [where f = "\<lambda>i. i"]
                                 iface_setter_loops(1) [where f = "\<lambda>i. q + i"]])

lemma qph_apply_setter: "iface_setter (\<lambda>s. iface (qph_apply c (h\<lparr>iface := s\<rparr>)))"
proof (cases c)
  case (CSetBounds d xl xu xk cl cu ck)
  then show ?thesis
    by (cases "QPsolverChoice h" rule: qp_solver_choice.exhaust)
       (simp_all add: set_bounds_def on_iface_def Let_def iface_setter_bounds_loops)
next
  case (CSetG gr r)
  then show ?thesis by (simp add: set_g_qp_def on_iface_def iface_setter_loops(6))
next
  case (CSetGLP r)
  then show ?thesis by (simp add: set_g_lp_def on_iface_def iface_setter_loops(6))
next
  case (CSetH M)
  then show ?thesis
    by (cases "QPsolverChoice h" rule: qp_solver_choice.exhaust)
       (simp_all add: set_H_def on_iface_def iface_setter_entries)
next
  case (CSetA M)
  then show ?thesis
    by (cases "QPsolverChoice h" rule: qp_solver_choice.exhaust)
       (simp_all add: set_A_def on_iface_def iface_setter_entries)
next
  case (CUpdateBounds d xl xu xk cl cu ck)
  then show ?thesis
    by (cases "QPsolverChoice h" rule: qp_solver_choice.exhaust)
       (simp_all add: update_bounds_def on_iface_def Let_def iface_setter_bounds_loops)
next
  case (CUpdateDelta d xl xu xk)
  then show ?thesis by (simp add: update_delta_def on_iface_def iface_setter_loops(1) [where f = "\<lambda>i. i"])
next
  case (CUpdatePenalty r)
  then show ?thesis by (simp add: update_penalty_def on_iface_def iface_setter_loops(5))
next
  case (CUpdateGrad gr)
  then show ?thesis by (simp add: update_grad_def on_iface_def iface_setter_loops(5) [where f = "\<lambda>i. i"])
next
  case (CUpdateH M)
  then show ?thesis by (simp add: update_H_def on_iface_def iface_setter_entries)
next
  case (CUpdateA M)
  then show ?thesis by (simp add: update_A_def on_iface_def iface_setter_entries)
qed (simp add: iface_setter_id)

subsection \<open>Builder calls over the interface\<close>

lemma qph_apply_frame: "qph_apply c h = h\<lparr>iface := iface (qph_apply c h)\<rparr>"
  by (cases c) (simp_all add: set_bounds_def set_g_qp_def set_g_lp_def set_H_def set_A_def
      update_bounds_def update_delta_def update_penalty_def update_grad_def update_H_def update_A_def
      on_iface_def Let_def)

lemma qph_apply_iface_upd [simp]: "(qph_apply c h)\<lparr>iface := s\<rparr> = h\<lparr>iface := s\<rparr>"
  by (subst qph_apply_frame) simp

lemma iface_setter_hs_inv:
  assumes F: "iface_setter F" and inv: "hs_inv t st"
  shows "hs_inv t (st\<lparr>oi := F (oi st)\<rparr>)"
proof -
  have "firstQPsolved (F (oi st)) = firstQPsolved (oi st)"
    "Update_H (data_change_flags (oi st)) \<longrightarrow> Update_H (data_change_flags (F (oi st)))"
    "Update_A (data_change_flags (oi st)) \<longrightarrow> Update_A (data_change_flags (F (oi st)))"
    "firstQPsolved (oi st) \<and> \<not> Update_H (data_change_flags (F (oi st))) \<longrightarrow> H_qp (F (oi st)) = H_qp (oi st)"
    "firstQPsolved (oi st) \<and> \<not> Update_A (data_change_flags (F (oi st))) \<longrightarrow> A_qp (F (oi st)) = A_qp (oi st)"
    using F unfolding iface_setter_def by blast+
  then show ?thesis using inv unfolding hs_inv_def by auto
qed

lemma qph_oases_builder:
  assumes c: "c \<noteq> CSolve" and inv: "hs_inv t st"
  shows "\<exists>hc' st'. qph_oases_step t e c (hc, st) = Some (Inr (hc', st'))
           \<and> qph_step t orc c (hc\<lparr>iface := abs_iface st\<rparr>) = Inr (hc'\<lparr>iface := abs_iface st'\<rparr>)
           \<and> hs_inv t st'"
proof -
  let ?F = "\<lambda>s. iface (qph_apply c (hc\<lparr>iface := s\<rparr>))"
  let ?v = "so_obj (sq_out (solver st))"
  have F: "iface_setter ?F" by (rule qph_apply_setter)
  then have obj: "?F ((oi st)\<lparr>obj_val := ?v\<rparr>) = (?F (oi st))\<lparr>obj_val := ?v\<rparr>"
    unfolding iface_setter_def by blast
  have "qph_apply c (hc\<lparr>iface := abs_iface st\<rparr>) = hc\<lparr>iface := ?F (abs_iface st)\<rparr>"
    by (subst qph_apply_frame) simp
  also have "\<dots> = (qph_apply c (hc\<lparr>iface := oi st\<rparr>))\<lparr>iface := abs_iface (st\<lparr>oi := ?F (oi st)\<rparr>)\<rparr>"
    using obj by (simp add: abs_iface_def)
  finally show ?thesis
    using c iface_setter_hs_inv [OF F inv]
    by (simp add: qph_oases_step_def qph_step_def Let_def)
qed


lemma qph_oases_solve:
  assumes inv: "hs_inv t st"
  shows "case qph_oases_step t (cold_engine solve) CSolve (hc, st) of
           None \<Rightarrow> False
         | Some (Inr (hc', st')) \<Rightarrow>
             qph_step t (oracle_of t solve) CSolve (hc\<lparr>iface := abs_iface st\<rparr>) = Inr (hc'\<lparr>iface := abs_iface st'\<rparr>)
             \<and> hs_inv t st'
         | Some (Inl (ex, (hc', st'))) \<Rightarrow> ex = (if t = LP then LP_NOT_OPTIMAL else QP_NOT_OPTIMAL)
             \<and> (\<exists>s. qph_step t (oracle_of t solve) CSolve (hc\<lparr>iface := abs_iface st\<rparr>) = Inl (qp_status (oi st'), hc'\<lparr>iface := s\<rparr>))"
proof (cases t)
  case QP
  note r = optimizeQP_refines_solveQP [OF inv [unfolded QP], of "hc\<lparr>iface := abs_iface st\<rparr>" solve]
  then show ?thesis using r QP
    by (auto simp: qph_oases_step_def qph_step_def split: option.splits sum.splits)
next
  case LP
  note r = optimizeLP_refines_solveLP [OF inv [unfolded LP], of "hc\<lparr>iface := abs_iface st\<rparr>" solve]
  then show ?thesis using r LP
    by (auto simp: qph_oases_step_def qph_step_def split: option.splits sum.splits)
qed

lemma qph_oases_step_sim:
  assumes inv: "hs_inv t st"
  shows "case qph_oases_step t (cold_engine solve) c (hc, st) of
           None \<Rightarrow> False
         | Some (Inr (hc', st')) \<Rightarrow>
             qph_step t (oracle_of t solve) c (hc\<lparr>iface := abs_iface st\<rparr>) = Inr (hc'\<lparr>iface := abs_iface st'\<rparr>)
             \<and> hs_inv t st'
         | Some (Inl (ex, (hc', st'))) \<Rightarrow> ex = (if t = LP then LP_NOT_OPTIMAL else QP_NOT_OPTIMAL)
             \<and> (\<exists>s. qph_step t (oracle_of t solve) c (hc\<lparr>iface := abs_iface st\<rparr>) = Inl (qp_status (oi st'), hc'\<lparr>iface := s\<rparr>))"
proof (cases "c = CSolve")
  case True
  show ?thesis unfolding True by (rule qph_oases_solve [OF inv])
next
  case False
  then show ?thesis using qph_oases_builder [OF False inv, where e = "cold_engine solve" and orc = "oracle_of t solve" and hc = hc]
    by auto
qed

text \<open>C13. For an engine that answers from the QP data alone, running any sequence of
  \<open>QPhandler\<close> calls over the qpOASES interface is the run of the same calls over the
  oracle-level handler: after every prefix that succeeds the abstract handler is the
  concrete one with the interface's live view, the hot-start invariant holds, and a
  failed solve is the exception of its problem type with the status the oracle run
  reports.\<close>

theorem qph_oases_run_refines:
  assumes "hs_inv t st"
  shows "case qph_oases_run t (cold_engine solve) cs (hc, st) of
           None \<Rightarrow> False
         | Some (Inr (hc', st')) \<Rightarrow>
             qph_run t (oracle_of t solve) cs (hc\<lparr>iface := abs_iface st\<rparr>) = Inr (hc'\<lparr>iface := abs_iface st'\<rparr>)
             \<and> hs_inv t st'
         | Some (Inl (ex, (hc', st'))) \<Rightarrow> ex = (if t = LP then LP_NOT_OPTIMAL else QP_NOT_OPTIMAL)
             \<and> (\<exists>s. qph_run t (oracle_of t solve) cs (hc\<lparr>iface := abs_iface st\<rparr>) = Inl (qp_status (oi st'), hc'\<lparr>iface := s\<rparr>))"
  using assms
proof (induction cs arbitrary: hc st)
  case (Cons c cs)
  note step = qph_oases_step_sim [OF Cons.prems, of solve c hc]
  show ?case
  proof (cases "qph_oases_step t (cold_engine solve) c (hc, st)")
    case None
    then show ?thesis using step by simp
  next
    case (Some r)
    show ?thesis
    proof (cases r)
      case (Inl x)
      then show ?thesis using Some step by (cases x) auto
    next
      case (Inr y)
      obtain hc1 st1 where y: "y = (hc1, st1)" by (cases y)
      then have inv1: "hs_inv t st1"
        and h1: "qph_step t (oracle_of t solve) c (hc\<lparr>iface := abs_iface st\<rparr>) = Inr (hc1\<lparr>iface := abs_iface st1\<rparr>)"
        using Some Inr step by simp_all
      have run: "qph_oases_run t (cold_engine solve) (c # cs) (hc, st) = qph_oases_run t (cold_engine solve) cs (hc1, st1)"
        using Some Inr y by simp
      have orun: "qph_run t (oracle_of t solve) (c # cs) (hc\<lparr>iface := abs_iface st\<rparr>)
                  = qph_run t (oracle_of t solve) cs (hc1\<lparr>iface := abs_iface st1\<rparr>)"
        using h1 by simp
      show ?thesis unfolding run orun by (rule Cons.IH [OF inv1])
    qed
  qed
qed simp


end
