(* ===== verification/QpOases_Examples.thy ===== *)
theory QpOases_Examples
  imports QpOases_Legacy QP_ActiveSet Handler_Oases
begin

text \<open>
  Concrete interfaces for one variable and one constraint (three QP variables): a fresh
  one, and one whose first QP has been solved with its matrices installed in the solver.
  A cold engine always returns the solution \<open>[1, 0, 0]\<close>; a warm engine fails every hot
  start and solves every \<open>init\<close> with \<open>[5, 0, 0]\<close>. They instantiate the hypotheses of
  the lemmas of \<open>QpOases_Interface\<close>, evaluated by \<open>simp\<close> and \<open>code_simp\<close>.
  The handler \<open>ex_as_h\<close> has the constraint bounds \<open>[0, 1]\<close> and a constraint value at
  its lower bound, for \<open>QP_ActiveSet\<close>.
\<close>

definition ex_empty :: sp_triplet where
  "ex_empty = \<lparr>RowNum = 0, ColNum = 0, isSymmetric = False, RowIndex = [], ColIndex = [], MatVal = [],
               order = []\<rparr>"

definition ex_ok :: sq_outcome where
  "ex_ok = \<lparr>so_solved = True, so_infeasible = False, so_unbounded = False, so_status = QPS_SOLVED,
            so_x = [1, 0, 0], so_y = [0, 0, 0, 0], so_obj = 2\<rparr>"

definition ex_retry_ok :: sq_outcome where
  "ex_retry_ok = ex_ok\<lparr>so_x := [5, 0, 0]\<rparr>"

definition ex_fail :: sq_outcome where
  "ex_fail = ex_ok\<lparr>so_solved := False, so_infeasible := True\<rparr>"

definition ex_solve :: "qp_data \<Rightarrow> sq_outcome" where
  "ex_solve d = ex_ok"

definition ex_warm :: sq_engine where
  "ex_warm c sq = (case c of SqInit _ _ _ _ _ _ _ \<Rightarrow> ex_retry_ok | _ \<Rightarrow> ex_fail)"

definition ex_oases0 :: oases_iface where
  "ex_oases0 = \<lparr>oi = iface (QPhandler_init 1 1 QPOASES ex_empty), old_QP_matrix_status = UNDEFINED,
                new_QP_matrix_status = UNDEFINED, solver = \<lparr>sq_H = None, sq_A = ex_empty, sq_out = ex_fail\<rparr>\<rparr>"

definition ex_oases1 :: oases_iface where
  "ex_oases1 = \<lparr>oi = (iface (QPhandler_init 1 1 QPOASES ex_empty))\<lparr>firstQPsolved := True, x_qp := [7, 0, 0]\<rparr>,
                old_QP_matrix_status = FIXED, new_QP_matrix_status = FIXED,
                solver = \<lparr>sq_H = Some ex_empty, sq_A = ex_empty, sq_out = ex_ok\<rparr>\<rparr>"

definition ex_h :: "oases_iface \<Rightarrow> qp_handler" where
  "ex_h st = (QPhandler_init 1 1 QPOASES ex_empty)\<lparr>iface := abs_iface st\<rparr>"

definition ex_ops :: "oases_op list" where
  "ex_ops = [OSetLb 0 (-1), OSetUb 0 1, OSolve, OSetH ex_empty, OSetG 0 3, OSolve]"

definition ex_as_h :: qp_handler where
  "ex_as_h = on_iface (\<lambda>s. s\<lparr>lbA := [0], ubA := [1]\<rparr>) (QPhandler_init 1 1 QPOASES ex_empty)"

text \<open>The legacy interface holding the data of \<open>ex_oases1\<close>, after its first solve.\<close>

definition ex_legacy1 :: legacy_iface where
  "ex_legacy1 = \<lparr>lg_lb = [0, 0, 0], lg_ub = [0, 0, 0], lg_lbA = [0], lg_ubA = [0], lg_g = [0, 0, 0],
     lg_A = ex_empty, lg_H = Some ex_empty, lg_first = True, lg_status = UNSOLVED, lg_qp = solver ex_oases1\<rparr>"

text \<open>A sequence of \<open>QPhandler\<close> calls for the one-variable, one-constraint problem:
  bounds, objective, a solve, a new penalty, a new Hessian and a second solve.\<close>

definition ex_calls :: "qph_call list" where
  "ex_calls = [CSetBounds 1 [-5] [5] [0] [0] [2] [1], CSetG [1] 3, CSolve,
               CUpdatePenalty 4, CUpdateH ex_empty, CSolve]"

lemma ex_oases_inv: "hs_inv QP ex_oases0" "hs_inv LP ex_oases0" "hs_inv QP ex_oases1"
  by (simp_all add: hs_inv_def ex_oases0_def ex_oases1_def QPhandler_init_def)

theorem hotstart_vec_only_unchanged_witness:
  "hotstart_choice QP (get_Matrix_change_status ex_oases1) = HsCall (hotstart_vec_call ex_oases1) False
   \<and> \<not> Update_A (data_change_flags (oi ex_oases1)) \<and> \<not> Update_H (data_change_flags (oi ex_oases1))"
proof -
  have c: "hotstart_choice QP (get_Matrix_change_status ex_oases1) = HsCall (hotstart_vec_call ex_oases1) False"
    by (simp add: hotstart_choice_def get_Matrix_change_status_def ex_oases1_def QPhandler_init_def
                  hotstart_vec_call_def Let_def no_flags_def)
  show ?thesis
    using c hotstart_vec_only_unchanged [OF c [unfolded hotstart_vec_call_def Let_def]] by simp
qed

theorem optimizeQP_refines_solveQP_witness:
  "hs_inv QP ex_oases1 \<and> iface (ex_h ex_oases1) = abs_iface ex_oases1
   \<and> (case optimizeQP (cold_engine ex_solve) ex_oases1 of
        None \<Rightarrow> False
      | Some (Inr st') \<Rightarrow> solveQP (oracle_of QP ex_solve) (ex_h ex_oases1)
                            = Inr ((ex_h ex_oases1)\<lparr>iface := abs_iface st'\<rparr>) \<and> hs_inv QP st'
      | Some (Inl (ex, st')) \<Rightarrow> ex = QP_NOT_OPTIMAL
          \<and> solveQP (oracle_of QP ex_solve) (ex_h ex_oases1)
              = Inl (qp_status (oi st'), (ex_h ex_oases1)\<lparr>iface := (iface (ex_h ex_oases1))\<lparr>qp_status := qp_status (oi st')\<rparr>\<rparr>))"
  using optimizeQP_refines_solveQP [of ex_oases1 "ex_h ex_oases1" ex_solve] ex_oases_inv(3)
  by (simp add: ex_h_def)

theorem optimizeLP_refines_solveLP_witness:
  "hs_inv LP ex_oases0 \<and> iface (ex_h ex_oases0) = abs_iface ex_oases0
   \<and> (case optimizeLP (cold_engine ex_solve) ex_oases0 of
        None \<Rightarrow> False
      | Some (Inr st') \<Rightarrow> solveLP (oracle_of LP ex_solve) (ex_h ex_oases0)
                            = Inr ((ex_h ex_oases0)\<lparr>iface := abs_iface st'\<rparr>) \<and> hs_inv LP st'
      | Some (Inl (ex, st')) \<Rightarrow> ex = LP_NOT_OPTIMAL
          \<and> solveLP (oracle_of LP ex_solve) (ex_h ex_oases0)
              = Inl (qp_status (oi st'), (ex_h ex_oases0)\<lparr>iface := (iface (ex_h ex_oases0))\<lparr>qp_status := qp_status (oi st')\<rparr>\<rparr>))"
  using optimizeLP_refines_solveLP [of ex_oases0 "ex_h ex_oases0" ex_solve] ex_oases_inv(2)
  by (simp add: ex_h_def)

theorem oases_run_hs_inv_witness:
  "hs_inv QP ex_oases0
   \<and> oases_run QP ex_warm ex_ops ex_oases0 = Some (Inr (projr (the (oases_run QP ex_warm ex_ops ex_oases0))))
   \<and> hs_inv QP (projr (the (oases_run QP ex_warm ex_ops ex_oases0)))"
proof -
  have r: "oases_run QP ex_warm ex_ops ex_oases0 = Some (Inr (projr (the (oases_run QP ex_warm ex_ops ex_oases0))))"
    by code_simp
  show ?thesis using oases_run_hs_inv [OF ex_oases_inv(1) r] ex_oases_inv(1) r by simp
qed

theorem qph_oases_run_refines_witness:
  "hs_inv QP ex_oases1
   \<and> (\<exists>hc' st'. qph_oases_run QP (cold_engine ex_solve) ex_calls (ex_h ex_oases1, ex_oases1) = Some (Inr (hc', st'))
        \<and> qph_run QP (oracle_of QP ex_solve) ex_calls ((ex_h ex_oases1)\<lparr>iface := abs_iface ex_oases1\<rparr>)
            = Inr (hc'\<lparr>iface := abs_iface st'\<rparr>)
        \<and> hs_inv QP st')"
proof -
  have "case qph_oases_run QP (cold_engine ex_solve) ex_calls (ex_h ex_oases1, ex_oases1) of
          Some (Inr _) \<Rightarrow> True | _ \<Rightarrow> False"
    by code_simp
  then obtain hc' st' where r: "qph_oases_run QP (cold_engine ex_solve) ex_calls (ex_h ex_oases1, ex_oases1) = Some (Inr (hc', st'))"
    by (auto split: option.splits sum.splits)
  show ?thesis
    using qph_oases_run_refines [where t = QP and st = ex_oases1 and solve = ex_solve and cs = ex_calls
                                  and hc = "ex_h ex_oases1", OF ex_oases_inv(3)]
          ex_oases_inv(3) r
    by simp
qed

theorem optimizeQP_retry_stale_solution_witness:
  "firstQPsolved (oi ex_oases1)
   \<and> hotstart_choice QP (get_Matrix_change_status ex_oases1) = HsCall (hotstart_vec_call ex_oases1) False
   \<and> \<not> so_solved (ex_warm (hotstart_vec_call ex_oases1) (solver ex_oases1))
   \<and> so_solved (ex_warm (init_call QP ex_oases1) (sq_run ex_warm (hotstart_vec_call ex_oases1) (solver ex_oases1)))
   \<and> (\<exists>st'. optimizeQP ex_warm ex_oases1 = Some (Inr st') \<and> x_qp (oi st') = [7, 0, 0]
          \<and> so_x (sq_out (solver st')) = [5, 0, 0])"
proof -
  have h: "firstQPsolved (oi ex_oases1)"
    "hotstart_choice QP (get_Matrix_change_status ex_oases1) = HsCall (hotstart_vec_call ex_oases1) False"
    "\<not> so_solved (ex_warm (hotstart_vec_call ex_oases1) (solver ex_oases1))"
    "so_solved (ex_warm (init_call QP ex_oases1) (sq_run ex_warm (hotstart_vec_call ex_oases1) (solver ex_oases1)))"
    by (simp_all add: ex_oases1_def hotstart_choice_def get_Matrix_change_status_def QPhandler_init_def
                      hotstart_vec_call_def init_call_def ex_warm_def ex_fail_def ex_ok_def ex_retry_ok_def Let_def no_flags_def)
  from optimizeQP_retry_stale_solution [OF h] obtain st' where
    "optimizeQP ex_warm ex_oases1 = Some (Inr st')" "x_qp (oi st') = x_qp (oi ex_oases1)"
    "sq_out (solver st') = ex_warm (init_call QP ex_oases1) (sq_run ex_warm (hotstart_vec_call ex_oases1) (solver ex_oases1))"
    by blast
  then show ?thesis using h
    by (auto simp: ex_oases1_def init_call_def ex_warm_def ex_retry_ok_def ex_ok_def Let_def)
qed

theorem get_active_set_misses_lower_witness:
  "QPsolverChoice ex_as_h \<noteq> QORE \<and> (0::nat) < nConstr_QP ex_as_h \<and> length [INACTIVE] = nConstr_QP ex_as_h
   \<and> [0] ! 0 = lbA (iface ex_as_h) ! 0 \<and> lbA (iface ex_as_h) ! 0 + sqrt_m_eps \<le> ubA (iface ex_as_h) ! 0
   \<and> fst (get_active_set ex_as_h [INACTIVE] [] None (Some [0])) ! 0 = INACTIVE
   \<and> intended_constraint_activity ex_as_h [0] 0 = ACTIVE_BELOW"
proof -
  have h: "QPsolverChoice ex_as_h \<noteq> QORE" "(0::nat) < nConstr_QP ex_as_h" "length [INACTIVE] = nConstr_QP ex_as_h"
    "[0] ! 0 = lbA (iface ex_as_h) ! 0" "lbA (iface ex_as_h) ! 0 + sqrt_m_eps \<le> ubA (iface ex_as_h) ! 0"
    by (simp_all add: ex_as_h_def QPhandler_init_def on_iface_def sqrt_m_eps_def)
  show ?thesis using get_active_set_misses_lower [OF h, of "[]" None] h by simp
qed

theorem get_active_set_never_one_sided_witness:
  "QPsolverChoice ex_as_h \<noteq> QORE \<and> (0::nat) < nConstr_QP ex_as_h \<and> length [INACTIVE] = nConstr_QP ex_as_h
   \<and> fst (get_active_set ex_as_h [INACTIVE] [] None (Some [1])) ! 0 \<in> {INACTIVE, ACTIVE_BOTH_SIDE}"
proof -
  have h: "QPsolverChoice ex_as_h \<noteq> QORE" "(0::nat) < nConstr_QP ex_as_h" "length [INACTIVE] = nConstr_QP ex_as_h"
    by (simp_all add: ex_as_h_def QPhandler_init_def on_iface_def)
  show ?thesis using get_active_set_never_one_sided [OF h, of "[]" None "[1]"] h by simp
qed

theorem get_active_set_bounds_witness:
  "(0::nat) < nVar_QP ex_as_h \<and> length [INACTIVE, INACTIVE, INACTIVE] = nVar_QP ex_as_h
   \<and> snd (get_active_set ex_as_h [] [INACTIVE, INACTIVE, INACTIVE] (Some [0, 0, 0]) None) ! 0
       = activity 0 (lb (iface ex_as_h) ! 0) (ub (iface ex_as_h) ! 0)"
proof -
  have h: "(0::nat) < nVar_QP ex_as_h" "length [INACTIVE, INACTIVE, INACTIVE] = nVar_QP ex_as_h"
    by (simp_all add: ex_as_h_def QPhandler_init_def on_iface_def)
  show ?thesis using get_active_set_bounds [OF h, of "[]" "[0, 0, 0]" None] h by simp
qed

theorem get_active_set_constraints_witness:
  "(0::nat) < nConstr_QP ex_as_h \<and> length [INACTIVE] = nConstr_QP ex_as_h
   \<and> fst (get_active_set ex_as_h [INACTIVE] [] None (Some [1])) ! 0 = ACTIVE_BOTH_SIDE"
proof -
  have h: "(0::nat) < nConstr_QP ex_as_h" "length [INACTIVE] = nConstr_QP ex_as_h"
    by (simp_all add: ex_as_h_def QPhandler_init_def on_iface_def)
  have "fst (get_active_set ex_as_h [INACTIVE] [] None (Some [1])) ! 0 = activity 1 1 1"
    using get_active_set_constraints [OF h, of "[]" None "[1]"] by (simp add: ex_as_h_def QPhandler_init_def on_iface_def)
  then show ?thesis using h by (simp add: activity_def sqrt_m_eps_def)
qed

theorem legacy_optimizeQP_equiv_witness:
  "lg_corr QP ex_legacy1 ex_oases1 \<and> hs_inv QP ex_oases1
   \<and> (case (legacy_optimizeQP (cold_engine ex_solve) ex_legacy1, optimizeQP (cold_engine ex_solve) ex_oases1) of
        (Some (Inr L'), Some (Inr st')) \<Rightarrow>
           legacy_get_optimal_solution [] L' = x_qp (oi st') \<and> legacy_get_multipliers [] L' = y_qp (oi st')
           \<and> legacy_get_obj_value L' = obj_val (abs_iface st') \<and> lg_corr QP L' st'
      | (Some (Inl (e1, L')), Some (Inl (e2, st'))) \<Rightarrow> e1 = QP_NOT_OPTIMAL \<and> e2 = QP_NOT_OPTIMAL
      | _ \<Rightarrow> False)"
proof -
  have c: "lg_corr QP ex_legacy1 ex_oases1"
    by (simp add: lg_corr_def legacy_data_def data_of_def ex_legacy1_def ex_oases1_def QPhandler_init_def)
  show ?thesis using legacy_optimizeQP_equiv [OF c ex_oases_inv(3), where solve = ex_solve and p = "[]" and y = "[]"] c ex_oases_inv(3)
    by simp
qed

text \<open>With an engine whose hot starts fail and whose \<open>init\<close> succeeds, the two back
  ends part: the legacy one throws, the current one recovers through \<open>handler_error\<close>.\<close>

theorem legacy_no_retry_example:
  "(\<exists>L'. legacy_optimizeQP ex_warm ex_legacy1 = Some (Inl (QP_NOT_OPTIMAL, L')))
   \<and> (\<exists>st'. optimizeQP ex_warm ex_oases1 = Some (Inr st'))"
  by (simp add: legacy_optimizeQP_def legacy_solve_def legacy_check_def legacy_call_def legacy_solved_def
        ex_legacy1_def ex_warm_def ex_fail_def ex_ok_def sq_run_def optimizeQP_def hotstart_step_def
        hotstart_choice_def get_Matrix_change_status_def ex_oases1_def QPhandler_init_def Let_def
        solve_tail_def handler_error_def oases_state_defs hotstart_vec_call_def init_call_def
        ex_retry_ok_def no_flags_def)

end
