(* ===== verification/OptTest.thy ===== *)
theory OptTest
  imports Constraint_Types
begin

text \<open>
  The optimality testers of \<open>src/src/OptTest.cpp\<close> (declared in
  \<open>src/include/sqphot/OptTest.hpp\<close>). \<open>NLP_OptTest\<close> holds the point, the bounds,
  the two type arrays, the tolerances and two activity arrays that are allocated
  (zero-filled) on first use; its members return a \<open>bool\<close> and update the state.
  \<open>Check_Feasibility\<close> has no \<open>return\<close> statement, so its value is undefined in C++:
  the model returns \<open>None\<close> for it. \<open>QP_OptTest\<close> only has members that return
  \<open>true\<close>. Neither class is used by the driver.
\<close>

record nlp_opttest =
  ot_c_u :: vec
  ot_c_l :: vec
  ot_x_k :: vec
  ot_x_u :: vec
  ot_x_l :: vec
  ot_c_k :: vec
  Active_Set_bounds :: "int list option"
  Active_Set_constraints :: "int list option"
  ot_cons_type :: "constraint_type list"
  ot_bound_cons_type :: "constraint_type list"
  opt_tol :: real
  ot_opt_compl_tol :: real
  ot_opt_dual_fea_tol :: real
  ot_opt_prim_fea_tol :: real
  opt_second_tol :: real
  ot_active_set_tol :: real
  ot_primal_feasibility :: bool
  ot_dual_feasibility :: bool
  ot_complementarity :: bool
  ot_stationarity :: bool
  ot_second_order_opt :: bool

text \<open>The constructor: the options' tolerances, the arrays not yet allocated, and the
  flags \<open>false\<close> (their in-class initialisers).\<close>

definition NLP_OptTest_init ::
    "vec \<Rightarrow> vec \<Rightarrow> vec \<Rightarrow> vec \<Rightarrow> vec \<Rightarrow> vec \<Rightarrow> real \<Rightarrow> real \<Rightarrow> real \<Rightarrow> real \<Rightarrow> real \<Rightarrow> real
     \<Rightarrow> constraint_type list \<Rightarrow> constraint_type list \<Rightarrow> nlp_opttest" where
  "NLP_OptTest_init x_k x_u x_l c_k c_u c_l t_opt t_compl t_prim t_dual t_second t_active cons_type bound_cons_type =
     \<lparr>ot_c_u = c_u, ot_c_l = c_l, ot_x_k = x_k, ot_x_u = x_u, ot_x_l = x_l, ot_c_k = c_k,
      Active_Set_bounds = None, Active_Set_constraints = None,
      ot_cons_type = cons_type, ot_bound_cons_type = bound_cons_type,
      opt_tol = t_opt, ot_opt_compl_tol = t_compl, ot_opt_dual_fea_tol = t_dual,
      ot_opt_prim_fea_tol = t_prim, opt_second_tol = t_second, ot_active_set_tol = t_active,
      ot_primal_feasibility = False, ot_dual_feasibility = False, ot_complementarity = False,
      ot_stationarity = False, ot_second_order_opt = False\<rparr>"

definition setActiveSetConstraints :: "int list \<Rightarrow> nlp_opttest \<Rightarrow> nlp_opttest" where
  "setActiveSetConstraints a t = t\<lparr>Active_Set_constraints := Some a\<rparr>"

definition setActiveSetBounds :: "int list \<Rightarrow> nlp_opttest \<Rightarrow> nlp_opttest" where
  "setActiveSetBounds a t = t\<lparr>Active_Set_bounds := Some a\<rparr>"

text \<open>\<open>IdentifyActiveSet\<close>: allocate each array if it is \<open>NULL\<close>, then the two loops of
  \<open>Constraint_Types\<close>.\<close>

definition IdentifyActiveSet :: "nlp_opttest \<Rightarrow> nlp_opttest \<times> bool" where
  "IdentifyActiveSet t =
     (let Ac = (case Active_Set_constraints t of None \<Rightarrow> replicate (length (ot_c_k t)) 0 | Some a \<Rightarrow> a);
          Ab = (case Active_Set_bounds t of None \<Rightarrow> replicate (length (ot_x_k t)) 0 | Some a \<Rightarrow> a);
          Ac' = IdentifyActiveSet_constraints (ot_active_set_tol t) (ot_cons_type t) (ot_c_l t) (ot_c_u t) (ot_c_k t) Ac;
          Ab' = IdentifyActiveSet_bounds (ot_active_set_tol t) (ot_bound_cons_type t) (ot_cons_type t)
                  (ot_x_l t) (ot_x_u t) (ot_x_k t) Ab
      in (t\<lparr>Active_Set_constraints := Some Ac', Active_Set_bounds := Some Ab'\<rparr>, True))"

definition Check_Feasibility :: "real \<Rightarrow> nlp_opttest \<Rightarrow> nlp_opttest \<times> bool option" where
  "Check_Feasibility infea_measure t =
     (if \<not> ot_primal_feasibility t \<and> infea_measure < ot_opt_prim_fea_tol t
      then (t\<lparr>ot_primal_feasibility := True\<rparr>, None) else (t, None))"

text \<open>\<open>Check_KKTConditions\<close> runs the tests in order and returns \<open>true\<close>; the feasibility
  test is called with its default argument \<open>0\<close>. Complementarity, dual feasibility and
  stationarity return \<open>true\<close> and change nothing.\<close>

definition Check_KKTConditions :: "bool \<Rightarrow> bool \<Rightarrow> nlp_opttest \<Rightarrow> nlp_opttest \<times> bool" where
  "Check_KKTConditions isPointChanged isConstraintChanged t =
     (let t1 = fst (IdentifyActiveSet t);
          t2 = fst (Check_Feasibility 0 t1)
      in (t2, True))"

definition QP_OptTest_Check_KKTConditions :: "bool \<Rightarrow> bool \<Rightarrow> bool" where
  "QP_OptTest_Check_KKTConditions isPointChanged isConstraintChanged = True"

subsection \<open>Lemmas\<close>

lemma IdentifyActiveSet_fields [simp]:
  "ot_primal_feasibility (fst (IdentifyActiveSet t)) = ot_primal_feasibility t"
  "ot_opt_prim_fea_tol (fst (IdentifyActiveSet t)) = ot_opt_prim_fea_tol t"
  "ot_c_k (fst (IdentifyActiveSet t)) = ot_c_k t"
  by (simp_all add: IdentifyActiveSet_def Let_def)

text \<open>\<open>NLP_OptTest::Check_KKTConditions\<close> returns \<open>true\<close> for every point, and marks
  the point primal feasible whenever the feasibility tolerance is positive, whatever the
  constraint values: the feasibility test is run with the default measure 0.\<close>

theorem Check_KKTConditions_accepts_any_point:
  "0 < ot_opt_prim_fea_tol t \<Longrightarrow>
     snd (Check_KKTConditions p c t) \<and> ot_primal_feasibility (fst (Check_KKTConditions p c t))"
  by (simp add: Check_KKTConditions_def Check_Feasibility_def Let_def)

theorem Check_Feasibility_sets_flag:
  "ot_primal_feasibility (fst (Check_Feasibility infea t))
     \<longleftrightarrow> ot_primal_feasibility t \<or> infea < ot_opt_prim_fea_tol t"
  by (simp add: Check_Feasibility_def)

lemma IdentifyActiveSet_lengths:
  "length (the (Active_Set_constraints (fst (IdentifyActiveSet (t\<lparr>Active_Set_constraints := None\<rparr>)))))
       = length (ot_c_k t)"
  by (simp add: IdentifyActiveSet_def IdentifyActiveSet_constraints_def Let_def)

text \<open>A point with constraint value 5 and constraint bounds \<open>[0, 0]\<close> passes the test.\<close>

theorem Check_KKTConditions_accepts_any_point_witness:
  "0 < ot_opt_prim_fea_tol (NLP_OptTest_init [0] [1] [0] [5] [0] [0] 0.00001 0.000001 0.00001 0.000001 0.00000001 0.00001 [EQUAL] [EQUAL])
   \<and> snd (Check_KKTConditions False False (NLP_OptTest_init [0] [1] [0] [5] [0] [0] 0.00001 0.000001 0.00001 0.000001 0.00000001 0.00001 [EQUAL] [EQUAL]))
   \<and> ot_primal_feasibility (fst (Check_KKTConditions False False
        (NLP_OptTest_init [0] [1] [0] [5] [0] [0] 0.00001 0.000001 0.00001 0.000001 0.00000001 0.00001 [EQUAL] [EQUAL])))"
  using Check_KKTConditions_accepts_any_point [of "NLP_OptTest_init [0] [1] [0] [5] [0] [0] 0.00001 0.000001 0.00001 0.000001 0.00000001 0.00001 [EQUAL] [EQUAL]" False False]
  by (simp add: NLP_OptTest_init_def)

end
