(* ===== verification/Options_Registration.thy ===== *)
theory Options_Registration
  imports Prelude
begin

text \<open>
  \<open>Algorithm::setDefaultOption\<close> (\<open>src/src/Algorithm.cpp\<close>) registers the solver's
  options with Ipopt's \<open>RegisteredOptions\<close>: a sequence of calls, each adding a number,
  integer or two-valued string option under the current category. The model is that
  sequence, with the arguments as the compiler binds them, and the table it builds.
  Descriptions are left out, except where they take the place of an argument: in the
  registration of \<open>second_order_correction\<close> a missing comma makes the literal
  \<open>"yes"\<close> part of the short description, so every later argument moves one place
  to the left. The optimiser never reads this table (\<open>options_\<close> is a default
  \<open>Options\<close> struct), and \<open>setDefaultOption\<close> is not called in the repository.
\<close>

datatype reg_call =
    SetRegisteringCategory string
  | AddNumberOption string real
  | AddIntegerOption string int
  | AddStringOption2 string string string string

text \<open>\<open>AddStringOption2(name, short, default, setting1, description1, setting2, ...)\<close>
  keeps the name, the default and the two settings.\<close>

definition setDefaultOption :: "reg_call list" where
  "setDefaultOption =
    [SetRegisteringCategory ''trust-region'',
     AddNumberOption ''eta_c'' 0.25,
     AddNumberOption ''eta_s'' (1 / 10 ^ 8),
     AddNumberOption ''eta_e'' 0.75,
     AddNumberOption ''gamma_c'' 0.5,
     AddNumberOption ''gamma_e'' 2,
     AddNumberOption ''delta_0'' 1,
     AddNumberOption ''delta_max'' (10 ^ 8),
     SetRegisteringCategory ''Penalty Update'',
     AddNumberOption ''eps1'' 0.3,
     AddNumberOption ''eps2'' (1 / 10 ^ 6),
     AddNumberOption ''print_level_penalty_update'' 0,
     AddNumberOption ''rho_max'' (10 ^ 6),
     AddNumberOption ''increase_parm'' 10,
     AddIntegerOption ''penalty_iter_max'' 10,
     AddIntegerOption ''penalty_iter_max_total'' 100,
     SetRegisteringCategory ''Optimality Test'',
     AddIntegerOption ''testOption_NLP'' 0,
     AddStringOption2 ''auto_gen_tol'' ''no'' ''no'' ''yes'',
     AddNumberOption ''opt_tol'' (1 / 10 ^ 5),
     AddNumberOption ''active_set_tol'' (1 / 10 ^ 5),
     AddNumberOption ''opt_compl_tol'' (1 / 10 ^ 6),
     AddNumberOption ''opt_dual_fea_tol'' (1 / 10 ^ 6),
     AddNumberOption ''opt_prim_fea_tol'' (1 / 10 ^ 5),
     AddNumberOption ''opt_second_tol'' (1 / 10 ^ 8),
     SetRegisteringCategory ''General'',
     AddNumberOption ''step_size_tol'' (1 / 10 ^ 15),
     AddNumberOption ''iter_max'' 10,
     AddNumberOption ''print_level'' 2,
     AddStringOption2 ''second_order_correction'' ''no'' ''not calculate the soc steps''
       ''will calculate the soc steps'',
     SetRegisteringCategory ''QPsolver'',
     AddIntegerOption ''testOption_QP'' (-99),
     AddNumberOption ''iter_max_qp'' 100,
     AddNumberOption ''print_level_qp'' 0,
     SetRegisteringCategory ''LPsolver'',
     AddIntegerOption ''testOption_LP'' (-99),
     AddNumberOption ''iter_max_lp'' 100,
     AddNumberOption ''print_level_lp'' 0]"

text \<open>The registered options: name, category and the call that registered it.\<close>

fun register :: "string \<Rightarrow> reg_call list \<Rightarrow> (string \<times> string \<times> reg_call) list" where
  "register cat [] = []"
| "register cat (SetRegisteringCategory c # cs) = register c cs"
| "register cat (AddNumberOption n v # cs) = (n, cat, AddNumberOption n v) # register cat cs"
| "register cat (AddIntegerOption n v # cs) = (n, cat, AddIntegerOption n v) # register cat cs"
| "register cat (AddStringOption2 n d s1 s2 # cs) = (n, cat, AddStringOption2 n d s1 s2) # register cat cs"

definition registered_options :: "(string \<times> string \<times> reg_call) list" where
  "registered_options = register '''' setDefaultOption"

text \<open>A string option is well formed when its default is one of its settings.\<close>

fun reg_well_formed :: "reg_call \<Rightarrow> bool" where
  "reg_well_formed (AddStringOption2 n d s1 s2) = (d = s1 \<or> d = s2)"
| "reg_well_formed c = True"

definition is_number_option :: "string \<Rightarrow> bool" where
  "is_number_option n = (\<exists>c v. (n, c, AddNumberOption n v) \<in> set registered_options)"

subsection \<open>Lemmas\<close>

theorem registered_names_distinct: "distinct (map fst registered_options)"
  by (simp add: registered_options_def setDefaultOption_def)

text \<open>Every registration but one is well formed: the option \<open>second_order_correction\<close>
  has default \<open>no\<close> and the settings ``not calculate the soc steps'' and ``will
  calculate the soc steps'', so neither \<open>yes\<close> nor \<open>no\<close> is accepted.\<close>

theorem second_order_correction_registration_broken:
  "filter (\<lambda>(n, c, r). \<not> reg_well_formed r) registered_options =
     [(''second_order_correction'', ''General'',
       AddStringOption2 ''second_order_correction'' ''no'' ''not calculate the soc steps''
         ''will calculate the soc steps'')]"
  by (simp add: registered_options_def setDefaultOption_def)

text \<open>The iteration limits \<open>iter_max\<close>, \<open>iter_max_qp\<close> and \<open>iter_max_lp\<close> are
  registered as number options, not integer options.\<close>

lemma iteration_limits_registered_as_numbers:
  "is_number_option ''iter_max'' \<and> is_number_option ''iter_max_qp'' \<and> is_number_option ''iter_max_lp''"
  unfolding is_number_option_def registered_options_def setDefaultOption_def by auto

end
