(* ===== verification/QpOases_WorkingSet.thy ===== *)
theory QpOases_WorkingSet
  imports QpOases_Interface
begin

text \<open>
  \<open>qpOASESInterface::GetWorkingSet\<close> (\<open>src/src/qpOASESInterface.cpp\<close>): it asks the
  solver for the working sets of its bounds and constraints (integer codes \<open>1\<close>,
  \<open>-1\<close>, \<open>0\<close>) and translates them into the \<open>ActiveType\<close> arrays \<open>W_constr\<close> and
  \<open>W_bounds\<close> of the caller. The solver's answers are parameters: its sizes
  \<open>getNV()\<close>, \<open>getNC()\<close> and the two code arrays. The caller's arrays are lists whose
  lengths are the sizes they were allocated with. The outcomes are the datatype
  \<open>ws_return\<close>: a failed \<open>assert\<close>; a write past the end of a caller's array, which
  is undefined behaviour in C++ and is kept apart from every normal outcome; the
  exception \<open>INVALID_WORKING_SET\<close> with the arrays as the loops left them; and a normal
  return with the two arrays.
\<close>

datatype ws_exception = INVALID_WORKING_SET

text \<open>One \<open>switch\<close>: \<open>None\<close> is its \<open>default\<close> branch, which throws.\<close>

definition ws_status :: "int \<Rightarrow> active_type option" where
  "ws_status k = (if k = 1 then Some ACTIVE_ABOVE else if k = -1 then Some ACTIVE_BELOW
                  else if k = 0 then Some INACTIVE else None)"

text \<open>The state of one translation loop: running with the array written so far, left by
  the exception, or past the end of the array.\<close>

datatype ws_loop = WsRun "active_type list" | WsThrown "active_type list" | WsOverflow

text \<open>One loop \<open>for (i = 0; i < n; i++) switch (tmp[i]) ... W[i] = ...\<close>: an invalid code
  throws before the write; a valid code at \<open>i >= length W\<close> writes past the array.\<close>

definition ws_copy :: "nat \<Rightarrow> int list \<Rightarrow> active_type list \<Rightarrow> ws_loop" where
  "ws_copy n tmp W =
     fold (\<lambda>i r. case r of
                   WsRun W' \<Rightarrow> (case ws_status (tmp ! i) of
                                  None \<Rightarrow> WsThrown W'
                                | Some a \<Rightarrow> if i < length W' then WsRun (W'[i := a]) else WsOverflow)
                 | _ \<Rightarrow> r)
       [0..<n] (WsRun W)"

datatype ws_return =
    WsAssert
  | WsOutOfBounds
  | WsException ws_exception "active_type list" "active_type list"
  | WsReturn "active_type list" "active_type list"

text \<open>The member: the two assertions on the sizes, then the loop over the bounds' codes,
  which writes \<open>W_constr\<close>, and the loop over the constraints' codes, which writes
  \<open>W_bounds\<close>, as the code has them.\<close>

definition GetWorkingSet :: "nat \<Rightarrow> nat \<Rightarrow> nat \<Rightarrow> nat \<Rightarrow> int list \<Rightarrow> int list \<Rightarrow>
    active_type list \<Rightarrow> active_type list \<Rightarrow> ws_return" where
  "GetWorkingSet nvar_qp ncon_qp nv nc tmp_W_c tmp_W_b w_constr w_bounds =
     (if ncon_qp \<noteq> nc \<or> nvar_qp \<noteq> nv then WsAssert
      else case ws_copy nvar_qp tmp_W_b w_constr of
             WsOverflow \<Rightarrow> WsOutOfBounds
           | WsThrown Wc \<Rightarrow> WsException INVALID_WORKING_SET Wc w_bounds
           | WsRun Wc \<Rightarrow> (case ws_copy ncon_qp tmp_W_c w_bounds of
                          WsOverflow \<Rightarrow> WsOutOfBounds
                        | WsThrown Wb \<Rightarrow> WsException INVALID_WORKING_SET Wc Wb
                        | WsRun Wb \<Rightarrow> WsReturn Wc Wb))"

text \<open>Valid codes and their translation.\<close>

definition ws_valid :: "int list \<Rightarrow> bool" where
  "ws_valid tmp = list_all (\<lambda>k. ws_status k \<noteq> None) tmp"

definition ws_decode :: "int list \<Rightarrow> active_type list" where
  "ws_decode tmp = map (\<lambda>k. the (ws_status k)) tmp"

subsection \<open>Lemmas\<close>

lemma ws_copy_Suc:
  "ws_copy (Suc n) tmp W =
     (case ws_copy n tmp W of
        WsRun W' \<Rightarrow> (case ws_status (tmp ! n) of
                       None \<Rightarrow> WsThrown W'
                     | Some a \<Rightarrow> if n < length W' then WsRun (W'[n := a]) else WsOverflow)
      | r \<Rightarrow> r)"
  by (simp add: ws_copy_def split: ws_loop.split)

lemma ws_valid_nth: "ws_valid tmp \<Longrightarrow> i < length tmp \<Longrightarrow> ws_status (tmp ! i) \<noteq> None"
  by (simp add: ws_valid_def list_all_length)

text \<open>With valid codes, a loop that stays inside the array writes the decoded codes
  into its first \<open>n\<close> entries; one that runs past the end of the array overflows.\<close>

lemma ws_copy_valid:
  assumes "\<forall>i<n. ws_status (tmp ! i) \<noteq> None" "n \<le> length W"
  shows "ws_copy n tmp W = WsRun (map (\<lambda>i. if i < n then the (ws_status (tmp ! i)) else W ! i) [0..<length W])"
  using assms
proof (induction n)
  case 0
  then show ?case by (simp add: ws_copy_def map_nth)
next
  case (Suc n)
  then obtain a where a: "ws_status (tmp ! n) = Some a" by blast
  have IH: "ws_copy n tmp W = WsRun (map (\<lambda>i. if i < n then the (ws_status (tmp ! i)) else W ! i) [0..<length W])"
    using Suc.prems by (intro Suc.IH) auto
  have "(map (\<lambda>i. if i < n then the (ws_status (tmp ! i)) else W ! i) [0..<length W])[n := a]
        = map (\<lambda>i. if i < Suc n then the (ws_status (tmp ! i)) else W ! i) [0..<length W]"
    using a by (intro nth_equalityI) (auto simp: nth_list_update less_Suc_eq)
  then show ?case unfolding ws_copy_Suc IH using a Suc.prems(2) by simp
qed

lemma ws_copy_overflow:
  assumes "\<forall>i<n. ws_status (tmp ! i) \<noteq> None" "length W < n"
  shows "ws_copy n tmp W = WsOverflow"
  using assms
proof (induction n)
  case (Suc n)
  show ?case
  proof (cases "length W < n")
    case True
    then show ?thesis using Suc by (simp add: ws_copy_Suc)
  next
    case False
    then have n: "length W = n" using Suc.prems(2) by simp
    obtain a where a: "ws_status (tmp ! n) = Some a" using Suc.prems(1) by blast
    have "ws_copy n tmp W = WsRun (map (\<lambda>i. if i < n then the (ws_status (tmp ! i)) else W ! i) [0..<length W])"
      using Suc.prems(1) n by (intro ws_copy_valid) auto
    then show ?thesis using a n by (simp add: ws_copy_Suc)
  qed
qed simp

lemma ws_copy_decode:
  assumes "ws_valid tmp" "length tmp = n" "length W = n"
  shows "ws_copy n tmp W = WsRun (ws_decode tmp)"
proof -
  have "ws_copy n tmp W = WsRun (map (\<lambda>i. if i < n then the (ws_status (tmp ! i)) else W ! i) [0..<length W])"
    using assms by (intro ws_copy_valid) (auto simp: ws_valid_nth)
  also have "map (\<lambda>i. if i < n then the (ws_status (tmp ! i)) else W ! i) [0..<length W] = ws_decode tmp"
    using assms(2,3) by (intro nth_equalityI) (simp_all add: ws_decode_def)
  finally show ?thesis .
qed

lemma GetWorkingSet_assert:
  "ncon_qp \<noteq> nc \<or> nvar_qp \<noteq> nv \<Longrightarrow> GetWorkingSet nvar_qp ncon_qp nv nc tmp_W_c tmp_W_b w_constr w_bounds = WsAssert"
  by (simp add: GetWorkingSet_def)

text \<open>C34. Let the caller allocate its arrays as their names say, \<open>W_constr\<close> with
  \<open>nConstr_QP\<close> entries and \<open>W_bounds\<close> with \<open>nVar_QP\<close>, and let the solver report
  matching sizes and valid codes. When the two counts differ, \<open>GetWorkingSet\<close> always
  writes past the end of one of the arrays: the loop over the \<open>nVar_QP\<close> bound codes
  writes \<open>W_constr\<close>, the loop over the \<open>nConstr_QP\<close> constraint codes writes
  \<open>W_bounds\<close>. When they are equal it returns normally with the two arrays swapped: the
  bounds' working set in \<open>W_constr\<close> and the constraints' in \<open>W_bounds\<close>.\<close>

theorem GetWorkingSet_swaps:
  assumes "length w_constr = ncon_qp" "length w_bounds = nvar_qp"
    and "length tmp_W_b = nvar_qp" "length tmp_W_c = ncon_qp" "ws_valid tmp_W_b" "ws_valid tmp_W_c"
  shows "GetWorkingSet nvar_qp ncon_qp nvar_qp ncon_qp tmp_W_c tmp_W_b w_constr w_bounds
           = (if nvar_qp = ncon_qp then WsReturn (ws_decode tmp_W_b) (ws_decode tmp_W_c) else WsOutOfBounds)"
proof -
  have vb: "\<forall>i<nvar_qp. ws_status (tmp_W_b ! i) \<noteq> None" and vc: "\<forall>i<ncon_qp. ws_status (tmp_W_c ! i) \<noteq> None"
    using assms by (auto simp: ws_valid_nth)
  consider "nvar_qp = ncon_qp" | "ncon_qp < nvar_qp" | "nvar_qp < ncon_qp" by linarith
  then show ?thesis
  proof cases
    case 1
    then show ?thesis using assms
      by (simp add: GetWorkingSet_def ws_copy_decode)
  next
    case 2
    then have "ws_copy nvar_qp tmp_W_b w_constr = WsOverflow"
      using assms(1) by (intro ws_copy_overflow [OF vb]) simp
    then show ?thesis using 2 by (simp add: GetWorkingSet_def)
  next
    case 3
    then have "ws_copy nvar_qp tmp_W_b w_constr
               = WsRun (map (\<lambda>i. if i < nvar_qp then the (ws_status (tmp_W_b ! i)) else w_constr ! i) [0..<length w_constr])"
      using assms(1) by (intro ws_copy_valid [OF vb]) simp
    moreover have "ws_copy ncon_qp tmp_W_c w_bounds = WsOverflow"
      using 3 assms(2) by (intro ws_copy_overflow [OF vc]) simp
    ultimately show ?thesis using 3 by (simp add: GetWorkingSet_def)
  qed
qed

text \<open>Two QP variables and two QP constraints: the bounds' codes \<open>[1, 0]\<close> end up in
  \<open>W_constr\<close> and the constraints' codes \<open>[-1, -1]\<close> in \<open>W_bounds\<close>. With three QP
  variables and one constraint the call writes past the end of \<open>W_constr\<close>.\<close>

theorem GetWorkingSet_swaps_witness:
  "GetWorkingSet 2 2 2 2 [-1, -1] [1, 0] [INACTIVE, INACTIVE] [INACTIVE, INACTIVE]
     = WsReturn [ACTIVE_ABOVE, INACTIVE] [ACTIVE_BELOW, ACTIVE_BELOW]
   \<and> GetWorkingSet 3 1 3 1 [-1] [1, 0, -1] [INACTIVE] [INACTIVE, INACTIVE, INACTIVE] = WsOutOfBounds"
proof -
  have v: "ws_valid [1, 0, -1]" "ws_valid [-1]" "ws_valid [1, 0]" "ws_valid [-1, -1]"
    by (simp_all add: ws_valid_def ws_status_def)
  have "GetWorkingSet 2 2 2 2 [-1, -1] [1, 0] [INACTIVE, INACTIVE] [INACTIVE, INACTIVE]
          = WsReturn (ws_decode [1, 0]) (ws_decode [-1, -1])"
    using GetWorkingSet_swaps [where tmp_W_b = "[1, 0]" and nvar_qp = 2 and tmp_W_c = "[-1, -1]" and ncon_qp = 2
                                 and w_constr = "[INACTIVE, INACTIVE]" and w_bounds = "[INACTIVE, INACTIVE]"] v
    by simp
  moreover have "GetWorkingSet 3 1 3 1 [-1] [1, 0, -1] [INACTIVE] [INACTIVE, INACTIVE, INACTIVE] = WsOutOfBounds"
    using GetWorkingSet_swaps [where tmp_W_b = "[1, 0, -1]" and nvar_qp = 3 and tmp_W_c = "[-1]" and ncon_qp = 1
                                 and w_constr = "[INACTIVE]" and w_bounds = "[INACTIVE, INACTIVE, INACTIVE]"] v
    by simp
  ultimately show ?thesis by (simp add: ws_decode_def ws_status_def)
qed

end
