(* ===== verification/Sparse_HbMat.thy ===== *)
theory Sparse_HbMat
  imports Sparse_Matrix "HOL-Library.Multiset" "HOL-Library.Product_Lexorder"
begin

text \<open>
  The compressed-column (Harwell-Boeing) matrix \<open>SpHbMat\<close> of
  \<open>src/include/sqphot/Matrix.hpp\<close>, the form qpOASES takes its Hessian and Jacobian in.
  Its members are the record \<open>sp_hb\<close>: \<open>RowIndex_\<close> holds the 0-based row of each
  stored entry, \<open>ColIndex_\<close> the \<open>ColNum + 1\<close> column starts, \<open>MatVal_\<close> the values and
  \<open>order_\<close> the triplet position each entry came from. The header holds the members,
  \<open>set_zero\<close> and the comparison \<open>tuple_sort_rule\<close>; the conversion \<open>setStructure\<close>,
  \<open>setMatVal\<close> and the product \<open>times\<close> are in \<open>Matrix.cpp\<close>, which is not in the
  repository, and are modelled from the spec (\<section>4.1): a stable column-major sort, ties
  broken by the row, with the original positions remembered, so that a later
  \<open>setMatVal\<close> writes each new value into its slot without sorting again.
\<close>

record sp_hb =
  hb_RowNum :: nat
  hb_ColNum :: nat
  hb_isSymmetric :: bool
  hb_RowIndex :: "nat list"
  hb_ColIndex :: "nat list"
  hb_MatVal :: vec
  hb_order :: "nat list"

text \<open>The constructor with \<open>set_zero\<close>: zero values and rows, the identity order and
  zero column starts.\<close>

definition SpHbMat_init :: "nat \<Rightarrow> nat \<Rightarrow> nat \<Rightarrow> bool \<Rightarrow> sp_hb" where
  "SpHbMat_init nnz rows cols symm =
     \<lparr>hb_RowNum = rows, hb_ColNum = cols, hb_isSymmetric = symm,
      hb_RowIndex = replicate nnz 0, hb_ColIndex = replicate (cols + 1) 0,
      hb_MatVal = replicate nnz 0, hb_order = [0..<nnz]\<rparr>"

text \<open>The triples \<open>(row, column, position)\<close> that \<open>setStructure\<close> sorts with
  \<open>tuple_sort_rule\<close>.\<close>

definition triplet_entries :: "sp_triplet \<Rightarrow> (nat \<times> nat \<times> nat) list" where
  "triplet_entries M = map (\<lambda>k. (RowIndex M ! k, ColIndex M ! k, k)) [0..<EntryNum M]"

definition hb_sorted :: "sp_triplet \<Rightarrow> (nat \<times> nat \<times> nat) list" where
  "hb_sorted M = sort_key (\<lambda>(r, c, k). (c, r)) (triplet_entries M)"

definition setStructure :: "sp_triplet \<Rightarrow> sp_hb \<Rightarrow> sp_hb" where
  "setStructure M h =
     (let L = hb_sorted M
      in h\<lparr>hb_RowIndex := map (\<lambda>(r, c, k). r - 1) L,
           hb_ColIndex := map (\<lambda>j. length (filter (\<lambda>(r, c, k). c - 1 < j) L)) [0..<Suc (hb_ColNum h)],
           hb_order := map (\<lambda>(r, c, k). k) L\<rparr>)"

definition setMatVal :: "sp_triplet \<Rightarrow> sp_hb \<Rightarrow> sp_hb" where
  "setMatVal M h = h\<lparr>hb_MatVal := map (\<lambda>k. MatVal M ! k) (hb_order h)\<rparr>"

text \<open>\<open>times\<close>: column \<open>j\<close> holds the entries \<open>ColIndex[j] .. ColIndex[j+1]-1\<close>; a
  symmetric matrix adds the mirrored entry off the diagonal.\<close>

definition hb_times :: "sp_hb \<Rightarrow> vec \<Rightarrow> vec" where
  "hb_times h p =
     for_upto (hb_ColNum h)
       (\<lambda>j r. foldl (\<lambda>r i. add_entry (hb_isSymmetric h) (hb_RowIndex h ! i) j (hb_MatVal h ! i) p r) r
                [hb_ColIndex h ! j..<hb_ColIndex h ! Suc j])
       (replicate (hb_RowNum h) 0)"

text \<open>A triplet whose indices are 1-based and inside the dimensions.\<close>

definition triplet_wf :: "sp_triplet \<Rightarrow> bool" where
  "triplet_wf M =
     (length (RowIndex M) = EntryNum M \<and> length (ColIndex M) = EntryNum M
      \<and> (\<forall>k<EntryNum M. 1 \<le> RowIndex M ! k \<and> RowIndex M ! k \<le> RowNum M
                         \<and> 1 \<le> ColIndex M ! k \<and> ColIndex M ! k \<le> ColNum M))"

definition to_hb :: "sp_triplet \<Rightarrow> sp_hb" where
  "to_hb M = setMatVal M (setStructure M (SpHbMat_init (EntryNum M) (RowNum M) (ColNum M) (isSymmetric M)))"

text \<open>A triplet with the structure of another: only the values may differ, as for the
  Hessian and Jacobian of a later iterate.\<close>

definition same_structure :: "sp_triplet \<Rightarrow> sp_triplet \<Rightarrow> bool" where
  "same_structure M M' =
     (RowNum M' = RowNum M \<and> ColNum M' = ColNum M \<and> isSymmetric M' = isSymmetric M
      \<and> RowIndex M' = RowIndex M \<and> ColIndex M' = ColIndex M \<and> EntryNum M' = EntryNum M)"

subsection \<open>Lemmas\<close>

text \<open>Adding one entry into the result commutes with adding another: each is an
  increment of one or two entries by an amount that does not depend on the result.\<close>

definition incr :: "nat \<Rightarrow> real \<Rightarrow> vec \<Rightarrow> vec" where
  "incr i a r = r[i := r ! i + a]"

lemma length_incr [simp]: "length (incr i a r) = length r"
  by (simp add: incr_def)

lemma nth_incr: "k < length r \<Longrightarrow> incr i a r ! k = (if k = i then r ! k + a else r ! k)"
  by (simp add: incr_def nth_list_update)

lemma incr_commute: "incr i a (incr i' b r) = incr i' b (incr i a r)"
  by (rule nth_equalityI) (simp_all add: nth_incr)

lemma add_entry_incr:
  "add_entry s i j v p r = (if s \<and> i \<noteq> j then incr j (v * p ! i) (incr i (v * p ! j) r) else incr i (v * p ! j) r)"
  by (simp add: add_entry_def Let_def incr_def)

lemma add_entry_commute:
  "add_entry s i j v p (add_entry s i' j' v' p r) = add_entry s i' j' v' p (add_entry s i j v p r)"
  by (simp add: add_entry_incr incr_commute)

text \<open>The column blocks of a list sorted by column: the entries with a column below
  \<open>n\<close> come first.\<close>

lemma sorted_split_filter:
  "sorted (map key L) \<Longrightarrow> L = filter (\<lambda>e. key e < n) L @ filter (\<lambda>e. \<not> key e < n) L"
proof (induction L)
  case (Cons x xs)
  show ?case
  proof (cases "key x < n")
    case False
    with Cons.prems have "filter (\<lambda>e. key e < n) xs = []" "filter (\<lambda>e. \<not> key e < n) xs = xs"
      by (auto simp: filter_empty_conv filter_id_conv)
    with False show ?thesis by simp
  qed (use Cons in simp)
qed simp

lemma foldl_nth_append:
  "foldl (\<lambda>r i. f ((xs @ ys) ! i) r) s [length xs..<length xs + length ys] = foldl (\<lambda>r e. f e r) s ys"
proof -
  have "[length xs..<length xs + length ys] = map (\<lambda>i. length xs + i) [0..<length ys]"
    by (rule nth_equalityI) auto
  then have "foldl (\<lambda>r i. f ((xs @ ys) ! i) r) s [length xs..<length xs + length ys]
             = foldl (\<lambda>r i. f (ys ! i) r) s [0..<length ys]"
    by (simp add: foldl_map)
  also have "\<dots> = foldl (\<lambda>r e. f e r) s (map (\<lambda>i. ys ! i) [0..<length ys])"
    by (simp add: foldl_map)
  also have "\<dots> = foldl (\<lambda>r e. f e r) s ys" by (simp add: map_nth)
  finally show ?thesis .
qed

text \<open>The loop over the columns and, inside, over the column's range of positions visits
  the entries of a column-sorted list in order.\<close>

lemma blocks_fold:
  assumes "sorted (map key L)" "\<forall>e\<in>set L. key e < n"
  shows "foldl (\<lambda>r j. foldl (\<lambda>r i. g (L ! i) j r) r
             [length (filter (\<lambda>e. key e < j) L)..<length (filter (\<lambda>e. key e < Suc j) L)]) s [0..<n]
         = foldl (\<lambda>r e. g e (key e) r) s L"
  using assms
proof (induction n arbitrary: L s)
  case 0
  then show ?case by (cases L) auto
next
  case (Suc n)
  define L1 where "L1 = filter (\<lambda>e. key e < n) L"
  define L2 where "L2 = filter (\<lambda>e. \<not> key e < n) L"
  have split: "L = L1 @ L2" unfolding L1_def L2_def by (rule sorted_split_filter [OF Suc.prems(1)])
  have k2: "\<forall>e\<in>set L2. key e = n" using Suc.prems(2) by (auto simp: L2_def)
  have cnt: "filter (\<lambda>e. key e < j) L = filter (\<lambda>e. key e < j) L1" if "j \<le> n" for j
  proof -
    have "filter (\<lambda>e. key e < j) L2 = []" using k2 that by (auto simp: filter_empty_conv)
    then show ?thesis by (subst split) simp
  qed
  have all: "filter (\<lambda>e. key e < Suc n) L = L" using Suc.prems(2) by (simp add: filter_id_conv)
  have L1n: "filter (\<lambda>e. key e < n) L = L1" by (simp add: L1_def)
  have sorted1: "sorted (map key L1)" unfolding L1_def by (rule sorted_filter [OF Suc.prems(1)])
  have keys1: "\<forall>e\<in>set L1. key e < n" by (simp add: L1_def)
  have first: "foldl (\<lambda>r j. foldl (\<lambda>r i. g (L ! i) j r) r
                 [length (filter (\<lambda>e. key e < j) L)..<length (filter (\<lambda>e. key e < Suc j) L)]) s [0..<n]
             = foldl (\<lambda>r j. foldl (\<lambda>r i. g (L1 ! i) j r) r
                 [length (filter (\<lambda>e. key e < j) L1)..<length (filter (\<lambda>e. key e < Suc j) L1)]) s [0..<n]"
  proof (rule foldl_cong [OF refl refl])
    fix j r assume "j \<in> set [0..<n]"
    then have j: "j < n" by simp
    have len: "length (filter (\<lambda>e. key e < Suc j) L1) \<le> length L1" by simp
    show "foldl (\<lambda>r i. g (L ! i) j r) r [length (filter (\<lambda>e. key e < j) L)..<length (filter (\<lambda>e. key e < Suc j) L)]
        = foldl (\<lambda>r i. g (L1 ! i) j r) r [length (filter (\<lambda>e. key e < j) L1)..<length (filter (\<lambda>e. key e < Suc j) L1)]"
    proof -
      have "L ! i = L1 ! i" if "i < length (filter (\<lambda>e. key e < Suc j) L1)" for i
      proof -
        have "i < length L1" using that len by linarith
        then show ?thesis by (subst split) (simp add: nth_append)
      qed
      then show ?thesis using j by (auto simp: cnt intro!: foldl_cong)
    qed
  qed
  have last: "foldl (\<lambda>r i. g (L ! i) n r) s' [length L1..<length L] = foldl (\<lambda>r e. g e (key e) r) s' L2" for s'
  proof -
    have "foldl (\<lambda>r i. g (L ! i) n r) s' [length L1..<length L] = foldl (\<lambda>r e. g e n r) s' L2"
      using foldl_nth_append [of "\<lambda>e r. g e n r" L1 L2 s'] split by simp
    also have "\<dots> = foldl (\<lambda>r e. g e (key e) r) s' L2" using k2 by (intro foldl_cong) auto
    finally show ?thesis .
  qed
  have Lfold: "foldl (\<lambda>r e. g e (key e) r) s L
                = foldl (\<lambda>r e. g e (key e) r) (foldl (\<lambda>r e. g e (key e) r) s L1) L2"
    by (subst split) simp
  define F where "F = (\<lambda>r j. foldl (\<lambda>r i. g (L ! i) j r) r
                  [length (filter (\<lambda>e. key e < j) L)..<length (filter (\<lambda>e. key e < Suc j) L)])"
  have prefix: "foldl F s [0..<n] = foldl (\<lambda>r e. g e (key e) r) s L1"
    unfolding F_def by (rule trans [OF first Suc.IH [OF sorted1 keys1]])
  have "foldl F s [0..<Suc n] = F (foldl F s [0..<n]) n" by simp
  also have "\<dots> = foldl (\<lambda>r i. g (L ! i) n r) (foldl (\<lambda>r e. g e (key e) r) s L1) [length L1..<length L]"
    unfolding prefix by (simp only: F_def all L1n)
  also have "\<dots> = foldl (\<lambda>r e. g e (key e) r) s L" by (simp only: last Lfold)
  finally show ?case by (simp only: F_def)
qed

text \<open>The sorted entries: a permutation of the triplet's, sorted by column.\<close>

lemma hb_sorted_mset: "mset (hb_sorted M) = mset (triplet_entries M)"
  by (simp add: hb_sorted_def)

lemma hb_sorted_cols: "sorted (map (\<lambda>(r, c, k). c - 1) (hb_sorted M))"
proof -
  have "sorted (map (\<lambda>(r, c, k). (c, r)) (hb_sorted M))"
    unfolding hb_sorted_def by (rule sorted_sort_key)
  then show ?thesis
    unfolding sorted_map by (rule sorted_wrt_mono_rel [rotated]) (auto simp: diff_le_mono)
qed

text \<open>Adding a list of entries into the result does not depend on their order.\<close>

lemma foldl_add_entry_perm:
  assumes "mset xs = mset ys"
  shows "foldl (\<lambda>r e. add_entry s (fr e) (fc e) (fv e) p r) r0 xs = foldl (\<lambda>r e. add_entry s (fr e) (fc e) (fv e) p r) r0 ys"
  unfolding foldl_conv_fold
  by (rule fun_cong [where x = r0, OF fold_multiset_equiv [OF _ assms]]) (simp add: fun_eq_iff add_entry_commute)

text \<open>The triplet product is the sum of its entries in their stored order.\<close>

lemma sp_times_entries:
  "sp_times M p = foldl (\<lambda>r e. add_entry (isSymmetric M) (fst e - 1) (fst (snd e) - 1) (MatVal M ! snd (snd e)) p r)
                    (replicate (RowNum M) 0) (triplet_entries M)"
  by (simp add: sp_times_def for_upto_def triplet_entries_def foldl_map)

lemma set_hb_sorted: "set (hb_sorted M) = set (triplet_entries M)"
  using hb_sorted_mset by (metis set_mset_mset)

lemma hb_sorted_keys:
  assumes "triplet_wf M"
  shows "\<forall>e\<in>set (hb_sorted M). (case e of (r, c, k) \<Rightarrow> c - 1) < ColNum M"
  using assms by (auto simp: set_hb_sorted triplet_entries_def triplet_wf_def EntryNum_def)

text \<open>The compressed matrix a structure set-up and a value update produce.\<close>

lemma hb_fields:
  "hb_ColNum (setMatVal M' (setStructure M (SpHbMat_init nnz rows cols symm))) = cols"
  "hb_RowNum (setMatVal M' (setStructure M (SpHbMat_init nnz rows cols symm))) = rows"
  "hb_isSymmetric (setMatVal M' (setStructure M (SpHbMat_init nnz rows cols symm))) = symm"
  "hb_RowIndex (setMatVal M' (setStructure M (SpHbMat_init nnz rows cols symm))) = map (\<lambda>(r, c, k). r - 1) (hb_sorted M)"
  "hb_ColIndex (setMatVal M' (setStructure M (SpHbMat_init nnz rows cols symm)))
     = map (\<lambda>j. length (filter (\<lambda>(r, c, k). c - 1 < j) (hb_sorted M))) [0..<Suc cols]"
  "hb_MatVal (setMatVal M' (setStructure M (SpHbMat_init nnz rows cols symm)))
     = map (\<lambda>(r, c, k). MatVal M' ! k) (hb_sorted M)"
  by (simp_all add: setMatVal_def setStructure_def SpHbMat_init_def Let_def case_prod_beta)

lemma hb_times_sorted:
  assumes wf: "triplet_wf M"
  shows "hb_times (setMatVal M' (setStructure M (SpHbMat_init nnz (RowNum M) (ColNum M) (isSymmetric M)))) p
         = foldl (\<lambda>r e. add_entry (isSymmetric M) (fst e - 1) (fst (snd e) - 1) (MatVal M' ! snd (snd e)) p r)
             (replicate (RowNum M) 0) (hb_sorted M)"
proof -
  define L where "L = hb_sorted M"
  define key :: "nat \<times> nat \<times> nat \<Rightarrow> nat" where "key = (\<lambda>(r, c, k). c - 1)"
  define g :: "nat \<times> nat \<times> nat \<Rightarrow> nat \<Rightarrow> vec \<Rightarrow> vec"
    where "g = (\<lambda>(rw, c, k) j r. add_entry (isSymmetric M) (rw - 1) j (MatVal M' ! k) p r)"
  have sorted: "sorted (map key L)" unfolding L_def key_def by (rule hb_sorted_cols)
  have keys: "\<forall>e\<in>set L. key e < ColNum M" unfolding L_def key_def by (rule hb_sorted_keys [OF wf])
  have cnt: "(\<lambda>(r, c, k). c - 1 < j) = (\<lambda>e. key e < j)" for j by (auto simp: key_def)
  have ci: "map (\<lambda>j. length (filter (\<lambda>e. key e < j) L)) [0..<Suc (ColNum M)] ! j
              = length (filter (\<lambda>e. key e < j) L)" if "j \<le> ColNum M" for j
    using that by (simp del: upt_Suc)
  have inner: "foldl (\<lambda>r i. add_entry (isSymmetric M) (map (\<lambda>(r, c, k). r - 1) L ! i) j
                   (map (\<lambda>(r, c, k). MatVal M' ! k) L ! i) p r) r
                 [length (filter (\<lambda>e. key e < j) L)..<length (filter (\<lambda>e. key e < Suc j) L)]
             = foldl (\<lambda>r i. g (L ! i) j r) r
                 [length (filter (\<lambda>e. key e < j) L)..<length (filter (\<lambda>e. key e < Suc j) L)]" for j r
  proof (rule foldl_cong [OF refl refl])
    fix i r assume "i \<in> set [length (filter (\<lambda>e. key e < j) L)..<length (filter (\<lambda>e. key e < Suc j) L)]"
    then have "i < length (filter (\<lambda>e. key e < Suc j) L)" by simp
    then have "i < length L" by (rule less_le_trans [OF _ length_filter_le])
    then show "add_entry (isSymmetric M) (map (\<lambda>(r, c, k). r - 1) L ! i) j (map (\<lambda>(r, c, k). MatVal M' ! k) L ! i) p r
               = g (L ! i) j r"
      by (simp add: g_def split: prod.splits)
  qed
  have "hb_times (setMatVal M' (setStructure M (SpHbMat_init nnz (RowNum M) (ColNum M) (isSymmetric M)))) p
        = foldl (\<lambda>r j. foldl (\<lambda>r i. g (L ! i) j r) r
              [length (filter (\<lambda>e. key e < j) L)..<length (filter (\<lambda>e. key e < Suc j) L)])
            (replicate (RowNum M) 0) [0..<ColNum M]"
    unfolding hb_times_def for_upto_def hb_fields L_def [symmetric] cnt
    apply (rule foldl_cong [OF refl refl])
    subgoal premises prems for r j
    proof -
      have "j \<le> ColNum M" "Suc j \<le> ColNum M" using prems by auto
      then show ?thesis by (simp only: ci inner)
    qed
    done
  also have "\<dots> = foldl (\<lambda>r e. g e (key e) r) (replicate (RowNum M) 0) L"
    by (rule blocks_fold [OF sorted keys])
  also have "\<dots> = foldl (\<lambda>r e. add_entry (isSymmetric M) (fst e - 1) (fst (snd e) - 1) (MatVal M' ! snd (snd e)) p r)
                    (replicate (RowNum M) 0) (hb_sorted M)"
    unfolding L_def by (rule foldl_cong) (auto simp: g_def key_def)
  finally show ?thesis .
qed

text \<open>The sorted entries are in the order of the header's \<open>tuple_sort_rule\<close>: no entry
  is followed by one that the rule puts before it.\<close>

lemma hb_sorted_tuple_sort_rule: "sorted_wrt (\<lambda>a b. \<not> tuple_sort_rule b a) (hb_sorted M)"
proof -
  have "sorted_wrt (\<lambda>a b. (\<lambda>(r, c, k). (c, r)) a \<le> (\<lambda>(r, c, k). (c, r)) b) (hb_sorted M)"
    using sorted_sort_key [of "\<lambda>(r, c, k). (c, r)" "triplet_entries M"]
    unfolding hb_sorted_def sorted_map .
  then show ?thesis
    by (rule sorted_wrt_mono_rel [rotated]) (auto simp: tuple_sort_rule_iff split: prod.splits)
qed

text \<open>C32. The compressed matrix built once from a well-formed triplet's structure and
  then given the values of any triplet with that structure (the Hessian or Jacobian of
  a later iterate) has the same product as that triplet: every value lands in the slot
  of its entry although \<open>setMatVal\<close> does not sort again, and the order of the
  entries does not change the sum.\<close>

theorem setMatVal_times_refines:
  assumes wf: "triplet_wf M" and st: "same_structure M M'"
  shows "hb_times (setMatVal M' (setStructure M (SpHbMat_init (EntryNum M) (RowNum M) (ColNum M) (isSymmetric M)))) p
         = sp_times M' p"
proof -
  have "hb_times (setMatVal M' (setStructure M (SpHbMat_init (EntryNum M) (RowNum M) (ColNum M) (isSymmetric M)))) p
        = foldl (\<lambda>r e. add_entry (isSymmetric M) (fst e - 1) (fst (snd e) - 1) (MatVal M' ! snd (snd e)) p r)
            (replicate (RowNum M) 0) (hb_sorted M)"
    by (rule hb_times_sorted [OF wf])
  also have "\<dots> = foldl (\<lambda>r e. add_entry (isSymmetric M) (fst e - 1) (fst (snd e) - 1) (MatVal M' ! snd (snd e)) p r)
                    (replicate (RowNum M) 0) (triplet_entries M)"
    by (rule foldl_add_entry_perm [OF hb_sorted_mset])
  also have "\<dots> = sp_times M' p"
    using st by (simp add: sp_times_entries same_structure_def triplet_entries_def)
  finally show ?thesis .
qed

text \<open>A 2-by-3 triplet stored out of column order, \<open>[[0, 7, 9], [0, 0, 5]]\<close>, and new
  values \<open>[1, 2, 3]\<close> for the same entries: the compressed product is that of the new
  triplet, \<open>[8, 3]\<close> at \<open>p = [1, 2, 3]\<close>.\<close>

theorem setMatVal_times_refines_witness:
  "triplet_wf \<lparr>RowNum = 2, ColNum = 3, isSymmetric = False, RowIndex = [2, 1, 1], ColIndex = [3, 1, 2], MatVal = [5, 7, 9], order = [0, 1, 2]\<rparr> \<and> same_structure \<lparr>RowNum = 2, ColNum = 3, isSymmetric = False, RowIndex = [2, 1, 1], ColIndex = [3, 1, 2], MatVal = [5, 7, 9], order = [0, 1, 2]\<rparr> \<lparr>RowNum = 2, ColNum = 3, isSymmetric = False, RowIndex = [2, 1, 1], ColIndex = [3, 1, 2], MatVal = [1, 2, 3], order = [0, 1, 2]\<rparr>
   \<and> hb_times (setMatVal \<lparr>RowNum = 2, ColNum = 3, isSymmetric = False, RowIndex = [2, 1, 1], ColIndex = [3, 1, 2], MatVal = [1, 2, 3], order = [0, 1, 2]\<rparr> (setStructure \<lparr>RowNum = 2, ColNum = 3, isSymmetric = False, RowIndex = [2, 1, 1], ColIndex = [3, 1, 2], MatVal = [5, 7, 9], order = [0, 1, 2]\<rparr> (SpHbMat_init 3 2 3 False))) [1, 2, 3] = sp_times \<lparr>RowNum = 2, ColNum = 3, isSymmetric = False, RowIndex = [2, 1, 1], ColIndex = [3, 1, 2], MatVal = [1, 2, 3], order = [0, 1, 2]\<rparr> [1, 2, 3]
   \<and> sp_times \<lparr>RowNum = 2, ColNum = 3, isSymmetric = False, RowIndex = [2, 1, 1], ColIndex = [3, 1, 2], MatVal = [1, 2, 3], order = [0, 1, 2]\<rparr> [1, 2, 3] = [8, 3]"
proof -
  have wf: "triplet_wf \<lparr>RowNum = 2, ColNum = 3, isSymmetric = False, RowIndex = [2, 1, 1], ColIndex = [3, 1, 2], MatVal = [5, 7, 9], order = [0, 1, 2]\<rparr>" by (simp add: triplet_wf_def EntryNum_def less_Suc_eq numeral_eq_Suc)
  have st: "same_structure \<lparr>RowNum = 2, ColNum = 3, isSymmetric = False, RowIndex = [2, 1, 1], ColIndex = [3, 1, 2], MatVal = [5, 7, 9], order = [0, 1, 2]\<rparr> \<lparr>RowNum = 2, ColNum = 3, isSymmetric = False, RowIndex = [2, 1, 1], ColIndex = [3, 1, 2], MatVal = [1, 2, 3], order = [0, 1, 2]\<rparr>" by (simp add: same_structure_def EntryNum_def)
  have v: "sp_times \<lparr>RowNum = 2, ColNum = 3, isSymmetric = False, RowIndex = [2, 1, 1], ColIndex = [3, 1, 2], MatVal = [1, 2, 3], order = [0, 1, 2]\<rparr> [1, 2, 3] = [8, 3]" by (simp add: sp_times_def EntryNum_def add_entry_def numeral_eq_Suc)
  have e: "EntryNum \<lparr>RowNum = 2, ColNum = 3, isSymmetric = False, RowIndex = [2, 1, 1], ColIndex = [3, 1, 2], MatVal = [5, 7, 9], order = [0, 1, 2]\<rparr> = 3" by (simp add: EntryNum_def)
  show ?thesis
    using setMatVal_times_refines [OF wf st, of "[1, 2, 3]", unfolded e] wf st v by simp
qed

end
