(* ===== verification/QP_Debug.thy ===== *)
theory QP_Debug
  imports QP_Handler
begin

text \<open>
  The solver-comparison harness of \<open>QPhandler\<close> (\<open>src/src/QPhandler.cpp\<close>, compiled with
  \<open>DEBUG\<close> and \<open>COMPARE_QP_SOLVER\<close>): a second qpOASES interface and a QORE interface
  receive the same bounds (\<open>set_bounds_debug\<close>), and \<open>testQPsolverDifference\<close> asserts
  that their solutions agree. The two interfaces are \<open>qp_iface\<close> records; the failed
  \<open>assert\<close> is \<open>None\<close>.
\<close>

record qp_debug =
  qpOASESInterface_dbg :: qp_iface
  QOREInterface_dbg :: qp_iface

definition set_bounds_debug :: "real \<Rightarrow> vec \<Rightarrow> vec \<Rightarrow> vec \<Rightarrow> vec \<Rightarrow> vec \<Rightarrow> vec \<Rightarrow> qp_handler \<Rightarrow> qp_debug \<Rightarrow> qp_debug" where
  "set_bounds_debug delta x_l x_u x_k c_l c_u c_k h d =
     (let s1 = for_upto (nCon h) (\<lambda>i s. set_ubA i (c_u ! i - c_k ! i) (set_lbA i (c_l ! i - c_k ! i) s))
                 (qpOASESInterface_dbg d);
          s2 = for_upto (nVar h) (\<lambda>i s. set_ub i (step_ub delta x_u x_k i) (set_lb i (step_lb delta x_l x_k i) s)) s1;
          s3 = for_upto (nCon h * 2) (\<lambda>i s. set_ub (nVar h + i) INF_val s) s2;
          q1 = for_upto (nVar h) (\<lambda>i s. set_ub i (step_ub delta x_u x_k i) (set_lb i (step_lb delta x_l x_k i) s))
                 (QOREInterface_dbg d);
          q2 = for_upto (nConstr_QP h * 2) (\<lambda>i s. set_ub (nVar h + i) INF_val s) q1;
          q3 = for_upto (nConstr_QP h) (\<lambda>i s. set_ub (nVar_QP h + i) (c_u ! i - c_k ! i)
                                              (set_lb (nVar_QP h + i) (c_l ! i - c_k ! i) s)) q2
      in d\<lparr>qpOASESInterface_dbg := s3, QOREInterface_dbg := q3\<rparr>)"

text \<open>\<open>testQPsolverDifference\<close>: the one-norm of the difference of the first \<open>nVar\<close>
  entries of the two primal solutions; the \<open>assert(diff_norm < 1.0e-8)\<close> is \<open>None\<close> when
  it fails.\<close>

definition testQPsolverDifference :: "qp_handler \<Rightarrow> qp_debug \<Rightarrow> bool option" where
  "testQPsolverDifference h d =
     (let qpOASESsol = copy_vector (x_qp (qpOASESInterface_dbg d)) (replicate (nVar h) 0);
          QOREsol = copy_vector (x_qp (QOREInterface_dbg d)) (replicate (nVar h) 0);
          difference = subtract_vector QOREsol (copy_vector qpOASESsol (replicate (nVar h) 0));
          diff_norm = getOneNorm difference
      in if diff_norm < 1 / 10 ^ 8 then Some True else None)"

subsection \<open>Lemmas\<close>

text \<open>The harness gives both interfaces the bounds \<open>set_bounds\<close> gives the interface of a
  handler of that kind, so the comparison is between solutions of the same QP.\<close>

lemma set_bounds_debug_same_qp:
  assumes "nConstr_QP h = nCon h"
  shows "qpOASESInterface_dbg (set_bounds_debug delta x_l x_u x_k c_l c_u c_k h d)
           = iface (set_bounds delta x_l x_u x_k c_l c_u c_k (h\<lparr>QPsolverChoice := QPOASES, iface := qpOASESInterface_dbg d\<rparr>))"
    and "QOREInterface_dbg (set_bounds_debug delta x_l x_u x_k c_l c_u c_k h d)
           = iface (set_bounds delta x_l x_u x_k c_l c_u c_k (h\<lparr>QPsolverChoice := QORE, iface := QOREInterface_dbg d\<rparr>))"
  using assms by (simp_all add: set_bounds_debug_def set_bounds_def on_iface_def Let_def)

lemma testQPsolverDifference_sum:
  "testQPsolverDifference h d =
     (if (\<Sum>i<nVar h. \<bar>x_qp (qpOASESInterface_dbg d) ! i - x_qp (QOREInterface_dbg d) ! i\<bar>) < 1 / 10 ^ 8
      then Some True else None)"
proof -
  let ?d = "subtract_vector (copy_vector (x_qp (QOREInterface_dbg d)) (replicate (nVar h) 0))
              (copy_vector (copy_vector (x_qp (qpOASESInterface_dbg d)) (replicate (nVar h) 0)) (replicate (nVar h) 0))"
  have "getOneNorm ?d = (\<Sum>i<nVar h. \<bar>x_qp (qpOASESInterface_dbg d) ! i - x_qp (QOREInterface_dbg d) ! i\<bar>)"
    by (simp add: getOneNorm_sum)
  then show ?thesis by (simp add: testQPsolverDifference_def Let_def)
qed

text \<open>When the two solvers return the same step, the harness passes.\<close>

lemma testQPsolverDifference_agree:
  "(\<forall>i<nVar h. x_qp (qpOASESInterface_dbg d) ! i = x_qp (QOREInterface_dbg d) ! i) \<Longrightarrow>
   testQPsolverDifference h d = Some True"
  by (simp add: testQPsolverDifference_sum)

end
