(* ===== verification/Spec2Isabelle.thy ===== *)
theory Spec2Isabelle
  imports Prelude Vector Sparse_Matrix Constraint_Types QP_Handler SQP_State SQP_Steps SQP_Penalty SQP_Optimality SQP_Driver SQP_Optimize SQP_Examples QpHandler_Restart QpHandler_Examples QpOases_Interface QpOases_Examples QP_ActiveSet SQP_Init SQP_Frame SQP_Exit QpOases_Legacy OptTest Options_Registration Handler_Oases QpOases_WorkingSet Sparse_HbMat QP_Debug
begin

text \<open>
  \<^bold>\<open>A verification model of RestartSQP.\<close>
  RestartSQP is a trust-region SQP solver. The driver \<open>Algorithm\<close>
  (\<open>src/src/Algorithm.cpp\<close>) repeatedly builds a quadratic model of the problem through
  the QP handler \<open>QPhandler\<close> (\<open>src/src/QPhandler.cpp\<close>), which writes bounds,
  gradient, Hessian and Jacobian into the qpOASES interface
  (\<open>src/src/qpOASESInterface.cpp\<close>) and solves it. The driver then takes the step,
  adjusts the penalty weight rho, tests the step on the l1 merit function, tries a
  second-order correction, checks the KKT conditions and adapts the trust radius. The
  dense \<open>Vector\<close> (\<open>src/src/Vector.cpp\<close>) and the triplet matrix \<open>SpTripletMat\<close>
  (\<open>src/include/sqphot/Matrix.hpp\<close>) carry the data.

  \<^bold>\<open>Theories.\<close>
  \<^item> \<open>Prelude\<close>: \<open>vec = real list\<close>, index loops as the fold \<open>for_upto\<close> with their
    lemmas, the exit codes \<open>exitflag\<close>, and the dirty-flag record \<open>update_flags\<close>.
  \<^item> \<open>Vector\<close>: every array-writing member of \<open>Vector.cpp\<close>. The loop of
    \<open>getInfNorm\<close> is proved equal to a maximum, and \<open>subtract_vector\<close> to undo
    \<open>add_vector\<close>. \<open>getOneNorm\<close> (declared in a header that is not in the
    repository) is modelled from its use.
  \<^item> \<open>Sparse_Matrix\<close>: the triplet record, its entry order \<open>tuple_sort_rule\<close>
    (a strict order), and the products \<open>times\<close> and \<open>transposed_times\<close>.
    \<open>Matrix.cpp\<close> is not in the repository, so the products are modelled from the spec.
  \<^item> \<open>Sparse_HbMat\<close>: the compressed-column matrix \<open>SpHbMat\<close> that qpOASES receives. Its
    members and \<open>set_zero\<close> come from the header. \<open>setStructure\<close>, \<open>setMatVal\<close> and
    \<open>times\<close> are modelled from the spec: a stable sort by column and row that remembers
    each entry's triplet position, and values copied through those positions. Lemmas:
    the sorted entries are a permutation of the triplet's, in the order of
    \<open>tuple_sort_rule\<close>; adding entries into a product commutes. Main lemma: the
    structure set once from a well-formed triplet, given the values of any triplet of the
    same structure, has that triplet's product. This justifies keeping the triplet in
    the interface model of \<open>QP_Handler\<close>.
  \<^item> \<open>Constraint_Types\<close>: \<open>classify_constraints_types\<close>, the activity loops of
    \<open>NLP_OptTest::IdentifyActiveSet\<close>, and the bound activity loop of
    \<open>check_optimality\<close>.
  \<^item> \<open>QP_Handler\<close>: the interface state \<open>qp_iface\<close> and its setters (each raises
    its dirty flag once a QP has been solved), and \<open>QPhandler\<close>'s \<open>set_bounds\<close>,
    \<open>set_g\<close>, \<open>set_H\<close>, \<open>set_A\<close>, the \<open>update_*\<close> members, \<open>solveQP\<close> and the
    getters. The numeric engine is a parameter \<open>qp_oracle\<close>. Its lemmas give the
    layout of the assembled bounds and that \<open>update_penalty\<close> touches only the slack
    coefficients. One of them shows that \<open>update_bounds\<close> never rewrites \<open>ubA\<close>.
    \<open>solveLP\<close> follows \<open>optimizeLP\<close>: the first LP's solution is not copied
    (\<open>solveLP_first\<close>), and the LP set-up never marks an LP as solved.
    The whole-vector setters \<open>set_lb(Vector)\<close> etc. of \<open>qpOASESInterface\<close> are
    \<open>set_lb_vec\<close> etc.
  \<^item> \<open>SQP_State\<close>: the driver's members as the record \<open>sqp_state\<close>, the options, the
    NLP oracle and the environment \<open>sqp_env\<close> (NLP oracle, QP and LP engines,
    wall-clock budget as a predicate on the iteration count). The exceptions are
    \<open>sqp_exception\<close>, and a member that can throw returns
    \<open>sqp_result = (sqp_exception \<times> sqp_state) + sqp_state\<close>.
  \<^item> \<open>SQP_Steps\<close>: \<open>cal_infea\<close>, \<open>get_search_direction\<close>,
    \<open>get_trial_point_info\<close>, \<open>get_multipliers\<close>, \<open>ratio_test\<close>, \<open>update_radius\<close>,
    \<open>setupQP\<close> and \<open>setupLP\<close>. Lemmas: the acceptance rule of the ratio test and
    what acceptance and rejection change; the radius rule and its exception; and
    \<open>setupQP\<close>'s dirty-flag protocol (a second call without a mutation throws
    \<open>QP_UNCHANGED\<close>).
  \<^item> \<open>SQP_Penalty\<close>: \<open>update_penalty_parameter\<close> with its two loops. The loop over
    feasible LPs has no counter, so it is a \<^theory_text>\<open>partial_function (option)\<close>. The ratio
    loop is a \<^theory_text>\<open>function\<close> with measure \<open>penalty_iter_max - penalty_change_trial\<close>.
    Runs of both loops are the inductive \<open>pen_reach\<close>. Lemmas: rho stays in
    \<open>[rho, max rho rho_max]\<close>; the feasible loop returns whenever
    \<open>increase_parm > 1\<close> and rho > 0 (by the number of multiplications needed to pass
    \<open>rho_max\<close>); \<open>eps1\<close> stays below 1; the trial counter is cumulative; and on the
    first LP of a handler the update gives the same result whatever solution the LP
    returns (the solution is never read).
  \<^item> \<open>SQP_Optimality\<close>: \<open>check_optimality\<close> with its four violation sums. Lemmas:
    the \<open>OPTIMAL\<close> decision; a KKT point gives error 0 and \<open>OPTIMAL\<close>; the error is
    non-negative. The constraint activity loop runs under its guard
    \<open>multiplier_vars_ == nullptr\<close>, kept as the state field \<open>multiplier_vars_null\<close>
    (\<open>check_optimality_W_constr\<close>).
  \<^item> \<open>SQP_Driver\<close>: \<open>second_order_correction\<close> and the body of \<open>Optimize\<close>'s loop
    in three segments (\<open>optimize_body\<close>, \<open>optimize_step\<close>, \<open>optimize_tail\<close>).
    The result is \<open>Next\<close>, \<open>Stop\<close> (a \<open>break\<close>) or \<open>Raise\<close> (an uncaught
    exception), inside \<open>option\<close> for the penalty loop that may not return. Lemmas:
    what each outcome does to rho, \<open>iter\<close> and the exit flag.
  \<^item> \<open>SQP_Optimize\<close>: the loop \<open>optimize_loop\<close> (a total function, measure
    \<open>iter_max - iter\<close>), \<open>Optimize\<close> with its post-loop \<open>EXCEED_MAX_ITER\<close>
    assignment, and the step relation \<open>sqp_reach\<close> of the iteration state machine.
    Lemmas: termination, rho monotone and bounded along runs, a specific exit flag on
    every normal exit, \<open>iter_max = 0\<close>, and \<open>OPTIMAL\<close> never reported at the last
    iteration.
  \<^item> \<open>SQP_Init\<close>: the set-up \<open>Algorithm::Algorithm\<close>, \<open>allocate_memory\<close> and
    \<open>initialization\<close>, from the NLP's one-time queries (record \<open>nlp_setup\<close>). The
    whole run \<open>sqp_main\<close> is set-up followed by \<open>Optimize\<close>. Arrays the C++ leaves
    uninitialised are \<open>undefined\<close>. Lemmas:
    \<^item> the initial state is sized for the problem;
    \<^item> the starting point is inside the bounds.
  \<^item> \<open>SQP_Frame\<close>: the constraint working set over a run. \<open>wc_kept W st\<close> says
    that \<open>W_constr\<close> is \<open>W\<close> and \<open>multiplier_vars_\<close> is allocated. Every member of
    \<open>Algorithm\<close> keeps it, and so do the loop, \<open>Optimize\<close> and every \<open>sqp_reach\<close>
    run from \<open>initialization\<close>. Lemma: a whole run returns, normally or by an
    exception, with \<open>W_constr_\<close> as \<open>allocate_memory\<close> left it. The activity loop
    of \<open>check_optimality\<close> is dead code.
  \<^item> \<open>SQP_Exit\<close>: the final report \<open>print_final_stats\<close> as the list of its
    labelled lines, with the exit-flag names of its \<open>switch\<close> (\<open>exitflag_name\<close>).
  \<^item> \<open>SQP_Examples\<close>: a one-variable problem (minimise \<open>x^2\<close> from \<open>x = 1\<close>) and a
    penalty example, evaluated by \<open>code_simp\<close>. They give the concrete instances of
    the hypotheses of the lemmas above, the spec's ratio-test example, and a run in
    which a point found optimal is reported as \<open>EXCEED_MAX_ITER\<close>. A third example shows
    the first LP of a run misread as feasible, so rho jumps to \<open>rho_max\<close>
    (\<open>update_penalty_first_LP_misread\<close>). The whole
    program on the first example ends with \<open>OPTIMAL\<close> at the minimiser.
  \<^item> \<open>QpHandler_Restart\<close>: the newer handler \<open>QpHandler\<close> (\<open>src/src/QpHandler.cpp\<close>)
    in both formulations, over a solver-interface record whose setters are modelled
    from the spec. Its state is \<open>qp_handler_rs\<close>; its calls are the datatype
    \<open>rs_op\<close> run by \<open>rs_run\<close>. Lemmas:
    \<^item> the constructor's identity blocks cover exactly the slack columns;
    \<^item> the slack bounds \<open>[0, INF]\<close> survive every call sequence;
    \<^item> \<open>decrease_trust_region\<close> refines a fresh \<open>set_bounds\<close>;
    \<^item> the penalty cache of \<open>set_linear_qp_objective_coefficients\<close> is correct;
    \<^item> \<open>update_penalty_parameter\<close> leaves stale coefficients (it never records the
      penalty).
    \<open>QpHandler_Examples\<close> holds its concrete runs.
  \<^item> \<open>QpOases_Interface\<close>: \<open>qpOASESInterface::optimizeQP\<close> and \<open>optimizeLP\<close>
    (\<open>src/src/qpOASESInterface.cpp\<close>) with the matrix-status machine
    \<open>get_Matrix_change_status\<close>, the hot-start choice, \<open>reset_flags\<close>,
    \<open>obtain_status\<close> and the retry \<open>handler_error\<close>. The library is an engine
    \<open>sq_engine\<close> whose calls install or reuse matrices. Lemmas:
    \<^item> the vector-only hot start happens only with unchanged matrices;
    \<^item> the hot-start invariant \<open>hs_inv\<close> holds along every run \<open>oases_run\<close>;
    \<^item> the assertion never fails;
    \<^item> for an engine that answers from the data alone, \<open>optimizeQP\<close>/\<open>optimizeLP\<close>
      refine the oracle-level \<open>solveQP\<close>/\<open>solveLP\<close> that the driver model uses. This
      justifies the oracle abstraction of \<open>QP_Handler\<close>.
    \<^item> after a failed hot start whose retry succeeds, the interface keeps the old
      solution.
    \<open>QpOases_Examples\<close> instantiates these lemmas and those of \<open>QP_ActiveSet\<close>.
  \<^item> \<open>QpOases_Legacy\<close>: the earlier back end \<open>src/src/QPsolverInterface.cpp\<close>, which
    defines the same class without matrix statuses, dirty flags or retry (record
    \<open>legacy_iface\<close>; \<open>legacy_optimizeQP\<close>, \<open>legacy_optimizeLP\<close>, \<open>get_status\<close>,
    getters and the setters \<open>legacy_set\<close>). Lemma: for an engine that answers from
    the data alone, the legacy and the current \<open>optimizeQP\<close> succeed or fail together
    with the same solution, multipliers and objective. An example shows that they part
    for an engine whose hot starts fail: only the current one retries.
  \<^item> \<open>Handler_Oases\<close>: the handler and the back end together. The calls the driver
    makes on \<open>QPhandler\<close> are the datatype \<open>qph_call\<close>. \<open>qph_run\<close> runs them over the
    oracle, as the driver model does. \<open>qph_oases_run\<close> runs them over
    \<open>qpOASESInterface\<close>: the builder writes through the interface's setters, and a
    solve is \<open>optimizeQP\<close> or \<open>optimizeLP\<close>. Every builder call is an
    \<open>iface_setter\<close>: it only raises dirty flags, changes the Hessian or Jacobian only
    with its flag raised, and commutes with the live objective value. Lemma: for an
    engine that answers from the data alone, every sequence of calls over the interface
    refines the same sequence over the oracle. It keeps the hot-start invariant and
    fails where the oracle run fails, with the same status.
  \<^item> \<open>QpOases_WorkingSet\<close>: \<open>qpOASESInterface::GetWorkingSet\<close>, with the solver's sizes
    and working-set codes as parameters and the caller's arrays at their allocated
    lengths. Its outcomes are the datatype \<open>ws_return\<close>: the assertion, a write past the
    end of an array (\<open>WsOutOfBounds\<close>), the exception \<open>INVALID_WORKING_SET\<close> with the
    arrays as the loops left them, or a normal return. Lemma: with \<open>W_constr\<close> of
    \<open>nConstr_QP\<close> and \<open>W_bounds\<close> of \<open>nVar_QP\<close> entries and valid codes, the call
    writes past an array whenever the two counts differ. When they are equal it returns
    with the bounds' working set in \<open>W_constr\<close> and the constraints' in \<open>W_bounds\<close>.
  \<^item> \<open>QP_Debug\<close>: the solver-comparison harness of \<open>QPhandler\<close> (\<open>DEBUG\<close> and
    \<open>COMPARE_QP_SOLVER\<close>). \<open>set_bounds_debug\<close> writes into a second qpOASES interface
    and a QORE interface, and \<open>testQPsolverDifference\<close> asserts that their steps
    agree. Lemmas: each interface receives the bounds \<open>set_bounds\<close> gives a handler of
    its kind; the assertion holds exactly when the one-norm of the difference is below
    \<open>1e-8\<close>.
  \<^item> \<open>OptTest\<close>: \<open>NLP_OptTest\<close> and \<open>QP_OptTest\<close> (\<open>src/src/OptTest.cpp\<close>).
    \<open>Check_KKTConditions\<close> accepts every point, and \<open>Check_Feasibility\<close> lacks its return
    value, which is \<open>None\<close>. The driver uses neither class.
  \<^item> \<open>Options_Registration\<close>: the registration calls of
    \<open>Algorithm::setDefaultOption\<close> and the table they build. Names are distinct. The
    only ill-formed entry is \<open>second_order_correction\<close>, whose arguments a missing
    comma shifts.
  \<^item> \<open>QP_ActiveSet\<close>: \<open>QPhandler::get_active_set\<close>. With qpOASES it reads the lower
    constraint bounds with \<open>getUbA()\<close>, so no constraint is ever one-sided active.

  \<^bold>\<open>Modelling choices.\<close> Doubles are reals, so rounding is not modelled. Arrays
  are lists. In \<open>GetWorkingSet\<close>, whose writes do fall out of range, such a write is an
  outcome of its own. Elsewhere a list update out of range leaves the list unchanged,
  where C++ would write past the array; the loops index each vector by the size it was
  allocated with, and \<open>initialization_sized\<close> shows that the set-up allocates every
  vector at the size of the problem. The
  solution copy of \<open>qpOASESInterface\<close> (\<open>getPrimalSolution\<close>,
  \<open>getDualSolution\<close>) is taken when the solver reports \<open>isSolved()\<close>. qpOASES also
  copies for the statuses \<open>AUXILIARYQPSOLVED\<close> and \<open>HOMOTOPYQPSOLVED\<close>; the engine
  model does not tie \<open>isSolved\<close> to those statuses, so the lemma on a failed hot start
  with a successful retry describes engines whose failed call leaves no solution to
  copy. The oracle-level \<open>solveQP\<close> of \<open>QP_Handler\<close> is the abstraction the driver
  runs on; \<open>Handler_Oases\<close> proves that \<open>qpOASESInterface\<close> refines it for engines
  that answer from the data alone. The
  model follows the compact QP formulation (\<open>NEW_FORMULATION\<close> off), with the step
  variables followed by two slack blocks. The QP and LP engines are arbitrary
  functions, so every lemma holds for any engine. The one exception is
  \<open>Optimize_exitflag_set\<close>, which assumes the engine never reports \<open>UNKNOWN\<close>.
  There is no fuel. The only loop that may run forever (the feasible penalty loop)
  returns \<open>None\<close> through \<^theory_text>\<open>partial_function (option)\<close>, and its termination is
  proved under \<open>increase_parm > 1\<close>, rho > 0. The other loops are bounded by
  \<open>iter_max\<close> and \<open>penalty_iter_max\<close>, and their functions are total.

  \<^bold>\<open>Not modelled.\<close> The numeric QP/LP algorithms (external, spec \<section>4.4).
  The journal set-up and number formats of \<open>Algorithm::print_final_stats\<close> (output).
  \<open>QpHandler::test_optimality\<close> and the
  disabled \<open>get_active_set\<close>. In \<open>qpOASESInterface\<close>: the print options and the
  iteration statistics. The print levels and iteration statistics of
  \<open>QPsolverInterface.cpp\<close>. The identity-block variants of \<open>setStructure\<close> and
  \<open>setMatVal\<close>, whose \<open>Identity2Info\<close> semantics live in the missing
  \<open>Matrix.cpp\<close>. The NLP itself (\<open>SQPTNLP\<close>, \<open>LazySqpTNlp.hpp\<close> holds declarations
  only). Output and debug dumps.
\<close>

end
